(* ===== verification/Prelude.thy ===== *)
theory Prelude
  imports Main "HOL-Library.Word"
begin

text \<open>
  Prelude of the development: the names of the machine types, the command type every stateful
  routine of the controller is modelled in (a state, a Go error or a result), its sequencing
  operators, and the lemmas about them that all components share.

  A Go routine \<open>func f(...) (T, error)\<close> that reads and writes a state \<open>'s\<close> is a HOL function
  into \<open>('s, 'e, 't) cmd\<close>: it takes the state and returns either the error (\<open>Inl\<close>) or the
  result (\<open>Inr\<close>), with the new state in both cases, since Go keeps the effects that came before
  an early return. The idiom \<open>x, err := f(); if err != nil { return E }\<close> is
  \<open>bindC (on_err (\<lambda>_. E) f) (\<lambda>x. ...)\<close>.
\<close>

section \<open>Machine types\<close>

type_synonym u8 = "8 word"
type_synonym u16 = "16 word"
type_synonym u32 = "32 word"
type_synonym u64 = "64 word"
type_synonym bytes = "8 word list"

text \<open>
  A point in time is the number of nanoseconds since the Unix epoch; a duration is a number of
  nanoseconds. Go's \<open>time.Duration(n) * unit\<close> is a signed 64-bit product that wraps around.
\<close>

type_synonym time = int
type_synonym duration = int

definition go_duration :: "u64 \<Rightarrow> u64 \<Rightarrow> duration" where
  "go_duration n unit = sint (n * unit)"

definition millisecond :: u64 where
  "millisecond = 1000000"

definition second :: u64 where
  "second = 1000000000"

text \<open>Integer division that truncates toward zero, as in Go and SQL.\<close>

definition trunc_div :: "int \<Rightarrow> int \<Rightarrow> int" where
  "trunc_div n d = (let q = \<bar>n\<bar> div \<bar>d\<bar> in if n < 0 \<longleftrightarrow> d < 0 then q else - q)"

lemma trunc_div_nonneg: "0 \<le> a \<Longrightarrow> 0 < b \<Longrightarrow> trunc_div a b = a div b"
  by (simp add: trunc_div_def)

text \<open>The zero \<open>time.Time\<close>, the first instant of the year 1.\<close>

definition zero_time :: time where
  "zero_time = - 62135596800000000000"

lemma unat_less: "unat (w :: 'a::len word) < 2 ^ LENGTH('a)"
  by (rule unsigned_less)

section \<open>Commands: state, error, result\<close>

type_synonym ('s, 'e, 'a) cmd = "'s \<Rightarrow> ('e + 'a) \<times> 's"

definition ret :: "'a \<Rightarrow> ('s, 'e, 'a) cmd" where
  "ret x s = (Inr x, s)"

definition fail :: "'e \<Rightarrow> ('s, 'e, 'a) cmd" where
  "fail e s = (Inl e, s)"

definition bindC :: "('s, 'e, 'a) cmd \<Rightarrow> ('a \<Rightarrow> ('s, 'e, 'b) cmd) \<Rightarrow> ('s, 'e, 'b) cmd" where
  "bindC m f s = (case m s of (Inl e, s') \<Rightarrow> (Inl e, s') | (Inr x, s') \<Rightarrow> f x s')"

definition thenC :: "('s, 'e, unit) cmd \<Rightarrow> ('s, 'e, 'b) cmd \<Rightarrow> ('s, 'e, 'b) cmd" where
  "thenC m k = bindC m (\<lambda>_. k)"

definition on_err :: "('e \<Rightarrow> 'f) \<Rightarrow> ('s, 'e, 'a) cmd \<Rightarrow> ('s, 'f, 'a) cmd" where
  "on_err g m s = (case m s of (Inl e, s') \<Rightarrow> (Inl (g e), s') | (Inr x, s') \<Rightarrow> (Inr x, s'))"

text \<open>\<open>attempt m\<close> hands the error to the code that follows, as \<open>x, err := m()\<close> does.\<close>

definition attempt :: "('s, 'e, 'a) cmd \<Rightarrow> ('s, 'f, 'e + 'a) cmd" where
  "attempt m s = (case m s of (r, s') \<Rightarrow> (Inr r, s'))"

text \<open>\<open>handleC m h k\<close> continues with \<open>h\<close> after an error and with \<open>k\<close> after a result;
  \<open>ignoreC\<close> drops both, as a call does whose error is only logged.\<close>

definition handleC ::
  "('s, 'e, 'a) cmd \<Rightarrow> ('e \<Rightarrow> ('s, 'f, 'b) cmd) \<Rightarrow> ('a \<Rightarrow> ('s, 'f, 'b) cmd) \<Rightarrow> ('s, 'f, 'b) cmd" where
  "handleC m h k s = (case m s of (Inl e, s') \<Rightarrow> h e s' | (Inr x, s') \<Rightarrow> k x s')"

definition ignoreC :: "('s, 'e, 'a) cmd \<Rightarrow> ('s, 'f, unit) cmd" where
  "ignoreC m = handleC m (\<lambda>_. ret ()) (\<lambda>_. ret ())"

definition guardC :: "bool \<Rightarrow> 'e \<Rightarrow> ('s, 'e, unit) cmd" where
  "guardC b e = (if b then ret () else fail e)"

definition whenC :: "bool \<Rightarrow> ('s, 'e, unit) cmd \<Rightarrow> ('s, 'e, unit) cmd" where
  "whenC b m = (if b then m else ret ())"

definition of_option :: "'e \<Rightarrow> 'a option \<Rightarrow> ('s, 'e, 'a) cmd" where
  "of_option e x = (case x of None \<Rightarrow> fail e | Some y \<Rightarrow> ret y)"

definition getC :: "('s \<Rightarrow> 'a) \<Rightarrow> ('s, 'e, 'a) cmd" where
  "getC f s = (Inr (f s), s)"

definition modC :: "('s \<Rightarrow> 's) \<Rightarrow> ('s, 'e, unit) cmd" where
  "modC f s = (Inr (), f s)"

text \<open>A loop over a list that stops at the first error.\<close>

primrec eachC :: "('a \<Rightarrow> ('s, 'e, unit) cmd) \<Rightarrow> 'a list \<Rightarrow> ('s, 'e, unit) cmd" where
  "eachC f [] = ret ()"
| "eachC f (x # xs) = thenC (f x) (eachC f xs)"

primrec mapC :: "('a \<Rightarrow> ('s, 'e, 'b) cmd) \<Rightarrow> 'a list \<Rightarrow> ('s, 'e, 'b list) cmd" where
  "mapC f [] = ret []"
| "mapC f (x # xs) = bindC (f x) (\<lambda>y. bindC (mapC f xs) (\<lambda>ys. ret (y # ys)))"

section \<open>Running commands\<close>

text \<open>\<open>cmd_defs\<close> unfolds the operators; the rules below take a finished run apart.\<close>

named_theorems cmd_defs "definitions of the command operators"

lemmas cmd_operator_defs [cmd_defs] =
  ret_def fail_def bindC_def thenC_def on_err_def attempt_def handleC_def ignoreC_def guardC_def whenC_def
  of_option_def getC_def modC_def

named_theorems run "how a command runs, step by step"

lemma ret_run [run]: "ret x s = (r, s') \<longleftrightarrow> r = Inr x \<and> s' = s"
  by (auto simp: ret_def)

lemma fail_run [run]: "fail e s = (r, s') \<longleftrightarrow> r = Inl e \<and> s' = s"
  by (auto simp: fail_def)

lemma getC_run [run]: "getC f s = (r, s') \<longleftrightarrow> r = Inr (f s) \<and> s' = s"
  by (auto simp: getC_def)

lemma modC_run [run]: "modC f s = (r, s') \<longleftrightarrow> r = Inr () \<and> s' = f s"
  by (auto simp: modC_def)

lemma bindC_run_Inr [run]:
  "bindC m f s = (Inr y, s') \<longleftrightarrow> (\<exists>x t. m s = (Inr x, t) \<and> f x t = (Inr y, s'))"
  by (auto simp: bindC_def split: prod.splits sum.splits)

lemma bindC_run_Inl [run]:
  "bindC m f s = (Inl e, s') \<longleftrightarrow>
     m s = (Inl e, s') \<or> (\<exists>x t. m s = (Inr x, t) \<and> f x t = (Inl e, s'))"
  by (auto simp: bindC_def split: prod.splits sum.splits)

lemma thenC_run_Inr [run]:
  "thenC m k s = (Inr y, s') \<longleftrightarrow> (\<exists>t. m s = (Inr (), t) \<and> k t = (Inr y, s'))"
  by (auto simp: thenC_def bindC_run_Inr)

lemma thenC_run_Inl [run]:
  "thenC m k s = (Inl e, s') \<longleftrightarrow>
     m s = (Inl e, s') \<or> (\<exists>t. m s = (Inr (), t) \<and> k t = (Inl e, s'))"
  by (auto simp: thenC_def bindC_run_Inl)

lemma on_err_run_Inr [run]: "on_err g m s = (Inr y, s') \<longleftrightarrow> m s = (Inr y, s')"
  by (auto simp: on_err_def split: prod.splits sum.splits)

lemma on_err_run_Inl [run]:
  "on_err g m s = (Inl e, s') \<longleftrightarrow> (\<exists>e0. m s = (Inl e0, s') \<and> e = g e0)"
  by (auto simp: on_err_def split: prod.splits sum.splits)

lemma attempt_run [run]: "attempt m s = (r, s') \<longleftrightarrow> (\<exists>q. m s = (q, s') \<and> r = Inr q)"
  by (auto simp: attempt_def split: prod.splits)

lemma handleC_run [run]:
  "handleC m h k s = (r, s') \<longleftrightarrow>
     (\<exists>e t. m s = (Inl e, t) \<and> h e t = (r, s')) \<or> (\<exists>x t. m s = (Inr x, t) \<and> k x t = (r, s'))"
  by (auto simp: handleC_def split: prod.splits sum.splits)

lemma ignoreC_run [run]: "ignoreC m s = (r, s') \<longleftrightarrow> r = Inr () \<and> (\<exists>q. m s = (q, s'))"
  by (auto simp: ignoreC_def handleC_run ret_def) (metis sum.exhaust)

lemma guardC_run [run]:
  "guardC b e s = (Inr u, s') \<longleftrightarrow> b \<and> s' = s"
  "guardC b e s = (Inl e', s') \<longleftrightarrow> \<not> b \<and> e' = e \<and> s' = s"
  by (auto simp: guardC_def ret_def fail_def)

lemma whenC_run [run]:
  "whenC b m s = (r, s') \<longleftrightarrow> (if b then m s = (r, s') else r = Inr () \<and> s' = s)"
  by (auto simp: whenC_def ret_def)

lemma of_option_run [run]:
  "of_option e x s = (Inr y, s') \<longleftrightarrow> x = Some y \<and> s' = s"
  "of_option e x s = (Inl e', s') \<longleftrightarrow> x = None \<and> e' = e \<and> s' = s"
  by (auto simp: of_option_def ret_def fail_def split: option.splits)

lemma bindC_assoc: "bindC (bindC m f) g = bindC m (\<lambda>x. bindC (f x) g)"
  by (auto simp: bindC_def fun_eq_iff split: prod.splits sum.splits)

lemma eachC_append: "eachC f (xs @ ys) = thenC (eachC f xs) (eachC f ys)"
  by (induction xs) (auto simp: thenC_def bindC_assoc bindC_def ret_def fun_eq_iff
      split: prod.splits sum.splits)

section \<open>What a command may do to the state\<close>

text \<open>
  \<open>steps R P m Q\<close>: from a state where \<open>P\<close> holds, \<open>m\<close> relates the state before and after by
  \<open>R\<close>, whether it succeeds or fails, and a result \<open>x\<close> comes with \<open>Q x\<close> of the final state.
  For a preorder \<open>R\<close> this composes; invariants, frame conditions and monotone quantities are
  all instances.
\<close>

definition steps ::
  "('s \<Rightarrow> 's \<Rightarrow> bool) \<Rightarrow> ('s \<Rightarrow> bool) \<Rightarrow> ('s, 'e, 'a) cmd \<Rightarrow> ('a \<Rightarrow> 's \<Rightarrow> bool) \<Rightarrow> bool" where
  "steps R P m Q \<longleftrightarrow>
     (\<forall>s. P s \<longrightarrow> R s (snd (m s)) \<and> (\<forall>x. fst (m s) = Inr x \<longrightarrow> Q x (snd (m s))))"

abbreviation keeps :: "('s \<Rightarrow> 's \<Rightarrow> bool) \<Rightarrow> ('s, 'e, 'a) cmd \<Rightarrow> bool" where
  "keeps R m \<equiv> steps R (\<lambda>_. True) m (\<lambda>_ _. True)"

lemma stepsI:
  assumes "\<And>s r t. P s \<Longrightarrow> m s = (r, t) \<Longrightarrow> R s t \<and> (\<forall>x. r = Inr x \<longrightarrow> Q x t)"
  shows "steps R P m Q"
  using assms unfolding steps_def by (metis prod.collapse)

lemma stepsD:
  "steps R P m Q \<Longrightarrow> P s \<Longrightarrow> m s = (r, t) \<Longrightarrow> R s t"
  "steps R P m Q \<Longrightarrow> P s \<Longrightarrow> m s = (Inr x, t) \<Longrightarrow> Q x t"
  unfolding steps_def by (metis snd_conv, metis fst_conv snd_conv)

lemma keepsD: "keeps R m \<Longrightarrow> R s (snd (m s))"
  by (simp add: steps_def)

lemma steps_weaken:
  "steps R P m Q \<Longrightarrow> (\<And>s. P' s \<Longrightarrow> P s) \<Longrightarrow> (\<And>x s. Q x s \<Longrightarrow> Q' x s) \<Longrightarrow> steps R P' m Q'"
  by (auto simp: steps_def)

named_theorems steps_intro "composition rules for what commands may do to the state"

locale effect_order =
  fixes R :: "'s \<Rightarrow> 's \<Rightarrow> bool"
  assumes refl: "R s s"
    and trans: "R s t \<Longrightarrow> R t u \<Longrightarrow> R s u"
begin

lemma steps_ret: "steps R (Q x) (ret x) Q"
  by (simp add: steps_def ret_def refl)

lemma steps_fail: "steps R P (fail e) Q"
  by (simp add: steps_def fail_def refl)

lemma steps_getC: "steps R (\<lambda>s. Q (f s) s) (getC f) Q"
  by (simp add: steps_def getC_def refl)

lemma steps_modC: "(\<And>s. P s \<Longrightarrow> R s (f s) \<and> Q () (f s)) \<Longrightarrow> steps R P (modC f) Q"
  by (simp add: steps_def modC_def)

lemma steps_bindC:
  assumes "steps R P m Q" and "\<And>x. steps R (Q x) (f x) T"
  shows "steps R P (bindC m f) T"
proof (rule stepsI)
  fix s r t assume P: "P s" and run: "bindC m f s = (r, t)"
  obtain q u where m: "m s = (q, u)" by (cases "m s")
  show "R s t \<and> (\<forall>x. r = Inr x \<longrightarrow> T x t)"
  proof (cases q)
    case (Inl e)
    with m run stepsD(1) [OF assms(1) P m] show ?thesis by (auto simp: bindC_def)
  next
    case (Inr y)
    with m run have f: "f y u = (r, t)" and Q: "Q y u"
      using stepsD(2) [OF assms(1) P] by (auto simp: bindC_def)
    have "R s t"
      using trans [OF stepsD(1) [OF assms(1) P m] stepsD(1) [OF assms(2) Q f]] .
    moreover have "T x t" if "r = Inr x" for x
      using stepsD(2) [OF assms(2) Q] f that by simp
    ultimately show ?thesis by blast
  qed
qed

lemma steps_thenC:
  "steps R P m Q \<Longrightarrow> steps R (Q ()) k T \<Longrightarrow> steps R P (thenC m k) T"
  unfolding thenC_def by (rule steps_bindC) auto

lemma steps_on_err: "steps R P m Q \<Longrightarrow> steps R P (on_err g m) Q"
  by (force simp: steps_def on_err_def split: prod.splits sum.splits)

lemma steps_attempt:
  "steps R P m (\<lambda>_ _. True) \<Longrightarrow> steps R P (attempt m) (\<lambda>_ _. True)"
  by (auto simp: steps_def attempt_def split: prod.splits)

lemma steps_handleC:
  assumes m: "steps R P m (\<lambda>_. Q)" and fails: "\<And>s e t. P s \<Longrightarrow> m s = (Inl e, t) \<Longrightarrow> Q' e t"
    and h: "\<And>e. steps R (Q' e) (h e) T" and k: "\<And>x. steps R Q (k x) T"
  shows "steps R P (handleC m h k) T"
proof (rule stepsI)
  fix s r t assume P: "P s" and run: "handleC m h k s = (r, t)"
  then consider e u where "m s = (Inl e, u)" "h e u = (r, t)" | x u where "m s = (Inr x, u)" "k x u = (r, t)"
    by (auto simp: handleC_run)
  then show "R s t \<and> (\<forall>x. r = Inr x \<longrightarrow> T x t)"
  proof cases
    case 1
    with fails [OF P] have "Q' e u" by blast
    with 1 show ?thesis using trans [OF stepsD(1) [OF m P] stepsD(1) [OF h]] stepsD(2) [OF h] by blast
  next
    case 2
    with stepsD(2) [OF m P] have "Q u" by blast
    with 2 show ?thesis using trans [OF stepsD(1) [OF m P] stepsD(1) [OF k]] stepsD(2) [OF k] by blast
  qed
qed

lemma steps_guardC: "steps R (\<lambda>s. b \<longrightarrow> Q () s) (guardC b e) Q"
  by (simp add: steps_def guardC_def ret_def fail_def refl)

lemma steps_whenC:
  "(b \<Longrightarrow> steps R P m Q) \<Longrightarrow> (\<And>s. \<not> b \<Longrightarrow> P s \<Longrightarrow> Q () s) \<Longrightarrow> steps R P (whenC b m) Q"
  by (auto simp: whenC_def steps_def ret_def refl)

lemma steps_of_option: "steps R (\<lambda>s. \<forall>y. x = Some y \<longrightarrow> Q y s) (of_option e x) Q"
  by (auto simp: steps_def of_option_def ret_def fail_def refl split: option.splits)

lemma steps_eachC:
  assumes "\<And>x. x \<in> set xs \<Longrightarrow> steps R P (f x) (\<lambda>_. P)"
  shows "steps R P (eachC f xs) (\<lambda>_. P)"
  using assms
proof (induction xs)
  case Nil
  then show ?case by (simp add: steps_def ret_def refl)
next
  case (Cons x xs)
  then show ?case by (auto intro!: steps_thenC [where Q = "\<lambda>_. P"])
qed

lemma keeps_rules:
  "keeps R (ret x)" "keeps R (fail e)" "keeps R (getC h)" "keeps R (guardC b e)"
  "keeps R (of_option e' y)"
  by (auto simp: steps_def cmd_defs refl split: option.splits)

lemma keeps_bindC: "keeps R m \<Longrightarrow> (\<And>x. keeps R (f x)) \<Longrightarrow> keeps R (bindC m f)"
  by (rule steps_bindC)

lemma keeps_thenC: "keeps R m \<Longrightarrow> keeps R k \<Longrightarrow> keeps R (thenC m k)"
  by (rule steps_thenC)

lemma keeps_handleC:
  "keeps R m \<Longrightarrow> (\<And>e. keeps R (h e)) \<Longrightarrow> (\<And>x. keeps R (k x)) \<Longrightarrow> keeps R (handleC m h k)"
  by (rule steps_handleC) auto

lemma keeps_ignoreC: "keeps R m \<Longrightarrow> keeps R (ignoreC m)"
  unfolding ignoreC_def by (intro keeps_handleC keeps_rules)

lemma keeps_modC: "(\<And>s. R s (f s)) \<Longrightarrow> keeps R (modC f)"
  by (rule steps_modC) simp

lemma keeps_whenC: "(b \<Longrightarrow> keeps R m) \<Longrightarrow> keeps R (whenC b m)"
  by (rule steps_whenC) auto

lemma keeps_eachC: "(\<And>x. x \<in> set xs \<Longrightarrow> keeps R (f x)) \<Longrightarrow> keeps R (eachC f xs)"
  by (rule steps_eachC)

lemma keeps_mapC: "(\<And>x. x \<in> set xs \<Longrightarrow> keeps R (f x)) \<Longrightarrow> keeps R (mapC f xs)"
  by (induction xs) (auto intro!: keeps_bindC simp: keeps_rules)

end

text \<open>Keeping an invariant is the effect order \<open>I s \<longrightarrow> I t\<close>.\<close>

definition preserving :: "('s \<Rightarrow> bool) \<Rightarrow> 's \<Rightarrow> 's \<Rightarrow> bool" where
  "preserving I s t \<longleftrightarrow> (I s \<longrightarrow> I t)"

interpretation preserving: effect_order "preserving I"
  by unfold_locales (auto simp: preserving_def)

section \<open>Lists of rows\<close>

lemma find_Some_in: "find P xs = Some x \<Longrightarrow> x \<in> set xs \<and> P x"
  by (induction xs) (auto split: if_splits)

lemma find_None_iff_set: "find P xs = None \<longleftrightarrow> (\<forall>x \<in> set xs. \<not> P x)"
  by (induction xs) auto

lemma find_cong_set: "(\<And>x. x \<in> set xs \<Longrightarrow> P x = Q x) \<Longrightarrow> find P xs = find Q xs"
  by (induction xs) auto

end
