(* ===== verification/Codec.thy ===== *)
theory Codec
  imports Prelude
begin

text \<open>
  The encodings of \<open>src/data/misc.go\<close> and \<open>src/data/types.go\<close>: hexadecimal and base64 strings,
  big-endian integers, Ethereum addresses and hashes, and the channel key. Addresses and hashes
  are go-ethereum's 20 and 32 byte arrays, kept as words of 160 and 256 bits; \<open>BytesToAddress\<close>
  and \<open>BytesToHash\<close> crop on the left and pad on the left, which is what reading the bytes as one
  big-endian number modulo the width does. The library routines the source calls
  (\<open>encoding/hex\<close>, \<open>encoding/base64\<close>, \<open>encoding/binary\<close>, \<open>strings\<close>) are written out; the hash
  function of \<open>crypto.Keccak256\<close> is an argument. The lemmas are the round trips.
\<close>

section \<open>Big-endian numbers\<close>

type_synonym address = "160 word"
type_synonym hash = "256 word"

primrec nat_bytes :: "nat \<Rightarrow> nat \<Rightarrow> bytes" where
  "nat_bytes 0 x = []"
| "nat_bytes (Suc n) x = word_of_nat (x div 256 ^ n) # nat_bytes n x"

primrec nat_of_bytes :: "bytes \<Rightarrow> nat" where
  "nat_of_bytes [] = 0"
| "nat_of_bytes (b # bs) = unat b * 256 ^ length bs + nat_of_bytes bs"

lemma length_nat_bytes [simp]: "length (nat_bytes n x) = n"
  by (induction n) auto

lemma unat_byte [simp]: "unat (word_of_nat x :: 8 word) = x mod 256"
  by (simp add: unat_of_nat)

lemma nat_of_nat_bytes [simp]: "nat_of_bytes (nat_bytes n x) = x mod 256 ^ n"
proof (induction n)
  case 0
  then show ?case by simp
next
  case (Suc n)
  have "x mod 256 ^ Suc n = 256 ^ n * (x div 256 ^ n mod 256) + x mod 256 ^ n"
    using mod_mult2_eq [of x "256 ^ n" 256] by (simp add: mult.commute)
  then show ?case using Suc by simp
qed

lemma nat_of_bytes_less: "nat_of_bytes bs < 256 ^ length bs"
proof (induction bs)
  case Nil
  then show ?case by simp
next
  case (Cons b bs)
  have "unat b < 256" using unat_less [of b] by simp
  then have "unat b * 256 ^ length bs \<le> 255 * 256 ^ length bs"
    by (intro mult_right_mono) auto
  with Cons have "unat b * 256 ^ length bs + nat_of_bytes bs < 255 * 256 ^ length bs + 256 ^ length bs"
    by linarith
  then show ?case by simp
qed

lemma nat_bytes_of_bytes [simp]: "nat_bytes (length bs) (nat_of_bytes bs) = bs"
proof -
  have "nat_bytes (length bs) (nat_of_bytes bs + k * 256 ^ length bs) = bs" for k
  proof (induction bs arbitrary: k)
    case Nil
    then show ?case by simp
  next
    case (Cons b bs)
    let ?n = "length bs"
    have eq: "nat_of_bytes (b # bs) + k * 256 ^ Suc ?n
        = nat_of_bytes bs + (unat b + 256 * k) * 256 ^ ?n"
      by (simp add: algebra_simps)
    have "(nat_of_bytes bs + (unat b + 256 * k) * 256 ^ ?n) div 256 ^ ?n = unat b + 256 * k"
      using nat_of_bytes_less [of bs] by simp
    moreover have "word_of_nat (unat b + 256 * k) = b"
      using unat_less [of b] by (intro word_unat_eq_iff [THEN iffD2]) (simp only: unat_byte, simp)
    ultimately show ?case
      by (simp only: eq nat_bytes.simps length_Cons Cons)
  qed
  from this [of 0] show ?thesis by simp
qed

text \<open>\<open>Uint32ToBytes\<close>, \<open>Uint64ToBytes\<close>, \<open>Uint192ToBytes\<close> and \<open>BytesToUint32\<close>. Writing more
  than 24 bytes into the array of \<open>Uint192ToBytes\<close> is an index panic: \<open>None\<close>.\<close>

definition Uint32ToBytes :: "u32 \<Rightarrow> bytes" where
  "Uint32ToBytes x = nat_bytes 4 (unat x)"

definition Uint64ToBytes :: "u64 \<Rightarrow> bytes" where
  "Uint64ToBytes x = nat_bytes 8 (unat x)"

definition Uint192ToBytes :: "int \<Rightarrow> bytes option" where
  "Uint192ToBytes x = (if nat \<bar>x\<bar> < 256 ^ 24 then Some (nat_bytes 24 (nat \<bar>x\<bar>)) else None)"

definition BytesToUint32 :: "bytes \<Rightarrow> u32 option" where
  "BytesToUint32 b = (if length b \<noteq> 4 then None else Some (word_of_nat (nat_of_bytes b)))"

definition BytesToAddress :: "bytes \<Rightarrow> address" where
  "BytesToAddress b = word_of_nat (nat_of_bytes b)"

definition BytesToHash :: "bytes \<Rightarrow> hash" where
  "BytesToHash b = word_of_nat (nat_of_bytes b)"

definition address_bytes :: "address \<Rightarrow> bytes" where
  "address_bytes a = nat_bytes 20 (unat a)"

definition hash_bytes :: "hash \<Rightarrow> bytes" where
  "hash_bytes h = nat_bytes 32 (unat h)"

lemma BytesToUint32_Uint32ToBytes: "BytesToUint32 (Uint32ToBytes x) = Some x"
  using unat_less [of x] by (simp add: BytesToUint32_def Uint32ToBytes_def)

lemma BytesToAddress_bytes [simp]: "BytesToAddress (address_bytes a) = a"
  using unat_less [of a] by (simp add: BytesToAddress_def address_bytes_def)

lemma BytesToHash_bytes [simp]: "BytesToHash (hash_bytes h) = h"
  using unat_less [of h] by (simp add: BytesToHash_def hash_bytes_def)

lemma length_address_bytes [simp]: "length (address_bytes a) = 20"
  by (simp add: address_bytes_def)

lemma length_hash_bytes [simp]: "length (hash_bytes h) = 32"
  by (simp add: hash_bytes_def)

text \<open>An address in an indexed event argument is the last 20 bytes of a topic.\<close>

definition address_of_topic :: "hash \<Rightarrow> address" where
  "address_of_topic h = BytesToAddress (hash_bytes h)"

lemma address_of_topic: "address_of_topic h = ucast h"
  using unat_less [of h]
  by (simp add: address_of_topic_def BytesToAddress_def hash_bytes_def)

text \<open>Evaluation computes with binary integers.\<close>

primrec int_bytes :: "nat \<Rightarrow> int \<Rightarrow> bytes" where
  "int_bytes 0 x = []"
| "int_bytes (Suc n) x = word_of_int (x div 256 ^ n) # int_bytes n x"

primrec int_of_bytes :: "bytes \<Rightarrow> int" where
  "int_of_bytes [] = 0"
| "int_of_bytes (b # bs) = uint b * 256 ^ length bs + int_of_bytes bs"

lemma nat_bytes_int: "nat_bytes n x = int_bytes n (int x)"
proof (induction n)
  case (Suc n)
  have "(word_of_nat (x div 256 ^ n) :: 8 word) = word_of_int (int (x div 256 ^ n))" by simp
  also have "int (x div 256 ^ n) = int x div 256 ^ n" by (simp add: zdiv_int)
  finally show ?case using Suc by simp
qed simp

lemma nat_of_bytes_int: "int (nat_of_bytes bs) = int_of_bytes bs"
  by (induction bs) simp_all

lemma word_of_nat_bytes: "(word_of_nat (nat_of_bytes bs) :: 'a::len word) = word_of_int (int_of_bytes bs)"
  by (metis nat_of_bytes_int of_int_of_nat_eq)

lemma bytes_code [code]:
  "hash_bytes h = int_bytes 32 (uint h)" "address_bytes a = int_bytes 20 (uint a)"
  "Uint32ToBytes x = int_bytes 4 (uint x)" "Uint64ToBytes y = int_bytes 8 (uint y)"
  "BytesToAddress b = word_of_int (int_of_bytes b)" "BytesToHash b = word_of_int (int_of_bytes b)"
  "address_of_topic h = ucast h"
  by (simp_all add: hash_bytes_def address_bytes_def Uint32ToBytes_def Uint64ToBytes_def BytesToAddress_def
      BytesToHash_def nat_bytes_int word_of_nat_bytes address_of_topic)

section \<open>Hexadecimal strings\<close>

text \<open>
  \<open>hex.EncodeToString\<close> writes two lower-case digits per byte. \<open>hex.DecodeString\<close> reads both
  cases; at a byte that is no digit, or at the end of a string of odd length, it returns the bytes
  decoded so far together with an error, which the flag \<open>ok = False\<close> stands for.
\<close>

definition hex_digit :: "nat \<Rightarrow> char" where
  "hex_digit n = ''0123456789abcdef'' ! n"

definition from_hex_char :: "char \<Rightarrow> nat option" where
  "from_hex_char c = (let n = (of_char c :: nat) in
     if 48 \<le> n \<and> n \<le> 57 then Some (n - 48)
     else if 97 \<le> n \<and> n \<le> 102 then Some (n - 97 + 10)
     else if 65 \<le> n \<and> n \<le> 70 then Some (n - 65 + 10)
     else None)"

primrec hex_encode :: "bytes \<Rightarrow> string" where
  "hex_encode [] = []"
| "hex_encode (b # bs) = hex_digit (unat b div 16) # hex_digit (unat b mod 16) # hex_encode bs"

fun hex_decode :: "string \<Rightarrow> bytes \<times> bool" where
  "hex_decode [] = ([], True)"
| "hex_decode [c] = ([], False)"
| "hex_decode (c # d # s) =
     (case (from_hex_char c, from_hex_char d) of
        (Some x, Some y) \<Rightarrow> (case hex_decode s of (bs, ok) \<Rightarrow> (word_of_nat (16 * x + y) # bs, ok))
      | _ \<Rightarrow> ([], False))"

lemma from_hex_digit [simp]: "n < 16 \<Longrightarrow> from_hex_char (hex_digit n) = Some n"
proof -
  assume n: "n < 16"
  have "list_all (\<lambda>n. from_hex_char (hex_digit n) = Some n) [0..<16]" by code_simp
  with n show ?thesis by (simp add: list_all_iff)
qed

lemma hex_decode_encode [simp]: "hex_decode (hex_encode bs) = (bs, True)"
proof (induction bs)
  case Nil
  then show ?case by simp
next
  case (Cons b bs)
  have "unat b < 256" using unat_less [of b] by simp
  then have "unat b div 16 < 16" by simp
  then show ?case using Cons by (simp del: of_nat_add of_nat_mult)
qed

lemma length_hex_encode [simp]: "length (hex_encode bs) = 2 * length bs"
  by (induction bs) auto

type_synonym HexString = string
type_synonym Base64String = string

definition has_0x_prefix :: "string \<Rightarrow> bool" where
  "has_0x_prefix s \<longleftrightarrow> take 2 s = ''0x'' \<or> take 2 s = ''0X''"

definition HexToBytes :: "HexString \<Rightarrow> bytes \<times> bool" where
  "HexToBytes s = hex_decode (if has_0x_prefix s then drop 2 s else s)"

definition HexFromBytes :: "bytes \<Rightarrow> HexString" where
  "HexFromBytes src = hex_encode src"

definition HexToHash :: "HexString \<Rightarrow> hash \<times> bool" where
  "HexToHash h = (case HexToBytes h of (bs, ok) \<Rightarrow> (BytesToHash bs, ok))"

definition HexToAddress :: "HexString \<Rightarrow> address \<times> bool" where
  "HexToAddress addr = (case HexToBytes addr of (bs, ok) \<Rightarrow> (BytesToAddress bs, ok))"

lemma hex_digit_not_x: "n < 16 \<Longrightarrow> hex_digit n \<noteq> CHR ''x'' \<and> hex_digit n \<noteq> CHR ''X''"
  using from_hex_digit [of n] by (auto simp: from_hex_char_def)

lemma HexFromBytes_no_prefix: "\<not> has_0x_prefix (HexFromBytes bs)"
  using hex_digit_not_x by (cases bs) (auto simp: has_0x_prefix_def HexFromBytes_def)

lemma HexToBytes_FromBytes [simp]: "HexToBytes (HexFromBytes bs) = (bs, True)"
  unfolding HexToBytes_def by (simp add: HexFromBytes_no_prefix) (simp add: HexFromBytes_def)

lemma HexToHash_FromBytes [simp]: "HexToHash (HexFromBytes (hash_bytes h)) = (h, True)"
  by (simp add: HexToHash_def)

lemma HexToAddress_FromBytes [simp]: "HexToAddress (HexFromBytes (address_bytes a)) = (a, True)"
  by (simp add: HexToAddress_def)

lemma HexFromBytes_inject [simp]: "HexFromBytes bs = HexFromBytes cs \<longleftrightarrow> bs = cs"
  by (metis HexToBytes_FromBytes fst_conv)

lemma address_bytes_inject [simp]: "address_bytes a = address_bytes b \<longleftrightarrow> a = b"
  by (metis BytesToAddress_bytes)

lemma hash_bytes_inject [simp]: "hash_bytes a = hash_bytes b \<longleftrightarrow> a = b"
  by (metis BytesToHash_bytes)

text \<open>\<open>hash.Hex()\<close> and \<open>hashToHex\<close> of \<open>src/bc/jobsmaker.go\<close>: the digits after the prefix
  \<open>0x\<close>. The branch for a string without the prefix is unreachable.\<close>

definition hash_hex :: "hash \<Rightarrow> string" where
  "hash_hex h = ''0x'' @ hex_encode (hash_bytes h)"

section \<open>Base64 strings\<close>

text \<open>
  \<open>encoding/base64\<close> over an alphabet given by its sixth-bit digits; the standard alphabet is
  used by \<open>encoding/json\<close> for byte slices, the URL alphabet by \<open>src/data/misc.go\<close>. The decoder
  is the non-strict one: it skips line breaks and ignores the unused bits of the last digit.
\<close>

definition b64_common :: string where
  "b64_common = ''ABCDEFGHIJKLMNOPQRSTUVWXYZabcdefghijklmnopqrstuvwxyz0123456789''"

definition b64_std :: string where
  "b64_std = b64_common @ ''+/''"

definition b64_url :: string where
  "b64_url = b64_common @ ''-_''"

fun b64_encode :: "string \<Rightarrow> bytes \<Rightarrow> string" where
  "b64_encode abc [] = []"
| "b64_encode abc [a] =
     [abc ! (unat a div 4), abc ! (unat a mod 4 * 16), CHR ''='', CHR ''='']"
| "b64_encode abc [a, b] =
     [abc ! (unat a div 4), abc ! (unat a mod 4 * 16 + unat b div 16),
      abc ! (unat b mod 16 * 4), CHR ''='']"
| "b64_encode abc (a # b # c # bs) =
     abc ! (unat a div 4) # abc ! (unat a mod 4 * 16 + unat b div 16)
     # abc ! (unat b mod 16 * 4 + unat c div 64) # abc ! (unat c mod 64) # b64_encode abc bs"

primrec b64_index :: "string \<Rightarrow> char \<Rightarrow> nat option" where
  "b64_index [] c = None"
| "b64_index (d # abc) c = (if c = d then Some 0 else map_option Suc (b64_index abc c))"

fun b64_groups :: "string \<Rightarrow> string \<Rightarrow> bytes option" where
  "b64_groups abc [] = Some []"
| "b64_groups abc (p # q # r # s # t) =
     (case (b64_index abc p, b64_index abc q) of
        (Some x, Some y) \<Rightarrow>
          if r = CHR ''='' then
            (if s = CHR ''='' \<and> t = [] then Some [word_of_nat (x * 4 + y div 16)] else None)
          else (case b64_index abc r of
              None \<Rightarrow> None
            | Some z \<Rightarrow>
                if s = CHR ''='' then
                  (if t = [] then Some [word_of_nat (x * 4 + y div 16),
                                        word_of_nat (y mod 16 * 16 + z div 4)] else None)
                else (case (b64_index abc s, b64_groups abc t) of
                    (Some w, Some bs) \<Rightarrow>
                      Some (word_of_nat (x * 4 + y div 16) # word_of_nat (y mod 16 * 16 + z div 4)
                            # word_of_nat (z mod 4 * 64 + w) # bs)
                  | _ \<Rightarrow> None))
      | _ \<Rightarrow> None)"
| "b64_groups abc _ = None"

definition b64_decode :: "string \<Rightarrow> string \<Rightarrow> bytes option" where
  "b64_decode abc s = b64_groups abc (filter (\<lambda>c. c \<noteq> CHR 0x0A \<and> c \<noteq> CHR 0x0D) s)"

lemma b64_index_nth: "distinct abc \<Longrightarrow> i < length abc \<Longrightarrow> b64_index abc (abc ! i) = Some i"
proof (induction abc arbitrary: i)
  case Nil
  then show ?case by simp
next
  case (Cons d abc)
  then show ?case by (cases i) auto
qed

text \<open>The contract of an alphabet: 64 distinct digits, none of them padding or a line break.\<close>

locale b64_alphabet =
  fixes abc :: string
  assumes distinct_abc: "distinct abc"
    and length_abc: "length abc = 64"
    and no_special: "set abc \<inter> {CHR ''='', CHR 0x0A, CHR 0x0D} = {}"
begin

lemma index_nth [simp]: "i < 64 \<Longrightarrow> b64_index abc (abc ! i) = Some i"
  by (simp add: b64_index_nth distinct_abc length_abc)

lemma digit_not_special [simp]:
  "i < 64 \<Longrightarrow> abc ! i \<noteq> CHR ''=''" "i < 64 \<Longrightarrow> abc ! i \<noteq> CHR 0x0A" "i < 64 \<Longrightarrow> abc ! i \<noteq> CHR 0x0D"
  using no_special length_abc by (metis disjoint_insert(1) insertI1 insert_commute nth_mem)+

lemma sextets:
  fixes a b :: u8
  shows "unat a div 4 < 64" "unat a mod 4 * 16 + unat b div 16 < 64"
    "unat a mod 16 * 4 + unat b div 64 < 64" "unat a mod 4 * 16 < 64" "unat a mod 16 * 4 < 64"
    "unat a mod 64 < 64"
proof -
  have "unat a < 256" "unat b < 256" using unat_less [of a] unat_less [of b] by auto
  moreover from this have "unat b div 16 < 16" "unat b div 64 < 4" by auto
  moreover have "unat a mod 4 < 4" "unat a mod 16 < 16" "unat a mod 64 < 64" by auto
  ultimately show "unat a div 4 < 64" "unat a mod 4 * 16 + unat b div 16 < 64"
    "unat a mod 16 * 4 + unat b div 64 < 64" "unat a mod 4 * 16 < 64" "unat a mod 16 * 4 < 64"
    "unat a mod 64 < 64" by linarith+
qed

lemma byte_quotients:
  fixes b :: u8
  shows "unat b div 16 div 16 = 0" "unat b div 16 mod 16 = unat b div 16"
    "unat b div 64 div 4 = 0" "unat b div 64 mod 4 = unat b div 64"
  using unat_less [of b] by auto

lemma groups_encode: "b64_groups abc (b64_encode abc bs) = Some bs"
proof -
  have "a = abc \<Longrightarrow> b64_groups a (b64_encode a bs) = Some bs" for a
    by (induction a bs rule: b64_encode.induct)
      (simp_all add: sextets byte_quotients del: of_nat_add of_nat_mult)
  then show ?thesis by simp
qed

lemma encode_no_break: "filter (\<lambda>c. c \<noteq> CHR 0x0A \<and> c \<noteq> CHR 0x0D) (b64_encode abc bs) = b64_encode abc bs"
proof -
  have "a = abc \<Longrightarrow> filter (\<lambda>c. c \<noteq> CHR 0x0A \<and> c \<noteq> CHR 0x0D) (b64_encode a bs) = b64_encode a bs" for a
    by (induction a bs rule: b64_encode.induct) (simp_all add: sextets)
  then show ?thesis by simp
qed

lemma decode_encode [simp]: "b64_decode abc (b64_encode abc bs) = Some bs"
  by (simp add: b64_decode_def groups_encode encode_no_break)

end

interpretation std: b64_alphabet b64_std
  by unfold_locales (code_simp+)

interpretation url: b64_alphabet b64_url
  by unfold_locales (code_simp+)

text \<open>
  \<open>strings.TrimSpace\<close> on strings of single-byte characters: the characters it removes at both
  ends are the ASCII blanks.
\<close>

definition is_space :: "char \<Rightarrow> bool" where
  "is_space c \<longleftrightarrow> (let n = (of_char c :: nat) in n = 32 \<or> (9 \<le> n \<and> n \<le> 13))"

definition trim_space :: "string \<Rightarrow> string" where
  "trim_space s = rev (dropWhile is_space (rev (dropWhile is_space s)))"

definition ToBytes :: "Base64String \<Rightarrow> bytes option" where
  "ToBytes s = b64_decode b64_url (trim_space s)"

definition FromBytes :: "bytes \<Rightarrow> Base64String" where
  "FromBytes src = b64_encode b64_url src"

definition FromBase64ToHex :: "Base64String \<Rightarrow> string option" where
  "FromBase64ToHex s = map_option hex_encode (ToBytes s)"

definition ToHash :: "Base64String \<Rightarrow> hash option" where
  "ToHash h = map_option BytesToHash (ToBytes h)"

lemma trim_space_id: "\<forall>c \<in> set s. \<not> is_space c \<Longrightarrow> trim_space s = s"
proof -
  have id: "\<forall>c \<in> set t. \<not> P c \<Longrightarrow> dropWhile P t = t" for t and P :: "char \<Rightarrow> bool"
    by (cases t) auto
  assume "\<forall>c \<in> set s. \<not> is_space c"
  then show ?thesis by (simp add: trim_space_def id)
qed

lemma b64_url_no_space: "\<forall>c \<in> set (CHR ''='' # b64_url). \<not> is_space c"
  by code_simp

lemma b64_encode_set:
  "length abc = 64 \<Longrightarrow> set (b64_encode abc bs) \<subseteq> set (CHR ''='' # abc)"
  by (induction abc bs rule: b64_encode.induct) (auto simp: url.sextets intro!: nth_mem)

lemma ToBytes_FromBytes [simp]: "ToBytes (FromBytes bs) = Some bs"
proof -
  have "\<forall>c \<in> set (FromBytes bs). \<not> is_space c"
    using b64_url_no_space b64_encode_set [OF url.length_abc] unfolding FromBytes_def by blast
  then show ?thesis unfolding ToBytes_def by (simp add: trim_space_id) (simp add: FromBytes_def)
qed

lemma ToHash_FromBytes [simp]: "ToHash (FromBytes (hash_bytes h)) = Some h"
  by (simp add: ToHash_def)

lemma FromBytes_inject [simp]: "FromBytes bs = FromBytes cs \<longleftrightarrow> bs = cs"
  by (metis ToBytes_FromBytes option.inject)

section \<open>Channel keys, prices and passwords\<close>

text \<open>
  \<open>ChannelKey\<close> hashes the concatenated fields of a channel with the Keccak function \<open>kec\<close>.
  The offering hash it is given is declared a hexadecimal string, and it is decoded as base64.
\<close>

definition ChannelKey ::
  "(bytes \<Rightarrow> bytes) \<Rightarrow> HexString \<Rightarrow> HexString \<Rightarrow> u32 \<Rightarrow> HexString \<Rightarrow> bytes option" where
  "ChannelKey kec client agent block offeringHash =
     (case HexToAddress client of (clientAddr, ok1) \<Rightarrow> if \<not> ok1 then None
      else case HexToAddress agent of (agentAddr, ok2) \<Rightarrow> if \<not> ok2 then None
      else case b64_decode b64_url (trim_space offeringHash) of None \<Rightarrow> None
      | Some h \<Rightarrow> Some (kec (address_bytes clientAddr @ address_bytes agentAddr
                        @ Uint32ToBytes block @ hash_bytes (BytesToHash h))))"

text \<open>The preimage of a channel key determines the channel it was made for.\<close>

lemma channel_preimage_inject:
  "address_bytes c @ address_bytes a @ Uint32ToBytes b @ hash_bytes h
     = address_bytes c' @ address_bytes a' @ Uint32ToBytes b' @ hash_bytes h'
   \<longleftrightarrow> c = c' \<and> a = a' \<and> b = b' \<and> h = h'"
proof -
  have len: "length (Uint32ToBytes x) = 4" for x by (simp add: Uint32ToBytes_def)
  have inj: "Uint32ToBytes x = Uint32ToBytes y \<longleftrightarrow> x = y" for x y
    by (metis BytesToUint32_Uint32ToBytes option.inject)
  show ?thesis by (simp add: len inj)
qed

text \<open>\<open>bcrypt\<close> is a library: \<open>gen\<close> and \<open>cmp\<close> stand for its two functions.\<close>

definition HashPassword :: "(bytes \<Rightarrow> bytes option) \<Rightarrow> string \<Rightarrow> string \<Rightarrow> Base64String option" where
  "HashPassword gen password salt = map_option FromBytes (gen (map of_char (password @ salt)))"

definition ValidatePassword ::
  "(bytes \<Rightarrow> bytes \<Rightarrow> bool) \<Rightarrow> Base64String \<Rightarrow> string \<Rightarrow> string \<Rightarrow> bool" where
  "ValidatePassword cmp h password salt =
     (case ToBytes h of None \<Rightarrow> False | Some hashB \<Rightarrow> cmp hashB (map of_char (password @ salt)))"

text \<open>\<open>common.HexToAddress\<close> of go-ethereum takes any string: it drops the prefix, completes an odd
  number of digits, and keeps what can be decoded.\<close>

definition lenient_address :: "string \<Rightarrow> address" where
  "lenient_address s = (let t = (if has_0x_prefix s then drop 2 s else s)
     in BytesToAddress (fst (hex_decode (if odd (length t) then CHR ''0'' # t else t))))"

end
