(* ===== verification/Types.thy ===== *)
theory Types
  imports Codec
begin

text \<open>
  The rows of the database, \<open>src/data/schema.go\<close> and \<open>src/data/jobs.go\<close>: one record per Go
  structure, with the structure's fields in order, and one datatype per group of string constants.
  A Go \<open>string\<close> that holds one of the constants is a value of the datatype; a constructor
  \<open>...Other\<close> stands for any other string where the code can write one (the database rejects it).
  A nilable pointer is an option. The JSON documents of jobs are kept parsed, see below.
\<close>

section \<open>Constants\<close>

datatype tpl_kind = TemplateOffer | TemplateAccess | TemplateOther string

datatype usage_rep_type = ProductUsageIncremental | ProductUsageTotal | ProductUsageOther string

datatype unit_type = UnitScalar | UnitSeconds | UnitOther string

datatype bill_type = BillingPrepaid | BillingPostpaid | BillingOther string

datatype offer_status =
    OfferEmpty | OfferPoppingUp | OfferPoppedUp | OfferRegistering | OfferRegistered
  | OfferRemoving | OfferRemoved

datatype chan_status =
    ChannelPending | ChannelActive | ChannelWaitCoop | ChannelClosedCoop
  | ChannelWaitChallenge | ChannelInChallenge | ChannelWaitUncoop | ChannelClosedUncoop

datatype svc_status =
    ServicePending | ServiceActivating | ServiceActive | ServiceSuspending | ServiceSuspended
  | ServiceTerminating | ServiceTerminated | ServiceOther string

datatype country_status =
    CountryStatusUnknown | CountryStatusValid | CountryStatusInvalid

datatype tx_status = TxUnsent | TxSent | TxMined | TxUncle

datatype closing_type = ClosingCoop | ClosingUncoop

datatype job_creator =
    JobUser | JobBillingChecker | JobBCMonitor | JobTask | JobServiceAdapter | JobSessionServer

datatype job_status = JobActive | JobDone | JobFailed | JobCanceled

datatype related_type = JobOffering | JobChannel | JobEndpoint | JobAccount | JobTransaction

datatype (plugins only: code size) job_type =
    JobClientPreChannelCreate | JobClientAfterChannelCreate | JobClientPreChannelTopUp
    | JobClientAfterChannelTopUp | JobClientPreUncooperativeCloseRequest
    | JobClientAfterUncooperativeCloseRequest | JobClientPreUncooperativeClose
    | JobClientAfterUncooperativeClose | JobClientAfterCooperativeClose
    | JobClientPreServiceSuspend | JobClientPreServiceUnsuspend | JobClientPreServiceTerminate
    | JobClientEndpointGet | JobClientAfterOfferingMsgBCPublish | JobClientAfterOfferingPopUp
    | JobClientAfterOfferingDelete | JobClientRecordClosing | JobAgentAfterChannelCreate
    | JobAgentAfterChannelTopUp | JobAgentAfterUncooperativeCloseRequest
    | JobAgentAfterUncooperativeClose | JobAgentAfterCooperativeClose | JobAgentPreServiceSuspend
    | JobAgentPreServiceUnsuspend | JobAgentPreServiceTerminate | JobAgentPreEndpointMsgCreate
    | JobAgentPreOfferingMsgBCPublish | JobAgentAfterOfferingMsgBCPublish
    | JobAgentPreOfferingDelete | JobAgentPreOfferingPopUp | JobAgentAfterOfferingPopUp
    | JobAgentAfterOfferingDelete | JobPreAccountAddBalanceApprove
    | JobAfterAccountAddBalanceApprove | JobPreAccountAddBalance | JobAfterAccountAddBalance
    | JobPreAccountReturnBalance | JobAfterAccountReturnBalance | JobAccountUpdateBalances
    | JobCompleteServiceTransition | JobDecrementCurrentSupply | JobIncrementCurrentSupply
    | JobIncreaseTxGasPrice

text \<open>The string a job type is stored as.\<close>

primrec job_type_string :: "job_type \<Rightarrow> string" where
  "job_type_string JobClientPreChannelCreate = ''clientPreChannelCreate''"
| "job_type_string JobClientAfterChannelCreate = ''clientAfterChannelCreate''"
| "job_type_string JobClientPreChannelTopUp = ''clientPreChannelTopUp''"
| "job_type_string JobClientAfterChannelTopUp = ''clientAfterChannelTopUp''"
| "job_type_string JobClientPreUncooperativeCloseRequest = ''clientPreUncooperativeCloseRequest''"
| "job_type_string JobClientAfterUncooperativeCloseRequest = ''clientAfterUncooperativeCloseRequest''"
| "job_type_string JobClientPreUncooperativeClose = ''clientPreUncooperativeClose''"
| "job_type_string JobClientAfterUncooperativeClose = ''clientAfterUncooperativeClose''"
| "job_type_string JobClientAfterCooperativeClose = ''clientAfterCooperativeClose''"
| "job_type_string JobClientPreServiceSuspend = ''clientPreServiceSuspend''"
| "job_type_string JobClientPreServiceUnsuspend = ''clientPreServiceUnsuspend''"
| "job_type_string JobClientPreServiceTerminate = ''clientPreServiceTerminate''"
| "job_type_string JobClientEndpointGet = ''clientEndpointGet''"
| "job_type_string JobClientAfterOfferingMsgBCPublish = ''clientAfterOfferingMsgBCPublish''"
| "job_type_string JobClientAfterOfferingPopUp = ''clientAfterOfferingPopUp''"
| "job_type_string JobClientAfterOfferingDelete = ''clientAfterOfferingDelete''"
| "job_type_string JobClientRecordClosing = ''clientRecordClosing''"
| "job_type_string JobAgentAfterChannelCreate = ''agentAfterChannelCreate''"
| "job_type_string JobAgentAfterChannelTopUp = ''agentAfterChannelTopUp''"
| "job_type_string JobAgentAfterUncooperativeCloseRequest = ''agentAfterUncooperativeCloseRequest''"
| "job_type_string JobAgentAfterUncooperativeClose = ''agentAfterUncooperativeClose''"
| "job_type_string JobAgentAfterCooperativeClose = ''agentAfterCooperativeClose''"
| "job_type_string JobAgentPreServiceSuspend = ''agentPreServiceSuspend''"
| "job_type_string JobAgentPreServiceUnsuspend = ''agentPreServiceUnsuspend''"
| "job_type_string JobAgentPreServiceTerminate = ''agentPreServiceTerminate''"
| "job_type_string JobAgentPreEndpointMsgCreate = ''agentPreEndpointMsgCreate''"
| "job_type_string JobAgentPreOfferingMsgBCPublish = ''agentPreOfferingMsgBCPublish''"
| "job_type_string JobAgentAfterOfferingMsgBCPublish = ''agentAfterOfferingMsgBCPublish''"
| "job_type_string JobAgentPreOfferingDelete = ''agentPreOfferingDelete''"
| "job_type_string JobAgentPreOfferingPopUp = ''agentPreOfferingPopUp''"
| "job_type_string JobAgentAfterOfferingPopUp = ''agentAfterOfferingPopUp''"
| "job_type_string JobAgentAfterOfferingDelete = ''agentAfterOfferingDelete''"
| "job_type_string JobPreAccountAddBalanceApprove = ''preAccountAddBalanceApprove''"
| "job_type_string JobAfterAccountAddBalanceApprove = ''afterAccountAddBalanceApprove''"
| "job_type_string JobPreAccountAddBalance = ''preAccountAddBalance''"
| "job_type_string JobAfterAccountAddBalance = ''afterAccountAddBalance''"
| "job_type_string JobPreAccountReturnBalance = ''preAccountReturnBalance''"
| "job_type_string JobAfterAccountReturnBalance = ''afterAccountReturnBalance''"
| "job_type_string JobAccountUpdateBalances = ''accountUpdateBalances''"
| "job_type_string JobCompleteServiceTransition = ''completeServiceTransition''"
| "job_type_string JobDecrementCurrentSupply = ''decrementCurrentSupply''"
| "job_type_string JobIncrementCurrentSupply = ''incrementCurrentSupply''"
| "job_type_string JobIncreaseTxGasPrice = ''increaseTxGasPrice''"

definition OfferingSOMCTor :: u8 where
  "OfferingSOMCTor = 1"

text \<open>
  A JSON document with integer numbers. Job data are such documents; their text is produced and
  parsed by \<open>encoding/json\<close>.
\<close>

datatype json =
    JNull | JBool bool | JNum int | JStr string | JArr "json list" | JObj "(string \<times> json) list"

section \<open>Rows\<close>

record Account =
  acc_ID :: string
  acc_EthAddr :: HexString
  acc_PublicKey :: Base64String
  acc_PrivateKey :: Base64String
  acc_IsDefault :: bool
  acc_InUse :: bool
  acc_Name :: string
  acc_PTCBalance :: u64
  acc_PSCBalance :: u64
  acc_EthBalance :: Base64String
  acc_LastBalanceCheck :: "time option"

record User =
  usr_ID :: string
  usr_EthAddr :: HexString
  usr_PublicKey :: Base64String

record Template =
  tpl_ID :: string
  tpl_Hash :: HexString
  tpl_Raw :: string
  tpl_Kind :: tpl_kind

record Product =
  prd_ID :: string
  prd_Name :: string
  prd_OfferTplID :: "string option"
  prd_OfferAccessID :: "string option"
  prd_UsageRepType :: usage_rep_type
  prd_IsServer :: bool
  prd_Salt :: u64
  prd_Password :: Base64String
  prd_ClientIdent :: string
  prd_Config :: string
  prd_ServiceEndpointAddress :: "string option"
  prd_Country :: "string option"

record Offering =
  ofr_ID :: string
  ofr_IsLocal :: bool
  ofr_IPType :: string
  ofr_Template :: string
  ofr_Product :: string
  ofr_Hash :: HexString
  ofr_Status :: offer_status
  ofr_BlockNumberUpdated :: u64
  ofr_Agent :: HexString
  ofr_RawMsg :: Base64String
  ofr_ServiceName :: string
  ofr_Description :: "string option"
  ofr_Country :: string
  ofr_Supply :: u16
  ofr_CurrentSupply :: u16
  ofr_UnitName :: string
  ofr_UnitType :: unit_type
  ofr_BillingType :: bill_type
  ofr_SetupPrice :: u64
  ofr_UnitPrice :: u64
  ofr_MinUnits :: u64
  ofr_MaxUnit :: "u64 option"
  ofr_BillingInterval :: u64
  ofr_MaxBillingUnitLag :: u64
  ofr_MaxSuspendTime :: u64
  ofr_MaxInactiveTimeSec :: u64
  ofr_FreeUnits :: u8
  ofr_AdditionalParams :: string
  ofr_AutoPopUp :: "bool option"
  ofr_SOMCType :: u8
  ofr_SOMCData :: Base64String
  ofr_SOMCSuccessPing :: "time option"

record Channel =
  ch_ID :: string
  ch_Agent :: HexString
  ch_Client :: HexString
  ch_Offering :: string
  ch_Block :: u32
  ch_ChannelStatus :: chan_status
  ch_ServiceStatus :: svc_status
  ch_ServiceChangedTime :: "time option"
  ch_PreparedAt :: time
  ch_TotalDeposit :: u64
  ch_Salt :: u64
  ch_Username :: "string option"
  ch_Password :: Base64String
  ch_ReceiptBalance :: u64
  ch_ReceiptSignature :: "Base64String option"

record Session =
  ses_ID :: string
  ses_Channel :: string
  ses_Started :: time
  ses_Stopped :: "time option"
  ses_UnitsUsed :: u64
  ses_SecondsConsumed :: u64
  ses_LastUsageTime :: time
  ses_ClientIP :: "string option"
  ses_ClientPort :: "u16 option"

record Setting =
  set_Key :: string
  set_Value :: string
  set_Permissions :: int
  set_Description :: "string option"
  set_Name :: string

record Endpoint =
  ep_ID :: string
  ep_Template :: string
  ep_Channel :: string
  ep_Hash :: HexString
  ep_RawMsg :: Base64String
  ep_PaymentReceiverAddress :: "string option"
  ep_ServiceEndpointAddress :: "string option"
  ep_Username :: "string option"
  ep_Password :: "string option"
  ep_AdditionalParams :: string
  ep_CountryStatus :: "country_status option"

record Job =
  job_ID :: string
  job_Type :: job_type
  job_Status :: job_status
  job_RelatedType :: related_type
  job_RelatedID :: string
  job_CreatedAt :: time
  job_NotBefore :: time
  job_CreatedBy :: job_creator
  job_TryCount :: u8
  job_Data :: "json option"

record EthTx =
  tx_ID :: string
  tx_Hash :: HexString
  tx_Method :: string
  tx_Status :: tx_status
  tx_JobID :: "string option"
  tx_Issued :: time
  tx_AddrFrom :: HexString
  tx_AddrTo :: HexString
  tx_Nonce :: "string option"
  tx_GasPrice :: u64
  tx_Gas :: u64
  tx_TxRaw :: string
  tx_RelatedType :: related_type
  tx_RelatedID :: string

record Closing =
  cl_ID :: string
  cl_Type :: closing_type
  cl_Agent :: HexString
  cl_Client :: HexString
  cl_Balance :: u64
  cl_Block :: u32

record Rating =
  rt_EthAddr :: HexString
  rt_Val :: u64

end
