(* ===== verification/Errors.thy ===== *)
theory Errors
  imports Prelude
begin

text \<open>
  The errors of the controller. Every package that has an \<open>errors.go\<close> numbers its errors by
  \<open>iota\<close> above the checksum of its name; the constructors of its datatype are these errors, in
  the same order, with the package's name in front. \<open>go_error\<close> is their union, together with the
  errors of \<open>database/sql\<close> and \<open>reform\<close> the code distinguishes: no row found, a failed call, a
  violated constraint, a transaction that is over, and a plain text (\<open>fmt.Errorf\<close>).
\<close>

datatype (plugins only: code size) job_error =
    job_ErrAlreadyProcessing | job_ErrDuplicatedJob | job_ErrHandlerNotFound | job_ErrQueueClosed
    | job_ErrSubscriptionExists | job_ErrSubscriptionNotFound | job_ErrInternal

datatype (plugins only: code size) ui_error =
    ui_ErrAccessDenied | ui_ErrInternal | ui_ErrObjectNotFound | ui_ErrAccountNotFound
    | ui_ErrChannelNotFound | ui_ErrTemplateNotFound | ui_ErrDefaultGasPriceNotFound
    | ui_ErrEmptyPassword | ui_ErrMinConfirmationsNotFound | ui_ErrOfferingNotFound
    | ui_ErrPasswordExists | ui_ErrProductNotFound | ui_ErrInvalidTemplateType
    | ui_ErrMalformedTemplate | ui_ErrDepositTooSmall | ui_ErrBadUnitPriceRange
    | ui_ErrBadUnitType | ui_ErrBillingType | ui_ErrBadOfferingStatusAction | ui_ErrBadObjectType
    | ui_ErrFailedToDecodePrivateKey | ui_ErrFailedToDecryptPKey | ui_ErrPrivateKeyNotFound
    | ui_ErrTokenAmountTooSmall | ui_ErrBadDestination | ui_ErrBadAction
    | ui_ErrNotAllowedForAgent | ui_ErrJobNotFound | ui_ErrBadServiceEndpointAddress
    | ui_ErrInvalidValueForSetting | ui_ErrInconsistentSOMCSwitch | ui_ErrSOMCIsNotAvailable
    | ui_ErrTxNotFound | ui_ErrTxIsUnderpriced | ui_ErrSuccessJobNonReactivatable
    | ui_ErrAlreadyActiveJob

datatype (plugins only: code size) sess_error =
    sess_ErrAccessDenied | sess_ErrChannelNotFound | sess_ErrBadClientPassword | sess_ErrInternal
    | sess_ErrNonActiveChannel | sess_ErrSessionNotFound | sess_ErrEndpointNotFound
    | sess_ErrBadProductConfig

datatype (plugins only: code size) abill_error =
    abill_ErrInput

datatype (plugins only: code size) cbill_error =
    cbill_ErrAlreadyRunning | cbill_ErrMonitorClosed | cbill_ErrGetConsumedUnits
    | cbill_ErrGetOffering | cbill_ErrUpdateReceiptBalance

datatype (plugins only: code size) somc_error =
    somc_ErrUnknownSOMCType

datatype (plugins only: code size) bc_error =
    bc_ErrFailedToFetchLogs | bc_ErrFailedToGetActiveAccounts | bc_ErrFailedToScanRows
    | bc_ErrFailedToTraverseAddresses | bc_ErrFailedToGetHeaderByNumber | bc_ErrFailedToParseABI
    | bc_ErrFailedToUnpack | bc_ErrWrongNumberOfEventArgs | bc_ErrWrongBlockArgumentType
    | bc_ErrUnsupportedTopic | bc_ErrInternal

datatype (plugins only: code size) msg_error =
    msg_ErrWrongSignature

datatype (plugins only: code size) ept_error =
    ept_ErrTimeOut | ept_ErrInvalidFormat | ept_ErrProdOfferAccessID | ept_ErrProdEndAddress

datatype (plugins only: code size) somcsrv_error =
    somcsrv_ErrInternal | somcsrv_ErrChannelNotFound | somcsrv_ErrEndpointNotFound
    | somcsrv_ErrOfferingNotFound

datatype (plugins only: code size) worker_error =
    worker_ErrInternal | worker_ErrInvalidJob | worker_ErrAccountNotFound
    | worker_ErrChannelNotFound | worker_ErrOfferingNotFound | worker_ErrUserNotFound
    | worker_ErrEndpointNotFound | worker_ErrTemplateNotFound | worker_ErrTemplateByHashNotFound
    | worker_ErrEthLogNotFound | worker_ErrProductNotFound | worker_ErrParseJobData
    | worker_ErrParsePrivateKey | worker_ErrParseEthAddr | worker_ErrParseOfferingHash
    | worker_ErrParseEthLog | worker_ErrWrongLogNonIndexedArgsNumber
    | worker_ErrWrongLogTopicsNumber | worker_ErrInsufficientPTCBalance
    | worker_ErrInsufficientPSCBalance | worker_ErrInsufficientEthBalance | worker_ErrSmallDeposit
    | worker_ErrFindApprovalBalanceData | worker_ErrPTCRetrieveBalance
    | worker_ErrPTCRetrieveAllowance | worker_ErrPTCIncreaseApproval
    | worker_ErrPSCRetrieveBalance | worker_ErrPSCAddBalance | worker_ErrPSCReturnBalance
    | worker_ErrPSCCooperativeClose | worker_ErrPSCRegisterOffering | worker_ErrPSCRemoveOffering
    | worker_ErrPSCPopUpOffering | worker_ErrPSCOfferingSupply | worker_ErrPSCCreateChannel
    | worker_ErrPSCGetChannelInfo | worker_ErrPSCSettle | worker_ErrPSCTopUpChannel
    | worker_ErrPSCUncooperativeClose | worker_ErrEthGetTransaction
    | worker_ErrEthTxInPendingState | worker_ErrEthRetrieveBalance
    | worker_ErrEthLogChannelMismatch | worker_ErrEthLatestBlockNumber
    | worker_ErrRecoverClientPubKey | worker_ErrTerminateChannel | worker_ErrAddJob
    | worker_ErrSignClosingMsg | worker_ErrNoReceiptSignature | worker_ErrMakeEndpointMsg
    | worker_ErrEndpointMsgSeal | worker_ErrGeneratePasswordHash | worker_ErrPublishEndpoint
    | worker_ErrPublishOffering | worker_ErrFetchOffering | worker_ErrSOMCNoOfferings
    | worker_ErrOfferNotRegistered | worker_ErrOfferNotCorrespondToTemplate
    | worker_ErrChannelReceiptBalance | worker_ErrInvalidChannelStatus
    | worker_ErrInvalidServiceStatus | worker_ErrOfferingNoSupply | worker_ErrGetEndpoint
    | worker_ErrDecryptEndpointMsg | worker_ErrInvalidEndpoint | worker_ErrFailedStopService
    | worker_ErrFailedStartService | worker_ErrChallengePeriodIsNotOver
    | worker_ErrWrongOfferingMsgSignature | worker_ErrUncompletedJobsExists
    | worker_ErrOfferingNotActive | worker_ErrOfferingExists | worker_ErrPopUpPeriodIsNotOver
    | worker_ErrOfferingDeletePeriodIsNotOver | worker_ErrOfferingDeposit | worker_ErrTorNoSet
    | worker_ErrTxNoGasIncrease | worker_ErrEthTxIsMined | worker_ErrTxNotFound

text \<open>The three errors of \<open>src/proc/processor.go\<close>.\<close>

datatype (plugins only: code size) proc_error =
    proc_ErrBadServiceStatus | proc_ErrActiveJobsExist | proc_ErrSameJobExists

datatype (plugins only: code size) go_error =
    NoRows | DBFail | Violation | TxDone | Panic | Text string
  | SrvError (srv_Status: nat) (srv_Code: nat)
  | Proc proc_error
  | Job job_error
  | Ui ui_error
  | Sess sess_error
  | Abill abill_error
  | Cbill cbill_error
  | Somc somc_error
  | Bc bc_error
  | Msg msg_error
  | Ept ept_error
  | Somcsrv somcsrv_error
  | Worker worker_error

end
