(* ===== verification/Database.thy ===== *)
theory Database
  imports Types Errors
begin

text \<open>
  The database the controller keeps its state in. A \<open>db\<close> is one list of rows per table, in
  insertion order; the constraints are those of \<open>src/data/migration/scripts\<close>. The operations
  are the ones the code uses of \<open>reform\<close> (find by key, select, insert, update, save) and of SQL
  (\<open>UPDATE ... WHERE\<close>), each executed by a querier, the connection or the open transaction, and
  each able to fail: \<open>w_faults\<close> is an arbitrary schedule that says which of the coming calls do.
  A transaction is a working copy that a commit makes the database; what the connection writes
  while it is open reaches both.
\<close>

section \<open>Tables\<close>

record db =
  db_settings :: "Setting list"
  db_accounts :: "Account list"
  db_users :: "User list"
  db_templates :: "Template list"
  db_products :: "Product list"
  db_offerings :: "Offering list"
  db_channels :: "Channel list"
  db_sessions :: "Session list"
  db_endpoints :: "Endpoint list"
  db_jobs :: "Job list"
  db_ethtxs :: "EthTx list"
  db_closings :: "Closing list"
  db_ratings :: "Rating list"

text \<open>
  A table: its rows, its primary key, the constraints on one row (\<open>CHECK\<close>, enumerations, the
  ranges of the column types) and those that look at other rows (\<open>UNIQUE\<close>, \<open>REFERENCES\<close>).
\<close>

record 'r table =
  t_rows :: "db \<Rightarrow> 'r list"
  t_put :: "'r list \<Rightarrow> db \<Rightarrow> db"
  t_key :: "'r \<Rightarrow> string"
  t_check :: "'r \<Rightarrow> bool"
  t_ref :: "db \<Rightarrow> 'r \<Rightarrow> bool"

definition is_bigint :: "u64 \<Rightarrow> bool" where
  "is_bigint x \<longleftrightarrow> unat x < 2 ^ 63"

definition is_int :: "u64 \<Rightarrow> bool" where
  "is_int x \<longleftrightarrow> unat x < 2 ^ 31"

definition is_block :: "u32 \<Rightarrow> bool" where
  "is_block x \<longleftrightarrow> unat x < 2 ^ 31"

text \<open>Evaluation compares binary integers, not natural numbers.\<close>

lemma bounds_code [code]:
  "is_bigint x \<longleftrightarrow> uint x < 0x8000000000000000" "is_int x \<longleftrightarrow> uint x < 0x80000000"
  "is_block y \<longleftrightarrow> uint y < 0x80000000"
  unfolding is_bigint_def is_int_def is_block_def unat_eq_nat_uint nat_less_iff [OF uint_ge_0] of_nat_power
  by simp_all

definition exists_row :: "('r \<Rightarrow> string) \<Rightarrow> 'r list \<Rightarrow> string \<Rightarrow> bool" where
  "exists_row key rs k \<longleftrightarrow> list_ex (\<lambda>r. key r = k) rs"

definition unique_in :: "('r \<Rightarrow> string) \<Rightarrow> ('r \<Rightarrow> string) \<Rightarrow> 'r list \<Rightarrow> 'r \<Rightarrow> bool" where
  "unique_in key col rs r \<longleftrightarrow> list_all (\<lambda>s. key s = key r \<or> col s \<noteq> col r) rs"

definition SettingTable :: "Setting table" where
  "SettingTable = \<lparr>t_rows = db_settings, t_put = (\<lambda>rs. db_settings_update (\<lambda>_. rs)), t_key = set_Key,
     t_check = (\<lambda>s. length (set_Name s) \<le> 30),
     t_ref = (\<lambda>d. unique_in set_Key set_Name (db_settings d))\<rparr>"

definition AccountTable :: "Account table" where
  "AccountTable = \<lparr>t_rows = db_accounts, t_put = (\<lambda>rs. db_accounts_update (\<lambda>_. rs)), t_key = acc_ID,
     t_check = (\<lambda>a. length (acc_EthAddr a) \<le> 40 \<and> length (acc_Name a) \<le> 30
        \<and> is_bigint (acc_PTCBalance a) \<and> is_bigint (acc_PSCBalance a) \<and> length (acc_EthBalance a) \<le> 32),
     t_ref = (\<lambda>d a. unique_in acc_ID acc_EthAddr (db_accounts d) a
        \<and> unique_in acc_ID acc_Name (db_accounts d) a)\<rparr>"

definition UserTable :: "User table" where
  "UserTable = \<lparr>t_rows = db_users, t_put = (\<lambda>rs. db_users_update (\<lambda>_. rs)), t_key = usr_ID,
     t_check = (\<lambda>u. length (usr_EthAddr u) \<le> 40),
     t_ref = (\<lambda>d. unique_in usr_ID usr_EthAddr (db_users d))\<rparr>"

definition TemplateTable :: "Template table" where
  "TemplateTable = \<lparr>t_rows = db_templates, t_put = (\<lambda>rs. db_templates_update (\<lambda>_. rs)), t_key = tpl_ID,
     t_check = (\<lambda>t. length (tpl_Hash t) \<le> 64 \<and> tpl_Kind t \<in> {TemplateOffer, TemplateAccess}),
     t_ref = (\<lambda>d. unique_in tpl_ID tpl_Hash (db_templates d))\<rparr>"

definition ProductTable :: "Product table" where
  "ProductTable = \<lparr>t_rows = db_products, t_put = (\<lambda>rs. db_products_update (\<lambda>_. rs)), t_key = prd_ID,
     t_check = (\<lambda>p. length (prd_Name p) \<le> 64 \<and> is_bigint (prd_Salt p) \<and> length (prd_Password p) \<le> 80
        \<and> prd_UsageRepType p \<in> {ProductUsageIncremental, ProductUsageTotal}
        \<and> prd_ClientIdent p = ''by_channel_id''),
     t_ref = (\<lambda>d p. (case prd_OfferTplID p of None \<Rightarrow> True | Some t \<Rightarrow> exists_row tpl_ID (db_templates d) t)
        \<and> (case prd_OfferAccessID p of None \<Rightarrow> True | Some t \<Rightarrow> exists_row tpl_ID (db_templates d) t))\<rparr>"

definition OfferingTable :: "Offering table" where
  "OfferingTable = \<lparr>t_rows = db_offerings, t_put = (\<lambda>rs. db_offerings_update (\<lambda>_. rs)), t_key = ofr_ID,
     t_check = (\<lambda>f. length (ofr_Hash f) \<le> 64 \<and> length (ofr_Agent f) \<le> 40
        \<and> 0 < ofr_BlockNumberUpdated f \<and> is_bigint (ofr_BlockNumberUpdated f)
        \<and> length (ofr_ServiceName f) \<le> 64 \<and> ofr_CurrentSupply f \<le> ofr_Supply f
        \<and> length (ofr_UnitName f) \<le> 10
        \<and> ofr_UnitType f \<in> {UnitScalar, UnitSeconds} \<and> ofr_BillingType f \<in> {BillingPrepaid, BillingPostpaid}
        \<and> is_bigint (ofr_SetupPrice f) \<and> is_bigint (ofr_UnitPrice f) \<and> is_bigint (ofr_MinUnits f)
        \<and> (case ofr_MaxUnit f of None \<Rightarrow> True | Some m \<Rightarrow> is_bigint m \<and> (m = 0 \<or> ofr_MinUnits f \<le> m))
        \<and> 0 < ofr_BillingInterval f \<and> is_int (ofr_BillingInterval f) \<and> is_int (ofr_MaxBillingUnitLag f)
        \<and> is_int (ofr_MaxSuspendTime f) \<and> 0 < ofr_MaxInactiveTimeSec f \<and> is_bigint (ofr_MaxInactiveTimeSec f)
        \<and> ofr_IPType f \<in> {''residential'', ''datacenter'', ''mobile''}),
     t_ref = (\<lambda>d f. unique_in ofr_ID ofr_Hash (db_offerings d) f
        \<and> exists_row tpl_ID (db_templates d) (ofr_Template f)
        \<and> exists_row prd_ID (db_products d) (ofr_Product f))\<rparr>"

definition ChannelTable :: "Channel table" where
  "ChannelTable = \<lparr>t_rows = db_channels, t_put = (\<lambda>rs. db_channels_update (\<lambda>_. rs)), t_key = ch_ID,
     t_check = (\<lambda>c. length (ch_Agent c) \<le> 40 \<and> length (ch_Client c) \<le> 40 \<and> is_block (ch_Block c)
        \<and> (case ch_ServiceStatus c of ServiceOther _ \<Rightarrow> False | _ \<Rightarrow> True)
        \<and> is_bigint (ch_TotalDeposit c) \<and> is_bigint (ch_Salt c) \<and> length (ch_Password c) \<le> 80
        \<and> is_bigint (ch_ReceiptBalance c)),
     t_ref = (\<lambda>d c. exists_row ofr_ID (db_offerings d) (ch_Offering c))\<rparr>"

definition SessionTable :: "Session table" where
  "SessionTable = \<lparr>t_rows = db_sessions, t_put = (\<lambda>rs. db_sessions_update (\<lambda>_. rs)), t_key = ses_ID,
     t_check = (\<lambda>s. is_bigint (ses_UnitsUsed s) \<and> is_bigint (ses_SecondsConsumed s)
        \<and> ses_ClientPort s \<noteq> Some 0),
     t_ref = (\<lambda>d s. exists_row ch_ID (db_channels d) (ses_Channel s))\<rparr>"

definition EndpointTable :: "Endpoint table" where
  "EndpointTable = \<lparr>t_rows = db_endpoints, t_put = (\<lambda>rs. db_endpoints_update (\<lambda>_. rs)), t_key = ep_ID,
     t_check = (\<lambda>e. length (ep_Hash e) \<le> 64
        \<and> (case ep_PaymentReceiverAddress e of None \<Rightarrow> True | Some a \<Rightarrow> length a \<le> 106)
        \<and> (case ep_ServiceEndpointAddress e of None \<Rightarrow> True | Some a \<Rightarrow> length a \<le> 106)
        \<and> (case ep_Username e of None \<Rightarrow> True | Some a \<Rightarrow> length a \<le> 100)
        \<and> (case ep_Password e of None \<Rightarrow> True | Some a \<Rightarrow> length a \<le> 48)),
     t_ref = (\<lambda>d e. exists_row tpl_ID (db_templates d) (ep_Template e)
        \<and> exists_row ch_ID (db_channels d) (ep_Channel e))\<rparr>"

definition JobTable :: "Job table" where
  "JobTable = \<lparr>t_rows = db_jobs, t_put = (\<lambda>rs. db_jobs_update (\<lambda>_. rs)), t_key = job_ID,
     t_check = (\<lambda>_. True), t_ref = (\<lambda>_ _. True)\<rparr>"

definition EthTxTable :: "EthTx table" where
  "EthTxTable = \<lparr>t_rows = db_ethtxs, t_put = (\<lambda>rs. db_ethtxs_update (\<lambda>_. rs)), t_key = tx_ID,
     t_check = (\<lambda>t. length (tx_Hash t) \<le> 64 \<and> length (tx_AddrFrom t) \<le> 40 \<and> length (tx_AddrTo t) \<le> 40
        \<and> 0 < tx_GasPrice t \<and> is_bigint (tx_GasPrice t) \<and> 0 < tx_Gas t \<and> is_bigint (tx_Gas t)),
     t_ref = (\<lambda>d t. case tx_JobID t of None \<Rightarrow> True | Some j \<Rightarrow> exists_row job_ID (db_jobs d) j)\<rparr>"

definition ClosingTable :: "Closing table" where
  "ClosingTable = \<lparr>t_rows = db_closings, t_put = (\<lambda>rs. db_closings_update (\<lambda>_. rs)), t_key = cl_ID,
     t_check = (\<lambda>c. length (cl_Agent c) \<le> 40 \<and> length (cl_Client c) \<le> 40 \<and> is_bigint (cl_Balance c)
        \<and> is_block (cl_Block c)),
     t_ref = (\<lambda>_ _. True)\<rparr>"

definition RatingTable :: "Rating table" where
  "RatingTable = \<lparr>t_rows = db_ratings, t_put = (\<lambda>rs. db_ratings_update (\<lambda>_. rs)), t_key = rt_EthAddr,
     t_check = (\<lambda>r. length (rt_EthAddr r) \<le> 40 \<and> is_bigint (rt_Val r)),
     t_ref = (\<lambda>_ _. True)\<rparr>"

named_theorems table_defs "the tables of the database"

lemmas all_tables [table_defs] =
  SettingTable_def AccountTable_def UserTable_def TemplateTable_def ProductTable_def
  OfferingTable_def ChannelTable_def SessionTable_def EndpointTable_def JobTable_def
  EthTxTable_def ClosingTable_def RatingTable_def

section \<open>The world\<close>

text \<open>
  What a routine can read and change: the committed database and the working copy of the open
  transaction, the schedule of database faults, the clock, and the supply of fresh identifiers
  (\<open>util.NewUUID\<close>). Components extend the record with what they keep in memory.
\<close>

record world =
  w_db :: db
  w_tx :: "db option"
  w_faults :: "bool list"
  w_now :: time
  w_uuid :: "nat \<Rightarrow> string"
  w_uuids :: nat

type_synonym ('z, 'a) dbcmd = "('z world_scheme, go_error, 'a) cmd"

datatype querier = Conn | Tx

definition view :: "querier \<Rightarrow> 'z world_scheme \<Rightarrow> db" where
  "view q w = (case q of Conn \<Rightarrow> w_db w | Tx \<Rightarrow> (case w_tx w of None \<Rightarrow> w_db w | Some d \<Rightarrow> d))"

definition write_db :: "querier \<Rightarrow> (db \<Rightarrow> db) \<Rightarrow> 'z world_scheme \<Rightarrow> 'z world_scheme" where
  "write_db q f w = (case q of
     Conn \<Rightarrow> w\<lparr>w_db := f (w_db w), w_tx := map_option f (w_tx w)\<rparr>
   | Tx \<Rightarrow> w\<lparr>w_tx := map_option f (w_tx w)\<rparr>)"

text \<open>Every call first consults the schedule; past its end, calls succeed.\<close>

definition db_call :: "querier \<Rightarrow> ('z, unit) dbcmd" where
  "db_call q w = (if w_faults w \<noteq> [] \<and> hd (w_faults w) then Inl DBFail
     else if q = Tx \<and> w_tx w = None then Inl TxDone
     else Inr (), w\<lparr>w_faults := tl (w_faults w)\<rparr>)"

definition now :: "('z, time) dbcmd" where
  "now = getC w_now"

definition new_uuid :: "('z, string) dbcmd" where
  "new_uuid w = (Inr (w_uuid w (w_uuids w)), w\<lparr>w_uuids := Suc (w_uuids w)\<rparr>)"

section \<open>Operations\<close>

definition rows :: "'r table \<Rightarrow> querier \<Rightarrow> 'z world_scheme \<Rightarrow> 'r list" where
  "rows T q w = t_rows T (view q w)"

definition find_pk :: "'r table \<Rightarrow> querier \<Rightarrow> string \<Rightarrow> ('z, 'r) dbcmd" where
  "find_pk T q k = thenC (db_call q)
     (bindC (getC (\<lambda>w. find (\<lambda>r. t_key T r = k) (rows T q w))) (of_option NoRows))"

definition select_one :: "'r table \<Rightarrow> querier \<Rightarrow> ('r \<Rightarrow> bool) \<Rightarrow> ('z, 'r) dbcmd" where
  "select_one T q P = thenC (db_call q) (bindC (getC (\<lambda>w. find P (rows T q w))) (of_option NoRows))"

definition select_all :: "'r table \<Rightarrow> querier \<Rightarrow> ('r \<Rightarrow> bool) \<Rightarrow> ('z, 'r list) dbcmd" where
  "select_all T q P = thenC (db_call q) (getC (\<lambda>w. filter P (rows T q w)))"

text \<open>A query over the whole database (joins, counts, sub-selects).\<close>

definition query :: "querier \<Rightarrow> (db \<Rightarrow> 'a) \<Rightarrow> ('z, 'a) dbcmd" where
  "query q f = thenC (db_call q) (getC (\<lambda>w. f (view q w)))"

definition row_ok :: "'r table \<Rightarrow> db \<Rightarrow> 'r \<Rightarrow> bool" where
  "row_ok T d r \<longleftrightarrow> t_check T r \<and> t_ref T d r"

definition insert_row :: "'r table \<Rightarrow> querier \<Rightarrow> 'r \<Rightarrow> ('z, unit) dbcmd" where
  "insert_row T q r = thenC (db_call q) (bindC (getC (view q)) (\<lambda>d.
     thenC (guardC (\<not> exists_row (t_key T) (t_rows T d) (t_key T r) \<and> row_ok T d r) Violation)
       (modC (write_db q (\<lambda>d. t_put T (t_rows T d @ [r]) d)))))"

definition replace :: "('r \<Rightarrow> string) \<Rightarrow> 'r \<Rightarrow> 'r list \<Rightarrow> 'r list" where
  "replace key r rs = map (\<lambda>s. if key s = key r then r else s) rs"

definition update_row :: "'r table \<Rightarrow> querier \<Rightarrow> 'r \<Rightarrow> ('z, unit) dbcmd" where
  "update_row T q r = thenC (db_call q) (bindC (getC (view q)) (\<lambda>d.
     thenC (guardC (exists_row (t_key T) (t_rows T d) (t_key T r)) NoRows)
       (thenC (guardC (row_ok T d r) Violation)
         (modC (write_db q (\<lambda>d. t_put T (replace (t_key T) r (t_rows T d)) d))))))"

definition save_row :: "'r table \<Rightarrow> querier \<Rightarrow> 'r \<Rightarrow> ('z, unit) dbcmd" where
  "save_row T q r = handleC (update_row T q r)
     (\<lambda>e. if e = NoRows then insert_row T q r else fail e) ret"

text \<open>\<open>UPDATE t SET f WHERE P\<close>, whole or not at all, returning the number of rows changed.\<close>

definition exec_update :: "'r table \<Rightarrow> querier \<Rightarrow> ('r \<Rightarrow> bool) \<Rightarrow> ('r \<Rightarrow> 'r) \<Rightarrow> ('z, nat) dbcmd" where
  "exec_update T q P f = thenC (db_call q) (bindC (getC (view q)) (\<lambda>d.
     thenC (guardC (list_all (\<lambda>r. P r \<longrightarrow> row_ok T d (f r)) (t_rows T d)) Violation)
       (thenC (modC (write_db q (\<lambda>d. t_put T (map (\<lambda>r. if P r then f r else r) (t_rows T d)) d)))
         (ret (length (filter P (t_rows T d)))))))"

definition exec_delete :: "'r table \<Rightarrow> querier \<Rightarrow> ('r \<Rightarrow> bool) \<Rightarrow> ('z, unit) dbcmd" where
  "exec_delete T q P = thenC (db_call q)
     (modC (write_db q (\<lambda>d. t_put T (filter (\<lambda>r. \<not> P r) (t_rows T d)) d)))"

section \<open>Transactions\<close>

definition begin_tx :: "('z, unit) dbcmd" where
  "begin_tx = thenC (db_call Conn) (modC (\<lambda>w. w\<lparr>w_tx := Some (w_db w)\<rparr>))"

definition rollback_tx :: "('z, unit) dbcmd" where
  "rollback_tx = modC (\<lambda>w. w\<lparr>w_tx := None\<rparr>)"

text \<open>A commit that fails leaves the database as it was and ends the transaction.\<close>

definition commit_tx :: "('z, unit) dbcmd" where
  "commit_tx w = (case db_call Tx w of
     (Inl e, w') \<Rightarrow> (Inl e, w'\<lparr>w_tx := None\<rparr>)
   | (Inr _, w') \<Rightarrow> (Inr (), w'\<lparr>w_db := view Tx w', w_tx := None\<rparr>))"

text \<open>\<open>db.InTransaction(f)\<close>.\<close>

definition in_tx :: "('z, 'a) dbcmd \<Rightarrow> ('z, 'a) dbcmd" where
  "in_tx f = thenC begin_tx
     (handleC f (\<lambda>e. thenC rollback_tx (fail e)) (\<lambda>x. thenC commit_tx (ret x)))"

section \<open>How the operations run\<close>

lemma view_tx_open [simp]: "w_tx w = Some d \<Longrightarrow> view Tx w = d"
  by (simp add: view_def)

lemma view_Conn [simp]: "view Conn w = w_db w"
  by (simp add: view_def)

lemma db_call_state: "db_call q w = (r, w') \<Longrightarrow> \<exists>bs. w' = w\<lparr>w_faults := bs\<rparr>"
  by (auto simp: db_call_def)

lemma no_more_faults [simp]: "w_faults w = [] \<Longrightarrow> w\<lparr>w_faults := []\<rparr> = w"
  by (cases w) simp

lemma db_call_no_fault [simp]:
  "w_faults w = [] \<Longrightarrow> q = Conn \<or> w_tx w \<noteq> None \<Longrightarrow> db_call q w = (Inr (), w)"
  by (auto simp: db_call_def)

lemma view_faults [simp]: "view q (w\<lparr>w_faults := bs\<rparr>) = view q w"
  by (auto simp: view_def split: querier.splits option.splits)

lemma db_call_view: "db_call q' w = (r, w') \<Longrightarrow> view q w' = view q w"
  by (auto dest!: db_call_state)

lemma db_call_ok: "db_call q w = (Inr (), w') \<Longrightarrow> view q w' = view q w"
  by (rule db_call_view)

lemma find_pk_run [run]:
  "find_pk T q k w = (Inr r, w') \<longleftrightarrow>
     db_call q w = (Inr (), w') \<and> find (\<lambda>r. t_key T r = k) (t_rows T (view q w)) = Some r"
  by (auto simp: find_pk_def run rows_def db_call_ok)

lemma select_one_run [run]:
  "select_one T q P w = (Inr r, w') \<longleftrightarrow>
     db_call q w = (Inr (), w') \<and> find P (t_rows T (view q w)) = Some r"
  by (auto simp: select_one_def run rows_def db_call_ok)

lemma db_call_error: "db_call q w = (Inl e, w') \<Longrightarrow> e = DBFail \<or> e = TxDone"
  by (auto simp: db_call_def split: if_splits)

lemma find_pk_NoRows [run]:
  "find_pk T q k w = (Inl NoRows, w') \<longleftrightarrow>
     db_call q w = (Inr (), w') \<and> find (\<lambda>r. t_key T r = k) (t_rows T (view q w)) = None"
  by (auto simp: find_pk_def run rows_def db_call_ok dest: db_call_error)

lemma select_one_NoRows [run]:
  "select_one T q P w = (Inl NoRows, w') \<longleftrightarrow>
     db_call q w = (Inr (), w') \<and> find P (t_rows T (view q w)) = None"
  by (auto simp: select_one_def run rows_def db_call_ok dest: db_call_error)

lemma select_all_run [run]:
  "select_all T q P w = (Inr rs, w') \<longleftrightarrow>
     db_call q w = (Inr (), w') \<and> rs = filter P (t_rows T (view q w))"
  by (auto simp: select_all_def run rows_def db_call_ok)

lemma query_run [run]:
  "query q f w = (Inr x, w') \<longleftrightarrow> db_call q w = (Inr (), w') \<and> x = f (view q w)"
  by (auto simp: query_def run db_call_ok)

lemma now_run [run]: "now w = (r, w') \<longleftrightarrow> r = Inr (w_now w) \<and> w' = w"
  by (auto simp: now_def run)

lemma new_uuid_run [run]:
  "new_uuid w = (r, w') \<longleftrightarrow> r = Inr (w_uuid w (w_uuids w)) \<and> w' = w\<lparr>w_uuids := Suc (w_uuids w)\<rparr>"
  by (auto simp: new_uuid_def)

lemma insert_row_run:
  "insert_row T q r w = (Inr u, w') \<longleftrightarrow> (\<exists>v. db_call q w = (Inr (), v)
     \<and> \<not> exists_row (t_key T) (t_rows T (view q w)) (t_key T r) \<and> row_ok T (view q w) r
     \<and> w' = write_db q (\<lambda>d. t_put T (t_rows T d @ [r]) d) v)"
  by (auto simp: insert_row_def run db_call_ok split: if_splits)

lemma update_row_run:
  "update_row T q r w = (Inr u, w') \<longleftrightarrow> (\<exists>v. db_call q w = (Inr (), v)
     \<and> exists_row (t_key T) (t_rows T (view q w)) (t_key T r) \<and> row_ok T (view q w) r
     \<and> w' = write_db q (\<lambda>d. t_put T (replace (t_key T) r (t_rows T d)) d) v)"
  by (auto simp: update_row_def run db_call_ok split: if_splits)

lemma exec_update_run:
  "exec_update T q P f w = (Inr n, w') \<longleftrightarrow> (\<exists>v. db_call q w = (Inr (), v)
     \<and> list_all (\<lambda>r. P r \<longrightarrow> row_ok T (view q w) (f r)) (t_rows T (view q w))
     \<and> w' = write_db q (\<lambda>d. t_put T (map (\<lambda>r. if P r then f r else r) (t_rows T d)) d) v
     \<and> n = length (filter P (t_rows T (view q w))))"
  by (auto simp: exec_update_def run db_call_ok split: if_splits)

text \<open>An operation that fails has changed nothing.\<close>

lemma failed_op:
  "find_pk T q k w = (Inl e, w') \<Longrightarrow> \<exists>bs. w' = w\<lparr>w_faults := bs\<rparr>"
  "select_one T q P w = (Inl e, w') \<Longrightarrow> \<exists>bs. w' = w\<lparr>w_faults := bs\<rparr>"
  "insert_row T q r w = (Inl e, w') \<Longrightarrow> \<exists>bs. w' = w\<lparr>w_faults := bs\<rparr>"
  "update_row T q r w = (Inl e, w') \<Longrightarrow> \<exists>bs. w' = w\<lparr>w_faults := bs\<rparr>"
  "exec_update T q P f w = (Inl e, w') \<Longrightarrow> \<exists>bs. w' = w\<lparr>w_faults := bs\<rparr>"
  by (auto simp: find_pk_def select_one_def insert_row_def update_row_def exec_update_def run
      dest: db_call_state split: if_splits)

section \<open>What operations leave unchanged\<close>

text \<open>
  An effect that does not look at the fault schedule and at the supply of identifiers is kept by
  every operation that only reads.
\<close>

locale db_effect = effect_order R for R :: "'z world_scheme \<Rightarrow> 'z world_scheme \<Rightarrow> bool" +
  assumes faults: "R w (w\<lparr>w_faults := bs\<rparr>)"
    and uuids: "R w (w\<lparr>w_uuids := n\<rparr>)"
begin

lemma keeps_db_call: "keeps R (db_call q)"
  by (rule stepsI) (auto dest!: db_call_state simp: faults)

lemma keeps_reads:
  "keeps R (find_pk T q k)" "keeps R (select_one T q P)" "keeps R (select_all T q P)"
  "keeps R (query q f)" "keeps R now" "keeps R new_uuid"
  unfolding find_pk_def select_one_def select_all_def query_def now_def
  by (intro keeps_thenC keeps_bindC keeps_db_call keeps_rules)+ (simp add: steps_def new_uuid_def uuids)

lemma keeps_write:
  assumes "\<And>w f. R w (write_db q f w)"
  shows "keeps R (insert_row T q r)" "keeps R (update_row T q r)" "keeps R (save_row T q r)"
    "keeps R (exec_update T q P g)" "keeps R (exec_delete T q P)"
proof -
  have w: "keeps R (modC (write_db q f))" for f
    by (rule steps_modC) (simp add: assms)
  show ins: "keeps R (insert_row T q r)" and upd: "keeps R (update_row T q r)"
    and "keeps R (exec_update T q P g)" "keeps R (exec_delete T q P)"
    unfolding insert_row_def update_row_def exec_update_def exec_delete_def
    by (intro keeps_thenC keeps_bindC keeps_db_call keeps_rules w)+
  show "keeps R (save_row T q r)" unfolding save_row_def
    by (intro keeps_handleC keeps_rules upd) (auto intro: keeps_rules ins)
qed

end

text \<open>The committed database is not changed by what a transaction does before it commits.\<close>

definition same_db :: "'z world_scheme \<Rightarrow> 'z world_scheme \<Rightarrow> bool" where
  "same_db w w' \<longleftrightarrow> w_db w' = w_db w"

interpretation same_db: db_effect same_db
  by unfold_locales (auto simp: same_db_def)

lemma same_db_write_Tx: "same_db w (write_db Tx f w)"
  by (simp add: same_db_def write_db_def)

lemmas keeps_tx_write = same_db.keeps_write [of Tx, OF same_db_write_Tx]

lemmas keeps_same_db =
  same_db.keeps_reads keeps_tx_write same_db.keeps_rules
  same_db.keeps_bindC same_db.keeps_thenC same_db.keeps_whenC same_db.keeps_eachC
  same_db.keeps_mapC same_db.keeps_handleC same_db.keeps_ignoreC same_db.steps_on_err

lemma in_tx_error:
  assumes "keeps same_db f" and "in_tx f w = (Inl e, w')"
  shows "w_db w' = w_db w"
proof -
  have opened: "w_db t = w_db w" if "begin_tx w = (r, t)" for r t
    using that by (auto simp: begin_tx_def thenC_def bindC_def modC_def
        split: prod.splits sum.splits dest!: db_call_state)
  have body: "w_db t = w_db s" if "f s = (r, t)" for s r t
    using keepsD [OF assms(1), of s] that by (simp add: same_db_def)
  have commit: "w_db t = w_db s" if "commit_tx s = (Inl e, t)" for s t
    using that by (auto simp: commit_tx_def split: prod.splits sum.splits dest!: db_call_state)
  show ?thesis
    using assms(2)
    by (auto simp: in_tx_def rollback_tx_def run dest!: opened body commit)
qed

text \<open>A transaction that succeeds has run on the committed database and replaced it.\<close>

lemma in_tx_success:
  assumes "in_tx f w = (Inr x, w')"
  obtains bs v where "f (w\<lparr>w_faults := bs, w_tx := Some (w_db w)\<rparr>) = (Inr x, v)"
    "w_db w' = view Tx v" "w_tx w' = None"
proof -
  from assms obtain u v where u: "begin_tx w = (Inr (), u)" and f: "f u = (Inr x, v)"
    and c: "commit_tx v = (Inr (), w')"
    by (auto simp: in_tx_def run)
  from u obtain bs where "u = w\<lparr>w_faults := bs, w_tx := Some (w_db w)\<rparr>"
    by (auto simp: begin_tx_def run dest!: db_call_state)
  moreover from c have "w_db w' = view Tx v" "w_tx w' = None"
    by (auto simp: commit_tx_def db_call_ok split: prod.splits sum.splits)
  ultimately show ?thesis using that f by blast
qed

lemma commit_tx_closed: "commit_tx w = (r, w') \<Longrightarrow> w_tx w' = None"
  by (auto simp: commit_tx_def split: prod.splits sum.splits)

lemma in_tx_closed: "in_tx f w = (r, w') \<Longrightarrow> w_tx w = None \<Longrightarrow> w_tx w' = None"
  by (cases r) (auto simp: in_tx_def begin_tx_def rollback_tx_def run
      dest!: db_call_state commit_tx_closed)

section \<open>Integrity\<close>

text \<open>Primary keys are unique and every row passes its checks, in every table.\<close>

definition table_ok :: "'r table \<Rightarrow> db \<Rightarrow> bool" where
  "table_ok T d \<longleftrightarrow> distinct (map (t_key T) (t_rows T d)) \<and> list_all (t_check T) (t_rows T d)"

definition db_ok :: "db \<Rightarrow> bool" where
  "db_ok d \<longleftrightarrow> table_ok SettingTable d \<and> table_ok AccountTable d \<and> table_ok UserTable d
     \<and> table_ok TemplateTable d \<and> table_ok ProductTable d \<and> table_ok OfferingTable d
     \<and> table_ok ChannelTable d \<and> table_ok SessionTable d \<and> table_ok EndpointTable d
     \<and> table_ok JobTable d \<and> table_ok EthTxTable d \<and> table_ok ClosingTable d
     \<and> table_ok RatingTable d"

definition world_ok :: "'z world_scheme \<Rightarrow> bool" where
  "world_ok w \<longleftrightarrow> db_ok (w_db w) \<and> (\<forall>d. w_tx w = Some d \<longrightarrow> db_ok d)"

text \<open>The contract of a table: reading back what was put, and being one of the tables of \<open>db_ok\<close>.\<close>

locale db_table =
  fixes T :: "'r table"
  assumes rows_put [simp]: "t_rows T (t_put T rs d) = rs"
    and put_rows [simp]: "t_put T (t_rows T d) d = d"
    and put_put [simp]: "t_put T rs (t_put T rs' d) = t_put T rs d"
    and ok_put: "db_ok d \<Longrightarrow> table_ok T (t_put T rs d) \<Longrightarrow> db_ok (t_put T rs d)"
    and ok_table: "db_ok d \<Longrightarrow> table_ok T d"
begin

lemma ok_append:
  assumes "db_ok d" "\<not> exists_row (t_key T) (t_rows T d) (t_key T r)" "t_check T r"
  shows "db_ok (t_put T (t_rows T d @ [r]) d)"
  using assms ok_table [OF assms(1)]
  by (intro ok_put) (auto simp: table_ok_def exists_row_def list_ex_iff)

lemma ok_map:
  assumes "db_ok d" "\<And>r. t_key T (f r) = t_key T r"
    "\<And>r. r \<in> set (t_rows T d) \<Longrightarrow> t_check T r \<Longrightarrow> t_check T (f r)"
  shows "db_ok (t_put T (map f (t_rows T d)) d)"
  using assms ok_table [OF assms(1)]
  by (intro ok_put) (auto simp: table_ok_def list_all_iff comp_def)

lemma ok_replace:
  assumes "db_ok d" "t_check T r"
  shows "db_ok (t_put T (replace (t_key T) r (t_rows T d)) d)"
  using assms unfolding replace_def by (intro ok_map) auto

lemma ok_filter: "db_ok d \<Longrightarrow> db_ok (t_put T (filter P (t_rows T d)) d)"
  by (frule ok_table, intro ok_put)
    (auto simp: table_ok_def list_all_iff distinct_map inj_on_def)

end

lemma table_ok_put [simp]:
  "table_ok T (t_put T rs d) = (distinct (map (t_key T) rs) \<and> list_all (t_check T) rs)"
  if "t_rows T (t_put T rs d) = rs"
  using that by (simp add: table_ok_def)

interpretation SettingTable: db_table SettingTable
  by unfold_locales (simp_all add: db_ok_def table_ok_def table_defs)
interpretation AccountTable: db_table AccountTable
  by unfold_locales (simp_all add: db_ok_def table_ok_def table_defs)
interpretation UserTable: db_table UserTable
  by unfold_locales (simp_all add: db_ok_def table_ok_def table_defs)
interpretation TemplateTable: db_table TemplateTable
  by unfold_locales (simp_all add: db_ok_def table_ok_def table_defs)
interpretation ProductTable: db_table ProductTable
  by unfold_locales (simp_all add: db_ok_def table_ok_def table_defs)
interpretation OfferingTable: db_table OfferingTable
  by unfold_locales (simp_all add: db_ok_def table_ok_def table_defs)
interpretation ChannelTable: db_table ChannelTable
  by unfold_locales (simp_all add: db_ok_def table_ok_def table_defs)
interpretation SessionTable: db_table SessionTable
  by unfold_locales (simp_all add: db_ok_def table_ok_def table_defs)
interpretation EndpointTable: db_table EndpointTable
  by unfold_locales (simp_all add: db_ok_def table_ok_def table_defs)
interpretation JobTable: db_table JobTable
  by unfold_locales (simp_all add: db_ok_def table_ok_def table_defs)
interpretation EthTxTable: db_table EthTxTable
  by unfold_locales (simp_all add: db_ok_def table_ok_def table_defs)
interpretation ClosingTable: db_table ClosingTable
  by unfold_locales (simp_all add: db_ok_def table_ok_def table_defs)
interpretation RatingTable: db_table RatingTable
  by unfold_locales (simp_all add: db_ok_def table_ok_def table_defs)

section \<open>Reading back\<close>

definition lookup :: "'r table \<Rightarrow> db \<Rightarrow> string \<Rightarrow> 'r option" where
  "lookup T d k = find (\<lambda>r. t_key T r = k) (t_rows T d)"

lemma find_replace:
  "exists_row key rs (key r) \<Longrightarrow>
     find (\<lambda>s. key s = k) (replace key r rs) = (if k = key r then Some r else find (\<lambda>s. key s = k) rs)"
proof -
  assume ex: "exists_row key rs (key r)"
  have "find (\<lambda>s. key s = k) (replace key r rs) = find (\<lambda>s. key s = k) rs" if "k \<noteq> key r"
    using that by (induction rs) (auto simp: replace_def)
  moreover have "find (\<lambda>s. key s = key r) (replace key r rs) = Some r"
    using ex by (induction rs) (auto simp: replace_def exists_row_def)
  ultimately show ?thesis by simp
qed

lemma map_key_replace [simp]: "map key (replace key r rs) = map key rs"
  by (simp add: replace_def)

lemma find_append_new:
  "\<not> exists_row key rs (key r) \<Longrightarrow>
     find (\<lambda>s. key s = k) (rs @ [r]) = (if k = key r then Some r else find (\<lambda>s. key s = k) rs)"
  by (induction rs) (auto simp: exists_row_def)

lemma find_map_if:
  "(\<And>r. key (f r) = key r) \<Longrightarrow>
     find (\<lambda>s. key s = k) (map (\<lambda>r. if P r then f r else r) rs)
       = map_option (\<lambda>r. if P r then f r else r) (find (\<lambda>s. key s = k) rs)"
  by (induction rs) auto

lemma write_Conn [simp]: "w_db (write_db Conn f w) = f (w_db w)"
  by (simp add: write_db_def)

lemma write_Tx [simp]: "w_db (write_db Tx f w) = w_db w"
  by (simp add: write_db_def)

lemma write_tx [simp]: "w_tx (write_db q f w) = map_option f (w_tx w)"
  by (simp add: write_db_def split: querier.splits)

lemma write_Tx_open: "w_tx w = Some d \<Longrightarrow> write_db Tx f w = w\<lparr>w_tx := Some (f d)\<rparr>"
  by (simp add: write_db_def)

lemma view_write: "q = Tx \<longrightarrow> w_tx w \<noteq> None \<Longrightarrow> view q (write_db q f w) = f (view q w)"
  by (auto simp: write_db_def view_def split: querier.splits option.splits)

lemma db_call_tx: "db_call Tx w = (Inr (), v) \<Longrightarrow> w_tx w \<noteq> None"
  by (auto simp: db_call_def split: if_splits)

lemma db_call_open: "db_call q w = (Inr (), v) \<Longrightarrow> q = Tx \<longrightarrow> w_tx v \<noteq> None"
  by (cases q) (auto simp: db_call_def split: if_splits)

context db_table
begin

lemma insert_view:
  assumes "insert_row T q r w = (Inr u, w')"
  shows "view q w' = t_put T (t_rows T (view q w) @ [r]) (view q w)"
    "\<not> exists_row (t_key T) (t_rows T (view q w)) (t_key T r)"
  using assms by (auto simp: insert_row_run view_write db_call_open db_call_ok)

lemma update_view:
  assumes "update_row T q r w = (Inr u, w')"
  shows "view q w' = t_put T (replace (t_key T) r (t_rows T (view q w))) (view q w)"
    "exists_row (t_key T) (t_rows T (view q w)) (t_key T r)"
  using assms by (auto simp: update_row_run view_write db_call_open db_call_ok)

lemma exec_update_view:
  assumes "exec_update T q P f w = (Inr n, w')"
  shows "view q w' = t_put T (map (\<lambda>r. if P r then f r else r) (t_rows T (view q w))) (view q w)"
  using assms by (auto simp: exec_update_run view_write db_call_open db_call_ok)

lemma lookup_insert:
  "insert_row T q r w = (Inr u, w') \<Longrightarrow>
     lookup T (view q w') k = (if k = t_key T r then Some r else lookup T (view q w) k)"
  using insert_view [of q r w u w'] by (simp add: lookup_def find_append_new)

lemma lookup_update:
  "update_row T q r w = (Inr u, w') \<Longrightarrow>
     lookup T (view q w') k = (if k = t_key T r then Some r else lookup T (view q w) k)"
  using update_view [of q r w u w'] by (simp add: lookup_def find_replace)

lemma lookup_exec_update:
  "exec_update T q P f w = (Inr n, w') \<Longrightarrow> (\<And>r. t_key T (f r) = t_key T r) \<Longrightarrow>
     lookup T (view q w') k = map_option (\<lambda>r. if P r then f r else r) (lookup T (view q w) k)"
  using exec_update_view [of q P f w n w'] by (simp add: lookup_def find_map_if)

lemma lookup_save:
  assumes "save_row T q r w = (Inr u, w')"
  shows "lookup T (view q w') k = (if k = t_key T r then Some r else lookup T (view q w) k)"
proof -
  from assms consider "update_row T q r w = (Inr u, w')"
    | e v where "update_row T q r w = (Inl e, v)" "insert_row T q r v = (Inr u, w')"
    by (auto simp: save_row_def run split: if_splits)
  then show ?thesis
  proof cases
    case 1
    then show ?thesis by (rule lookup_update)
  next
    case 2
    then have "view q v = view q w" by (auto dest: failed_op)
    with lookup_insert [OF 2(2)] show ?thesis by simp
  qed
qed

end

section \<open>Runs without faults\<close>

text \<open>\<open>can_call q w\<close>: no fault is scheduled, and the querier's transaction is open if it needs one.\<close>

definition can_call :: "querier \<Rightarrow> 'z world_scheme \<Rightarrow> bool" where
  "can_call q w \<longleftrightarrow> w_faults w = [] \<and> (q = Conn \<or> w_tx w \<noteq> None)"

lemma can_call_simps [simp]:
  "can_call q (w\<lparr>w_uuids := n\<rparr>) = can_call q w" "can_call q (write_db q' f w) = can_call q w"
  "can_call Conn w \<longleftrightarrow> w_faults w = []" "can_call Tx w \<longleftrightarrow> w_faults w = [] \<and> w_tx w \<noteq> None"
  by (auto simp: can_call_def write_db_def split: querier.splits)

lemma db_call_can: "can_call q w \<Longrightarrow> db_call q w = (Inr (), w)"
  by (auto simp: can_call_def)

named_theorems ok_run "what the operations do when no fault occurs"

lemma find_pk_ok [ok_run]:
  "can_call q w \<Longrightarrow> find_pk T q k w =
     ((case find (\<lambda>r. t_key T r = k) (t_rows T (view q w)) of None \<Rightarrow> Inl NoRows | Some r \<Rightarrow> Inr r), w)"
  by (simp add: find_pk_def thenC_def bindC_def db_call_can getC_def of_option_def fail_def ret_def
      rows_def split: option.splits)

lemma select_one_ok [ok_run]:
  "can_call q w \<Longrightarrow> select_one T q P w =
     ((case find P (t_rows T (view q w)) of None \<Rightarrow> Inl NoRows | Some r \<Rightarrow> Inr r), w)"
  by (simp add: select_one_def thenC_def bindC_def db_call_can getC_def of_option_def fail_def ret_def
      rows_def split: option.splits)

lemma select_all_ok [ok_run]:
  "can_call q w \<Longrightarrow> select_all T q P w = (Inr (filter P (t_rows T (view q w))), w)"
  by (simp add: select_all_def thenC_def bindC_def db_call_can getC_def rows_def)

lemma query_ok [ok_run]: "can_call q w \<Longrightarrow> query q f w = (Inr (f (view q w)), w)"
  by (simp add: query_def thenC_def bindC_def db_call_can getC_def)

lemma insert_row_ok [ok_run]:
  "can_call q w \<Longrightarrow> insert_row T q r w =
     (if \<not> exists_row (t_key T) (t_rows T (view q w)) (t_key T r) \<and> row_ok T (view q w) r
      then (Inr (), write_db q (\<lambda>d. t_put T (t_rows T d @ [r]) d) w) else (Inl Violation, w))"
  by (simp add: insert_row_def thenC_def bindC_def db_call_can getC_def guardC_def modC_def ret_def fail_def)

lemma update_row_ok [ok_run]:
  "can_call q w \<Longrightarrow> update_row T q r w =
     (if \<not> exists_row (t_key T) (t_rows T (view q w)) (t_key T r) then (Inl NoRows, w)
      else if row_ok T (view q w) r
      then (Inr (), write_db q (\<lambda>d. t_put T (replace (t_key T) r (t_rows T d)) d) w) else (Inl Violation, w))"
  by (simp add: update_row_def thenC_def bindC_def db_call_can getC_def guardC_def modC_def ret_def fail_def)

lemma exec_update_ok [ok_run]:
  "can_call q w \<Longrightarrow> exec_update T q P f w =
     (if list_all (\<lambda>r. P r \<longrightarrow> row_ok T (view q w) (f r)) (t_rows T (view q w))
      then (Inr (length (filter P (t_rows T (view q w)))),
            write_db q (\<lambda>d. t_put T (map (\<lambda>r. if P r then f r else r) (t_rows T d)) d) w)
      else (Inl Violation, w))"
  by (simp add: exec_update_def thenC_def bindC_def db_call_can getC_def guardC_def modC_def ret_def fail_def)

lemma begin_tx_ok [ok_run]: "w_faults w = [] \<Longrightarrow> begin_tx w = (Inr (), w\<lparr>w_tx := Some (w_db w)\<rparr>)"
  by (simp add: begin_tx_def thenC_def bindC_def db_call_can modC_def)

lemma commit_tx_ok [ok_run]:
  "can_call Tx w \<Longrightarrow> commit_tx w = (Inr (), w\<lparr>w_db := view Tx w, w_tx := None\<rparr>)"
  by (simp add: commit_tx_def db_call_can)

lemma in_tx_ok:
  assumes "w_faults w = []" "f (w\<lparr>w_tx := Some (w_db w)\<rparr>) = (Inr x, v)" "can_call Tx v"
  shows "in_tx f w = (Inr x, v\<lparr>w_db := view Tx v, w_tx := None\<rparr>)"
  using assms by (simp add: in_tx_def thenC_def bindC_def handleC_def begin_tx_ok commit_tx_ok ret_def
      del: can_call_simps)

text \<open>The definitions that run a command on a concrete world.\<close>

lemmas exec_defs =
  cmd_operator_defs view_def write_db_def db_call_def now_def new_uuid_def rows_def find_pk_def
  select_one_def select_all_def query_def insert_row_def update_row_def save_row_def
  exec_update_def exec_delete_def begin_tx_def rollback_tx_def commit_tx_def in_tx_def
  replace_def exists_row_def unique_in_def row_ok_def Let_def

section \<open>A world to start from\<close>

text \<open>A database with no rows, and a world without faults and open transaction.\<close>

definition empty_db :: db where
  "empty_db = \<lparr>db_settings = [], db_accounts = [], db_users = [], db_templates = [], db_products = [],
     db_offerings = [], db_channels = [], db_sessions = [], db_endpoints = [], db_jobs = [],
     db_ethtxs = [], db_closings = [], db_ratings = []\<rparr>"

definition initial_world :: "db \<Rightarrow> time \<Rightarrow> world" where
  "initial_world d t = \<lparr>w_db = d, w_tx = None, w_faults = [], w_now = t,
     w_uuid = (\<lambda>n. replicate (Suc n) CHR ''u''), w_uuids = 0\<rparr>"

end
