(* ===== verification/Json.thy ===== *)
theory Json
  imports Types
begin

text \<open>
  The documents stored with jobs (\<open>src/data/jobs.go\<close>): the Go structures, how \<open>encoding/json\<close>
  writes them, and how it reads them back. A member is matched by its name up to letter case and
  the last match wins; a missing member or \<open>null\<close> leaves the zero value; a member of the wrong
  kind leaves the zero value and makes the whole decoding report an error, which the second
  component of a decoder's result being \<open>False\<close> stands for.
\<close>

section \<open>Members\<close>

definition lower_char :: "char \<Rightarrow> char" where
  "lower_char c = (let n = (of_char c :: nat) in if 65 \<le> n \<and> n \<le> 90 then char_of (n + 32) else c)"

definition same_name :: "string \<Rightarrow> string \<Rightarrow> bool" where
  "same_name a b \<longleftrightarrow> map lower_char a = map lower_char b"

fun member :: "string \<Rightarrow> (string \<times> json) list \<Rightarrow> json option" where
  "member k [] = None"
| "member k ((n, v) # ms) = (case member k ms of None \<Rightarrow> (if same_name k n then Some v else None) | r \<Rightarrow> r)"

text \<open>The operators \<open>->\<close> and \<open>->>\<close> of PostgreSQL; \<open>None\<close> is the SQL \<open>NULL\<close>.\<close>

definition sql_get :: "string \<Rightarrow> json option \<Rightarrow> json option" where
  "sql_get k j = (case j of Some (JObj ms) \<Rightarrow> map_of (rev ms) k | _ \<Rightarrow> None)"

definition sql_text :: "json option \<Rightarrow> string option" where
  "sql_text j = (case j of Some (JStr s) \<Rightarrow> Some s | _ \<Rightarrow> None)"

section \<open>Scalars\<close>

type_synonym 'a decoder = "json option \<Rightarrow> 'a \<times> bool"

definition dec_u64 :: "u64 decoder" where
  "dec_u64 j = (case j of
     None \<Rightarrow> (0, True) | Some JNull \<Rightarrow> (0, True)
   | Some (JNum n) \<Rightarrow> (if 0 \<le> n \<and> n < 2 ^ 64 then (word_of_int n, True) else (0, False))
   | _ \<Rightarrow> (0, False))"

definition dec_u32 :: "u32 decoder" where
  "dec_u32 j = (case j of
     None \<Rightarrow> (0, True) | Some JNull \<Rightarrow> (0, True)
   | Some (JNum n) \<Rightarrow> (if 0 \<le> n \<and> n < 2 ^ 32 then (word_of_int n, True) else (0, False))
   | _ \<Rightarrow> (0, False))"

definition dec_str :: "string decoder" where
  "dec_str j = (case j of
     None \<Rightarrow> ([], True) | Some JNull \<Rightarrow> ([], True) | Some (JStr s) \<Rightarrow> (s, True) | _ \<Rightarrow> ([], False))"

definition dec_bool :: "bool decoder" where
  "dec_bool j = (case j of
     None \<Rightarrow> (False, True) | Some JNull \<Rightarrow> (False, True) | Some (JBool b) \<Rightarrow> (b, True)
   | _ \<Rightarrow> (False, False))"

definition dec_bytes :: "bytes decoder" where
  "dec_bytes j = (case j of
     None \<Rightarrow> ([], True) | Some JNull \<Rightarrow> ([], True)
   | Some (JStr s) \<Rightarrow> (case b64_decode b64_std s of Some bs \<Rightarrow> (bs, True) | None \<Rightarrow> ([], False))
   | _ \<Rightarrow> ([], False))"

definition enc_u64 :: "u64 \<Rightarrow> json" where
  "enc_u64 x = JNum (uint x)"

definition enc_u32 :: "u32 \<Rightarrow> json" where
  "enc_u32 x = JNum (uint x)"

definition enc_bytes :: "bytes \<Rightarrow> json" where
  "enc_bytes bs = JStr (b64_encode b64_std bs)"

lemma dec_enc_scalar [simp]:
  "dec_u64 (Some (enc_u64 x)) = (x, True)" "dec_u32 (Some (enc_u32 y)) = (y, True)"
  "dec_bytes (Some (enc_bytes bs)) = (bs, True)" "dec_str (Some (JStr s)) = (s, True)"
  "dec_bool (Some (JBool b)) = (b, True)"
  using uint_bounded [of x] uint_bounded [of y]
  by (simp_all add: dec_u64_def enc_u64_def dec_u32_def enc_u32_def dec_bytes_def enc_bytes_def
      dec_str_def dec_bool_def)

text \<open>\<open>common.Hash\<close> is written with the prefix \<open>0x\<close> and read back only at its full length.\<close>

definition dec_hash :: "json \<Rightarrow> hash \<times> bool" where
  "dec_hash j = (case j of
     JStr s \<Rightarrow> (if has_0x_prefix s \<and> length s = 66 then
         (case hex_decode (drop 2 s) of (bs, ok) \<Rightarrow> if ok then (BytesToHash bs, True) else (0, False))
       else (0, False))
   | JNull \<Rightarrow> (0, True) | _ \<Rightarrow> (0, False))"

definition enc_hash :: "hash \<Rightarrow> json" where
  "enc_hash h = JStr (hash_hex h)"

lemma dec_enc_hash [simp]: "dec_hash (enc_hash h) = (h, True)"
  by (simp add: dec_hash_def enc_hash_def hash_hex_def has_0x_prefix_def)

definition dec_hashes :: "hash list decoder" where
  "dec_hashes j = (case j of
     None \<Rightarrow> ([], True) | Some JNull \<Rightarrow> ([], True)
   | Some (JArr js) \<Rightarrow> (map (fst \<circ> dec_hash) js, list_all (snd \<circ> dec_hash) js)
   | _ \<Rightarrow> ([], False))"

definition enc_hashes :: "hash list \<Rightarrow> json" where
  "enc_hashes hs = JArr (map enc_hash hs)"

lemma dec_enc_hashes [simp]: "dec_hashes (Some (enc_hashes hs)) = (hs, True)"
  by (simp add: dec_hashes_def enc_hashes_def list_all_iff comp_def)

section \<open>Structures\<close>

text \<open>A structure is read from an object; \<open>null\<close> leaves it zero, anything else is an error.\<close>

definition dec_struct :: "((string \<Rightarrow> json option) \<Rightarrow> 'a \<times> bool) \<Rightarrow> 'a decoder" where
  "dec_struct f j = (case j of
     Some (JObj ms) \<Rightarrow> f (\<lambda>k. member k ms)
   | Some JNull \<Rightarrow> f (\<lambda>_. None)
   | _ \<Rightarrow> (fst (f (\<lambda>_. None)), False))"

definition dec_pointer :: "((string \<Rightarrow> json option) \<Rightarrow> 'a \<times> bool) \<Rightarrow> 'a option decoder" where
  "dec_pointer f j = (case j of
     None \<Rightarrow> (None, True) | Some JNull \<Rightarrow> (None, True)
   | _ \<Rightarrow> (case dec_struct f j of (x, ok) \<Rightarrow> (Some x, ok)))"

record JobEthLog =
  elog_Block :: u64
  elog_Data :: bytes
  elog_Topics :: "hash list"
  elog_TxHash :: HexString

definition dec_EthLog :: "(string \<Rightarrow> json option) \<Rightarrow> JobEthLog \<times> bool" where
  "dec_EthLog m =
     (case dec_u64 (m ''block'') of (b, ok1) \<Rightarrow>
      case dec_bytes (m ''data'') of (d, ok2) \<Rightarrow>
      case dec_hashes (m ''topics'') of (ts, ok3) \<Rightarrow>
      case dec_str (m ''transactionHash'') of (h, ok4) \<Rightarrow>
        (\<lparr>elog_Block = b, elog_Data = d, elog_Topics = ts, elog_TxHash = h\<rparr>, ok1 \<and> ok2 \<and> ok3 \<and> ok4))"

definition enc_EthLog :: "JobEthLog \<Rightarrow> json" where
  "enc_EthLog l = JObj [(''block'', enc_u64 (elog_Block l)), (''data'', enc_bytes (elog_Data l)),
     (''topics'', enc_hashes (elog_Topics l)), (''transactionHash'', JStr (elog_TxHash l))]"

text \<open>\<open>JobData\<close> is its only member, the optional log.\<close>

definition dec_JobData :: "JobEthLog option decoder" where
  "dec_JobData = dec_struct (\<lambda>m. dec_pointer dec_EthLog (m ''ethereumLog''))"

definition enc_JobData :: "JobEthLog option \<Rightarrow> json" where
  "enc_JobData l = JObj [(''ethereumLog'', case l of None \<Rightarrow> JNull | Some x \<Rightarrow> enc_EthLog x)]"

record JobBalanceData =
  bal_GasPrice :: u64
  bal_Amount :: u64

definition dec_BalanceData :: "JobBalanceData decoder" where
  "dec_BalanceData = dec_struct (\<lambda>m.
     (case dec_u64 (m ''GasPrice'') of (g, ok1) \<Rightarrow> case dec_u64 (m ''Amount'') of (a, ok2) \<Rightarrow>
        (\<lparr>bal_GasPrice = g, bal_Amount = a\<rparr>, ok1 \<and> ok2)))"

definition enc_BalanceData :: "JobBalanceData \<Rightarrow> json" where
  "enc_BalanceData d = JObj [(''GasPrice'', enc_u64 (bal_GasPrice d)), (''Amount'', enc_u64 (bal_Amount d))]"

text \<open>\<open>JobPublishData\<close> is its only member, the gas price.\<close>

definition dec_PublishData :: "u64 decoder" where
  "dec_PublishData = dec_struct (\<lambda>m. dec_u64 (m ''GasPrice''))"

definition enc_PublishData :: "u64 \<Rightarrow> json" where
  "enc_PublishData g = JObj [(''GasPrice'', enc_u64 g)]"

text \<open>\<open>JobTopUpChannelData\<close> and \<open>JobCreateChannelData\<close> have the same two members.\<close>

record JobDepositData =
  dep_GasPrice :: u64
  dep_Deposit :: u64

definition dec_DepositData :: "JobDepositData decoder" where
  "dec_DepositData = dec_struct (\<lambda>m.
     (case dec_u64 (m ''GasPrice'') of (g, ok1) \<Rightarrow> case dec_u64 (m ''Deposit'') of (a, ok2) \<Rightarrow>
        (\<lparr>dep_GasPrice = g, dep_Deposit = a\<rparr>, ok1 \<and> ok2)))"

definition enc_DepositData :: "JobDepositData \<Rightarrow> json" where
  "enc_DepositData d = JObj [(''GasPrice'', enc_u64 (dep_GasPrice d)), (''Deposit'', enc_u64 (dep_Deposit d))]"

definition dec_EndpointCreateData :: "bytes decoder" where
  "dec_EndpointCreateData = dec_struct (\<lambda>m. dec_bytes (m ''EndpointSealed''))"

definition enc_EndpointCreateData :: "bytes \<Rightarrow> json" where
  "enc_EndpointCreateData b = JObj [(''EndpointSealed'', enc_bytes b)]"

definition closing_type_string :: "closing_type \<Rightarrow> string" where
  "closing_type_string t = (case t of ClosingCoop \<Rightarrow> ''coop'' | ClosingUncoop \<Rightarrow> ''uncoop'')"

text \<open>A closing's type is an unchecked string in Go; a string that is no type, which the database
  would refuse, counts as a decoding error here.\<close>

definition dec_Closing :: "(string \<Rightarrow> json option) \<Rightarrow> Closing \<times> bool" where
  "dec_Closing m =
     (case dec_str (m ''id'') of (i, ok1) \<Rightarrow> case dec_str (m ''type'') of (t, ok2) \<Rightarrow>
      case dec_str (m ''agent'') of (a, ok3) \<Rightarrow> case dec_str (m ''client'') of (c, ok4) \<Rightarrow>
      case dec_u64 (m ''balance'') of (b, ok5) \<Rightarrow> case dec_u32 (m ''block'') of (n, ok6) \<Rightarrow>
        (\<lparr>cl_ID = i, cl_Type = (if t = ''coop'' then ClosingCoop else ClosingUncoop),
          cl_Agent = a, cl_Client = c, cl_Balance = b, cl_Block = n\<rparr>,
         ok1 \<and> ok2 \<and> (t = ''coop'' \<or> t = ''uncoop'') \<and> ok3 \<and> ok4 \<and> ok5 \<and> ok6))"

definition enc_Closing :: "Closing \<Rightarrow> json" where
  "enc_Closing c = JObj [(''id'', JStr (cl_ID c)), (''type'', JStr (closing_type_string (cl_Type c))),
     (''agent'', JStr (cl_Agent c)), (''client'', JStr (cl_Client c)),
     (''balance'', enc_u64 (cl_Balance c)), (''block'', enc_u32 (cl_Block c))]"

record JobRecordClosingData =
  rcd_Rec :: "Closing option"
  rcd_UpdateRatings :: bool

definition dec_RecordClosingData :: "JobRecordClosingData decoder" where
  "dec_RecordClosingData = dec_struct (\<lambda>m.
     (case dec_pointer dec_Closing (m ''Rec'') of (r, ok1) \<Rightarrow>
      case dec_bool (m ''UpdateRatings'') of (u, ok2) \<Rightarrow>
        (\<lparr>rcd_Rec = r, rcd_UpdateRatings = u\<rparr>, ok1 \<and> ok2)))"

definition enc_RecordClosingData :: "JobRecordClosingData \<Rightarrow> json" where
  "enc_RecordClosingData d = JObj
     [(''Rec'', case rcd_Rec d of None \<Rightarrow> JNull | Some c \<Rightarrow> enc_Closing c),
      (''UpdateRatings'', JBool (rcd_UpdateRatings d))]"

text \<open>The job of a service transition carries the new status as a bare string.\<close>

definition svc_status_string :: "svc_status \<Rightarrow> string" where
  "svc_status_string s = (case s of
     ServicePending \<Rightarrow> ''pending'' | ServiceActivating \<Rightarrow> ''activating'' | ServiceActive \<Rightarrow> ''active''
   | ServiceSuspending \<Rightarrow> ''suspending'' | ServiceSuspended \<Rightarrow> ''suspended''
   | ServiceTerminating \<Rightarrow> ''terminating'' | ServiceTerminated \<Rightarrow> ''terminated'' | ServiceOther x \<Rightarrow> x)"

definition svc_status_of :: "string \<Rightarrow> svc_status" where
  "svc_status_of x =
     (if x = ''pending'' then ServicePending else if x = ''activating'' then ServiceActivating
      else if x = ''active'' then ServiceActive else if x = ''suspending'' then ServiceSuspending
      else if x = ''suspended'' then ServiceSuspended else if x = ''terminating'' then ServiceTerminating
      else if x = ''terminated'' then ServiceTerminated else ServiceOther x)"

definition dec_svc_status :: "svc_status decoder" where
  "dec_svc_status j = (case dec_str j of (s, ok) \<Rightarrow> (svc_status_of s, ok \<and> j \<noteq> None))"

definition enc_svc_status :: "svc_status \<Rightarrow> json" where
  "enc_svc_status s = JStr (svc_status_string s)"

section \<open>Round trips\<close>

lemma dec_enc_JobData: "dec_JobData (Some (enc_JobData l)) = (l, True)"
  by (cases l) (simp_all add: dec_JobData_def enc_JobData_def dec_struct_def dec_pointer_def
      dec_EthLog_def enc_EthLog_def same_name_def lower_char_def)

lemma dec_enc_BalanceData: "dec_BalanceData (Some (enc_BalanceData d)) = (d, True)"
  by (simp add: dec_BalanceData_def enc_BalanceData_def dec_struct_def same_name_def lower_char_def)

lemma dec_enc_PublishData: "dec_PublishData (Some (enc_PublishData g)) = (g, True)"
  by (simp add: dec_PublishData_def enc_PublishData_def dec_struct_def same_name_def lower_char_def)

lemma dec_enc_DepositData: "dec_DepositData (Some (enc_DepositData d)) = (d, True)"
  by (simp add: dec_DepositData_def enc_DepositData_def dec_struct_def same_name_def lower_char_def)

lemma dec_enc_EndpointCreateData: "dec_EndpointCreateData (Some (enc_EndpointCreateData b)) = (b, True)"
  by (simp add: dec_EndpointCreateData_def enc_EndpointCreateData_def dec_struct_def same_name_def
      lower_char_def)

lemma dec_enc_RecordClosingData: "dec_RecordClosingData (Some (enc_RecordClosingData d)) = (d, True)"
  by (cases d; cases "rcd_Rec d"; cases "\<exists>c. rcd_Rec d = Some c \<and> cl_Type c = ClosingCoop")
    (auto simp: dec_RecordClosingData_def enc_RecordClosingData_def dec_struct_def dec_pointer_def
      dec_Closing_def enc_Closing_def same_name_def lower_char_def closing_type_string_def
      split: closing_type.splits)

lemma svc_status_of_string:
  "\<forall>x. s \<noteq> ServiceOther x \<Longrightarrow> svc_status_of (svc_status_string s) = s"
  by (cases s) (simp_all add: svc_status_of_def svc_status_string_def)

lemma dec_enc_svc_status:
  "\<forall>x. s \<noteq> ServiceOther x \<Longrightarrow> dec_svc_status (Some (enc_svc_status s)) = (s, True)"
  by (cases s) (simp_all add: dec_svc_status_def enc_svc_status_def svc_status_of_def svc_status_string_def)

end
