(* ===== verification/JobQueue.thy ===== *)
theory JobQueue
  imports Database Json
begin

text \<open>
  The persistent job queue, \<open>src/job/queue.go\<close>. Jobs are rows of the table \<open>jobs\<close>. \<open>processMain\<close>
  collects, once per period, the jobs to run and hands each to the worker its related object is
  assigned to; a worker runs the handler of the job's type, schedules a retry or fails the job when
  the handler reports an error, stores the job and notifies the subscribers. The memory of the
  queue, its subscriptions, extends the world; the notifications sent are recorded.

  A handler gets the job by pointer and may change it, so it returns the job beside its error. The
  row that \<open>DISTINCT ON\<close> keeps of the active jobs of one related object is unspecified in SQL, and
  is chosen by the argument \<open>pick\<close>.
\<close>

unbundle bit_operations_syntax

section \<open>Configuration\<close>

record TypeConfig =
  TryLimit :: u8
  TryPeriod :: u64
  Duplicated :: bool
  FirstStartDelay :: u64

record Config =
  CollectJobs :: u64
  CollectPeriod :: u64
  WorkerBufLen :: u64
  Workers :: u64
  DefaultTypeConfig :: TypeConfig
  Types :: "job_type \<rightharpoonup> TypeConfig"

definition NewConfig :: Config where
  "NewConfig = \<lparr>CollectJobs = 100, CollectPeriod = 1000, WorkerBufLen = 10, Workers = 0,
     DefaultTypeConfig = \<lparr>TryLimit = 3, TryPeriod = 60000, Duplicated = False, FirstStartDelay = 0\<rparr>,
     Types = Map.empty\<rparr>"

definition typeConfig :: "Config \<Rightarrow> job_type \<Rightarrow> TypeConfig" where
  "typeConfig conf ty = (case Types conf ty of None \<Rightarrow> DefaultTypeConfig conf | Some tconf \<Rightarrow> tconf)"

section \<open>Adding jobs\<close>

text \<open>The check always reads through the connection, also when the job is added in a transaction.\<close>

definition same_log_or_none :: "HexString \<Rightarrow> Job \<Rightarrow> bool" where
  "same_log_or_none h r \<longleftrightarrow>
     (let d = sql_get ''transactionHash'' (sql_get ''ethereumLog'' (job_Data r))
      in d = None \<or> sql_text d = Some h)"

definition checkDuplicated :: "Job \<Rightarrow> ('z, unit) dbcmd" where
  "checkDuplicated j =
     handleC (case fst (dec_JobData (job_Data j)) of
         Some l \<Rightarrow> if job_Type j \<noteq> JobAccountUpdateBalances
           then select_one JobTable Conn (\<lambda>r. job_RelatedID r = job_RelatedID j \<and> job_Type r = job_Type j
                  \<and> same_log_or_none (elog_TxHash l) r)
           else select_one JobTable Conn (\<lambda>r. job_RelatedID r = job_RelatedID j \<and> job_Type r = job_Type j
                  \<and> job_Status r = JobActive)
       | None \<Rightarrow> select_one JobTable Conn (\<lambda>r. job_RelatedID r = job_RelatedID j \<and> job_Type r = job_Type j
                  \<and> job_Status r = JobActive))
       (\<lambda>e. if e \<noteq> NoRows then fail (Job job_ErrInternal) else ret ())
       (\<lambda>_. fail (Job job_ErrDuplicatedJob))"

definition Add :: "Config \<Rightarrow> querier \<Rightarrow> Job \<Rightarrow> ('z, Job) dbcmd" where
  "Add conf q j = (let tconf = typeConfig conf (job_Type j) in
     thenC (whenC (\<not> Duplicated tconf) (checkDuplicated j))
       (bindC now (\<lambda>t1.
        bindC new_uuid (\<lambda>i.
        bindC now (\<lambda>t2.
        let j' = j\<lparr>job_NotBefore := (if 0 < FirstStartDelay tconf
                       then t1 + go_duration (FirstStartDelay tconf) millisecond else job_NotBefore j),
                   job_ID := i, job_Status := JobActive, job_CreatedAt := t2\<rparr>
        in thenC (on_err (\<lambda>_. Job job_ErrInternal) (insert_row JobTable q j')) (ret j'))))))"

definition new_job :: "job_type \<Rightarrow> related_type \<Rightarrow> string \<Rightarrow> job_creator \<Rightarrow> json option \<Rightarrow> time \<Rightarrow> Job" where
  "new_job ty rel rid creator jdata notBefore =
     \<lparr>job_ID = [], job_Type = ty, job_Status = JobActive, job_RelatedType = rel, job_RelatedID = rid,
      job_CreatedAt = zero_time, job_NotBefore = notBefore, job_CreatedBy = creator, job_TryCount = 0,
      job_Data = jdata\<rparr>"

definition AddWithDataAndDelay ::
  "Config \<Rightarrow> querier \<Rightarrow> job_type \<Rightarrow> related_type \<Rightarrow> string \<Rightarrow> job_creator \<Rightarrow> json \<Rightarrow> duration
     \<Rightarrow> ('z, unit) dbcmd" where
  "AddWithDataAndDelay conf q jobType relatedType relatedID creator jobData delay =
     bindC now (\<lambda>t. bindC (Add conf q (new_job jobType relatedType relatedID creator (Some jobData) (t + delay)))
       (\<lambda>_. ret ()))"

definition AddWithData ::
  "Config \<Rightarrow> querier \<Rightarrow> job_type \<Rightarrow> related_type \<Rightarrow> string \<Rightarrow> job_creator \<Rightarrow> json \<Rightarrow> ('z, unit) dbcmd" where
  "AddWithData conf q jobType relatedType relatedID creator jobData =
     AddWithDataAndDelay conf q jobType relatedType relatedID creator jobData 0"

definition AddSimple ::
  "Config \<Rightarrow> querier \<Rightarrow> job_type \<Rightarrow> related_type \<Rightarrow> string \<Rightarrow> job_creator \<Rightarrow> ('z, unit) dbcmd" where
  "AddSimple conf q jobType relatedType relatedID creator =
     AddWithData conf q jobType relatedType relatedID creator (JObj [])"

definition AddWithDelay ::
  "Config \<Rightarrow> querier \<Rightarrow> job_type \<Rightarrow> related_type \<Rightarrow> string \<Rightarrow> job_creator \<Rightarrow> duration \<Rightarrow> ('z, unit) dbcmd" where
  "AddWithDelay conf q jobType relatedType relatedID creator delay =
     AddWithDataAndDelay conf q jobType relatedType relatedID creator (JObj []) delay"

section \<open>Collecting jobs\<close>

definition crc32_step :: "u32 \<Rightarrow> u32" where
  "crc32_step c = (if bit c 0 then drop_bit 1 c XOR 0xEDB88320 else drop_bit 1 c)"

definition crc32 :: "string \<Rightarrow> u32" where
  "crc32 s = NOT (foldl (\<lambda>c x. (crc32_step ^^ 8) (c XOR of_char x)) 0xFFFFFFFF s)"

definition uuidWorker :: "nat \<Rightarrow> string \<Rightarrow> nat" where
  "uuidWorker workers uuid = unat (crc32 uuid) mod workers"

definition related_priority :: "related_type \<Rightarrow> nat" where
  "related_priority r = (case r of JobTransaction \<Rightarrow> 1 | JobEndpoint \<Rightarrow> 2 | JobChannel \<Rightarrow> 3
     | JobAccount \<Rightarrow> 4 | JobOffering \<Rightarrow> 5)"

text \<open>\<open>SELECT DISTINCT ON (related_id) * FROM jobs WHERE status = 'active'\<close>.\<close>

definition distinct_active :: "(Job list \<Rightarrow> Job) \<Rightarrow> Job list \<Rightarrow> Job list" where
  "distinct_active pick js = (let act = filter (\<lambda>j. job_Status j = JobActive) js in
     map (\<lambda>rid. pick (filter (\<lambda>j. job_RelatedID j = rid) act)) (remdups (map job_RelatedID act)))"

definition collect :: "Config \<Rightarrow> (Job list \<Rightarrow> Job) \<Rightarrow> time \<Rightarrow> db \<Rightarrow> Job list" where
  "collect conf pick started d =
     take (unat (CollectJobs conf))
       (sort_key (\<lambda>j. related_priority (job_RelatedType j))
         (sort_key job_CreatedAt
           (filter (\<lambda>j. job_NotBefore j \<le> started) (distinct_active pick (db_jobs d)))))"

text \<open>
  One iteration of \<open>processMain\<close>. \<open>exits\<close> holds the coming answers of \<open>checkExit\<close>; past its end no
  exit was asked for. The result lists which worker was sent which job, with the error that ended
  the iteration, if any.
\<close>

definition next_exit :: "bool list \<Rightarrow> bool" where
  "next_exit exits \<longleftrightarrow> exits \<noteq> [] \<and> hd exits"

primrec dispatch :: "nat \<Rightarrow> bool list \<Rightarrow> Job list \<Rightarrow> (nat \<times> string) list \<times> go_error option \<times> bool list" where
  "dispatch workers exits [] = ([], None, exits)"
| "dispatch workers exits (j # js) =
     (if next_exit exits then ([], Some (Job job_ErrQueueClosed), tl exits)
      else case dispatch workers (tl exits) js of
        (sent, r) \<Rightarrow> ((uuidWorker workers (job_RelatedID j), job_ID j) # sent, r))"

definition processMain_iteration ::
  "Config \<Rightarrow> nat \<Rightarrow> (Job list \<Rightarrow> Job) \<Rightarrow> bool list
     \<Rightarrow> ('z, (nat \<times> string) list \<times> go_error option \<times> bool list) dbcmd" where
  "processMain_iteration conf workers pick exits =
     (if next_exit exits then ret ([], Some (Job job_ErrQueueClosed), tl exits)
      else bindC now (\<lambda>started.
        handleC (query Conn (collect conf pick started))
          (\<lambda>_. ret ([], Some (Job job_ErrInternal), tl exits))
          (\<lambda>js. ret (dispatch workers (tl exits) js))))"

section \<open>Running jobs\<close>

type_synonym 's handler = "Job \<Rightarrow> 's \<Rightarrow> (go_error option \<times> Job) \<times> 's"

definition processJob ::
  "Config \<Rightarrow> 'z world_scheme handler \<Rightarrow> Job \<Rightarrow> 'z world_scheme \<Rightarrow> (go_error option \<times> Job) \<times> 'z world_scheme" where
  "processJob conf handler job w = (let tconf = typeConfig conf (job_Type job) in
     case handler job w of
       ((None, j), w') \<Rightarrow> ((None, j\<lparr>job_Status := JobDone\<rparr>), w')
     | ((Some err, j), w') \<Rightarrow>
         let j1 = (if TryLimit tconf \<noteq> 0 then j\<lparr>job_TryCount := job_TryCount j + 1\<rparr> else j)
         in if TryLimit tconf \<le> job_TryCount j1 \<and> TryLimit tconf \<noteq> 0
            then ((Some err, j1\<lparr>job_Status := JobFailed\<rparr>), w')
            else ((Some err, j1\<lparr>job_NotBefore := w_now w' + go_duration (TryPeriod tconf) millisecond\<rparr>), w'))"

text \<open>The subscriptions: for each key the subscribers in order, and the notifications sent.\<close>

record qworld = world +
  q_subs :: "string \<rightharpoonup> string list"
  q_notified :: "(string \<times> Job \<times> go_error option) list"

definition notify :: "string \<Rightarrow> Job \<Rightarrow> go_error option \<Rightarrow> ('z qworld_scheme, 'e, unit) cmd" where
  "notify subKey job result = modC (\<lambda>w. w\<lparr>q_notified := q_notified w @
     (case q_subs w subKey of None \<Rightarrow> [] | Some subs \<Rightarrow> map (\<lambda>s. (s, job, result)) subs)\<rparr>)"

definition saveJobAndNotify :: "Job \<Rightarrow> go_error option \<Rightarrow> ('z qworld_scheme, go_error, unit) cmd" where
  "saveJobAndNotify job result =
     thenC (on_err (\<lambda>_. Job job_ErrInternal) (save_row JobTable Conn job))
       (thenC (notify (job_RelatedID job) job result)
         (notify (job_type_string (job_Type job)) job result))"

text \<open>
  \<open>reread\<close> is the transaction in which a worker looks whether the job was cancelled while its
  handler ran. Its errors end the worker without being reported, for the variable they are stored
  in hides the one the loop returns.
\<close>

definition reread :: "Job \<Rightarrow> ('z, Job) dbcmd" where
  "reread job = thenC begin_tx
     (handleC (select_one JobTable Tx (\<lambda>r. job_ID r = job_ID job))
       (\<lambda>e. thenC rollback_tx (fail e))
       (\<lambda>tmp. thenC commit_tx
          (ret (if job_Status tmp = JobCanceled then job\<lparr>job_Status := JobCanceled\<rparr> else job))))"

datatype worker_next = Next | Stop "go_error option"

definition processWorker_step ::
  "Config \<Rightarrow> (job_type \<rightharpoonup> 'z qworld_scheme handler) \<Rightarrow> string \<Rightarrow> 'z qworld_scheme
     \<Rightarrow> worker_next \<times> 'z qworld_scheme" where
  "processWorker_step conf handlers i w =
     (case find_pk JobTable Conn i w of
        (Inl e, w1) \<Rightarrow> (Stop (Some e), w1)
      | (Inr job, w1) \<Rightarrow>
          if job_Status job \<noteq> JobActive \<or> w_now w1 < job_NotBefore job then (Next, w1)
          else case handlers (job_Type job) of
            None \<Rightarrow> (Stop (Some (Job job_ErrHandlerNotFound)), w1)
          | Some handler \<Rightarrow>
              (case processJob conf handler job w1 of ((result, job2), w2) \<Rightarrow>
                 case (if job_Status job2 = JobActive then reread job2 w2 else (Inr job2, w2)) of
                   (Inl e, w3) \<Rightarrow> (Stop None, w3)
                 | (Inr job3, w3) \<Rightarrow>
                     (case saveJobAndNotify job3 result w3 of
                        (Inl e, w4) \<Rightarrow> (Stop (Some e), w4)
                      | (Inr _, w4) \<Rightarrow> (Next, w4))))"

text \<open>A worker receives job identifiers until its channel is closed or an error stops it.\<close>

primrec processWorker ::
  "Config \<Rightarrow> (job_type \<rightharpoonup> 'z qworld_scheme handler) \<Rightarrow> string list \<Rightarrow> 'z qworld_scheme
     \<Rightarrow> go_error option \<times> 'z qworld_scheme" where
  "processWorker conf handlers [] w = (None, w)"
| "processWorker conf handlers (i # is) w = (case processWorker_step conf handlers i w of
     (Next, w') \<Rightarrow> processWorker conf handlers is w'
   | (Stop e, w') \<Rightarrow> (e, w'))"

text \<open>What \<open>Process\<close> returns, from the error of \<open>processMain\<close> and those of the workers.\<close>

definition Process_result :: "go_error \<Rightarrow> go_error option list \<Rightarrow> go_error" where
  "Process_result err werrs = foldl (\<lambda>e we. case we of
     Some x \<Rightarrow> (if e = Job job_ErrQueueClosed then x else e) | None \<Rightarrow> e) err werrs"

section \<open>Subscriptions\<close>

definition subscribe :: "string \<Rightarrow> string \<Rightarrow> (string \<rightharpoonup> string list) \<Rightarrow> job_error option \<times> (string \<rightharpoonup> string list)" where
  "subscribe subKey subID m =
     (if (case m subKey of Some subs \<Rightarrow> subID \<in> set subs | None \<Rightarrow> False)
      then (Some job_ErrSubscriptionExists, m)
      else (None, m(subKey \<mapsto> (case m subKey of None \<Rightarrow> [] | Some subs \<Rightarrow> subs) @ [subID])))"

text \<open>The slice that is left is never nil, so the entry of a key stays, possibly empty.\<close>

definition unsubscribe :: "string \<Rightarrow> string \<Rightarrow> (string \<rightharpoonup> string list) \<Rightarrow> job_error option \<times> (string \<rightharpoonup> string list)" where
  "unsubscribe subKey subID m =
     (case m subKey of
        None \<Rightarrow> (Some job_ErrSubscriptionNotFound, m)
      | Some subs \<Rightarrow> if subID \<in> set subs then (None, m(subKey \<mapsto> remove1 subID subs))
          else (Some job_ErrSubscriptionNotFound, m))"

primrec unsubscribe_all :: "string list \<Rightarrow> string \<Rightarrow> (string \<rightharpoonup> string list) \<Rightarrow> (string \<rightharpoonup> string list)" where
  "unsubscribe_all [] subID m = m"
| "unsubscribe_all (k # ks) subID m = unsubscribe_all ks subID (snd (unsubscribe k subID m))"

fun subscribe_from :: "string list \<Rightarrow> string list \<Rightarrow> string \<Rightarrow> (string \<rightharpoonup> string list)
    \<Rightarrow> job_error option \<times> (string \<rightharpoonup> string list)" where
  "subscribe_from taken [] subID m = (None, m)"
| "subscribe_from taken (k # ks) subID m = (case subscribe k subID m of
     (Some err, m') \<Rightarrow> (Some err, unsubscribe_all taken subID m')
   | (None, m') \<Rightarrow> subscribe_from (taken @ [k]) ks subID m')"

definition Subscribe :: "string list \<Rightarrow> string \<Rightarrow> (string \<rightharpoonup> string list) \<Rightarrow> job_error option \<times> (string \<rightharpoonup> string list)" where
  "Subscribe subKeys subID m = subscribe_from [] subKeys subID m"

definition Unsubscribe :: "string list \<Rightarrow> string \<Rightarrow> (string \<rightharpoonup> string list) \<Rightarrow> job_error option \<times> (string \<rightharpoonup> string list)" where
  "Unsubscribe subKeys subID m = foldl (\<lambda>(err, m) k. case unsubscribe k subID m of
     (err2, m') \<Rightarrow> ((if err = None then err2 else err), m')) (None, m) subKeys"

section \<open>What is collected\<close>

definition valid_pick :: "(Job list \<Rightarrow> Job) \<Rightarrow> bool" where
  "valid_pick pick \<longleftrightarrow> (\<forall>js. js \<noteq> [] \<longrightarrow> pick js \<in> set js)"

lemma distinct_active_spec:
  assumes pick: "valid_pick pick"
  shows "set (distinct_active pick js) \<subseteq> {j \<in> set js. job_Status j = JobActive}"
    and "map job_RelatedID (distinct_active pick js)
      = remdups (map job_RelatedID (filter (\<lambda>j. job_Status j = JobActive) js))"
proof -
  let ?act = "filter (\<lambda>j. job_Status j = JobActive) js"
  have group: "pick (filter (\<lambda>j. job_RelatedID j = rid) ?act) \<in> {j \<in> set ?act. job_RelatedID j = rid}"
    if "rid \<in> set (map job_RelatedID ?act)" for rid
    using pick [unfolded valid_pick_def, rule_format, of "filter (\<lambda>j. job_RelatedID j = rid) ?act"] that by (fastforce simp: filter_empty_conv)
  show "set (distinct_active pick js) \<subseteq> {j \<in> set js. job_Status j = JobActive}"
    using group by (fastforce simp: distinct_active_def)
  have "map job_RelatedID (distinct_active pick js) = map (\<lambda>rid. rid) (remdups (map job_RelatedID ?act))"
    unfolding distinct_active_def Let_def map_map comp_def using group by (intro map_cong) auto
  then show "map job_RelatedID (distinct_active pick js) = remdups (map job_RelatedID ?act)" by simp
qed

text \<open>C5: whichever rows \<open>DISTINCT ON\<close> keeps, an iteration collects only stored jobs that are
  active and due, at most \<open>CollectJobs\<close> of them and at most one per related object, in the order
  of priority of the related types.\<close>

theorem collect_sound:
  assumes "valid_pick pick" and js_def: "js = collect conf pick t d"
  shows "set js \<subseteq> {j \<in> set (db_jobs d). job_Status j = JobActive \<and> job_NotBefore j \<le> t}
    \<and> length js \<le> unat (CollectJobs conf) \<and> distinct (map job_RelatedID js)
    \<and> sorted (map (\<lambda>j. related_priority (job_RelatedType j)) js)"
proof -
  let ?due = "filter (\<lambda>j. job_NotBefore j \<le> t) (distinct_active pick (db_jobs d))"
  let ?s = "sort_key (\<lambda>j. related_priority (job_RelatedType j)) (sort_key job_CreatedAt ?due)"
  have sub: "set js \<subseteq> set ?due" unfolding js_def collect_def using set_take_subset by fastforce
  have "distinct (map job_RelatedID (distinct_active pick (db_jobs d)))"
    by (simp only: distinct_active_spec(2) [OF assms(1)] distinct_remdups)
  then have inj: "inj_on job_RelatedID (set ?due)" and "distinct ?due"
    by (auto simp: distinct_map intro: inj_on_subset)
  then have "distinct (map job_RelatedID ?s)" by (simp add: distinct_map)
  then have "distinct (map job_RelatedID js)"
    unfolding js_def collect_def by (metis distinct_take take_map)
  moreover have "sorted (map (\<lambda>j. related_priority (job_RelatedType j)) js)"
    unfolding js_def collect_def by (metis sorted_sort_key sorted_wrt_take take_map)
  moreover have "length js \<le> unat (CollectJobs conf)" unfolding js_def collect_def by simp
  ultimately show ?thesis
    using sub distinct_active_spec(1) [OF assms(1), where js = "db_jobs d"] by auto
qed

text \<open>C24: no related object is passed over: when the iteration has room left, every related object
  with an active job is either collected or the row that stands for it is not due.\<close>

theorem collect_complete:
  assumes "valid_pick pick"
    and "j \<in> set (db_jobs d)" "job_Status j = JobActive"
    and "length (collect conf pick t d) < unat (CollectJobs conf)"
  shows "job_RelatedID j \<in> job_RelatedID ` set (collect conf pick t d)
    \<or> (\<exists>k \<in> set (db_jobs d). job_RelatedID k = job_RelatedID j \<and> job_Status k = JobActive
         \<and> t < job_NotBefore k)"
proof -
  let ?D = "distinct_active pick (db_jobs d)"
  have "job_RelatedID j \<in> set (map job_RelatedID ?D)"
    using assms(2,3) by (simp only: distinct_active_spec(2) [OF assms(1)]) auto
  then obtain k where k: "k \<in> set ?D" "job_RelatedID k = job_RelatedID j" by auto
  then have stored: "k \<in> set (db_jobs d)" "job_Status k = JobActive"
    using distinct_active_spec(1) [OF assms(1)] by blast+
  have "k \<in> set (collect conf pick t d)" if "job_NotBefore k \<le> t"
    using that k(1) assms(4) by (auto simp: collect_def)
  then show ?thesis using k stored by (metis imageI not_le_imp_less)
qed

section \<open>What adding does\<close>

text \<open>The rows that make a job a duplicate.\<close>

definition duplicates :: "Job \<Rightarrow> Job \<Rightarrow> bool" where
  "duplicates j r \<longleftrightarrow> job_RelatedID r = job_RelatedID j \<and> job_Type r = job_Type j
     \<and> (case fst (dec_JobData (job_Data j)) of
          Some l \<Rightarrow> (if job_Type j \<noteq> JobAccountUpdateBalances then same_log_or_none (elog_TxHash l) r
                     else job_Status r = JobActive)
        | None \<Rightarrow> job_Status r = JobActive)"

lemma checkDuplicated_alt:
  "checkDuplicated j = handleC (select_one JobTable Conn (duplicates j))
     (\<lambda>e. if e \<noteq> NoRows then fail (Job job_ErrInternal) else ret ())
     (\<lambda>_. fail (Job job_ErrDuplicatedJob))"
  unfolding checkDuplicated_def duplicates_def by (simp split: option.splits)

lemma JobTable_simps [simp]:
  "t_rows JobTable = db_jobs" "t_key JobTable = job_ID" "t_check JobTable r" "t_ref JobTable d r"
  "row_ok JobTable d r"
  "t_put JobTable rs d = d\<lparr>db_jobs := rs\<rparr>"
  by (simp_all add: JobTable_def row_ok_def)

lemma checkDuplicated_run:
  "checkDuplicated j w = (Inr u, w') \<longleftrightarrow> db_call Conn w = (Inr (), w') \<and> find (duplicates j) (db_jobs (w_db w)) = None"
  "checkDuplicated j w = (Inl (Job job_ErrDuplicatedJob), w') \<longleftrightarrow>
     db_call Conn w = (Inr (), w') \<and> find (duplicates j) (db_jobs (w_db w)) \<noteq> None"
  by (auto simp: checkDuplicated_alt run split: if_splits)

lemma Add_run:
  assumes "Add conf q j w = (Inr j', w')"
  shows "view q w' = (view q w)\<lparr>db_jobs := db_jobs (view q w) @ [j']\<rparr>"
    and "job_Status j' = JobActive" "job_Type j' = job_Type j" "job_RelatedID j' = job_RelatedID j"
      "job_Data j' = job_Data j" "job_TryCount j' = job_TryCount j"
    and "\<not> exists_row job_ID (db_jobs (view q w)) (job_ID j')"
    and "job_NotBefore j' = (let d = FirstStartDelay (typeConfig conf (job_Type j)) in
      if 0 < d then w_now w + go_duration d millisecond else job_NotBefore j)"
    and "\<not> Duplicated (typeConfig conf (job_Type j)) \<Longrightarrow> \<forall>r \<in> set (db_jobs (w_db w)). \<not> duplicates j r"
proof -
  from assms obtain v v' where v: "whenC (\<not> Duplicated (typeConfig conf (job_Type j))) (checkDuplicated j) w = (Inr (), v)"
    and v': "v' = v\<lparr>w_uuids := Suc (w_uuids v)\<rparr>" and ins: "insert_row JobTable q j' v' = (Inr (), w')"
    and j': "j' = j\<lparr>job_NotBefore := (if 0 < FirstStartDelay (typeConfig conf (job_Type j))
        then w_now v + go_duration (FirstStartDelay (typeConfig conf (job_Type j))) millisecond else job_NotBefore j),
      job_ID := w_uuid v (w_uuids v), job_Status := JobActive, job_CreatedAt := w_now v\<rparr>"
    by (auto simp: Add_def Let_def run)
  from v obtain bs where bs: "v = w\<lparr>w_faults := bs\<rparr> \<or> v = w"
    by (auto simp: run checkDuplicated_run split: if_splits dest: db_call_state)
  then have view: "view q v' = view q w" "w_now v = w_now w"
    by (auto simp: v' view_def split: querier.splits option.splits)
  show "view q w' = (view q w)\<lparr>db_jobs := db_jobs (view q w) @ [j']\<rparr>"
    and "\<not> exists_row job_ID (db_jobs (view q w)) (job_ID j')"
    using JobTable.insert_view [OF ins] view by simp_all
  show "job_Status j' = JobActive" "job_Type j' = job_Type j" "job_RelatedID j' = job_RelatedID j"
    "job_Data j' = job_Data j" "job_TryCount j' = job_TryCount j"
    "job_NotBefore j' = (let d = FirstStartDelay (typeConfig conf (job_Type j)) in
      if 0 < d then w_now w + go_duration d millisecond else job_NotBefore j)"
    using view by (auto simp: j' Let_def)
  show "\<forall>r \<in> set (db_jobs (w_db w)). \<not> duplicates j r" if "\<not> Duplicated (typeConfig conf (job_Type j))"
    using v that by (auto simp: run checkDuplicated_run find_None_iff_set)
qed

text \<open>A job added without a log joins the table as active, under a new identifier, and of its
  type and related object it is then the only active one.\<close>

theorem Add_only_active:
  assumes "Add conf Conn j w = (Inr j', w')" and "\<not> Duplicated (typeConfig conf (job_Type j))"
    and "fst (dec_JobData (job_Data j)) = None"
  shows "db_jobs (w_db w') = db_jobs (w_db w) @ [j'] \<and> job_Status j' = JobActive
    \<and> filter (\<lambda>r. job_RelatedID r = job_RelatedID j \<and> job_Type r = job_Type j \<and> job_Status r = JobActive)
        (db_jobs (w_db w')) = [j']"
  using Add_run [OF assms(1)] Add_run(9) [OF assms(1,2)] assms(3)
  by (auto simp: duplicates_def filter_empty_conv)

text \<open>
  Jobs made from blockchain logs: for each type that is checked for duplicates and each related
  object, a log (known by its transaction) has at most one job, whatever became of it.
\<close>

definition log_hash :: "Job \<Rightarrow> HexString option" where
  "log_hash r = sql_text (sql_get ''transactionHash'' (sql_get ''ethereumLog'' (job_Data r)))"

definition one_job_per_log :: "Config \<Rightarrow> db \<Rightarrow> bool" where
  "one_job_per_log conf d \<longleftrightarrow> (\<forall>ty rid h. \<not> Duplicated (typeConfig conf ty) \<and> ty \<noteq> JobAccountUpdateBalances \<longrightarrow>
     length (filter (\<lambda>r. job_Type r = ty \<and> job_RelatedID r = rid \<and> log_hash r = Some h) (db_jobs d)) \<le> 1)"

lemma log_hash_duplicates:
  assumes "log_hash r = Some h" "job_RelatedID r = job_RelatedID j" "job_Type r = job_Type j"
    "job_Type j \<noteq> JobAccountUpdateBalances" "job_Data j = Some (enc_JobData (Some l))" "elog_TxHash l = h"
  shows "duplicates j r"
  using assms dec_enc_JobData [of "Some l"]
  by (auto simp: duplicates_def same_log_or_none_def log_hash_def Let_def sql_text_def)

lemma log_hash_enc: "job_Data j = Some (enc_JobData (Some l)) \<Longrightarrow> log_hash j = Some (elog_TxHash l)"
  by (simp add: log_hash_def enc_JobData_def enc_EthLog_def sql_get_def sql_text_def)

text \<open>Adding the job of a blockchain log outside a transaction keeps the rule that a log has at most one job of a
  type for a related object, also when earlier jobs of it are done, failed or cancelled.\<close>

theorem Add_one_job_per_log:
  assumes "one_job_per_log conf (w_db w)" and "Add conf Conn j w = (Inr j', w')"
    and "job_Data j = Some (enc_JobData (Some l))"
  shows "one_job_per_log conf (w_db w')"
proof -
  note add = Add_run [OF assms(2)]
  have "length (filter (\<lambda>r. job_Type r = ty \<and> job_RelatedID r = rid \<and> log_hash r = Some h) (db_jobs (w_db w'))) \<le> 1"
    if ty: "\<not> Duplicated (typeConfig conf ty)" "ty \<noteq> JobAccountUpdateBalances" for ty rid h
  proof (cases "job_Type j = ty \<and> job_RelatedID j = rid \<and> elog_TxHash l = h")
    case True
    then have "\<not> Duplicated (typeConfig conf (job_Type j))" using ty by simp
    then have none: "\<forall>r \<in> set (db_jobs (w_db w)). \<not> duplicates j r" by (rule add(9))
    have "\<not> (job_Type r = ty \<and> job_RelatedID r = rid \<and> log_hash r = Some h)"
      if "r \<in> set (db_jobs (w_db w))" for r
      using none that True ty(2) assms(3) log_hash_duplicates [of r h j l] by auto
    then have "filter (\<lambda>r. job_Type r = ty \<and> job_RelatedID r = rid \<and> log_hash r = Some h) (db_jobs (w_db w)) = []"
      by (simp add: filter_empty_conv)
    then show ?thesis using add(1) by simp
  next
    case False
    have "log_hash j' = Some (elog_TxHash l)" using log_hash_enc [of j' l] add(5) assms(3) by simp
    with False add(3,4) have "\<not> (job_Type j' = ty \<and> job_RelatedID j' = rid \<and> log_hash j' = Some h)" by auto
    then have "filter (\<lambda>r. job_Type r = ty \<and> job_RelatedID r = rid \<and> log_hash r = Some h) (db_jobs (w_db w'))
      = filter (\<lambda>r. job_Type r = ty \<and> job_RelatedID r = rid \<and> log_hash r = Some h) (db_jobs (w_db w))"
      using add(1) by auto
    then show ?thesis using assms(1) ty by (simp add: one_job_per_log_def)
  qed
  then show ?thesis by (simp add: one_job_per_log_def)
qed

section \<open>Retries\<close>

text \<open>Processing a job again and again, as long as it stays active.\<close>

primrec process_times ::
  "Config \<Rightarrow> 'z world_scheme handler \<Rightarrow> nat \<Rightarrow> Job \<Rightarrow> 'z world_scheme \<Rightarrow> Job \<times> 'z world_scheme" where
  "process_times conf h 0 j w = (j, w)"
| "process_times conf h (Suc n) j w = (case process_times conf h n j w of
     (j', w') \<Rightarrow> if job_Status j' = JobActive
       then case processJob conf h j' w' of ((_, j''), w'') \<Rightarrow> (j'', w'') else (j', w'))"

definition always_fails :: "'z world_scheme handler \<Rightarrow> bool" where
  "always_fails h \<longleftrightarrow> (\<forall>j w. \<exists>e w'. h j w = ((Some e, j), w'))"

lemma processJob_ok:
  "h j w = ((None, j'), w') \<Longrightarrow> processJob conf h j w = ((None, j'\<lparr>job_Status := JobDone\<rparr>), w')"
  by (simp add: processJob_def)

lemma processJob_error:
  assumes "h j w = ((Some e, j'), w')" and "c = typeConfig conf (job_Type j)"
  shows "processJob conf h j w = ((Some e,
      if TryLimit c = 0 then j'\<lparr>job_NotBefore := w_now w' + go_duration (TryPeriod c) millisecond\<rparr>
      else if TryLimit c \<le> job_TryCount j' + 1
      then j'\<lparr>job_TryCount := job_TryCount j' + 1, job_Status := JobFailed\<rparr>
      else j'\<lparr>job_TryCount := job_TryCount j' + 1,
              job_NotBefore := w_now w' + go_duration (TryPeriod c) millisecond\<rparr>), w')"
proof (cases "TryLimit (typeConfig conf (job_Type j)) = 0")
  case True
  then show ?thesis unfolding processJob_def Let_def assms prod.case option.case
    by (simp only: if_True simp_thms if_False)
next
  case False
  then show ?thesis unfolding processJob_def Let_def assms prod.case option.case
    by (simp only: if_False simp_thms Job.select_convs Job.update_convs not_False_eq_True split: if_split) simp
qed

text \<open>C16: a job whose handler keeps failing is run exactly \<open>TryLimit\<close> times: before that it is active
  with one more try counted each time, and from then on it is failed for good.\<close>

theorem retries_until_limit:
  assumes fails: "always_fails h" and j: "job_Status j = JobActive" "job_TryCount j = 0"
    and limit: "TryLimit (typeConfig conf (job_Type j)) = L" "L \<noteq> 0"
  shows "(let j' = fst (process_times conf h n j w) in
      job_TryCount j' = word_of_nat (min n (unat L))
      \<and> job_Status j' = (if n < unat L then JobActive else JobFailed))"
proof -
  have "job_Type (fst (process_times conf h n j w)) = job_Type j
    \<and> job_TryCount (fst (process_times conf h n j w)) = word_of_nat (min n (unat L))
    \<and> job_Status (fst (process_times conf h n j w)) = (if n < unat L then JobActive else JobFailed)"
  proof (induction n)
    case 0
    then show ?case using j limit(2) by (simp add: unat_gt_0)
  next
    case (Suc n)
    obtain j' w' where jw: "process_times conf h n j w = (j', w')" by fastforce
    show ?case
    proof (cases "n < unat L")
      case True
      then have "Suc n < 256" using unat_less [of L] by auto
      then have "unat (word_of_nat (Suc n) :: u8) = Suc n" by (simp add: unat_of_nat del: of_nat_Suc)
      then have "L \<le> word_of_nat n + 1 \<longleftrightarrow> unat L \<le> Suc n"
        by (simp add: word_le_nat_alt add.commute)
      moreover obtain e w'' where "h j' w' = ((Some e, j'), w'')"
        using fails unfolding always_fails_def by blast
      note processJob_error [where h = h, OF this, of "typeConfig conf (job_Type j')" conf]
      ultimately show ?thesis
        using True Suc jw limit by (auto simp: min_def not_less le_Suc_eq)
    next
      case False
      with Suc jw show ?thesis by (simp add: min_def)
    qed
  qed
  then show ?thesis by (simp add: Let_def)
qed

section \<open>What a worker does with a job\<close>

lemma lookup_JobTable: "lookup JobTable d i = find (\<lambda>r. job_ID r = i) (db_jobs d)"
  by (simp add: lookup_def)

text \<open>A job that is done, failed, cancelled or not yet due is not run when it reaches a worker:
  the worker goes on with the world unchanged, whatever the handlers are.\<close>

theorem worker_skips:
  assumes "w_faults w = []" and "lookup JobTable (w_db w) i = Some job"
    and "job_Status job \<noteq> JobActive \<or> w_now w < job_NotBefore job"
  shows "processWorker_step conf handlers i w = (Next, w)"
proof -
  have "find_pk JobTable Conn i w = (Inr job, w)"
    using assms by (simp add: find_pk_run lookup_JobTable)
  then show ?thesis using assms(3) by (auto simp: processWorker_step_def)
qed

lemma reread_run:
  assumes "reread job w = (Inr job', w')"
  shows "job' = (if \<exists>r. lookup JobTable (w_db w) (job_ID job) = Some r \<and> job_Status r = JobCanceled
      then job\<lparr>job_Status := JobCanceled\<rparr> else job)" "w_db w' = w_db w"
proof -
  from assms obtain bs tmp where tmp: "find (\<lambda>r. job_ID r = job_ID job) (db_jobs (w_db w)) = Some tmp"
    and job': "job' = (if job_Status tmp = JobCanceled then job\<lparr>job_Status := JobCanceled\<rparr> else job)"
    and c: "commit_tx (w\<lparr>w_tx := Some (w_db w), w_faults := bs\<rparr>) = (Inr (), w')"
    unfolding reread_def by (auto simp: begin_tx_def run dest!: db_call_state)
  show "job' = (if \<exists>r. lookup JobTable (w_db w) (job_ID job) = Some r \<and> job_Status r = JobCanceled
      then job\<lparr>job_Status := JobCanceled\<rparr> else job)"
    using tmp job' by (simp add: lookup_JobTable)
  show "w_db w' = w_db w"
    using c by (auto simp: commit_tx_def split: prod.splits sum.splits dest!: db_call_state)
qed

lemma reread_status:
  assumes "(if job_Status j2 = JobActive then reread j2 w2 else (Inr j2, w2)) = (Inr j3, w3)"
  shows "w_db w3 = w_db w2" "job_ID j3 = job_ID j2"
    "job_Status j3 = (if job_Status j2 = JobActive
       \<and> map_option job_Status (lookup JobTable (w_db w2) (job_ID j2)) = Some JobCanceled
       then JobCanceled else job_Status j2)"
proof -
  have "w_db w3 = w_db w2 \<and> job_ID j3 = job_ID j2 \<and> job_Status j3 = (if job_Status j2 = JobActive
       \<and> map_option job_Status (lookup JobTable (w_db w2) (job_ID j2)) = Some JobCanceled
       then JobCanceled else job_Status j2)"
  proof (cases "job_Status j2 = JobActive")
    case True
    with assms have "reread j2 w2 = (Inr j3, w3)" by simp
    note reread_run [OF this]
    with True show ?thesis by (cases "lookup JobTable (w_db w2) (job_ID j2)") simp_all
  next
    case False
    with assms show ?thesis by simp
  qed
  then show "w_db w3 = w_db w2" "job_ID j3 = job_ID j2"
    "job_Status j3 = (if job_Status j2 = JobActive
       \<and> map_option job_Status (lookup JobTable (w_db w2) (job_ID j2)) = Some JobCanceled
       then JobCanceled else job_Status j2)" by blast+
qed

lemma saveJobAndNotify_run:
  assumes "saveJobAndNotify job res w = (Inr u, w')"
  shows "lookup JobTable (w_db w') k = (if k = job_ID job then Some job else lookup JobTable (w_db w) k)"
proof -
  from assms obtain v where "save_row JobTable Conn job w = (Inr (), v)" "w_db w' = w_db v"
    by (auto simp: saveJobAndNotify_def notify_def run)
  then show ?thesis using JobTable.lookup_save [of Conn job w "()" v k] by simp
qed

lemma saveJobAndNotify_db:
  assumes "saveJobAndNotify job res w = (Inr u, w')"
  shows "(w_db w')\<lparr>db_jobs := []\<rparr> = (w_db w)\<lparr>db_jobs := []\<rparr>"
proof -
  from assms obtain v where v: "save_row JobTable Conn job w = (Inr (), v)" "w_db w' = w_db v"
    by (auto simp: saveJobAndNotify_def notify_def run)
  from v(1) consider "update_row JobTable Conn job w = (Inr (), v)"
    | e u where "update_row JobTable Conn job w = (Inl e, u)" "insert_row JobTable Conn job u = (Inr (), v)"
    by (auto simp: save_row_def run split: if_splits)
  then show ?thesis
  proof cases
    case 1
    with JobTable.update_view(1) [OF 1] v(2) show ?thesis by simp
  next
    case 2
    then have "w_db u = w_db w" by (auto dest: failed_op)
    with JobTable.insert_view(1) [OF 2(2)] v(2) show ?thesis by simp
  qed
qed

lemma run_status:
  assumes pk: "find_pk JobTable Conn i w = (Inr job, w1)"
    and "job_Status job = JobActive" "job_NotBefore job \<le> w_now w1"
    and "handlers (job_Type job) = Some h" and h: "h job w1 = ((res, j), w2)"
    and j: "job_ID j = i" "job_Status j = JobActive"
    and step: "processWorker_step conf handlers i w = (Next, w')"
    and c: "c = typeConfig conf (job_Type job)"
  shows "map_option job_Status (lookup JobTable (w_db w') i) = Some
      (if res = None then JobDone
       else if TryLimit c \<noteq> 0 \<and> TryLimit c \<le> job_TryCount j + 1 then JobFailed
       else if map_option job_Status (lookup JobTable (w_db w2) i) = Some JobCanceled then JobCanceled
       else JobActive)
    \<and> (\<forall>k. k \<noteq> i \<longrightarrow> lookup JobTable (w_db w') k = lookup JobTable (w_db w2) k)
    \<and> (w_db w')\<lparr>db_jobs := []\<rparr> = (w_db w2)\<lparr>db_jobs := []\<rparr>"
proof -
  obtain job2 where p: "processJob conf h job w1 = ((res, job2), w2)" and id2: "job_ID job2 = i"
    and st: "job_Status job2 = (if res = None then JobDone
       else if TryLimit c \<noteq> 0 \<and> TryLimit c \<le> job_TryCount j + 1 then JobFailed else JobActive)"
    using h j c by (cases res) (auto simp: processJob_ok processJob_error)
  obtain job3 w3 where job3: "(if job_Status job2 = JobActive then reread job2 w2 else (Inr job2, w2)) = (Inr job3, w3)"
    and save: "saveJobAndNotify job3 res w3 = (Inr (), w')"
    using step pk p assms(2-4) by (auto simp: processWorker_step_def split: if_splits sum.splits prod.splits)
  have w3: "w_db w3 = w_db w2" and s3: "job_ID job3 = i" "job_Status job3 = (if job_Status job2 = JobActive
      \<and> map_option job_Status (lookup JobTable (w_db w2) i) = Some JobCanceled then JobCanceled else job_Status job2)"
    using reread_status [OF job3] id2 by simp_all
  show ?thesis using saveJobAndNotify_run [OF save] saveJobAndNotify_db [OF save] w3 s3 st by auto
qed

text \<open>C25: what becomes of a job that is run: it is done when its handler succeeds; when the handler
  fails it is failed if that was the last try, cancelled if it was cancelled in the meantime, and
  otherwise stays active. No other job changes beyond what the handler did.\<close>

theorem worker_runs_job:
  assumes "w_faults w = []" and "lookup JobTable (w_db w) i = Some job"
    and "job_Status job = JobActive" "job_NotBefore job \<le> w_now w"
    and "handlers (job_Type job) = Some h" and h: "h job w = ((res, j), w2)"
    and j: "job_ID j = i" "job_Status j = JobActive"
    and step: "processWorker_step conf handlers i w = (Next, w')"
    and c: "c = typeConfig conf (job_Type job)"
  shows "map_option job_Status (lookup JobTable (w_db w') i) = Some
      (if res = None then JobDone
       else if TryLimit c \<noteq> 0 \<and> TryLimit c \<le> job_TryCount j + 1 then JobFailed
       else if map_option job_Status (lookup JobTable (w_db w2) i) = Some JobCanceled then JobCanceled
       else JobActive)
    \<and> (\<forall>k. k \<noteq> i \<longrightarrow> lookup JobTable (w_db w') k = lookup JobTable (w_db w2) k)"
proof -
  have "find_pk JobTable Conn i w = (Inr job, w)" using assms by (simp add: find_pk_run lookup_JobTable)
  from run_status [OF this assms(3-10)] show ?thesis by simp
qed

section \<open>Subscribing is all or nothing\<close>

definition subscribers :: "(string \<rightharpoonup> string list) \<Rightarrow> string \<Rightarrow> string list" where
  "subscribers m k = (case m k of None \<Rightarrow> [] | Some subs \<Rightarrow> subs)"

lemma subscribers_upd [simp]: "subscribers (m(k \<mapsto> v)) k' = (if k' = k then v else subscribers m k')"
  by (simp add: subscribers_def)

lemma subscribe_spec:
  "subscribe k s m = (None, m') \<longleftrightarrow>
     s \<notin> set (subscribers m k) \<and> m' = m(k \<mapsto> subscribers m k @ [s])"
  "subscribe k s m = (Some e, m') \<longleftrightarrow>
     s \<in> set (subscribers m k) \<and> e = job_ErrSubscriptionExists \<and> m' = m"
  by (auto simp: subscribe_def subscribers_def split: option.splits)

lemma subscribers_unsubscribe:
  "subscribers (snd (unsubscribe k s m)) k'
     = (if k' = k then remove1 s (subscribers m k) else subscribers m k')"
  by (auto simp: unsubscribe_def subscribers_def remove1_idem split: option.splits)

lemma subscribers_unsubscribe_all:
  "distinct ks \<Longrightarrow> subscribers (unsubscribe_all ks s m) k
     = (if k \<in> set ks then remove1 s (subscribers m k) else subscribers m k)"
  by (induction ks arbitrary: m) (auto simp: subscribers_unsubscribe)

lemma subscribe_from_spec:
  assumes "distinct taken"
    and "\<forall>k. subscribers m k = subscribers m0 k @ (if k \<in> set taken then [s] else [])"
    and "\<forall>k \<in> set taken. s \<notin> set (subscribers m0 k)"
    and "subscribe_from taken ks s m = (r, m')"
  shows "(r = None \<longrightarrow> distinct (taken @ ks) \<and> (\<forall>k \<in> set ks. s \<notin> set (subscribers m0 k))
        \<and> (\<forall>k. subscribers m' k = subscribers m0 k @ (if k \<in> set (taken @ ks) then [s] else [])))
    \<and> (r \<noteq> None \<longrightarrow> r = Some job_ErrSubscriptionExists \<and> (\<forall>k. subscribers m' k = subscribers m0 k))"
  using assms
proof (induction taken ks s m rule: subscribe_from.induct)
  case (1 taken s m)
  then show ?case by simp
next
  case (2 taken k ks s m)
  show ?case
  proof (cases "s \<in> set (subscribers m k)")
    case True
    then have "subscribe k s m = (Some job_ErrSubscriptionExists, m)" by (simp add: subscribe_spec)
    then have "r = Some job_ErrSubscriptionExists" "m' = unsubscribe_all taken s m"
      using 2(5) by auto
    then show ?thesis
      using 2(2-4) by (auto simp: subscribers_unsubscribe_all remove1_append)
  next
    case False
    define m1 where "m1 = m(k \<mapsto> subscribers m k @ [s])"
    have sub: "subscribe k s m = (None, m1)" using False by (simp add: subscribe_spec m1_def)
    have new: "k \<notin> set taken" "s \<notin> set (subscribers m0 k)" using False 2(3) by auto
    have "distinct (taken @ [k])" "\<forall>k'. subscribers m1 k' = subscribers m0 k' @ (if k' \<in> set (taken @ [k]) then [s] else [])"
      "\<forall>k' \<in> set (taken @ [k]). s \<notin> set (subscribers m0 k')"
      "subscribe_from (taken @ [k]) ks s m1 = (r, m')"
      using 2(2-5) new sub by (auto simp: m1_def)
    from 2(1) [OF sub [symmetric] refl this] new show ?thesis by auto
  qed
qed

text \<open>\<open>Subscribe\<close> is all or nothing: either every key was free of the subscription and gets it
  as its last, or an error is returned and each key has the subscribers it had.\<close>

theorem Subscribe_atomic:
  "case Subscribe ks s m of
     (None, m') \<Rightarrow> distinct ks \<and> {k \<in> set ks. s \<in> set (subscribers m k)} = {}
        \<and> (\<forall>k. subscribers m' k = subscribers m k @ (if k \<in> set ks then [s] else []))
   | (Some e, m') \<Rightarrow> e = job_ErrSubscriptionExists \<and> (\<forall>k. subscribers m' k = subscribers m k)"
  using subscribe_from_spec [of "[]" m m s ks] by (auto simp: Subscribe_def split: prod.splits option.splits)

section \<open>The interface of the queue\<close>

text \<open>
  What the other components rely on: a job that is added joins the table as active under a new
  identifier, a job that is refused leaves the data as it was, and adding through a transaction
  does not touch the committed database.
\<close>

locale job_queue =
  fixes add :: "querier \<Rightarrow> Job \<Rightarrow> ('z, Job) dbcmd"
  assumes add_view: "add q j w = (Inr j', w') \<Longrightarrow>
      view q w' = (view q w)\<lparr>db_jobs := db_jobs (view q w) @ [j']\<rparr>"
    and add_job: "add q j w = (Inr j', w') \<Longrightarrow> job_Status j' = JobActive \<and> job_Type j' = job_Type j
      \<and> job_RelatedID j' = job_RelatedID j \<and> job_RelatedType j' = job_RelatedType j
      \<and> job_Data j' = job_Data j \<and> job_CreatedBy j' = job_CreatedBy j
      \<and> \<not> exists_row job_ID (db_jobs (view q w)) (job_ID j')"
    and add_fails: "add q j w = (Inl e, w') \<Longrightarrow> view q w' = view q w \<and> w_db w' = w_db w"
    and add_tx: "keeps same_db (add Tx j)"

lemma Add_keeps: "keeps same_db (Add conf Tx j)"
  unfolding Add_def checkDuplicated_alt Let_def
  by (intro keeps_same_db) (auto intro: keeps_same_db)

lemma Add_fails:
  assumes "Add conf q j w = (Inl e, w')"
  shows "view q w' = view q w \<and> w_db w' = w_db w"
proof -
  let ?c = "typeConfig conf (job_Type j)"
  have same: "view q v = view q u \<and> w_db v = w_db u" if "v = u\<lparr>w_faults := bs\<rparr>" for u v bs
    using that by simp
  have check: "\<exists>bs. v = w\<lparr>w_faults := bs\<rparr>" if "checkDuplicated j w = (r, v)" for r v
    using that unfolding checkDuplicated_alt
    by (cases r) (auto simp: run split: if_splits dest!: failed_op db_call_state)
  from assms consider "whenC (\<not> Duplicated ?c) (checkDuplicated j) w = (Inl e, w')"
    | v where "whenC (\<not> Duplicated ?c) (checkDuplicated j) w = (Inr (), v)"
      "\<exists>bs. w' = v\<lparr>w_uuids := Suc (w_uuids v), w_faults := bs\<rparr>"
    unfolding Add_def Let_def thenC_run_Inl by (auto simp: run dest!: failed_op)
  then show ?thesis
  proof cases
    case 1
    then show ?thesis by (auto simp: run split: if_splits dest!: check)
  next
    case 2
    then obtain bs where "w' = v\<lparr>w_uuids := Suc (w_uuids v), w_faults := bs\<rparr>" by blast
    moreover have "v = w \<or> (\<exists>bs. v = w\<lparr>w_faults := bs\<rparr>)"
      using 2(1) by (auto simp: run split: if_splits dest!: check)
    ultimately show ?thesis by (auto simp: view_def split: querier.splits option.splits)
  qed
qed

lemma Add_creator:
  "Add conf q j w = (Inr j', w') \<Longrightarrow> job_RelatedType j' = job_RelatedType j \<and> job_CreatedBy j' = job_CreatedBy j"
  by (auto simp: Add_def Let_def run)

interpretation queue: job_queue "Add conf"
  by unfold_locales (simp_all add: Add_run Add_creator Add_fails Add_keeps)

section \<open>Concrete instances\<close>

text \<open>Two active jobs and one done, a world that holds them, and handlers that succeed or fail.\<close>

definition sample_job :: "string \<Rightarrow> job_type \<Rightarrow> related_type \<Rightarrow> job_status \<Rightarrow> time \<Rightarrow> Job" where
  "sample_job i ty rel st nb = (new_job ty rel (''r'' @ i) JobTask None nb)\<lparr>job_ID := i, job_Status := st\<rparr>"

definition sample_jobs_db :: db where
  "sample_jobs_db = empty_db\<lparr>db_jobs :=
     [sample_job ''a'' JobAccountUpdateBalances JobAccount JobActive 3,
      sample_job ''b'' JobClientEndpointGet JobChannel JobActive 4,
      sample_job ''c'' JobClientEndpointGet JobChannel JobDone 4]\<rparr>"

definition queue_world :: qworld where
  "queue_world = world.extend (initial_world sample_jobs_db 5)
     \<lparr>q_subs = [''rb'' \<mapsto> [''s'']], q_notified = []\<rparr>"

definition failing_handler :: "'s handler" where
  "failing_handler j w = ((Some DBFail, j), w)"

lemma queue_world_simps [simp]:
  "w_db queue_world = sample_jobs_db" "w_faults queue_world = []" "w_tx queue_world = None"
  "w_now queue_world = 5" "q_subs queue_world = [''rb'' \<mapsto> [''s'']]"
  by (simp_all add: queue_world_def initial_world_def world.extend_def)

lemma sample_job_simps [simp]:
  "job_ID (sample_job i ty rel st nb) = i" "job_Type (sample_job i ty rel st nb) = ty"
  "job_RelatedType (sample_job i ty rel st nb) = rel" "job_RelatedID (sample_job i ty rel st nb) = ''r'' @ i"
  "job_Status (sample_job i ty rel st nb) = st" "job_NotBefore (sample_job i ty rel st nb) = nb"
  "job_TryCount (sample_job i ty rel st nb) = 0" "job_CreatedAt (sample_job i ty rel st nb) = zero_time"
  "job_Data (sample_job i ty rel st nb) = None"
  by (simp_all add: sample_job_def new_job_def)

lemma valid_pick_hd: "valid_pick hd"
  by (simp add: valid_pick_def)

lemma collect_sample:
  "collect NewConfig hd 5 sample_jobs_db =
     [sample_job ''b'' JobClientEndpointGet JobChannel JobActive 4,
      sample_job ''a'' JobAccountUpdateBalances JobAccount JobActive 3]"
  by (simp add: collect_def distinct_active_def sample_jobs_db_def empty_db_def NewConfig_def
      related_priority_def)

theorem collect_sound_witness:
  "valid_pick hd \<and> sorted (map (\<lambda>j. related_priority (job_RelatedType j)) (collect NewConfig hd 5 sample_jobs_db))
     \<and> map job_ID (collect NewConfig hd 5 sample_jobs_db) = [''b'', ''a'']"
  using collect_sound [OF valid_pick_hd refl, of NewConfig 5 sample_jobs_db] valid_pick_hd
  by (simp add: collect_sample)

theorem collect_complete_witness:
  "''rb'' \<in> job_RelatedID ` set (collect NewConfig hd 5 sample_jobs_db)"
  using collect_complete [OF valid_pick_hd, of "sample_job ''b'' JobClientEndpointGet JobChannel JobActive 4"
      sample_jobs_db NewConfig 5]
  by (simp add: collect_sample)

definition sample_new_job :: Job where
  "sample_new_job = new_job JobClientEndpointGet JobChannel ''rc'' JobTask (Some (JObj [])) 7"

lemma Add_sample:
  "Add NewConfig Conn sample_new_job queue_world =
     (Inr (sample_new_job\<lparr>job_ID := ''u'', job_CreatedAt := 5\<rparr>),
      queue_world\<lparr>w_db := sample_jobs_db\<lparr>db_jobs := db_jobs sample_jobs_db
         @ [sample_new_job\<lparr>job_ID := ''u'', job_CreatedAt := 5\<rparr>]\<rparr>, w_uuids := 1\<rparr>)"
  by (simp add: Add_def checkDuplicated_alt duplicates_def exec_defs typeConfig_def NewConfig_def
      sample_new_job_def new_job_def dec_JobData_def dec_struct_def dec_pointer_def queue_world_def
      initial_world_def world.extend_def sample_jobs_db_def empty_db_def)

lemma sample_new_job_config:
  "\<not> Duplicated (typeConfig NewConfig (job_Type sample_new_job))"
  "fst (dec_JobData (job_Data sample_new_job)) = None"
  by (simp_all add: sample_new_job_def new_job_def NewConfig_def typeConfig_def dec_JobData_def
      dec_struct_def dec_pointer_def)

theorem Add_only_active_witness:
  "\<exists>j' w'. Add NewConfig Conn sample_new_job queue_world = (Inr j', w')
     \<and> filter (\<lambda>r. job_RelatedID r = ''rc'' \<and> job_Type r = JobClientEndpointGet \<and> job_Status r = JobActive)
         (db_jobs (w_db w')) = [j']"
  using Add_only_active [OF Add_sample sample_new_job_config] Add_sample
  by (simp only: sample_new_job_def new_job_def Job.select_convs) blast

definition sample_log :: JobEthLog where
  "sample_log = \<lparr>elog_Block = 7, elog_Data = [1, 2], elog_Topics = [5], elog_TxHash = ''h''\<rparr>"

definition sample_log_job :: Job where
  "sample_log_job = new_job JobAgentAfterChannelCreate JobChannel ''rc'' JobBCMonitor
     (Some (enc_JobData (Some sample_log))) 7"

lemma Add_log_sample:
  "Add NewConfig Conn sample_log_job queue_world =
     (Inr (sample_log_job\<lparr>job_ID := ''u'', job_CreatedAt := 5\<rparr>),
      queue_world\<lparr>w_db := sample_jobs_db\<lparr>db_jobs := db_jobs sample_jobs_db
         @ [sample_log_job\<lparr>job_ID := ''u'', job_CreatedAt := 5\<rparr>]\<rparr>, w_uuids := 1\<rparr>)"
  by (simp add: Add_def checkDuplicated_alt duplicates_def exec_defs typeConfig_def NewConfig_def
      sample_log_job_def new_job_def dec_enc_JobData queue_world_def
      initial_world_def world.extend_def sample_jobs_db_def empty_db_def)

theorem Add_one_job_per_log_witness:
  "one_job_per_log NewConfig (w_db (snd (Add NewConfig Conn sample_log_job queue_world)))"
proof -
  have "one_job_per_log NewConfig (w_db queue_world)"
    by (simp add: one_job_per_log_def sample_jobs_db_def empty_db_def log_hash_def sql_get_def sql_text_def)
  from Add_one_job_per_log [OF this Add_log_sample] show ?thesis
    by (simp only: Add_log_sample snd_conv) (simp add: sample_log_job_def new_job_def)
qed

theorem retries_until_limit_witness:
  "map_prod job_TryCount job_Status (let j = fst (process_times NewConfig failing_handler 2
       (sample_job ''a'' JobAccountUpdateBalances JobAccount JobActive 3) queue_world) in (j, j)) = (2, JobActive)
   \<and> job_Status (fst (process_times NewConfig failing_handler 5
       (sample_job ''a'' JobAccountUpdateBalances JobAccount JobActive 3) queue_world)) = JobFailed"
proof -
  have f: "always_fails (failing_handler :: qworld handler)" by (simp add: always_fails_def failing_handler_def)
  have "TryLimit (typeConfig NewConfig (job_Type (sample_job ''a'' JobAccountUpdateBalances JobAccount JobActive 3))) = 3"
    by (simp add: NewConfig_def typeConfig_def)
  from retries_until_limit [OF f _ _ this, of 2 queue_world] retries_until_limit [OF f _ _ this, of 5 queue_world]
  show ?thesis by (simp add: Let_def del: process_times.simps)
qed

theorem worker_skips_witness:
  "processWorker_step NewConfig (\<lambda>_. Some failing_handler) ''c'' queue_world = (Next, queue_world)"
  by (rule worker_skips [where job = "sample_job ''c'' JobClientEndpointGet JobChannel JobDone 4"])
    (simp_all add: lookup_def sample_jobs_db_def)

lemma worker_sample:
  "\<exists>w'. processWorker_step NewConfig (\<lambda>_. Some failing_handler) ''b'' queue_world = (Next, w')"
  by (simp add: processWorker_step_def processJob_error failing_handler_def exec_defs typeConfig_def
      NewConfig_def reread_def saveJobAndNotify_def notify_def sample_jobs_db_def empty_db_def
      queue_world_def initial_world_def world.extend_def)

theorem worker_runs_job_witness:
  "\<exists>w'. processWorker_step NewConfig (\<lambda>_. Some failing_handler) ''b'' queue_world = (Next, w')
     \<and> map_option job_Status (lookup JobTable (w_db w') ''b'') = Some JobActive
     \<and> lookup JobTable (w_db w') ''a'' = lookup JobTable sample_jobs_db ''a''"
proof -
  let ?j = "sample_job ''b'' JobClientEndpointGet JobChannel JobActive 4"
  obtain w' where s: "processWorker_step NewConfig (\<lambda>_. Some failing_handler) ''b'' queue_world = (Next, w')"
    using worker_sample by blast
  have j: "lookup JobTable (w_db queue_world) ''b'' = Some ?j"
    by (simp add: lookup_def sample_jobs_db_def)
  have "failing_handler ?j queue_world = ((Some DBFail, ?j), queue_world)" by (simp add: failing_handler_def)
  from worker_runs_job [OF _ j _ _ refl this _ _ s refl] j s show ?thesis
    by (simp add: typeConfig_def NewConfig_def word_le_nat_alt)
qed

end
