(* ===== verification/Samples.thy ===== *)
theory Samples
  imports JobQueue
begin

text \<open>Rows and worlds on which the theorems are instantiated.\<close>

definition sample_channel :: Channel where
  "sample_channel = \<lparr>ch_ID = ''c1'', ch_Agent = ''aa'', ch_Client = ''cc'', ch_Offering = ''o1'', ch_Block = 9,
     ch_ChannelStatus = ChannelActive, ch_ServiceStatus = ServiceActive, ch_ServiceChangedTime = Some 0,
     ch_PreparedAt = 0, ch_TotalDeposit = 1000, ch_Salt = 1, ch_Username = None, ch_Password = [],
     ch_ReceiptBalance = 300, ch_ReceiptSignature = None\<rparr>"

definition sample_offering :: Offering where
  "sample_offering = \<lparr>ofr_ID = ''o1'', ofr_IsLocal = True, ofr_IPType = ''mobile'', ofr_Template = ''t1'',
     ofr_Product = ''p1'', ofr_Hash = ''0f'', ofr_Status = OfferRegistered, ofr_BlockNumberUpdated = 5,
     ofr_Agent = ''aa'', ofr_RawMsg = [], ofr_ServiceName = ''vpn'', ofr_Description = None,
     ofr_Country = ''US'', ofr_Supply = 3, ofr_CurrentSupply = 2, ofr_UnitName = ''MB'',
     ofr_UnitType = UnitScalar, ofr_BillingType = BillingPostpaid, ofr_SetupPrice = 10, ofr_UnitPrice = 2,
     ofr_MinUnits = 100, ofr_MaxUnit = Some 400, ofr_BillingInterval = 5, ofr_MaxBillingUnitLag = 20,
     ofr_MaxSuspendTime = 60, ofr_MaxInactiveTimeSec = 90, ofr_FreeUnits = 1, ofr_AdditionalParams = [],
     ofr_AutoPopUp = None, ofr_SOMCType = 1, ofr_SOMCData = [], ofr_SOMCSuccessPing = None\<rparr>"

definition sample_session :: Session where
  "sample_session = \<lparr>ses_ID = ''s1'', ses_Channel = ''c1'', ses_Started = 0, ses_Stopped = None,
     ses_UnitsUsed = 150, ses_SecondsConsumed = 40, ses_LastUsageTime = 0, ses_ClientIP = None,
     ses_ClientPort = None\<rparr>"

definition sample_account :: "string \<Rightarrow> string \<Rightarrow> Account" where
  "sample_account i addr = \<lparr>acc_ID = i, acc_EthAddr = addr, acc_PublicKey = [], acc_PrivateKey = [],
     acc_IsDefault = True, acc_InUse = True, acc_Name = i, acc_PTCBalance = 0, acc_PSCBalance = 0,
     acc_EthBalance = [], acc_LastBalanceCheck = None\<rparr>"

definition sample_db :: db where
  "sample_db = empty_db\<lparr>db_accounts := [sample_account ''a1'' ''aa''],
     db_offerings := [sample_offering], db_channels := [sample_channel],
     db_sessions := [sample_session],
     db_jobs := [(sample_job ''j1'' JobClientEndpointGet JobChannel JobActive 4)\<lparr>job_RelatedID := ''c1''\<rparr>]\<rparr>"

definition sample_world :: world where
  "sample_world = initial_world sample_db 5000000000000"

lemmas sample_defs =
  sample_channel_def sample_offering_def sample_session_def sample_account_def sample_db_def
  sample_world_def initial_world_def empty_db_def sample_job_def new_job_def

lemma sample_world_simps [simp]:
  "w_db sample_world = sample_db" "w_faults sample_world = []" "w_tx sample_world = None"
  "w_now sample_world = 5000000000000" "can_call Conn sample_world"
  "w_uuid sample_world (w_uuids sample_world) = ''u''"
  by (simp_all add: sample_world_def initial_world_def)

lemma sample_db_simps [simp]:
  "db_channels sample_db = [sample_channel]" "db_offerings sample_db = [sample_offering]"
  "db_sessions sample_db = [sample_session]" "db_accounts sample_db = [sample_account ''a1'' ''aa'']"
  "db_jobs sample_db = [(sample_job ''j1'' JobClientEndpointGet JobChannel JobActive 4)\<lparr>job_RelatedID := ''c1''\<rparr>]"
  "db_settings sample_db = []" "db_users sample_db = []" "db_endpoints sample_db = []"
  by (simp_all add: sample_db_def empty_db_def)

end
