(* ===== verification/Processor.thy ===== *)
theory Processor
  imports Samples
begin

text \<open>
  The top-level operations on a channel's service, \<open>src/proc/channel.go\<close>: to suspend, activate or
  terminate it, a job of the right kind is queued, in one transaction with the checks that the
  service is in a status that allows it and that no job stands in the way. The queue is a
  parameter, the method \<open>Add\<close> of the interface \<open>job.Queue\<close>.
\<close>

type_synonym 'z adder = "querier \<Rightarrow> Job \<Rightarrow> ('z, Job) dbcmd"

definition activateTransitions :: "svc_status set" where
  "activateTransitions = {ServicePending, ServiceSuspended}"

definition suspendTransitions :: "svc_status set" where
  "suspendTransitions = {ServiceActive}"

definition terminateTransitions :: "svc_status set" where
  "terminateTransitions = {ServicePending, ServiceActive, ServiceSuspended}"

text \<open>A missing type stands for the empty string, which checks jobs of every type.\<close>

definition checkJobExists :: "string \<Rightarrow> job_type option \<Rightarrow> ('z, unit) dbcmd" where
  "checkJobExists rel ty =
     handleC (select_one JobTable Tx (\<lambda>j. job_Status j = JobActive \<and> job_RelatedID j = rel
                \<and> (case ty of None \<Rightarrow> True | Some t \<Rightarrow> job_Type j = t)))
       (\<lambda>e. if e = NoRows then ret () else fail e)
       (\<lambda>_. fail (Proc (case ty of None \<Rightarrow> proc_ErrActiveJobsExist | Some _ \<Rightarrow> proc_ErrSameJobExists)))"

definition cancelJobs :: "string \<Rightarrow> ('z, unit) dbcmd" where
  "cancelJobs rel = bindC (exec_update JobTable Tx (\<lambda>j. job_Status j = JobActive \<and> job_RelatedID j = rel)
     (\<lambda>j. j\<lparr>job_Status := JobCanceled\<rparr>)) (\<lambda>_. ret ())"

definition alterServiceStatus ::
  "'z adder \<Rightarrow> string \<Rightarrow> job_creator \<Rightarrow> job_type \<Rightarrow> job_type option \<Rightarrow> svc_status set \<Rightarrow> bool
     \<Rightarrow> ('z, string) dbcmd" where
  "alterServiceStatus add i jobCreator jobType jobTypeToCheck allowed cancel = in_tx
     (bindC (select_one ChannelTable Tx (\<lambda>c. ch_ID c = i)) (\<lambda>ch.
      thenC (guardC (ch_ServiceStatus ch \<in> allowed) (Proc proc_ErrBadServiceStatus))
     (thenC (checkJobExists (ch_ID ch) jobTypeToCheck)
     (thenC (whenC cancel (cancelJobs (ch_ID ch)))
       (bindC (add Tx (new_job jobType JobChannel (ch_ID ch) jobCreator (Some (JObj [])) zero_time))
         (\<lambda>j. ret (job_ID j)))))))"

definition SuspendChannel :: "'z adder \<Rightarrow> string \<Rightarrow> job_creator \<Rightarrow> bool \<Rightarrow> ('z, string) dbcmd" where
  "SuspendChannel add i jobCreator agent = alterServiceStatus add i jobCreator
     (if agent then JobAgentPreServiceSuspend else JobClientPreServiceSuspend) None suspendTransitions False"

definition ActivateChannel :: "'z adder \<Rightarrow> string \<Rightarrow> job_creator \<Rightarrow> bool \<Rightarrow> ('z, string) dbcmd" where
  "ActivateChannel add i jobCreator agent = alterServiceStatus add i jobCreator
     (if agent then JobAgentPreServiceUnsuspend else JobClientPreServiceUnsuspend) None activateTransitions False"

definition TerminateChannel :: "'z adder \<Rightarrow> string \<Rightarrow> job_creator \<Rightarrow> bool \<Rightarrow> ('z, string) dbcmd" where
  "TerminateChannel add i jobCreator agent =
     (let jobType = (if agent then JobAgentPreServiceTerminate else JobClientPreServiceTerminate)
      in alterServiceStatus add i jobCreator jobType (Some jobType) terminateTransitions True)"

section \<open>Atomicity and effect\<close>

text \<open>The active jobs of an object.\<close>

definition active_jobs :: "string \<Rightarrow> db \<Rightarrow> Job list" where
  "active_jobs rel d = filter (\<lambda>j. job_Status j = JobActive \<and> job_RelatedID j = rel) (db_jobs d)"

definition cancel_active :: "string \<Rightarrow> Job list \<Rightarrow> Job list" where
  "cancel_active rel = map (\<lambda>j. if job_Status j = JobActive \<and> job_RelatedID j = rel
     then j\<lparr>job_Status := JobCanceled\<rparr> else j)"

lemma ChannelTable_simps [simp]:
  "t_rows ChannelTable = db_channels" "t_key ChannelTable = ch_ID"
  "t_put ChannelTable rs d = d\<lparr>db_channels := rs\<rparr>"
  by (simp_all add: ChannelTable_def)

lemma same_id_same_row:
  "distinct (map ch_ID cs) \<Longrightarrow> c \<in> set cs \<Longrightarrow> c' \<in> set cs \<Longrightarrow> ch_ID c' = ch_ID c \<Longrightarrow> c' = c"
  by (simp add: distinct_map inj_on_def)

lemma checkJobExists_run:
  "checkJobExists rel ty w = (Inr u, w') \<longleftrightarrow> db_call Tx w = (Inr (), w')
     \<and> (\<forall>j \<in> set (active_jobs rel (view Tx w)). case ty of None \<Rightarrow> False | Some t \<Rightarrow> job_Type j \<noteq> t)"
  unfolding checkJobExists_def active_jobs_def
  by (auto simp: run find_None_iff_set split: if_splits option.splits)

lemma cancelJobs_view:
  "cancelJobs rel w = (Inr u, w') \<Longrightarrow>
     view Tx w' = (view Tx w)\<lparr>db_jobs := cancel_active rel (db_jobs (view Tx w))\<rparr>"
  unfolding cancelJobs_def cancel_active_def
  by (auto simp: run dest!: JobTable.exec_update_view)

lemma keeps_cancelJobs: "keeps same_db (cancelJobs rel)"
  unfolding cancelJobs_def by (intro keeps_same_db)

lemma keeps_checkJobExists: "keeps same_db (checkJobExists rel ty)"
  unfolding checkJobExists_def by (intro keeps_same_db) (auto intro: keeps_same_db)

context job_queue
begin

lemma alter_fails:
  assumes "alterServiceStatus add i creator ty check allowed cancel w = (Inl e, w')"
  shows "w_db w' = w_db w"
  using assms unfolding alterServiceStatus_def
  by (rule in_tx_error [rotated])
    (intro keeps_same_db keeps_checkJobExists keeps_cancelJobs add_tx)

lemma alter_succeeds:
  assumes "alterServiceStatus add i creator ty check allowed cancel w = (Inr jid, w')"
  obtains ch j where "find (\<lambda>c. ch_ID c = i) (db_channels (w_db w)) = Some ch" "ch_ServiceStatus ch \<in> allowed"
    "\<forall>j \<in> set (active_jobs i (w_db w)). case check of None \<Rightarrow> False | Some t \<Rightarrow> job_Type j \<noteq> t"
    "w_db w' = (w_db w)\<lparr>db_jobs := (if cancel then cancel_active i (db_jobs (w_db w)) else db_jobs (w_db w)) @ [j]\<rparr>"
    "job_ID j = jid" "job_Status j = JobActive" "job_Type j = ty" "job_RelatedID j = i"
    "job_CreatedBy j = creator" "job_RelatedType j = JobChannel" "w_tx w' = None"
proof -
  from assms obtain bs v where run: "(bindC (select_one ChannelTable Tx (\<lambda>c. ch_ID c = i)) (\<lambda>ch.
      thenC (guardC (ch_ServiceStatus ch \<in> allowed) (Proc proc_ErrBadServiceStatus))
     (thenC (checkJobExists (ch_ID ch) check)
     (thenC (whenC cancel (cancelJobs (ch_ID ch)))
       (bindC (add Tx (new_job ty JobChannel (ch_ID ch) creator (Some (JObj [])) zero_time))
         (\<lambda>j. ret (job_ID j))))))) (w\<lparr>w_faults := bs, w_tx := Some (w_db w)\<rparr>) = (Inr jid, v)"
    and v: "w_db w' = view Tx v" "w_tx w' = None"
    unfolding alterServiceStatus_def by (rule in_tx_success)
  let ?s = "w\<lparr>w_faults := bs, w_tx := Some (w_db w)\<rparr>"
  from run obtain ch s1 s2 s3 j where
    ch: "db_call Tx ?s = (Inr (), s1)" "find (\<lambda>c. ch_ID c = i) (db_channels (w_db w)) = Some ch"
    and st: "ch_ServiceStatus ch \<in> allowed"
    and chk: "checkJobExists (ch_ID ch) check s1 = (Inr (), s2)"
    and can: "whenC cancel (cancelJobs (ch_ID ch)) s2 = (Inr (), s3)"
    and add: "add Tx (new_job ty JobChannel (ch_ID ch) creator (Some (JObj [])) zero_time) s3 = (Inr j, v)"
    and jid: "jid = job_ID j"
    by (auto simp: bindC_run_Inr thenC_run_Inr select_one_run guardC_run ret_run)
  have i: "ch_ID ch = i" using find_Some_in [OF ch(2)] by simp
  have s1: "view Tx s1 = w_db w" using ch(1) by (simp add: db_call_ok)
  from chk have s2: "view Tx s2 = w_db w"
    and none: "\<forall>j \<in> set (active_jobs i (w_db w)). case check of None \<Rightarrow> False | Some t \<Rightarrow> job_Type j \<noteq> t"
    unfolding checkJobExists_run i s1 by (auto simp: db_call_ok s1)
  have s3: "view Tx s3 = (w_db w)\<lparr>db_jobs := (if cancel then cancel_active i (db_jobs (w_db w)) else db_jobs (w_db w))\<rparr>"
    using can s2 i by (auto simp: whenC_run dest!: cancelJobs_view split: if_splits)
  show thesis
    by (rule that [of ch j])
      (use ch st none v s3 add_view [OF add] add_job [OF add] jid i in \<open>auto simp: new_job_def\<close>)
qed

end

lemma service_operation_cases:
  assumes "op \<in> {SuspendChannel add, ActivateChannel add, TerminateChannel add}"
  shows "\<exists>ty check allowed cancel. op i creator agent = alterServiceStatus add i creator ty check allowed cancel
    \<and> (cancel \<or> check = None)"
proof -
  from assms consider "op = SuspendChannel add" | "op = ActivateChannel add" | "op = TerminateChannel add"
    by blast
  then show ?thesis
  proof cases
    case 1
    show ?thesis unfolding 1 SuspendChannel_def by (intro exI conjI, rule refl) simp
  next
    case 2
    show ?thesis unfolding 2 ActivateChannel_def by (intro exI conjI, rule refl) simp
  next
    case 3
    show ?thesis unfolding 3 TerminateChannel_def Let_def by (intro exI conjI, rule refl) simp
  qed
qed

text \<open>C32: suspending, activating and terminating are atomic: when the call fails, for whatever reason
  and at whatever point, the stored data is as it was.\<close>

theorem service_operations_atomic:
  assumes "op \<in> {SuspendChannel (Add conf), ActivateChannel (Add conf), TerminateChannel (Add conf)}"
    and "op i creator agent w = (Inl e, w')"
  shows "w_db w' = w_db w"
proof -
  obtain ty check allowed cancel where
    "op i creator agent = alterServiceStatus (Add conf) i creator ty check allowed cancel"
    using service_operation_cases [OF assms(1), of i creator agent] by blast
  with assms(2) have "alterServiceStatus (Add conf) i creator ty check allowed cancel w = (Inl e, w')" by simp
  then show ?thesis by (rule queue.alter_fails)
qed

lemma no_active_after_cancel: "active_jobs i (d\<lparr>db_jobs := cancel_active i js\<rparr>) = []"
proof -
  have "filter (\<lambda>j. job_Status j = JobActive \<and> job_RelatedID j = i) (cancel_active i js) = []"
    by (induction js) (simp_all add: cancel_active_def)
  then show ?thesis by (simp add: active_jobs_def)
qed

lemma service_operation_effect:
  assumes "op \<in> {SuspendChannel (Add conf), ActivateChannel (Add conf), TerminateChannel (Add conf)}"
    and "op i creator agent w = (Inr jid, w')"
  shows "map job_ID (active_jobs i (w_db w')) = [jid]
    \<and> (w_db w')\<lparr>db_jobs := []\<rparr> = (w_db w)\<lparr>db_jobs := []\<rparr>"
proof -
  obtain ty check allowed cancel where
    "op i creator agent = alterServiceStatus (Add conf) i creator ty check allowed cancel"
    and kind: "cancel \<or> check = None"
    using service_operation_cases [OF assms(1), of i creator agent] by blast
  with assms(2) have run: "alterServiceStatus (Add conf) i creator ty check allowed cancel w = (Inr jid, w')" by simp
  from run show ?thesis
  proof (rule queue.alter_succeeds)
    fix ch j
    assume none: "\<forall>j \<in> set (active_jobs i (w_db w)). case check of None \<Rightarrow> False | Some t \<Rightarrow> job_Type j \<noteq> t"
      and db: "w_db w' = (w_db w)\<lparr>db_jobs := (if cancel then cancel_active i (db_jobs (w_db w)) else db_jobs (w_db w)) @ [j]\<rparr>"
      and j: "job_ID j = jid" "job_Status j = JobActive" "job_RelatedID j = i"
    have "active_jobs i ((w_db w)\<lparr>db_jobs := if cancel then cancel_active i (db_jobs (w_db w)) else db_jobs (w_db w)\<rparr>) = []"
    proof (cases cancel)
      case True
      then show ?thesis using no_active_after_cancel [where d = "w_db w" and i = i] by simp
    next
      case False
      with kind have "check = None" by simp
      with none have "set (active_jobs i (w_db w)) = {}" by auto
      with False show ?thesis by simp
    qed
    with db j show ?thesis by (simp add: active_jobs_def)
  qed
qed

lemma TerminateChannel_effect:
  assumes "TerminateChannel (Add conf) i creator agent w = (Inr jid, w')"
  shows "\<exists>j. db_jobs (w_db w') = cancel_active i (db_jobs (w_db w)) @ [j]
    \<and> job_ID j = jid \<and> job_Status j = JobActive \<and> job_RelatedID j = i \<and> job_CreatedBy j = creator
    \<and> job_Type j = (if agent then JobAgentPreServiceTerminate else JobClientPreServiceTerminate)"
  using assms unfolding TerminateChannel_def Let_def by (rule queue.alter_succeeds) auto

text \<open>C31: after a successful call the channel has exactly one active job, the one whose identifier is
  returned, and nothing but the jobs has changed.\<close>

theorem service_operation_queues_one_job:
  assumes "op \<in> {SuspendChannel (Add conf), ActivateChannel (Add conf), TerminateChannel (Add conf)}"
    and "op i creator agent w = (Inr jid, w')"
  shows "map job_ID (active_jobs i (w_db w')) = [jid]
    \<and> (w_db w')\<lparr>db_jobs := []\<rparr> = (w_db w)\<lparr>db_jobs := []\<rparr>"
  using assms by (rule service_operation_effect)

text \<open>C14: terminating cancels every active job of the channel, and leaves all other jobs alone.\<close>

theorem TerminateChannel_cancels:
  assumes "TerminateChannel (Add conf) i creator agent w = (Inr jid, w')"
  shows "\<exists>j. db_jobs (w_db w') = cancel_active i (db_jobs (w_db w)) @ [j]
    \<and> job_ID j = jid \<and> job_Status j = JobActive \<and> job_RelatedID j = i \<and> job_CreatedBy j = creator
    \<and> job_Type j = (if agent then JobAgentPreServiceTerminate else JobClientPreServiceTerminate)"
  using assms by (rule TerminateChannel_effect)

lemma active_jobs_other:
  "k \<noteq> i \<Longrightarrow> active_jobs k (d\<lparr>db_jobs := cancel_active i js @ [j]\<rparr>)
     = active_jobs k (d\<lparr>db_jobs := js\<rparr>) @ (if job_Status j = JobActive \<and> job_RelatedID j = k then [j] else [])"
proof -
  assume "k \<noteq> i"
  then have "filter (\<lambda>j. job_Status j = JobActive \<and> job_RelatedID j = k) (cancel_active i js)
      = filter (\<lambda>j. job_Status j = JobActive \<and> job_RelatedID j = k) js"
    by (induction js) (auto simp: cancel_active_def)
  then show ?thesis by (simp add: active_jobs_def)
qed

lemma exists_row_append: "exists_row key (rs @ [r]) k \<longleftrightarrow> exists_row key rs k \<or> key r = k"
  by (simp add: exists_row_def)

section \<open>When a channel can be terminated\<close>

lemma exists_row_cancel_active [simp]:
  "exists_row job_ID (cancel_active i js) k = exists_row job_ID js k"
  by (induction js) (simp_all add: exists_row_def cancel_active_def)

text \<open>Identifiers still to come are new and differ from each other.\<close>

definition fresh_jobs :: "'z world_scheme \<Rightarrow> bool" where
  "fresh_jobs w \<longleftrightarrow> inj (w_uuid w) \<and>
     (\<forall>n \<ge> w_uuids w. \<not> exists_row job_ID (db_jobs (w_db w)) (w_uuid w n))"

lemma Add_no_log:
  assumes "can_call q w" "w_faults w = []" "fst (dec_JobData (job_Data j)) = None"
    and "\<forall>r \<in> set (active_jobs (job_RelatedID j) (w_db w)). job_Type r \<noteq> job_Type j"
    and "\<not> exists_row job_ID (db_jobs (view q w)) (w_uuid w (w_uuids w))"
  shows "\<exists>j'. Add conf q j w =
      (Inr j', write_db q (\<lambda>d. d\<lparr>db_jobs := db_jobs d @ [j']\<rparr>) (w\<lparr>w_uuids := Suc (w_uuids w)\<rparr>))
    \<and> job_ID j' = w_uuid w (w_uuids w)"
proof -
  have "find (duplicates j) (db_jobs (w_db w)) = None"
    using assms(3,4) by (auto simp: find_None_iff_set duplicates_def active_jobs_def)
  then have chk: "checkDuplicated j w = (Inr (), w)"
    using assms(2) by (simp add: checkDuplicated_run)
  have vw: "view q (w\<lparr>w_uuids := n\<rparr>) = view q w" for n
    by (auto simp: view_def split: querier.splits option.splits)
  show ?thesis
    using assms(1,5) by (simp add: Add_def Let_def bindC_def thenC_def whenC_def now_def getC_def
        new_uuid_def on_err_def ret_def chk insert_row_ok vw)
qed

lemma terminate_ok:
  assumes "w_faults w = []" and ch: "lookup ChannelTable (w_db w) i = Some ch"
    and "ch_ServiceStatus ch \<in> terminateTransitions"
    and "\<forall>j \<in> set (active_jobs i (w_db w)).
      job_Type j \<noteq> (if agent then JobAgentPreServiceTerminate else JobClientPreServiceTerminate)"
    and "\<not> exists_row job_ID (db_jobs (w_db w)) (w_uuid w (w_uuids w))"
  shows "\<exists>j. TerminateChannel (Add conf) i creator agent w = (Inr (job_ID j),
      w\<lparr>w_db := (w_db w)\<lparr>db_jobs := cancel_active i (db_jobs (w_db w)) @ [j]\<rparr>, w_tx := None,
        w_uuids := Suc (w_uuids w)\<rparr>)
    \<and> job_ID j = w_uuid w (w_uuids w)"
proof -
  define ty where "ty = (if agent then JobAgentPreServiceTerminate else JobClientPreServiceTerminate)"
  define s where "s = w\<lparr>w_tx := Some (w_db w)\<rparr>"
  define d1 where "d1 = (w_db w)\<lparr>db_jobs := cancel_active i (db_jobs (w_db w))\<rparr>"
  define t where "t = w\<lparr>w_tx := Some d1\<rparr>"
  let ?j = "new_job ty JobChannel i creator (Some (JObj [])) zero_time"
  have s: "can_call Tx s" "view Tx s = w_db w" using assms(1) by (simp_all add: s_def)
  have t: "can_call Tx t" "w_faults t = []" "w_db t = w_db w" "w_uuid t (w_uuids t) = w_uuid w (w_uuids w)"
    "view Tx t = d1"
    using assms(1) by (simp_all add: t_def)
  have i: "ch_ID ch = i" using ch find_Some_in by (fastforce simp: lookup_def)
  have sel: "select_one ChannelTable Tx (\<lambda>c. ch_ID c = i) s = (Inr ch, s)"
    using s ch by (simp add: select_one_ok lookup_def)
  have chk: "checkJobExists i (Some ty) s = (Inr (), s)"
    using assms(4) s by (simp add: checkJobExists_run db_call_can ty_def)
  have "exec_update JobTable Tx (\<lambda>j. job_Status j = JobActive \<and> job_RelatedID j = i)
      (\<lambda>j. j\<lparr>job_Status := JobCanceled\<rparr>) s = (Inr (length (active_jobs i (w_db w))),
        write_db Tx (\<lambda>d. d\<lparr>db_jobs := cancel_active i (db_jobs d)\<rparr>) s)"
    unfolding exec_update_ok [OF s(1)] s(2) cancel_active_def active_jobs_def
    by (simp add: list_all_iff)
  moreover have "write_db Tx (\<lambda>d. d\<lparr>db_jobs := cancel_active i (db_jobs d)\<rparr>) s = t"
    by (simp add: s_def t_def d1_def write_Tx_open)
  ultimately have "exec_update JobTable Tx (\<lambda>j. job_Status j = JobActive \<and> job_RelatedID j = i)
      (\<lambda>j. j\<lparr>job_Status := JobCanceled\<rparr>) s = (Inr (length (active_jobs i (w_db w))), t)" by simp
  then have can: "cancelJobs i s = (Inr (), t)" by (simp add: cancelJobs_def bindC_def ret_def)
  have "fst (dec_JobData (job_Data ?j)) = None"
    by (simp add: new_job_def dec_JobData_def dec_struct_def dec_pointer_def)
  then obtain j where add: "Add conf Tx ?j t =
      (Inr j, write_db Tx (\<lambda>d. d\<lparr>db_jobs := db_jobs d @ [j]\<rparr>) (t\<lparr>w_uuids := Suc (w_uuids t)\<rparr>))"
    and j: "job_ID j = w_uuid t (w_uuids t)"
    using Add_no_log [OF t(1,2), of ?j conf] assms(4,5) t by (auto simp: new_job_def ty_def d1_def)
  define u where "u = w\<lparr>w_tx := Some (d1\<lparr>db_jobs := db_jobs d1 @ [j]\<rparr>), w_uuids := Suc (w_uuids w)\<rparr>"
  have u_eq: "write_db Tx (\<lambda>d. d\<lparr>db_jobs := db_jobs d @ [j]\<rparr>) (t\<lparr>w_uuids := Suc (w_uuids t)\<rparr>) = u"
    by (simp add: u_def t_def write_Tx_open)
  have u: "can_call Tx u" "view Tx u = d1\<lparr>db_jobs := db_jobs d1 @ [j]\<rparr>"
    using assms(1) by (simp_all add: u_def)
  have "TerminateChannel (Add conf) i creator agent w = (Inr (job_ID j), u\<lparr>w_db := view Tx u, w_tx := None\<rparr>)"
    unfolding TerminateChannel_def Let_def ty_def [symmetric] alterServiceStatus_def
  proof (rule in_tx_ok [OF assms(1) _ u(1)])
    show "(bindC (select_one ChannelTable Tx (\<lambda>c. ch_ID c = i)) (\<lambda>ch.
      thenC (guardC (ch_ServiceStatus ch \<in> terminateTransitions) (Proc proc_ErrBadServiceStatus))
     (thenC (checkJobExists (ch_ID ch) (Some ty))
     (thenC (whenC True (cancelJobs (ch_ID ch)))
       (bindC (Add conf Tx (new_job ty JobChannel (ch_ID ch) creator (Some (JObj [])) zero_time))
         (\<lambda>j. ret (job_ID j))))))) (w\<lparr>w_tx := Some (w_db w)\<rparr>) = (Inr (job_ID j), u)"
      unfolding s_def [symmetric]
      by (simp add: bindC_def thenC_def guardC_def whenC_def ret_def sel assms(3) i chk can add u_eq)
  qed
  moreover have "u\<lparr>w_db := view Tx u, w_tx := None\<rparr>
    = w\<lparr>w_db := (w_db w)\<lparr>db_jobs := cancel_active i (db_jobs (w_db w)) @ [j]\<rparr>, w_tx := None,
        w_uuids := Suc (w_uuids w)\<rparr>"
    unfolding u(2) by (simp add: u_def d1_def)
  ultimately show ?thesis using j t(4) by metis
qed

lemma no_open_tx [simp]: "w_tx w = None \<Longrightarrow> w\<lparr>w_tx := None\<rparr> = w"
  by (cases w) simp

lemma terminate_again:
  assumes "w_faults w = []" "w_tx w = None" "lookup ChannelTable (w_db w) i = Some ch"
    "ch_ServiceStatus ch \<in> terminateTransitions"
    and job: "\<exists>j \<in> set (active_jobs i (w_db w)).
      job_Type j = (if agent then JobAgentPreServiceTerminate else JobClientPreServiceTerminate)"
  shows "TerminateChannel add i creator agent w = (Inl (Proc proc_ErrSameJobExists), w)"
proof -
  define s where "s = w\<lparr>w_tx := Some (w_db w)\<rparr>"
  define ty where "ty = (if agent then JobAgentPreServiceTerminate else JobClientPreServiceTerminate)"
  have s: "can_call Tx s" "view Tx s = w_db w" "s\<lparr>w_tx := None\<rparr> = w"
    using assms(1,2) by (simp_all add: s_def)
  have i: "ch_ID ch = i" using assms(3) find_Some_in by (fastforce simp: lookup_def)
  have sel: "select_one ChannelTable Tx (\<lambda>c. ch_ID c = i) s = (Inr ch, s)"
    using s assms(3) by (simp add: select_one_ok lookup_def)
  have "find (\<lambda>j. job_Status j = JobActive \<and> job_RelatedID j = i \<and> job_Type j = ty) (db_jobs (w_db w)) \<noteq> None"
    using job unfolding ty_def [symmetric] by (auto simp: active_jobs_def find_None_iff_set)
  then have chk: "checkJobExists i (Some ty) s = (Inl (Proc proc_ErrSameJobExists), s)"
    using s by (auto simp: checkJobExists_def handleC_def select_one_ok fail_def split: option.splits)
  show ?thesis
    unfolding TerminateChannel_def alterServiceStatus_def in_tx_def Let_def ty_def [symmetric]
    using assms(1,4) i
    by (simp add: thenC_def bindC_def handleC_def begin_tx_ok s_def [symmetric] sel guardC_def ret_def chk
        rollback_tx_def modC_def fail_def s(3))
qed

text \<open>The jobs aside, nothing has changed.\<close>

definition same_but_jobs :: "'z world_scheme \<Rightarrow> 'z world_scheme \<Rightarrow> bool" where
  "same_but_jobs w w' \<longleftrightarrow> (w_db w')\<lparr>db_jobs := []\<rparr> = (w_db w)\<lparr>db_jobs := []\<rparr>"

lemma keeps_TerminateChannel: "keeps same_but_jobs (TerminateChannel (Add conf) i creator agent)"
proof (rule stepsI, intro conjI allI impI TrueI)
  fix w :: "'z world_scheme" and r w'
  assume run: "TerminateChannel (Add conf) i creator agent w = (r, w')"
  show "same_but_jobs w w'"
  proof (cases r)
    case (Inl e)
    with run queue.alter_fails show ?thesis
      by (fastforce simp: TerminateChannel_def Let_def same_but_jobs_def)
  next
    case (Inr jid)
    with run service_operation_effect [of "TerminateChannel (Add conf)" conf i creator agent w jid w']
    show ?thesis by (auto simp: same_but_jobs_def)
  qed
qed

text \<open>As long as the database works, terminating a channel succeeds whenever its service is in one
  of the statuses that allow it and no termination is under way, whatever other jobs it has.\<close>

theorem TerminateChannel_succeeds:
  assumes "w_faults w = []" and ch: "lookup ChannelTable (w_db w) i = Some ch"
    and "ch_ServiceStatus ch \<in> terminateTransitions"
    and "\<forall>j \<in> set (active_jobs i (w_db w)).
      job_Type j \<noteq> (if agent then JobAgentPreServiceTerminate else JobClientPreServiceTerminate)"
    and "\<not> exists_row job_ID (db_jobs (w_db w)) (w_uuid w (w_uuids w))"
  shows "\<exists>jid w'. TerminateChannel (Add conf) i creator agent w = (Inr jid, w')"
  using terminate_ok [OF assms] by blast

section \<open>Concrete instances\<close>

lemma TerminateChannel_sample:
  "\<exists>jid w'. TerminateChannel (Add NewConfig) ''c1'' JobUser True sample_world = (Inr jid, w')"
proof -
  have "lookup ChannelTable (w_db sample_world) ''c1'' = Some sample_channel"
    by (simp add: lookup_def sample_channel_def)
  from terminate_ok [OF _ this, of True NewConfig JobUser] show ?thesis
    by (auto simp: active_jobs_def sample_channel_def terminateTransitions_def exists_row_def)
qed

theorem TerminateChannel_succeeds_witness:
  "\<exists>jid w'. TerminateChannel (Add NewConfig) ''c1'' JobUser True sample_world = (Inr jid, w')"
  by (rule TerminateChannel_succeeds [where ch = sample_channel])
    (simp_all add: lookup_def active_jobs_def sample_channel_def terminateTransitions_def exists_row_def)

theorem service_operation_queues_one_job_witness:
  "\<exists>jid w'. TerminateChannel (Add NewConfig) ''c1'' JobUser True sample_world = (Inr jid, w')
     \<and> map job_ID (active_jobs ''c1'' (w_db w')) = [jid]"
proof -
  obtain jid w' where run: "TerminateChannel (Add NewConfig) ''c1'' JobUser True sample_world = (Inr jid, w')"
    using TerminateChannel_sample by blast
  then show ?thesis
    using service_operation_queues_one_job [of "TerminateChannel (Add NewConfig)" NewConfig, OF _ run] by auto
qed

theorem TerminateChannel_cancels_witness:
  "\<exists>jid w' j. TerminateChannel (Add NewConfig) ''c1'' JobUser True sample_world = (Inr jid, w')
     \<and> db_jobs (w_db w') = cancel_active ''c1'' (db_jobs sample_db) @ [j] \<and> job_ID j = jid"
proof -
  obtain jid w' where run: "TerminateChannel (Add NewConfig) ''c1'' JobUser True sample_world = (Inr jid, w')"
    using TerminateChannel_sample by blast
  then show ?thesis using TerminateChannel_cancels [OF run] by auto
qed

text \<open>The sample channel has an active job, so it cannot be suspended.\<close>

theorem service_operations_atomic_witness:
  "\<exists>w'. SuspendChannel (Add NewConfig) ''c1'' JobUser False sample_world
     = (Inl (Proc proc_ErrActiveJobsExist), w') \<and> w_db w' = sample_db"
proof -
  have "\<exists>w'. SuspendChannel (Add NewConfig) ''c1'' JobUser False sample_world
     = (Inl (Proc proc_ErrActiveJobsExist), w')"
    by (simp add: SuspendChannel_def alterServiceStatus_def in_tx_def thenC_def bindC_def handleC_def
        begin_tx_ok select_one_ok guardC_def ret_def fail_def checkJobExists_def suspendTransitions_def
        sample_channel_def rollback_tx_def modC_def)
  then obtain w' where run: "SuspendChannel (Add NewConfig) ''c1'' JobUser False sample_world
     = (Inl (Proc proc_ErrActiveJobsExist), w')" by blast
  then show ?thesis
    using service_operations_atomic [of "SuspendChannel (Add NewConfig)" NewConfig, OF _ run] by auto
qed

end
