(* ===== verification/Payment.thy ===== *)
theory Payment
  imports Processor
begin

text \<open>
  Payments, \<open>src/pay\<close>: the client's cheque (\<open>client.go\<close>), a balance signed for a channel, and the
  agent's server that checks and stores it (\<open>pay.go\<close>, \<open>misc.go\<close>). The hash function, the signature
  scheme and the transport are parameters. A reply carries its code over the wire but not its
  status, so the client sees the status zero.
\<close>

section \<open>Signed messages\<close>

definition ascii :: "string \<Rightarrow> bytes" where
  "ascii s = map of_char s"

definition signed_message :: "(bytes \<Rightarrow> bytes) \<Rightarrow> bytes \<Rightarrow> bytes" where
  "signed_message kec body = kec (25 # ascii ''Ethereum Signed Message:'' @ 10 # ascii ''32'' @ kec body)"

definition BalanceClosingHash :: "(bytes \<Rightarrow> bytes) \<Rightarrow> address \<Rightarrow> address \<Rightarrow> u32 \<Rightarrow> hash \<Rightarrow> u64 \<Rightarrow> bytes" where
  "BalanceClosingHash kec clientAddr pscAddr block offeringHash balance = signed_message kec
     (ascii ''Privatix: receiver closing signature'' @ address_bytes clientAddr @ Uint32ToBytes block
       @ hash_bytes offeringHash @ Uint64ToBytes balance @ address_bytes pscAddr)"

definition BalanceProofHash :: "(bytes \<Rightarrow> bytes) \<Rightarrow> address \<Rightarrow> address \<Rightarrow> u32 \<Rightarrow> hash \<Rightarrow> u64 \<Rightarrow> bytes" where
  "BalanceProofHash kec pscAddr agentAddr block offeringHash balance = signed_message kec
     (ascii ''Privatix: sender balance proof signature'' @ address_bytes agentAddr @ Uint32ToBytes block
       @ hash_bytes offeringHash @ Uint64ToBytes balance @ address_bytes pscAddr)"

section \<open>The payload\<close>

record paymentPayload =
  pld_AgentAddress :: HexString
  pld_OpenBlockNumber :: u32
  pld_OfferingHash :: HexString
  pld_Balance :: u64
  pld_BalanceMsgSig :: Base64String
  pld_ContractAddress :: HexString

definition enc_payload :: "paymentPayload \<Rightarrow> json" where
  "enc_payload p = JObj [(''agentAddress'', JStr (pld_AgentAddress p)),
     (''openBlockNum'', enc_u32 (pld_OpenBlockNumber p)), (''offeringHash'', JStr (pld_OfferingHash p)),
     (''balance'', enc_u64 (pld_Balance p)), (''balanceMsgSig'', JStr (pld_BalanceMsgSig p)),
     (''contractAddress'', JStr (pld_ContractAddress p))]"

definition dec_payload :: "paymentPayload decoder" where
  "dec_payload = dec_struct (\<lambda>m.
     (case dec_str (m ''agentAddress'') of (a, ok1) \<Rightarrow> case dec_u32 (m ''openBlockNum'') of (b, ok2) \<Rightarrow>
      case dec_str (m ''offeringHash'') of (h, ok3) \<Rightarrow> case dec_u64 (m ''balance'') of (n, ok4) \<Rightarrow>
      case dec_str (m ''balanceMsgSig'') of (s, ok5) \<Rightarrow> case dec_str (m ''contractAddress'') of (c, ok6) \<Rightarrow>
        (\<lparr>pld_AgentAddress = a, pld_OpenBlockNumber = b, pld_OfferingHash = h, pld_Balance = n,
          pld_BalanceMsgSig = s, pld_ContractAddress = c\<rparr>, ok1 \<and> ok2 \<and> ok3 \<and> ok4 \<and> ok5 \<and> ok6)))"

lemma dec_enc_payload [simp]: "dec_payload (Some (enc_payload p)) = (p, True)"
  by (simp add: dec_payload_def enc_payload_def dec_struct_def same_name_def lower_char_def)

section \<open>The server\<close>

definition "errCodeNoChannel = (1 :: nat)"
definition "errCodeClosedChannel = (2 :: nat)"
definition "errCodeTerminatedService = (3 :: nat)"

definition "errCodeNonParsablePayload = (1 :: nat)"
definition "errCodeInvalidBalance = (2 :: nat)"
definition "errCodeInvalidSignature = (3 :: nat)"
definition "ErrCodeEqualBalance = (4 :: nat)"

text \<open>In \<open>src/util/srv/error.go\<close> the second constant restarts at its \<open>iota\<close>, one.\<close>

definition "ErrCodeMethodNotAllowed = (1 :: nat)"
definition "ErrCodeInternalServerError = (1 :: nat)"
definition "ErrCodeFailedToParseRequest = (2 :: nat)"
definition "ErrCodeAccessDenied = (3 :: nat)"

lemmas pay_codes =
  errCodeNoChannel_def errCodeClosedChannel_def errCodeTerminatedService_def
  errCodeNonParsablePayload_def errCodeInvalidBalance_def errCodeInvalidSignature_def
  ErrCodeEqualBalance_def ErrCodeFailedToParseRequest_def

definition errUnexpected :: go_error where
  "errUnexpected = SrvError 400 errCodeInvalidSignature"

text \<open>The join constrains the offering by its hash alone: it need not be the channel's.\<close>

definition findChannel :: "HexString \<Rightarrow> HexString \<Rightarrow> u32 \<Rightarrow> ('z, Channel) dbcmd" where
  "findChannel offeringHash agentAddr block =
     bindC (on_err (\<lambda>_. SrvError 401 errCodeNoChannel)
       (query Conn (\<lambda>d. if list_ex (\<lambda>f. ofr_Hash f = offeringHash) (db_offerings d)
          then find (\<lambda>c. ch_Agent c = agentAddr \<and> ch_Block c = block) (db_channels d) else None)))
     (of_option (SrvError 401 errCodeNoChannel))"

definition validateChannelState :: "Channel \<Rightarrow> ('z, unit) dbcmd" where
  "validateChannelState ch = guardC (ch_ChannelStatus ch = ChannelActive) (SrvError 401 errCodeClosedChannel)"

definition isServiceTerminated :: "Channel \<Rightarrow> ('z, unit) dbcmd" where
  "isServiceTerminated ch =
     guardC (ch_ServiceStatus ch \<noteq> ServiceTerminated) (SrvError 401 errCodeTerminatedService)"

text \<open>\<open>valid pub hash sig\<close> is \<open>crypto.VerifySignature\<close>. Cutting the last byte off an empty signature
  panics.\<close>

definition verifySignature ::
  "(bytes \<Rightarrow> bytes) \<Rightarrow> (bytes \<Rightarrow> bytes \<Rightarrow> bytes \<Rightarrow> bool) \<Rightarrow> Channel \<Rightarrow> paymentPayload \<Rightarrow> ('z, unit) dbcmd" where
  "verifySignature kec valid ch pld =
     bindC (on_err (\<lambda>_. errUnexpected) (select_one UserTable Conn (\<lambda>u. usr_EthAddr u = ch_Client ch))) (\<lambda>client.
     bindC (of_option errUnexpected (ToBytes (usr_PublicKey client))) (\<lambda>pub.
     bindC (of_option errUnexpected (ToBytes (pld_BalanceMsgSig pld))) (\<lambda>sig.
     case HexToAddress (pld_ContractAddress pld) of (pscAddr, ok1) \<Rightarrow>
     case HexToAddress (ch_Agent ch) of (agentAddr, ok2) \<Rightarrow>
     case HexToHash (pld_OfferingHash pld) of (offeringHash, ok3) \<Rightarrow>
     thenC (guardC ok1 errUnexpected)
    (thenC (guardC ok2 errUnexpected)
    (thenC (guardC ok3 errUnexpected)
    (thenC (guardC (sig \<noteq> []) Panic)
       (guardC (valid pub (BalanceProofHash kec pscAddr agentAddr (pld_OpenBlockNumber pld) offeringHash
           (pld_Balance pld)) (butlast sig)) (SrvError 400 errCodeInvalidSignature))))))))"

definition validateChannelForPayment ::
  "(bytes \<Rightarrow> bytes) \<Rightarrow> (bytes \<Rightarrow> bytes \<Rightarrow> bytes \<Rightarrow> bool) \<Rightarrow> Channel \<Rightarrow> paymentPayload \<Rightarrow> ('z, unit) dbcmd" where
  "validateChannelForPayment kec valid ch pld =
     thenC (validateChannelState ch) (verifySignature kec valid ch pld)"

text \<open>The driver refuses a balance with the high bit set.\<close>

definition updateChannelWithPayment :: "Channel \<Rightarrow> paymentPayload \<Rightarrow> ('z, unit) dbcmd" where
  "updateChannelWithPayment ch pld =
     thenC (guardC (ch_ReceiptBalance ch \<noteq> pld_Balance pld) (SrvError 400 ErrCodeEqualBalance))
    (thenC (guardC (is_bigint (pld_Balance pld)) errUnexpected)
    (bindC (on_err (\<lambda>_. errUnexpected) (exec_update ChannelTable Conn
         (\<lambda>c. ch_ReceiptBalance c < pld_Balance pld \<and> pld_Balance pld \<le> ch_TotalDeposit c \<and> ch_ID c = ch_ID ch)
         (\<lambda>c. c\<lparr>ch_ReceiptBalance := pld_Balance pld, ch_ReceiptSignature := Some (pld_BalanceMsgSig pld)\<rparr>)))
       (\<lambda>affected. guardC (affected \<noteq> 0) (SrvError 400 errCodeInvalidBalance))))"

definition handlePay ::
  "(bytes \<Rightarrow> bytes) \<Rightarrow> (bytes \<Rightarrow> bytes \<Rightarrow> bytes \<Rightarrow> bool) \<Rightarrow> json option \<Rightarrow> ('z, unit) dbcmd" where
  "handlePay kec valid args = (case dec_payload args of (payload, ok) \<Rightarrow>
     thenC (guardC ok (SrvError 400 ErrCodeFailedToParseRequest))
    (bindC (findChannel (pld_OfferingHash payload) (pld_AgentAddress payload) (pld_OpenBlockNumber payload)) (\<lambda>ch.
     thenC (isServiceTerminated ch)
    (thenC (validateChannelForPayment kec valid ch payload)
       (updateChannelWithPayment ch payload)))))"

section \<open>The client\<close>

definition newPayload ::
  "(bytes \<Rightarrow> bytes) \<Rightarrow> ('k \<Rightarrow> bytes \<Rightarrow> bytes option) \<Rightarrow> Channel \<Rightarrow> HexString \<Rightarrow> 'k \<Rightarrow> u64
     \<Rightarrow> ('z, paymentPayload) dbcmd" where
  "newPayload kec sign channel pscAddr key amount =
     bindC (find_pk OfferingTable Conn (ch_Offering channel)) (\<lambda>offer.
     case HexToAddress (ch_Agent channel) of (agentAddr, ok1) \<Rightarrow>
     case HexToHash (ofr_Hash offer) of (offerHash, ok2) \<Rightarrow>
     case HexToAddress pscAddr of (pscAddrParsed, ok3) \<Rightarrow>
     thenC (guardC ok1 (Text ''hex''))
    (thenC (guardC ok2 (Text ''hex''))
    (thenC (guardC ok3 (Text ''hex''))
    (bindC (of_option (Text ''sign'')
        (sign key (BalanceProofHash kec pscAddrParsed agentAddr (ch_Block channel) offerHash amount)))
      (\<lambda>sig. ret \<lparr>pld_AgentAddress = ch_Agent channel, pld_OpenBlockNumber = ch_Block channel,
         pld_OfferingHash = ofr_Hash offer, pld_Balance = amount, pld_BalanceMsgSig = FromBytes sig,
         pld_ContractAddress = pscAddr\<rparr>)))))"

text \<open>\<open>send url args\<close> is what comes back over HTTP: nothing, or a reply with an error code or none.\<close>

definition postPayload ::
  "'z adder \<Rightarrow> (string \<Rightarrow> json \<Rightarrow> nat option option) \<Rightarrow> Channel \<Rightarrow> paymentPayload \<Rightarrow> ('z, unit) dbcmd" where
  "postPayload add send channel pld =
     bindC (select_one EndpointTable Conn (\<lambda>e. ep_Channel e = ch_ID channel)) (\<lambda>endp.
     bindC (of_option (Text ''no payment addr found'') (ep_PaymentReceiverAddress endp)) (\<lambda>url.
     bindC (of_option (Text ''send'') (send url (enc_payload pld))) (\<lambda>resp.
     case resp of None \<Rightarrow> ret ()
     | Some code \<Rightarrow>
         thenC (whenC (code = errCodeTerminatedService)
             (bindC (TerminateChannel add (ch_ID channel) JobBillingChecker False) (\<lambda>_. ret ())))
           (fail (SrvError 0 code)))))"

definition PostCheque ::
  "'z adder \<Rightarrow> (bytes \<Rightarrow> bytes) \<Rightarrow> ('k \<Rightarrow> bytes \<Rightarrow> bytes option) \<Rightarrow> (string \<Rightarrow> json \<Rightarrow> nat option option)
     \<Rightarrow> Channel \<Rightarrow> HexString \<Rightarrow> 'k \<Rightarrow> u64 \<Rightarrow> ('z, unit) dbcmd" where
  "PostCheque add kec sign send channel pscAddr key amount =
     bindC (newPayload kec sign channel pscAddr key amount) (postPayload add send channel)"

section \<open>What the server accepts\<close>

lemma UserTable_simps [simp]: "t_rows UserTable = db_users"
  by (simp add: UserTable_def)

lemma findChannel_run:
  assumes "findChannel h a b w = (Inr ch, w')"
  shows "\<exists>bs. w' = w\<lparr>w_faults := bs\<rparr>" "ch \<in> set (db_channels (w_db w))" "ch_Agent ch = a" "ch_Block ch = b"
    "list_ex (\<lambda>f. ofr_Hash f = h) (db_offerings (w_db w))"
  using assms unfolding findChannel_def
  by (auto simp: run split: if_splits dest!: find_Some_in dest: db_call_state)

text \<open>The payment is signed with a key of the channel's client.\<close>

definition signed_by_client ::
  "(bytes \<Rightarrow> bytes) \<Rightarrow> (bytes \<Rightarrow> bytes \<Rightarrow> bytes \<Rightarrow> bool) \<Rightarrow> paymentPayload \<Rightarrow> Channel \<Rightarrow> db \<Rightarrow> bool" where
  "signed_by_client kec valid pld ch d \<longleftrightarrow> (\<exists>client \<in> set (db_users d). usr_EthAddr client = ch_Client ch
     \<and> (\<exists>pub sig. ToBytes (usr_PublicKey client) = Some pub \<and> ToBytes (pld_BalanceMsgSig pld) = Some sig
       \<and> valid pub (BalanceProofHash kec (fst (HexToAddress (pld_ContractAddress pld)))
          (fst (HexToAddress (ch_Agent ch))) (pld_OpenBlockNumber pld)
          (fst (HexToHash (pld_OfferingHash pld))) (pld_Balance pld)) (butlast sig)))"

lemma verifySignature_run:
  assumes "verifySignature kec valid ch pld w = (Inr u, w')"
  shows "\<exists>bs. w' = w\<lparr>w_faults := bs\<rparr>" "signed_by_client kec valid pld ch (w_db w)"
  using assms unfolding verifySignature_def signed_by_client_def
  by (auto simp: run split_beta dest!: find_Some_in db_call_state)

text \<open>The update of a payment, on the rows.\<close>

definition pay_row :: "paymentPayload \<Rightarrow> Channel \<Rightarrow> Channel" where
  "pay_row pld c = c\<lparr>ch_ReceiptBalance := pld_Balance pld, ch_ReceiptSignature := Some (pld_BalanceMsgSig pld)\<rparr>"

definition payable :: "string \<Rightarrow> paymentPayload \<Rightarrow> Channel \<Rightarrow> bool" where
  "payable i pld c \<longleftrightarrow> ch_ReceiptBalance c < pld_Balance pld \<and> pld_Balance pld \<le> ch_TotalDeposit c \<and> ch_ID c = i"

lemma updateChannelWithPayment_run:
  assumes "updateChannelWithPayment ch pld w = (r, w')"
  shows "(\<exists>bs. w_db w' = w_db w) \<or>
    w_db w' = (w_db w)\<lparr>db_channels := map (\<lambda>c. if payable (ch_ID ch) pld c then pay_row pld c else c) (db_channels (w_db w))\<rparr>"
    and "r = Inr () \<Longrightarrow> filter (payable (ch_ID ch) pld) (db_channels (w_db w)) \<noteq> [] \<and>
    w_db w' = (w_db w)\<lparr>db_channels := map (\<lambda>c. if payable (ch_ID ch) pld c then pay_row pld c else c) (db_channels (w_db w))\<rparr>"
    and "r = Inl e \<Longrightarrow> w_db w' = w_db w"
proof -
  note unf = updateChannelWithPayment_def payable_def [symmetric] pay_row_def [symmetric]
  show ok: "filter (payable (ch_ID ch) pld) (db_channels (w_db w)) \<noteq> [] \<and>
    w_db w' = (w_db w)\<lparr>db_channels := map (\<lambda>c. if payable (ch_ID ch) pld c then pay_row pld c else c) (db_channels (w_db w))\<rparr>"
    if "r = Inr ()"
    using assms that unfolding unf by (auto simp: run exec_update_run dest!: db_call_state)
  have unchanged: "map (\<lambda>c. if payable (ch_ID ch) pld c then pay_row pld c else c) cs = cs"
    if "filter (payable (ch_ID ch) pld) cs = []" for cs
    using that by (induction cs) (auto split: if_splits)
  show err: "w_db w' = w_db w" if "r = Inl e" for e
    using assms that unfolding unf
    by (auto simp: run exec_update_run unchanged dest!: db_call_state failed_op)
  show "(\<exists>bs. w_db w' = w_db w) \<or>
    w_db w' = (w_db w)\<lparr>db_channels := map (\<lambda>c. if payable (ch_ID ch) pld c then pay_row pld c else c) (db_channels (w_db w))\<rparr>"
    using ok err by (cases r) auto
qed

lemma handlePay_run:
  assumes "handlePay kec valid args w = (r, w')" and pld: "pld = fst (dec_payload args)"
  shows "r = Inl e \<Longrightarrow> w_db w' = w_db w"
    and "r = Inr () \<Longrightarrow> \<exists>ch. ch \<in> set (db_channels (w_db w))
      \<and> ch_Agent ch = pld_AgentAddress pld \<and> ch_Block ch = pld_OpenBlockNumber pld
      \<and> ch_ChannelStatus ch = ChannelActive \<and> ch_ServiceStatus ch \<noteq> ServiceTerminated
      \<and> signed_by_client kec valid pld ch (w_db w)
      \<and> filter (payable (ch_ID ch) pld) (db_channels (w_db w)) \<noteq> []
      \<and> w_db w' = (w_db w)\<lparr>db_channels :=
          map (\<lambda>c. if payable (ch_ID ch) pld c then pay_row pld c else c) (db_channels (w_db w))\<rparr>"
proof -
  have check: "\<exists>bs. v' = v\<lparr>w_faults := bs\<rparr>" if "verifySignature kec valid ch p v = (q, v')" for v v' ch p q
  proof (cases q)
    case (Inl e)
    with that show ?thesis unfolding verifySignature_def
      by (auto simp: run split_beta dest!: failed_op db_call_state)
  next
    case (Inr u)
    with that show ?thesis by (auto dest: verifySignature_run(1))
  qed
  have chan: "\<exists>bs. v' = v\<lparr>w_faults := bs\<rparr>" if "findChannel h a b v = (q, v')" for h a b v v' q
    using that unfolding findChannel_def by (cases q) (auto simp: run query_def dest!: db_call_state)
  show "w_db w' = w_db w" if "r = Inl e"
    using assms(1) that
    by (auto simp: handlePay_def validateChannelForPayment_def validateChannelState_def isServiceTerminated_def
        run split_beta dest!: chan check dest: updateChannelWithPayment_run(3) [OF _ refl])
  assume r: "r = Inr ()"
  from assms(1) r obtain ch v v2 where ch: "findChannel (pld_OfferingHash pld) (pld_AgentAddress pld)
      (pld_OpenBlockNumber pld) w = (Inr ch, v)"
    and st: "ch_ChannelStatus ch = ChannelActive" "ch_ServiceStatus ch \<noteq> ServiceTerminated"
    and sig: "verifySignature kec valid ch pld v = (Inr (), v2)"
    and upd: "updateChannelWithPayment ch pld v2 = (Inr (), w')"
    by (auto simp: handlePay_def validateChannelForPayment_def validateChannelState_def isServiceTerminated_def
        run split_beta pld)
  obtain bs where v: "v = w\<lparr>w_faults := bs\<rparr>" using chan [OF ch] by blast
  obtain bs2 where v2: "v2 = v\<lparr>w_faults := bs2\<rparr>" using check [OF sig] by blast
  show "\<exists>ch. ch \<in> set (db_channels (w_db w))
      \<and> ch_Agent ch = pld_AgentAddress pld \<and> ch_Block ch = pld_OpenBlockNumber pld
      \<and> ch_ChannelStatus ch = ChannelActive \<and> ch_ServiceStatus ch \<noteq> ServiceTerminated
      \<and> signed_by_client kec valid pld ch (w_db w)
      \<and> filter (payable (ch_ID ch) pld) (db_channels (w_db w)) \<noteq> []
      \<and> w_db w' = (w_db w)\<lparr>db_channels :=
          map (\<lambda>c. if payable (ch_ID ch) pld c then pay_row pld c else c) (db_channels (w_db w))\<rparr>"
    using findChannel_run(2-4) [OF ch] st verifySignature_run(2) [OF sig]
      updateChannelWithPayment_run(2) [OF upd] v v2 by (intro exI [of _ ch]) simp
qed

text \<open>C2: a payment that is accepted is for an active channel that is not terminated, is signed by the
  channel's client for the amount, exceeds the last receipt and stays within the deposit, and changes
  nothing but the receipt of that channel.\<close>

theorem accepted_payment:
  assumes "handlePay kec valid args w = (Inr (), w')" and "distinct (map ch_ID (db_channels (w_db w)))"
    and "pld = fst (dec_payload args)"
  shows "\<exists>ch. ch \<in> set (db_channels (w_db w))
      \<and> ch_Agent ch = pld_AgentAddress pld \<and> ch_Block ch = pld_OpenBlockNumber pld
      \<and> ch_ChannelStatus ch = ChannelActive \<and> ch_ServiceStatus ch \<noteq> ServiceTerminated
      \<and> signed_by_client kec valid pld ch (w_db w)
      \<and> ch_ReceiptBalance ch < pld_Balance pld \<and> pld_Balance pld \<le> ch_TotalDeposit ch
      \<and> w_db w' = (w_db w)\<lparr>db_channels := replace ch_ID
          (ch\<lparr>ch_ReceiptBalance := pld_Balance pld, ch_ReceiptSignature := Some (pld_BalanceMsgSig pld)\<rparr>)
          (db_channels (w_db w))\<rparr>"
proof -
  have row: "ch_ReceiptBalance ch < pld_Balance pld \<and> pld_Balance pld \<le> ch_TotalDeposit ch
      \<and> map (\<lambda>c. if payable (ch_ID ch) pld c then pay_row pld c else c) cs
        = replace ch_ID (ch\<lparr>ch_ReceiptBalance := pld_Balance pld, ch_ReceiptSignature := Some (pld_BalanceMsgSig pld)\<rparr>) cs"
    if "distinct (map ch_ID cs)" "ch \<in> set cs" "filter (payable (ch_ID ch) pld) cs \<noteq> []" for ch cs
  proof -
    from that(3) obtain c where "c \<in> set cs" "payable (ch_ID ch) pld c" by (auto simp: filter_empty_conv)
    then have "payable (ch_ID ch) pld ch"
      using same_id_same_row [OF that(1,2)] by (auto simp: payable_def)
    moreover have "(if payable (ch_ID ch) pld c then pay_row pld c else c) = (if ch_ID c = ch_ID ch then pay_row pld ch else c)"
      if "c \<in> set cs" for c
      using \<open>payable (ch_ID ch) pld ch\<close> same_id_same_row [OF \<open>distinct (map ch_ID cs)\<close> \<open>ch \<in> set cs\<close> that]
      by (auto simp: payable_def)
    ultimately show ?thesis
      by (auto simp: payable_def replace_def pay_row_def cong: map_cong)
  qed
  show ?thesis using handlePay_run(2) [OF assms(1,3) refl] row [OF assms(2)] by (elim exE) (rule exI, auto)
qed

text \<open>A payment that is refused, for whatever reason, changes nothing.\<close>

theorem refused_payment:
  assumes "handlePay kec valid args w = (Inl e, w')"
  shows "w_db w' = w_db w"
  using handlePay_run(1) [OF assms refl refl] .

section \<open>Receipts over time\<close>

text \<open>What payments do to a channel: nothing, or a larger receipt within the deposit, and nothing else.\<close>

definition receipt_grows :: "Channel \<Rightarrow> Channel \<Rightarrow> bool" where
  "receipt_grows c c' \<longleftrightarrow> c' = c \<or> ch_ReceiptBalance c < ch_ReceiptBalance c' \<and> ch_ReceiptBalance c' \<le> ch_TotalDeposit c
     \<and> c' = c\<lparr>ch_ReceiptBalance := ch_ReceiptBalance c', ch_ReceiptSignature := ch_ReceiptSignature c'\<rparr>"

lemma receipt_grows_trans:
  assumes "receipt_grows a b" "receipt_grows b c"
  shows "receipt_grows a c"
proof (cases "b = a \<or> c = b")
  case True
  with assms show ?thesis by auto
next
  case False
  with assms have b: "b = a\<lparr>ch_ReceiptBalance := ch_ReceiptBalance b, ch_ReceiptSignature := ch_ReceiptSignature b\<rparr>"
    and c: "c = b\<lparr>ch_ReceiptBalance := ch_ReceiptBalance c, ch_ReceiptSignature := ch_ReceiptSignature c\<rparr>"
    and grows: "ch_ReceiptBalance a < ch_ReceiptBalance b" "ch_ReceiptBalance b < ch_ReceiptBalance c"
      "ch_ReceiptBalance c \<le> ch_TotalDeposit b"
    by (auto simp: receipt_grows_def)
  from arg_cong [OF b, of ch_TotalDeposit] have "ch_TotalDeposit b = ch_TotalDeposit a" by simp
  moreover have "c = a\<lparr>ch_ReceiptBalance := ch_ReceiptBalance c, ch_ReceiptSignature := ch_ReceiptSignature c\<rparr>"
    by (subst c, subst b) simp
  ultimately show ?thesis using grows by (auto simp: receipt_grows_def)
qed

definition receipts_grow :: "'z world_scheme \<Rightarrow> 'z world_scheme \<Rightarrow> bool" where
  "receipts_grow w w' \<longleftrightarrow> list_all2 receipt_grows (db_channels (w_db w)) (db_channels (w_db w'))
     \<and> (w_db w')\<lparr>db_channels := []\<rparr> = (w_db w)\<lparr>db_channels := []\<rparr>"

interpretation receipts: effect_order receipts_grow
proof
  show "receipts_grow w w" for w :: "'z world_scheme"
    by (auto simp: receipts_grow_def receipt_grows_def list_all2_same)
  show "receipts_grow w v" if "receipts_grow w u" "receipts_grow u v" for w u v :: "'z world_scheme"
  proof -
    have "list_all2 receipt_grows (db_channels (w_db w)) (db_channels (w_db v))"
      by (rule list_all2_trans [of receipt_grows receipt_grows receipt_grows])
        (use that receipt_grows_trans in \<open>auto simp: receipts_grow_def\<close>)
    then show ?thesis using that by (simp add: receipts_grow_def)
  qed
qed

lemma keeps_handlePay: "keeps receipts_grow (handlePay kec valid args)"
proof (rule stepsI, intro conjI allI impI TrueI)
  fix w :: "'z world_scheme" and r w'
  assume run: "handlePay kec valid args w = (r, w')"
  define pld where "pld = fst (dec_payload args)"
  show "receipts_grow w w'"
  proof (cases r)
    case (Inl e)
    with handlePay_run(1) [OF run refl] show ?thesis using receipts.refl by (auto simp: receipts_grow_def)
  next
    case (Inr u)
    then obtain i where db: "w_db w' = (w_db w)\<lparr>db_channels :=
        map (\<lambda>c. if payable i pld c then pay_row pld c else c) (db_channels (w_db w))\<rparr>"
      using handlePay_run(2) [OF run pld_def] by auto
    have "receipt_grows c (if payable i pld c then pay_row pld c else c)" for c
      by (auto simp: receipt_grows_def payable_def pay_row_def)
    then have "list_all2 receipt_grows cs (map (\<lambda>c. if payable i pld c then pay_row pld c else c) cs)" for cs
      by (induction cs) auto
    then show ?thesis by (simp add: receipts_grow_def db)
  qed
qed

text \<open>C9: over any sequence of payment requests, accepted or not, the receipt of a channel only ever grows and does
  not come to exceed the deposit; of a channel paid for nothing else changes than the receipt and its
  signature, a channel not paid for does not change at all, and no other table does.\<close>

theorem receipts_monotone:
  "(let w' = snd ((eachC (\<lambda>args. ignoreC (handlePay kec valid args)) requests :: ('z, unit) dbcmd) w) in
      list_all2 (\<lambda>c c'. c' = c \<or> ch_ReceiptBalance c < ch_ReceiptBalance c' \<and> ch_ReceiptBalance c' \<le> ch_TotalDeposit c
          \<and> c' = c\<lparr>ch_ReceiptBalance := ch_ReceiptBalance c', ch_ReceiptSignature := ch_ReceiptSignature c'\<rparr>)
        (db_channels (w_db w)) (db_channels (w_db w'))
      \<and> (w_db w')\<lparr>db_channels := []\<rparr> = (w_db w)\<lparr>db_channels := []\<rparr>)"
proof -
  have "keeps receipts_grow (eachC (\<lambda>args. ignoreC (handlePay kec valid args)) requests :: ('z, unit) dbcmd)"
    by (intro receipts.keeps_eachC receipts.keeps_ignoreC keeps_handlePay)
  from keepsD [OF this, of w] show ?thesis
    by (simp add: receipts_grow_def receipt_grows_def [abs_def] Let_def)
qed

section \<open>The client's cheque at the agent's server\<close>

text \<open>What is assumed of the signature scheme: the signatures a key makes are not empty and verify
  with the public key that belongs to it.\<close>

definition key_pair :: "('k \<Rightarrow> bytes \<Rightarrow> bytes option) \<Rightarrow> (bytes \<Rightarrow> bytes \<Rightarrow> bytes \<Rightarrow> bool) \<Rightarrow> 'k \<Rightarrow> bytes \<Rightarrow> bool" where
  "key_pair sign valid key pub \<longleftrightarrow>
     (\<forall>h sig. sign key h = Some sig \<longrightarrow> sig \<noteq> [] \<and> valid pub h (butlast sig))"

lemma newPayload_run:
  assumes "newPayload kec sign ch psc key amount w = (Inr pld, w')"
  obtains sig where "pld_AgentAddress pld = ch_Agent ch" "pld_OpenBlockNumber pld = ch_Block ch"
    "pld_Balance pld = amount" "pld_ContractAddress pld = psc" "ToBytes (pld_BalanceMsgSig pld) = Some sig"
    "snd (HexToAddress (ch_Agent ch))" "snd (HexToAddress psc)" "snd (HexToHash (pld_OfferingHash pld))"
    "sign key (BalanceProofHash kec (fst (HexToAddress psc)) (fst (HexToAddress (ch_Agent ch))) (ch_Block ch)
       (fst (HexToHash (pld_OfferingHash pld))) amount) = Some sig"
  using assms unfolding newPayload_def by (auto simp: run split_beta)

lemma cheque_ok:
  assumes cheque: "newPayload kec sign chc psc key amount wc = (Inr pld, wc')"
    and w: "w_faults w = []" "distinct (map ch_ID (db_channels (w_db w)))"
    and chan: "find (\<lambda>c. ch_Agent c = ch_Agent chc \<and> ch_Block c = ch_Block chc) (db_channels (w_db w)) = Some ch"
    and status: "ch_ChannelStatus ch = ChannelActive" "ch_ServiceStatus ch \<noteq> ServiceTerminated"
    and offering: "list_ex (\<lambda>f. ofr_Hash f = pld_OfferingHash pld) (db_offerings (w_db w))"
    and user: "find (\<lambda>u. usr_EthAddr u = ch_Client ch) (db_users (w_db w)) = Some u"
      "ToBytes (usr_PublicKey u) = Some pub" "key_pair sign valid key pub"
    and amount: "ch_ReceiptBalance ch < amount" "amount \<le> ch_TotalDeposit ch"
    and row: "row_ok ChannelTable (w_db w) ch"
  shows "\<exists>w'. handlePay kec valid (Some (enc_payload pld)) w = (Inr (), w')
    \<and> map_option ch_ReceiptBalance (lookup ChannelTable (w_db w') (ch_ID ch)) = Some amount"
proof -
  from cheque obtain sig where pld: "pld_AgentAddress pld = ch_Agent chc" "pld_OpenBlockNumber pld = ch_Block chc"
    "pld_Balance pld = amount" "pld_ContractAddress pld = psc" "ToBytes (pld_BalanceMsgSig pld) = Some sig"
    "snd (HexToAddress (ch_Agent chc))" "snd (HexToAddress psc)" "snd (HexToHash (pld_OfferingHash pld))"
    and sig: "sign key (BalanceProofHash kec (fst (HexToAddress psc)) (fst (HexToAddress (ch_Agent chc))) (ch_Block chc)
       (fst (HexToHash (pld_OfferingHash pld))) amount) = Some sig"
    by (rule newPayload_run)
  have ch: "ch \<in> set (db_channels (w_db w))" "ch_Agent ch = ch_Agent chc" "ch_Block ch = ch_Block chc"
    using find_Some_in [OF chan] by auto
  have found: "findChannel (pld_OfferingHash pld) (pld_AgentAddress pld) (pld_OpenBlockNumber pld) w = (Inr ch, w)"
    using offering chan w(1) by (simp add: findChannel_def bindC_def on_err_def query_ok of_option_def ret_def pld)
  have verified: "verifySignature kec valid ch pld w = (Inr (), w)"
    using user sig pld ch w(1) by (simp add: verifySignature_def bindC_def thenC_def on_err_def select_one_ok
        of_option_def guardC_def ret_def split_beta key_pair_def)
  have big: "is_bigint amount"
    using row amount(2) by (auto simp: row_ok_def ChannelTable_def is_bigint_def word_le_nat_alt)
  let ?P = "payable (ch_ID ch) pld" and ?f = "pay_row pld"
  have payable: "?P c \<longleftrightarrow> c = ch" if "c \<in> set (db_channels (w_db w))" for c
    using that amount same_id_same_row [OF w(2) ch(1)] by (auto simp: payable_def pld)
  have rows: "list_all (\<lambda>c. ?P c \<longrightarrow> row_ok ChannelTable (w_db w) (?f c)) (db_channels (w_db w))"
    using payable row big by (auto simp: list_all_iff pay_row_def row_ok_def ChannelTable_def pld)
  have "filter ?P (db_channels (w_db w)) \<noteq> []" using payable ch(1) by (auto simp: filter_empty_conv)
  then have upd: "updateChannelWithPayment ch pld w = (Inr (), write_db Conn
      (\<lambda>d. d\<lparr>db_channels := map (\<lambda>c. if ?P c then ?f c else c) (db_channels d)\<rparr>) w)"
    unfolding updateChannelWithPayment_def payable_def [symmetric] pay_row_def [symmetric]
    using amount(1) big rows w(1)
    by (auto simp: thenC_def bindC_def guardC_def ret_def on_err_def exec_update_ok pld)
  have "find (\<lambda>c. ch_ID c = ch_ID ch) (map (\<lambda>c. if ?P c then ?f c else c) cs) = Some (?f ch)"
    if "ch \<in> set cs" "\<forall>c \<in> set cs. ?P c \<longleftrightarrow> c = ch" "\<forall>c \<in> set cs. ch_ID c = ch_ID ch \<longrightarrow> c = ch" for cs
    using that by (induction cs) (auto simp: pay_row_def)
  then have "lookup ChannelTable ((w_db w)\<lparr>db_channels := map (\<lambda>c. if ?P c then ?f c else c) (db_channels (w_db w))\<rparr>) (ch_ID ch)
      = Some (?f ch)"
    using ch(1) payable same_id_same_row [OF w(2) ch(1)] by (auto simp: lookup_def)
  then show ?thesis
    using status by (auto simp: handlePay_def thenC_def bindC_def guardC_def ret_def found [unfolded pld(1,2)] isServiceTerminated_def
        validateChannelForPayment_def validateChannelState_def verified upd pay_row_def pld)
qed

text \<open>C12: the agent accepts the cheque a client makes out for one of its active channels, as soon as the
  amount exceeds the last receipt and is covered by the deposit, and then stores that amount. The
  contract the cheque is made out to is the client's choice: nothing the agent checks depends on it.\<close>

theorem cheque_accepted:
  assumes cheque: "newPayload kec sign chc psc key amount wc = (Inr pld, wc')"
    and w: "w_faults w = []" "distinct (map ch_ID (db_channels (w_db w)))"
    and chan: "find (\<lambda>c. ch_Agent c = ch_Agent chc \<and> ch_Block c = ch_Block chc) (db_channels (w_db w)) = Some ch"
    and status: "ch_ChannelStatus ch = ChannelActive" "ch_ServiceStatus ch \<noteq> ServiceTerminated"
    and offering: "list_ex (\<lambda>f. ofr_Hash f = pld_OfferingHash pld) (db_offerings (w_db w))"
    and user: "find (\<lambda>u. usr_EthAddr u = ch_Client ch) (db_users (w_db w)) = Some u"
      "ToBytes (usr_PublicKey u) = Some pub" "key_pair sign valid key pub"
    and amount: "ch_ReceiptBalance ch < amount" "amount \<le> ch_TotalDeposit ch"
    and row: "row_ok ChannelTable (w_db w) ch"
  shows "\<exists>w'. handlePay kec valid (Some (enc_payload pld)) w = (Inr (), w')
    \<and> map_option ch_ReceiptBalance (lookup ChannelTable (w_db w') (ch_ID ch)) = Some amount"
  using assms by (rule cheque_ok)

text \<open>A client that gets the agent's reply to an unexpected error, such as a failed database call,
  reads its code as the one for a terminated service, and terminates its own channel.\<close>

theorem unexpected_error_terminates:
  assumes "w_faults w = []" and "find (\<lambda>e. ep_Channel e = ch_ID ch) (db_endpoints (w_db w)) = Some e"
    and "ep_PaymentReceiverAddress e = Some url"
    and "send url (enc_payload pld) = Some (Some (srv_Code errUnexpected))"
    and "TerminateChannel add (ch_ID ch) JobBillingChecker False w = (Inr jid, w')"
  shows "postPayload add send ch pld w = (Inl (SrvError 0 errCodeTerminatedService), w')"
  using assms by (simp add: postPayload_def bindC_def thenC_def select_one_ok EndpointTable_def of_option_def ret_def
      fail_def whenC_def errUnexpected_def pay_codes)

section \<open>Concrete instances\<close>

text \<open>A toy signature scheme: the signature is the message and one more byte.\<close>

definition toy_sign :: "unit \<Rightarrow> bytes \<Rightarrow> bytes option" where
  "toy_sign key h = Some (h @ [0])"

definition toy_valid :: "bytes \<Rightarrow> bytes \<Rightarrow> bytes \<Rightarrow> bool" where
  "toy_valid pub h sig \<longleftrightarrow> sig = h"

definition sample_user :: User where
  "sample_user = \<lparr>usr_ID = ''x1'', usr_EthAddr = ''cc'', usr_PublicKey = FromBytes [1]\<rparr>"

definition sample_endpoint :: Endpoint where
  "sample_endpoint = \<lparr>ep_ID = ''e1'', ep_Template = ''t2'', ep_Channel = ''c1'', ep_Hash = [], ep_RawMsg = [],
     ep_PaymentReceiverAddress = Some ''url'', ep_ServiceEndpointAddress = None, ep_Username = None,
     ep_Password = None, ep_AdditionalParams = [], ep_CountryStatus = None\<rparr>"

definition pay_world :: world where
  "pay_world = sample_world\<lparr>w_db := sample_db\<lparr>db_users := [sample_user], db_endpoints := [sample_endpoint]\<rparr>\<rparr>"

lemma pay_world_simps [simp]:
  "w_db pay_world = sample_db\<lparr>db_users := [sample_user], db_endpoints := [sample_endpoint]\<rparr>"
  "w_faults pay_world = []" "w_tx pay_world = None" "can_call Conn pay_world"
  by (simp_all add: pay_world_def)

lemma toy_key_pair: "key_pair toy_sign toy_valid () pub"
  by (simp add: key_pair_def toy_sign_def toy_valid_def)

lemma sample_hex: "HexToAddress ''aa'' = (170, True)" "HexToAddress ''bb'' = (187, True)" "HexToHash ''0f'' = (15, True)"
  by (simp_all add: HexToAddress_def HexToHash_def HexToBytes_def has_0x_prefix_def from_hex_char_def Let_def
      BytesToAddress_def BytesToHash_def)

lemma sample_cheque:
  "\<exists>pld. newPayload kec toy_sign sample_channel ''bb'' () 400 pay_world = (Inr pld, pay_world)
     \<and> pld_OfferingHash pld = ''0f''"
  by (simp add: newPayload_def bindC_def thenC_def find_pk_ok OfferingTable_def sample_channel_def
      sample_offering_def sample_hex guardC_def of_option_def toy_sign_def ret_def)

lemma sample_row_ok: "row_ok ChannelTable (w_db pay_world) sample_channel"
  by (simp add: row_ok_def ChannelTable_def sample_channel_def sample_offering_def exists_row_def is_bigint_def is_block_def)

lemma sample_cheque_facts:
  "find (\<lambda>c. ch_Agent c = ch_Agent sample_channel \<and> ch_Block c = ch_Block sample_channel)
     (db_channels (w_db pay_world)) = Some sample_channel"
  "find (\<lambda>u. usr_EthAddr u = ch_Client sample_channel) (db_users (w_db pay_world)) = Some sample_user"
  "ToBytes (usr_PublicKey sample_user) = Some [1]"
  "ch_ChannelStatus sample_channel = ChannelActive" "ch_ServiceStatus sample_channel \<noteq> ServiceTerminated"
  "ch_ReceiptBalance sample_channel < 400" "400 \<le> ch_TotalDeposit sample_channel"
  "distinct (map ch_ID (db_channels (w_db pay_world)))"
  "list_ex (\<lambda>f. ofr_Hash f = ''0f'') (db_offerings (w_db pay_world))"
  by (simp_all add: sample_channel_def sample_user_def sample_offering_def word_le_nat_alt word_less_nat_alt)

theorem cheque_accepted_witness:
  "\<exists>pld w'. handlePay (\<lambda>b. b) toy_valid (Some (enc_payload pld)) pay_world = (Inr (), w')
    \<and> map_option ch_ReceiptBalance (lookup ChannelTable (w_db w') (ch_ID sample_channel)) = Some 400"
proof -
  obtain pld where pld: "newPayload (\<lambda>b. b) toy_sign sample_channel ''bb'' () 400 pay_world = (Inr pld, pay_world)"
    "pld_OfferingHash pld = ''0f''" using sample_cheque by blast
  have "list_ex (\<lambda>f. ofr_Hash f = pld_OfferingHash pld) (db_offerings (w_db pay_world))"
    using sample_cheque_facts(9) pld(2) by simp
  from cheque_accepted [OF pld(1) _ sample_cheque_facts(8,1,4,5) this sample_cheque_facts(2,3) toy_key_pair
      sample_cheque_facts(6,7) sample_row_ok] show ?thesis by (simp del: lookup_JobTable) blast
qed

lemma sample_accepted:
  "\<exists>pld w'. handlePay (\<lambda>b. b) toy_valid (Some (enc_payload pld)) pay_world = (Inr (), w') \<and> pld_Balance pld = 400"
proof -
  obtain pld where pld: "newPayload (\<lambda>b. b) toy_sign sample_channel ''bb'' () 400 pay_world = (Inr pld, pay_world)"
    "pld_OfferingHash pld = ''0f''" using sample_cheque by blast
  have "list_ex (\<lambda>f. ofr_Hash f = pld_OfferingHash pld) (db_offerings (w_db pay_world))"
    using sample_cheque_facts(9) pld(2) by simp
  from cheque_ok [OF pld(1) _ sample_cheque_facts(8,1,4,5) this sample_cheque_facts(2,3) toy_key_pair
      sample_cheque_facts(6,7) sample_row_ok] newPayload_run [OF pld(1)] show ?thesis by auto
qed

theorem accepted_payment_witness:
  "\<exists>pld w' ch. handlePay (\<lambda>b. b) toy_valid (Some (enc_payload pld)) pay_world = (Inr (), w')
     \<and> pld_Balance pld = 400 \<and> ch \<in> set (db_channels sample_db) \<and> ch_ReceiptBalance ch < 400
     \<and> 400 \<le> ch_TotalDeposit ch"
proof -
  obtain pld w' where run: "handlePay (\<lambda>b. b) toy_valid (Some (enc_payload pld)) pay_world = (Inr (), w')"
    "pld_Balance pld = 400" using sample_accepted by blast
  from accepted_payment [OF run(1) sample_cheque_facts(8) refl] run show ?thesis by auto
qed

definition unknown_payment :: paymentPayload where
  "unknown_payment = \<lparr>pld_AgentAddress = ''aa'', pld_OpenBlockNumber = 8, pld_OfferingHash = ''0f'',
     pld_Balance = 400, pld_BalanceMsgSig = [], pld_ContractAddress = ''bb''\<rparr>"

theorem refused_payment_witness:
  "\<exists>w'. handlePay (\<lambda>b. b) toy_valid (Some (enc_payload unknown_payment)) pay_world
      = (Inl (SrvError 401 errCodeNoChannel), w') \<and> w_db w' = w_db pay_world"
proof -
  have run: "handlePay (\<lambda>b. b) toy_valid (Some (enc_payload unknown_payment)) pay_world
      = (Inl (SrvError 401 errCodeNoChannel), pay_world)"
    by (simp add: handlePay_def thenC_def bindC_def guardC_def ret_def fail_def findChannel_def on_err_def
        query_ok of_option_def unknown_payment_def sample_channel_def)
  from refused_payment [OF run] run show ?thesis by blast
qed

theorem unexpected_error_terminates_witness:
  "\<exists>w' pld. postPayload (Add NewConfig) (\<lambda>_ _. Some (Some (srv_Code errUnexpected))) sample_channel pld pay_world
     = (Inl (SrvError 0 errCodeTerminatedService), w')"
proof -
  have "\<exists>j w'. TerminateChannel (Add NewConfig) (ch_ID sample_channel) JobBillingChecker False pay_world = (Inr j, w')"
    using terminate_ok [of pay_world "ch_ID sample_channel" sample_channel False NewConfig JobBillingChecker]
    by (auto simp: lookup_def active_jobs_def terminateTransitions_def exists_row_def pay_world_def sample_channel_def)
  then obtain j w' where t: "TerminateChannel (Add NewConfig) (ch_ID sample_channel) JobBillingChecker False pay_world = (Inr j, w')"
    by blast
  have "find (\<lambda>e. ep_Channel e = ch_ID sample_channel) (db_endpoints (w_db pay_world)) = Some sample_endpoint"
    "ep_PaymentReceiverAddress sample_endpoint = Some ''url''"
    by (simp_all add: sample_channel_def sample_endpoint_def)
  from unexpected_error_terminates [OF _ this _ t, of "\<lambda>_ _. Some (Some (srv_Code errUnexpected))" unknown_payment]
  show ?thesis by auto
qed

end
