(* ===== verification/Settings.thy ===== *)
theory Settings
  imports Database
begin

text \<open>
  The settings of the controller, \<open>src/data/settings.go\<close>, and the helper of \<open>src/data/misc.go\<close> that
  reads them: string values of the table \<open>settings\<close>, parsed by \<open>strconv\<close>.
\<close>

section \<open>Decimal numbers\<close>

definition digit_char :: "nat \<Rightarrow> char" where
  "digit_char n = char_of (48 + n)"

fun decimal :: "nat \<Rightarrow> string" where
  "decimal n = (if n < 10 then [digit_char n] else decimal (n div 10) @ [digit_char (n mod 10)])"

declare decimal.simps [simp del]

definition is_digit :: "char \<Rightarrow> bool" where
  "is_digit c \<longleftrightarrow> 48 \<le> (of_char c :: nat) \<and> (of_char c :: nat) \<le> 57"

definition digits_value :: "string \<Rightarrow> nat" where
  "digits_value s = foldl (\<lambda>n c. 10 * n + (of_char c - 48)) 0 s"

text \<open>\<open>strconv.ParseUint(s, 10, bits)\<close>: at least one digit, only digits, in range.\<close>

definition parse_uint :: "nat \<Rightarrow> string \<Rightarrow> nat option" where
  "parse_uint bits s =
     (if s \<noteq> [] \<and> list_all is_digit s \<and> digits_value s < 2 ^ bits then Some (digits_value s) else None)"

lemma of_digit_char: "n < 10 \<Longrightarrow> (of_char (digit_char n) :: nat) = 48 + n"
  by (simp add: digit_char_def)

lemma decimal_ok: "decimal n \<noteq> [] \<and> list_all is_digit (decimal n) \<and> digits_value (decimal n) = n"
proof (induction n rule: decimal.induct)
  case (1 n)
  have d: "is_digit (digit_char (n mod 10))" "n < 10 \<Longrightarrow> is_digit (digit_char n)"
    by (auto simp: is_digit_def of_digit_char)
  show ?case
  proof (cases "n < 10")
    case True
    then show ?thesis
      using d by (subst (1 2 3) decimal.simps) (simp add: digits_value_def of_digit_char)
  next
    case False
    with 1 have "list_all is_digit (decimal (n div 10))" "digits_value (decimal (n div 10)) = n div 10"
      by auto
    with False d(1) show ?thesis
      by (subst (1 2 3) decimal.simps) (simp add: digits_value_def of_digit_char)
  qed
qed

lemma parse_uint_decimal: "n < 2 ^ bits \<Longrightarrow> parse_uint bits (decimal n) = Some n"
  using decimal_ok [of n] by (auto simp: parse_uint_def)

lemma decimal_inject [simp]: "decimal m = decimal n \<longleftrightarrow> m = n"
  using decimal_ok by metis

text \<open>Evaluation compares with the bound as an integer.\<close>

lemma parse_uint_code [code]:
  "parse_uint bits s = (if s \<noteq> [] \<and> list_all is_digit s \<and> int (digits_value s) < 2 ^ bits
     then Some (digits_value s) else None)"
proof -
  have "int (digits_value s) < 2 ^ bits \<longleftrightarrow> digits_value s < 2 ^ bits"
    by (metis of_nat_less_iff of_nat_numeral of_nat_power)
  then show ?thesis by (simp add: parse_uint_def)
qed

text \<open>\<open>strconv.ParseBool\<close>.\<close>

definition parse_bool :: "string \<Rightarrow> bool option" where
  "parse_bool s =
     (if s \<in> {''1'', ''t'', ''T'', ''true'', ''TRUE'', ''True''} then Some True
      else if s \<in> {''0'', ''f'', ''F'', ''false'', ''FALSE'', ''False''} then Some False else None)"

section \<open>Keys\<close>

definition "SettingBlockLimit = ''eth.event.blocklimit''"
definition "SettingOfferingsFreshBlocks = ''eth.event.offeringsfreshblocks''"
definition "SettingOfferingAutoPopUp = ''offering.autopopup''"
definition "SettingLastProcessedBlock = ''eth.event.lastProcessedBlock''"
definition "SettingLastBackSearchBlock = ''eth.event.lastBackSearchBlock''"
definition "SettingClientMonitoringStartBlock = ''eth.event.clientMonitoringStartBlock''"
definition "SettingMinConfirmations = ''eth.min.confirmations''"
definition "SettingPasswordHash = ''system.password''"
definition "SettingPasswordSalt = ''system.salt''"
definition "SettingsPeriodChallange = ''psc.periods.challenge''"
definition "SettingsPeriodPopUp = ''psc.periods.popup''"
definition "SettingsPeriodRemove = ''psc.periods.remove''"
definition "SettingGUI = ''system.gui''"
definition "SettingClientMinDeposit = ''client.min.deposit''"
definition "SettingClientAutoincreaseDepositPercent = ''client.autoincrease.percent''"
definition "SettingClientAutoincreaseDeposit = ''client.autoincrease.deposit''"
definition "SettingRatingRankingSteps = ''rating.ranking.steps''"

lemmas setting_keys =
  SettingBlockLimit_def SettingOfferingsFreshBlocks_def SettingOfferingAutoPopUp_def
  SettingLastProcessedBlock_def SettingLastBackSearchBlock_def
  SettingClientMonitoringStartBlock_def SettingMinConfirmations_def SettingPasswordHash_def
  SettingPasswordSalt_def SettingsPeriodChallange_def SettingsPeriodPopUp_def
  SettingsPeriodRemove_def SettingGUI_def SettingClientMinDeposit_def
  SettingClientAutoincreaseDepositPercent_def SettingClientAutoincreaseDeposit_def
  SettingRatingRankingSteps_def

section \<open>Operations\<close>

text \<open>\<open>FindByPrimaryKeyTo\<close>, \<open>Insert\<close>, \<open>Save\<close> and \<open>FindOneTo\<close> of \<open>src/data/misc.go\<close> turn every error
  into a text.\<close>

definition FindByPrimaryKeyTo :: "querier \<Rightarrow> 'r table \<Rightarrow> string \<Rightarrow> ('z, 'r) dbcmd" where
  "FindByPrimaryKeyTo q T key = on_err (\<lambda>_. Text ''failed to find by primary key'') (find_pk T q key)"

definition Insert :: "querier \<Rightarrow> 'r table \<Rightarrow> 'r \<Rightarrow> ('z, unit) dbcmd" where
  "Insert q T str = on_err (\<lambda>_. Text ''failed to insert'') (insert_row T q str)"

definition Save :: "querier \<Rightarrow> 'r table \<Rightarrow> 'r \<Rightarrow> ('z, unit) dbcmd" where
  "Save q T rec = on_err (\<lambda>_. Text ''failed to save'') (save_row T q rec)"

definition FindOneTo :: "querier \<Rightarrow> 'r table \<Rightarrow> ('r \<Rightarrow> string) \<Rightarrow> string \<Rightarrow> ('z, 'r) dbcmd" where
  "FindOneTo q T column arg = on_err (\<lambda>_. Text ''failed to find by column'')
     (select_one T q (\<lambda>r. column r = arg))"

definition ReadSetting :: "querier \<Rightarrow> string \<Rightarrow> ('z, string) dbcmd" where
  "ReadSetting q key = bindC (on_err (\<lambda>_. Text ''failed to find setting'') (FindByPrimaryKeyTo q SettingTable key))
     (\<lambda>st. ret (set_Value st))"

definition ReadUintSetting :: "querier \<Rightarrow> string \<Rightarrow> ('z, u64) dbcmd" where
  "ReadUintSetting q key = bindC (ReadSetting q key) (\<lambda>val.
     bindC (of_option (Text ''failed to parse setting value'') (parse_uint 32 val)) (\<lambda>n.
       ret (word_of_nat n)))"

definition ReadUint64Setting :: "querier \<Rightarrow> string \<Rightarrow> ('z, u64) dbcmd" where
  "ReadUint64Setting q key = bindC (ReadSetting q key) (\<lambda>val.
     bindC (of_option (Text ''failed to parse setting value'') (parse_uint 64 val)) (\<lambda>n.
       ret (word_of_nat n)))"

text \<open>The driver refuses an unsigned number with the high bit set. An update of no row succeeds.\<close>

definition UpdateUint64Setting :: "querier \<Rightarrow> string \<Rightarrow> u64 \<Rightarrow> ('z, unit) dbcmd" where
  "UpdateUint64Setting q key val = thenC (guardC (is_bigint val) Violation)
     (bindC (exec_update SettingTable q (\<lambda>s. set_Key s = key)
              (\<lambda>s. s\<lparr>set_Value := decimal (unat val)\<rparr>)) (\<lambda>_. ret ()))"

definition ReadBoolSetting :: "querier \<Rightarrow> string \<Rightarrow> ('z, bool) dbcmd" where
  "ReadBoolSetting q key = bindC (ReadSetting q key) (\<lambda>val.
     of_option (Text ''failed to parse setting value'') (parse_bool val))"

text \<open>\<open>GetUint64Setting\<close> of \<open>src/data/misc.go\<close>.\<close>

definition GetUint64Setting :: "string \<Rightarrow> ('z, u64) dbcmd" where
  "GetUint64Setting key = bindC
     (on_err (\<lambda>e. if e = NoRows then Text ''key is not exist in Setting table'' else e)
       (find_pk SettingTable Conn key)) (\<lambda>setting.
     bindC (of_option (Text ''failed to parse setting'') (parse_uint 64 (set_Value setting))) (\<lambda>n.
       ret (word_of_nat n)))"

section \<open>What is written is what is read\<close>

lemma UpdateUint64Setting_read:
  assumes upd: "UpdateUint64Setting q key val w = (Inr (), w')"
    and known: "exists_row set_Key (t_rows SettingTable (view q w)) key"
    and calls: "w_faults w' = []" "q = Tx \<longrightarrow> w_tx w \<noteq> None"
  shows "ReadUint64Setting q key w' = (Inr val, w')"
proof -
  let ?f = "\<lambda>d. t_put SettingTable (map (\<lambda>s. if set_Key s = key then s\<lparr>set_Value := decimal (unat val)\<rparr> else s)
     (t_rows SettingTable d)) d"
  from upd obtain v where v: "db_call q w = (Inr (), v)" "w' = write_db q ?f v"
    by (auto simp: UpdateUint64Setting_def run exec_update_run)
  then obtain bs where bs: "v = w\<lparr>w_faults := bs\<rparr>" using db_call_state by blast
  have view: "view q w' = ?f (view q w)"
    using v(2) bs calls(2) by (cases q) (auto simp: view_def write_db_def)
  have found: "\<exists>s. find (\<lambda>r. set_Key r = key) (map (\<lambda>s. if set_Key s = key then s\<lparr>set_Value := x\<rparr> else s) ss)
      = Some s \<and> set_Value s = x" if "exists_row set_Key ss key" for ss x
    using that by (induction ss) (auto simp: exists_row_def)
  obtain s where "find (\<lambda>r. set_Key r = key) (t_rows SettingTable (view q w')) = Some s"
    "set_Value s = decimal (unat val)"
    using found [OF known] view by auto
  moreover have "db_call q w' = (Inr (), w')"
    using calls v bs by (intro db_call_no_fault) (auto simp: write_db_def split: querier.splits)
  moreover have "parse_uint 64 (decimal (unat val)) = Some (unat val)"
    using unat_less [of val] by (intro parse_uint_decimal) simp
  ultimately show ?thesis
    by (simp add: ReadUint64Setting_def ReadSetting_def FindByPrimaryKeyTo_def run table_defs)
qed

end
