(* ===== verification/AgentBilling.thy ===== *)
theory AgentBilling
  imports Processor
begin

text \<open>
  The agent's billing monitor, \<open>src/agent/bill/monitor.go\<close>. Each check is an SQL query over the
  channels of the accounts in use, and queues a job for every channel it selects. The queries are
  functions of the database and the time; sums of \<open>bigint\<close> are of unbounded type \<open>numeric\<close> in SQL,
  and the quotient of such a sum is exact, while a quotient of two \<open>bigint\<close> is truncated. The
  accounts joined are unique by address, so that the join does not multiply the sessions.
\<close>

section \<open>Queries\<close>

definition agent_in_use :: "db \<Rightarrow> Channel \<Rightarrow> bool" where
  "agent_in_use d c \<longleftrightarrow> list_ex (\<lambda>a. acc_EthAddr a = ch_Agent c \<and> acc_InUse a) (db_accounts d)"

definition channel_sessions :: "db \<Rightarrow> Channel \<Rightarrow> Session list" where
  "channel_sessions d c = filter (\<lambda>s. ses_Channel s = ch_ID c) (db_sessions d)"

definition channel_offering :: "db \<Rightarrow> Channel \<Rightarrow> Offering option" where
  "channel_offering d c = lookup OfferingTable d (ch_Offering c)"

definition units_used :: "db \<Rightarrow> Channel \<Rightarrow> int" where
  "units_used d c = sum_list (map (\<lambda>s. uint (ses_UnitsUsed s)) (channel_sessions d c))"

definition monitored :: "svc_status set \<Rightarrow> db \<Rightarrow> Channel \<Rightarrow> bool" where
  "monitored statuses d c \<longleftrightarrow> ch_ServiceStatus c \<in> statuses \<and> ch_ChannelStatus c \<noteq> ChannelPending
     \<and> agent_in_use d c"

definition over_quota :: "db \<Rightarrow> Channel \<Rightarrow> bool" where
  "over_quota d c \<longleftrightarrow> monitored {ServicePending, ServiceActive} d c \<and>
     (case channel_offering d c of None \<Rightarrow> False | Some f \<Rightarrow>
        ofr_UnitType f = UnitScalar
        \<and> (uint (ofr_SetupPrice f) + units_used d c * uint (ofr_UnitPrice f) \<ge> uint (ch_TotalDeposit c)
           \<or> (case ofr_MaxUnit f of None \<Rightarrow> False | Some m \<Rightarrow> units_used d c \<ge> uint m)))"

definition units_query :: "db \<Rightarrow> string list" where
  "units_query d = map ch_ID (filter (over_quota d) (db_channels d))"

text \<open>
  The units the client is behind, more than \<open>lag\<close>: \<open>used / interval - paid > lag\<close> with the first
  quotient exact and the second truncated. \<open>None\<close> is a division by zero; the query is taken to fail
  as a whole, before its first row.
\<close>

definition lag_exceeds :: "db \<Rightarrow> Channel \<Rightarrow> Offering \<Rightarrow> bool" where
  "lag_exceeds d c f \<longleftrightarrow> units_used d c >
     uint (ofr_BillingInterval f) * (uint (ofr_MaxBillingUnitLag f)
       + trunc_div (uint (ch_ReceiptBalance c) - uint (ofr_SetupPrice f)) (uint (ofr_UnitPrice f)))"

definition lag_query :: "svc_status set \<Rightarrow> (bool \<Rightarrow> bool) \<Rightarrow> db \<Rightarrow> string list option" where
  "lag_query statuses want d =
     (let cs = filter (\<lambda>c. monitored statuses d c \<and> channel_offering d c \<noteq> None) (db_channels d)
      in if list_ex (\<lambda>c. ofr_UnitPrice (the (channel_offering d c)) = 0) cs then None
         else Some (map ch_ID (filter (\<lambda>c. want (lag_exceeds d c (the (channel_offering d c)))) cs)))"

definition lags_query :: "db \<Rightarrow> string list option" where
  "lags_query = lag_query {ServicePending, ServiceActive} (\<lambda>b. b)"

definition unsuspend_query :: "db \<Rightarrow> string list option" where
  "unsuspend_query = lag_query {ServiceSuspended} (\<lambda>b. \<not> b)"

text \<open>\<open>GREATEST\<close> and \<open>MAX\<close> skip \<open>NULL\<close>.\<close>

definition last_activity :: "db \<Rightarrow> Channel \<Rightarrow> time option" where
  "last_activity d c =
     (case (map ses_LastUsageTime (channel_sessions d c), ch_ServiceChangedTime c) of
        ([], t) \<Rightarrow> t
      | (u # us, None) \<Rightarrow> Some (foldl max u us)
      | (u # us, Some t) \<Rightarrow> Some (max (foldl max u us) t))"

definition inactive :: "time \<Rightarrow> db \<Rightarrow> Channel \<Rightarrow> bool" where
  "inactive t d c \<longleftrightarrow> monitored {ServicePending, ServiceActive, ServiceSuspended} d c \<and>
     (case (channel_offering d c, last_activity d c) of
        (Some f, Some l) \<Rightarrow> l + uint (ofr_MaxInactiveTimeSec f) * uint second < t
      | _ \<Rightarrow> False)"

definition inactive_query :: "time \<Rightarrow> db \<Rightarrow> string list" where
  "inactive_query t d = map ch_ID (filter (inactive t d) (db_channels d))"

definition suspended_too_long :: "time \<Rightarrow> db \<Rightarrow> Channel \<Rightarrow> bool" where
  "suspended_too_long t d c \<longleftrightarrow> monitored {ServiceSuspended} d c \<and>
     (case (channel_offering d c, ch_ServiceChangedTime c) of
        (Some f, Some l) \<Rightarrow> l + uint (ofr_MaxSuspendTime f) * uint second < t
      | _ \<Rightarrow> False)"

definition suspended_query :: "time \<Rightarrow> db \<Rightarrow> string list" where
  "suspended_query t d = map ch_ID (filter (suspended_too_long t d) (db_channels d))"

section \<open>Checks\<close>

definition suspendService :: "'z adder \<Rightarrow> string \<Rightarrow> ('z, unit) dbcmd" where
  "suspendService add uuid = ignoreC (SuspendChannel add uuid JobBillingChecker True)"

definition terminateService :: "'z adder \<Rightarrow> string \<Rightarrow> ('z, unit) dbcmd" where
  "terminateService add uuid = ignoreC (TerminateChannel add uuid JobBillingChecker True)"

definition unsuspendService :: "'z adder \<Rightarrow> string \<Rightarrow> ('z, unit) dbcmd" where
  "unsuspendService add uuid = ignoreC (ActivateChannel add uuid JobBillingChecker True)"

text \<open>A query that fails leaves no rows to close, so the deferred \<open>rows.Close()\<close> panics.\<close>

definition processEachChannel ::
  "(time \<Rightarrow> db \<Rightarrow> string list option) \<Rightarrow> (string \<Rightarrow> ('z, unit) dbcmd) \<Rightarrow> ('z, unit) dbcmd" where
  "processEachChannel sql processor = bindC now (\<lambda>t.
     handleC (query Conn (sql t)) (\<lambda>_. fail Panic)
       (\<lambda>r. case r of None \<Rightarrow> fail Panic | Some ids \<Rightarrow> eachC processor ids))"

definition VerifyUnitsBasedChannels :: "'z adder \<Rightarrow> ('z, unit) dbcmd" where
  "VerifyUnitsBasedChannels add = processEachChannel (\<lambda>_ d. Some (units_query d)) (terminateService add)"

definition VerifyBillingLags :: "'z adder \<Rightarrow> ('z, unit) dbcmd" where
  "VerifyBillingLags add = processEachChannel (\<lambda>_. lags_query) (suspendService add)"

definition VerifySuspendedChannelsAndTryToUnsuspend :: "'z adder \<Rightarrow> ('z, unit) dbcmd" where
  "VerifySuspendedChannelsAndTryToUnsuspend add = processEachChannel (\<lambda>_. unsuspend_query) (unsuspendService add)"

definition VerifyChannelsForInactivity :: "'z adder \<Rightarrow> ('z, unit) dbcmd" where
  "VerifyChannelsForInactivity add = processEachChannel (\<lambda>t d. Some (inactive_query t d)) (terminateService add)"

definition VerifySuspendedChannelsAndTryToTerminate :: "'z adder \<Rightarrow> ('z, unit) dbcmd" where
  "VerifySuspendedChannelsAndTryToTerminate add =
     processEachChannel (\<lambda>t d. Some (suspended_query t d)) (terminateService add)"

primrec callChecksAndReportErrorIfAny :: "('z, unit) dbcmd list \<Rightarrow> ('z, unit) dbcmd" where
  "callChecksAndReportErrorIfAny [] = ret ()"
| "callChecksAndReportErrorIfAny (m # ms) = thenC m (callChecksAndReportErrorIfAny ms)"

definition processRound :: "'z adder \<Rightarrow> ('z, unit) dbcmd" where
  "processRound add = callChecksAndReportErrorIfAny
     [VerifyUnitsBasedChannels add, VerifyChannelsForInactivity add,
      VerifySuspendedChannelsAndTryToUnsuspend add, VerifySuspendedChannelsAndTryToTerminate add,
      VerifyBillingLags add]"

text \<open>\<open>Run\<close>: the first \<open>n\<close> ticks.\<close>

primrec Run :: "'z adder \<Rightarrow> nat \<Rightarrow> ('z, unit) dbcmd" where
  "Run add 0 = ret ()"
| "Run add (Suc n) = thenC (processRound add) (Run add n)"

section \<open>Terminating the channels a check selects\<close>

definition terminating :: "string \<Rightarrow> db \<Rightarrow> bool" where
  "terminating i d \<longleftrightarrow> (\<exists>j \<in> set (active_jobs i d). job_Type j = JobAgentPreServiceTerminate)"

definition jobs_about :: "string \<Rightarrow> db \<Rightarrow> Job list" where
  "jobs_about i d = filter (\<lambda>j. job_RelatedID j = i) (db_jobs d)"

lemma jobs_about_other:
  "k \<noteq> i \<Longrightarrow> job_RelatedID j = i \<Longrightarrow> jobs_about k (d\<lparr>db_jobs := cancel_active i js @ [j]\<rparr>) = jobs_about k (d\<lparr>db_jobs := js\<rparr>)"
  unfolding jobs_about_def cancel_active_def by (induction js) auto

text \<open>A world in which the monitor works undisturbed.\<close>

definition undisturbed :: "'z world_scheme \<Rightarrow> bool" where
  "undisturbed w \<longleftrightarrow> w_faults w = [] \<and> w_tx w = None \<and> fresh_jobs w"

lemma undisturbed_added:
  assumes "undisturbed w"
    and "\<And>k. exists_row job_ID js k \<longleftrightarrow> exists_row job_ID (db_jobs (w_db w)) k \<or> k = w_uuid w (w_uuids w)"
  shows "undisturbed (w\<lparr>w_db := (w_db w)\<lparr>db_jobs := js\<rparr>, w_tx := None, w_uuids := Suc (w_uuids w)\<rparr>)"
proof -
  have w: "inj (w_uuid w)" "\<not> exists_row job_ID (db_jobs (w_db w)) (w_uuid w n)" if "w_uuids w \<le> n" for n
    using assms(1) that by (auto simp: undisturbed_def fresh_jobs_def)
  have "w_uuid w n \<noteq> w_uuid w (w_uuids w)" if "Suc (w_uuids w) \<le> n" for n
    using injD [OF w(1), of n n "w_uuids w"] that by auto
  with w assms show ?thesis by (auto simp: undisturbed_def fresh_jobs_def)
qed

text \<open>\<open>ending agent i\<close>: a job that terminates the service of the channel is active.\<close>

definition ending :: "bool \<Rightarrow> string \<Rightarrow> db \<Rightarrow> bool" where
  "ending agent i d \<longleftrightarrow> (\<exists>j \<in> set (active_jobs i d).
     job_Type j = (if agent then JobAgentPreServiceTerminate else JobClientPreServiceTerminate))"

lemma terminating_ending: "terminating i d \<longleftrightarrow> ending True i d"
  by (simp add: terminating_def ending_def)

text \<open>Terminating a channel that may be terminated leaves it with such a job, whether or not there was one.\<close>

lemma terminate_step:
  assumes "undisturbed w" "lookup ChannelTable (w_db w) i = Some ch" "ch_ServiceStatus ch \<in> terminateTransitions"
  shows "\<exists>r w'. TerminateChannel (Add conf) i by agent w = (r, w')
    \<and> (r = Inl (Proc proc_ErrSameJobExists) \<or> (\<exists>jid. r = Inr jid)) \<and> undisturbed w'
    \<and> (w_db w')\<lparr>db_jobs := []\<rparr> = (w_db w)\<lparr>db_jobs := []\<rparr>
    \<and> ending agent i (w_db w') \<and> (\<forall>k. ending agent k (w_db w) \<longrightarrow> ending agent k (w_db w'))
    \<and> (\<forall>k. k \<noteq> i \<longrightarrow> jobs_about k (w_db w') = jobs_about k (w_db w))"
proof (cases "ending agent i (w_db w)")
  case True
  with terminate_again [of w i ch agent "Add conf" "by"] assms show ?thesis
    by (auto simp: undisturbed_def ending_def)
next
  case False
  let ?js = "cancel_active i (db_jobs (w_db w))"
  have w: "w_faults w = []" "w_tx w = None" "fresh_jobs w" using assms(1) by (auto simp: undisturbed_def)
  then have fresh: "\<not> exists_row job_ID (db_jobs (w_db w)) (w_uuid w (w_uuids w))" by (simp add: fresh_jobs_def)
  have none: "\<forall>j \<in> set (active_jobs i (w_db w)).
      job_Type j \<noteq> (if agent then JobAgentPreServiceTerminate else JobClientPreServiceTerminate)"
    using False by (auto simp: ending_def)
  from terminate_ok [OF w(1) assms(2,3) none fresh, of conf "by"] obtain j w' where
    run: "TerminateChannel (Add conf) i by agent w = (Inr (job_ID j), w')"
    and w': "w' = w\<lparr>w_db := (w_db w)\<lparr>db_jobs := ?js @ [j]\<rparr>, w_tx := None, w_uuids := Suc (w_uuids w)\<rparr>"
    and j: "job_ID j = w_uuid w (w_uuids w)" by blast
  have "undisturbed w'" unfolding w' by (rule undisturbed_added [OF assms(1)]) (auto simp: exists_row_append j)
  moreover from TerminateChannel_effect [OF run] have new: "job_Status j = JobActive" "job_RelatedID j = i"
    "job_Type j = (if agent then JobAgentPreServiceTerminate else JobClientPreServiceTerminate)" by (auto simp: w')
  then have "ending agent i (w_db w')" by (auto simp: ending_def w' active_jobs_def)
  moreover have "ending agent k (w_db w')" if "ending agent k (w_db w)" "k \<noteq> i" for k
    using that by (auto simp: ending_def w' active_jobs_other)
  moreover have "jobs_about k (w_db w') = jobs_about k (w_db w)" if "k \<noteq> i" for k
    using that new jobs_about_other [of k i j] by (simp add: w')
  moreover have "(w_db w')\<lparr>db_jobs := []\<rparr> = (w_db w)\<lparr>db_jobs := []\<rparr>" by (simp add: w')
  ultimately show ?thesis using run by blast
qed

lemma terminateService_step:
  assumes "undisturbed w" "lookup ChannelTable (w_db w) i = Some ch" "ch_ServiceStatus ch \<in> terminateTransitions"
  shows "\<exists>w'. terminateService (Add conf) i w = (Inr (), w') \<and> undisturbed w'
    \<and> (w_db w')\<lparr>db_jobs := []\<rparr> = (w_db w)\<lparr>db_jobs := []\<rparr>
    \<and> terminating i (w_db w') \<and> (\<forall>k. terminating k (w_db w) \<longrightarrow> terminating k (w_db w'))
    \<and> (\<forall>k. k \<noteq> i \<longrightarrow> jobs_about k (w_db w') = jobs_about k (w_db w))"
  using terminate_step [OF assms, of conf JobBillingChecker True]
  by (auto simp: terminating_ending terminateService_def ignoreC_def handleC_def ret_def)

lemma lookup_same_channels:
  "(d')\<lparr>db_jobs := []\<rparr> = d\<lparr>db_jobs := []\<rparr> \<Longrightarrow> lookup ChannelTable d' i = lookup ChannelTable d i"
  by (metis ChannelTable_simps(1) db.select_convs(7) db.surjective db.update_convs(10) lookup_def)

lemma terminate_each:
  assumes "undisturbed w"
    and "\<forall>i \<in> set ids. \<exists>ch. lookup ChannelTable (w_db w) i = Some ch \<and> ch_ServiceStatus ch \<in> terminateTransitions"
  shows "\<exists>w'. eachC (terminateService (Add conf)) ids w = (Inr (), w') \<and> undisturbed w'
    \<and> (w_db w')\<lparr>db_jobs := []\<rparr> = (w_db w)\<lparr>db_jobs := []\<rparr>
    \<and> (\<forall>i \<in> set ids. terminating i (w_db w')) \<and> (\<forall>k. terminating k (w_db w) \<longrightarrow> terminating k (w_db w'))
    \<and> (\<forall>k. k \<notin> set ids \<longrightarrow> jobs_about k (w_db w') = jobs_about k (w_db w))"
  using assms
proof (induction ids arbitrary: w)
  case Nil
  then show ?case by (simp add: ret_def)
next
  case (Cons i ids)
  then obtain ch where ch: "lookup ChannelTable (w_db w) i = Some ch" "ch_ServiceStatus ch \<in> terminateTransitions"
    by auto
  obtain w1 where w1: "terminateService (Add conf) i w = (Inr (), w1)" "undisturbed w1"
    "(w_db w1)\<lparr>db_jobs := []\<rparr> = (w_db w)\<lparr>db_jobs := []\<rparr>" "terminating i (w_db w1)"
    "\<forall>k. terminating k (w_db w) \<longrightarrow> terminating k (w_db w1)"
    "\<forall>k. k \<noteq> i \<longrightarrow> jobs_about k (w_db w1) = jobs_about k (w_db w)"
    using terminateService_step [OF Cons.prems(1) ch, of conf] by blast
  have "\<forall>i \<in> set ids. \<exists>ch. lookup ChannelTable (w_db w1) i = Some ch \<and> ch_ServiceStatus ch \<in> terminateTransitions"
    using Cons.prems(2) lookup_same_channels [OF w1(3)] by simp
  from Cons.IH [OF w1(2) this] obtain w2 where "eachC (terminateService (Add conf)) ids w1 = (Inr (), w2)"
    "undisturbed w2" "(w_db w2)\<lparr>db_jobs := []\<rparr> = (w_db w1)\<lparr>db_jobs := []\<rparr>"
    "\<forall>i \<in> set ids. terminating i (w_db w2)" "\<forall>k. terminating k (w_db w1) \<longrightarrow> terminating k (w_db w2)"
    "\<forall>k. k \<notin> set ids \<longrightarrow> jobs_about k (w_db w2) = jobs_about k (w_db w1)" by blast
  with w1 show ?case by (intro exI [of _ w2]) (auto simp: thenC_def bindC_def)
qed

lemma selected_lookup:
  assumes "distinct (map ch_ID (db_channels d))" "i \<in> set (map ch_ID (filter P (db_channels d)))"
    and "\<And>c. P c \<Longrightarrow> ch_ServiceStatus c \<in> terminateTransitions"
  shows "\<exists>ch. lookup ChannelTable d i = Some ch \<and> ch_ServiceStatus ch \<in> terminateTransitions"
proof -
  from assms(2) obtain c where c: "c \<in> set (db_channels d)" "P c" "i = ch_ID c" by auto
  have "find (\<lambda>r. ch_ID r = ch_ID c) cs = Some c" if "distinct (map ch_ID cs)" "c \<in> set cs" for cs
    using that by (induction cs) auto
  with c assms(1,3) show ?thesis by (auto simp: lookup_def)
qed

text \<open>The channel has used up what its deposit or its offering allows: the price of the set-up and of the units that
  its sessions have used leaves nothing of the deposit, or the units have reached the maximum.\<close>

definition used_up :: "db \<Rightarrow> Channel \<Rightarrow> Offering \<Rightarrow> bool" where
  "used_up d c f \<longleftrightarrow> (let units = (\<Sum>s \<leftarrow> filter (\<lambda>s. ses_Channel s = ch_ID c) (db_sessions d). uint (ses_UnitsUsed s))
     in \<not> uint (ofr_SetupPrice f) + uint (ofr_UnitPrice f) * units < uint (ch_TotalDeposit c)
      \<or> (\<exists>m. ofr_MaxUnit f = Some m \<and> uint m \<le> units))"

lemma over_quota_iff:
  "over_quota d c \<longleftrightarrow> (\<exists>f a. lookup OfferingTable d (ch_Offering c) = Some f \<and> ofr_UnitType f = UnitScalar
      \<and> a \<in> set (db_accounts d) \<and> acc_EthAddr a = ch_Agent c \<and> acc_InUse a
      \<and> ch_ServiceStatus c \<in> {ServicePending, ServiceActive} \<and> ch_ChannelStatus c \<noteq> ChannelPending \<and> used_up d c f)"
  by (auto simp: over_quota_def monitored_def agent_in_use_def list_ex_iff channel_offering_def used_up_def units_used_def
      channel_sessions_def Let_def mult.commute not_less split: option.splits)

text \<open>C15: while nothing fails, a check of the units-based channels ends with a termination job queued for every channel
  of an account in use, opened and with its service pending or active, that has used up its deposit or
  its maximum of units; the jobs about any other channel stay as they are, and no other table changes.\<close>

theorem over_quota_terminated:
  assumes "undisturbed w" "distinct (map ch_ID (db_channels (w_db w)))"
  shows "\<exists>w'. VerifyUnitsBasedChannels (Add conf) w = (Inr (), w')
    \<and> (\<forall>c \<in> set (db_channels (w_db w)).
        if \<exists>f a. lookup OfferingTable (w_db w) (ch_Offering c) = Some f \<and> ofr_UnitType f = UnitScalar
            \<and> a \<in> set (db_accounts (w_db w)) \<and> acc_EthAddr a = ch_Agent c \<and> acc_InUse a
            \<and> ch_ServiceStatus c \<in> {ServicePending, ServiceActive} \<and> ch_ChannelStatus c \<noteq> ChannelPending
            \<and> used_up (w_db w) c f
        then terminating (ch_ID c) (w_db w') else jobs_about (ch_ID c) (w_db w') = jobs_about (ch_ID c) (w_db w))
    \<and> (w_db w')\<lparr>db_jobs := []\<rparr> = (w_db w)\<lparr>db_jobs := []\<rparr>"
proof -
  have status: "over_quota (w_db w) c \<Longrightarrow> ch_ServiceStatus c \<in> terminateTransitions" for c
    by (auto simp: over_quota_def monitored_def terminateTransitions_def)
  obtain w' where w': "eachC (terminateService (Add conf)) (units_query (w_db w)) w = (Inr (), w')"
    "(w_db w')\<lparr>db_jobs := []\<rparr> = (w_db w)\<lparr>db_jobs := []\<rparr>"
    "\<forall>i \<in> set (units_query (w_db w)). terminating i (w_db w')"
    "\<forall>i. i \<notin> set (units_query (w_db w)) \<longrightarrow> jobs_about i (w_db w') = jobs_about i (w_db w)"
    using terminate_each [OF assms(1), of "units_query (w_db w)" conf] selected_lookup [OF assms(2) _ status]
    unfolding units_query_def by blast
  have run: "VerifyUnitsBasedChannels (Add conf) w = (Inr (), w')"
    using assms(1) w'(1) by (simp add: VerifyUnitsBasedChannels_def processEachChannel_def bindC_def now_def getC_def
        handleC_def query_ok undisturbed_def)
  have selected: "ch_ID c \<in> set (units_query (w_db w)) \<longleftrightarrow> over_quota (w_db w) c" if "c \<in> set (db_channels (w_db w))" for c
    using that assms(2) by (auto simp: units_query_def distinct_map inj_on_def)
  show ?thesis
    unfolding over_quota_iff [symmetric] using run w'(2-4) selected by (intro exI [of _ w']) simp
qed

section \<open>Lags\<close>

lemma lag_query_mem:
  "lag_query st want d = Some ids \<Longrightarrow> i \<in> set ids \<longleftrightarrow>
     (\<exists>c \<in> set (db_channels d). ch_ID c = i \<and> monitored st d c
        \<and> (\<exists>f. channel_offering d c = Some f \<and> want (lag_exceeds d c f)))"
  by (fastforce simp: lag_query_def Let_def split: if_splits)

lemma lag_query_row:
  assumes "distinct (map ch_ID (db_channels d))" "c \<in> set (db_channels d)" "lag_query st want d = Some ids"
  shows "ch_ID c \<in> set ids \<longleftrightarrow>
    monitored st d c \<and> (\<exists>f. channel_offering d c = Some f \<and> want (lag_exceeds d c f))"
  unfolding lag_query_mem [OF assms(3)] using assms(2) same_id_same_row [OF assms(1,2)] by metis

text \<open>Suspending does not flap: of an active channel the lag check selects, the same channel once
  suspended is not selected to be continued, and of one the lag check spares it is. Only a change of
  the usage or of the payment can change the verdict.\<close>

theorem suspend_unsuspend_complementary:
  assumes "c \<in> set (db_channels d)" "distinct (map ch_ID (db_channels d))" and "monitored {ServiceActive} d c"
    and "channel_offering d c = Some f"
    and "lags_query d = Some lags"
    and "unsuspend_query (d\<lparr>db_channels := replace ch_ID (c\<lparr>ch_ServiceStatus := ServiceSuspended\<rparr>) (db_channels d)\<rparr>)
      = Some paid"
  shows "ch_ID c \<in> set paid \<longleftrightarrow> ch_ID c \<notin> set lags"
proof -
  let ?c = "c\<lparr>ch_ServiceStatus := ServiceSuspended\<rparr>"
  let ?d = "d\<lparr>db_channels := replace ch_ID ?c (db_channels d)\<rparr>"
  have ids: "distinct (map ch_ID (db_channels ?d))" using assms(2) by simp
  have row: "?c \<in> set (db_channels ?d)"
    using assms(1) by (auto simp: replace_def image_iff intro!: bexI [of _ c])
  have same: "channel_offering ?d ?c = Some f" "lag_exceeds ?d ?c f = lag_exceeds d c f"
    "monitored {ServiceSuspended} ?d ?c"
    using assms(3,4) by (simp_all add: channel_offering_def lookup_def OfferingTable_def lag_exceeds_def
        units_used_def channel_sessions_def monitored_def agent_in_use_def)
  have "ch_ID c \<in> set lags \<longleftrightarrow> lag_exceeds d c f"
    using lag_query_row [OF assms(2,1) assms(5) [unfolded lags_query_def]] assms(3,4)
    by (auto simp: monitored_def)
  moreover have "ch_ID c \<in> set paid \<longleftrightarrow> \<not> lag_exceeds d c f"
    using lag_query_row [OF ids row assms(6) [unfolded unsuspend_query_def]] same by simp
  ultimately show ?thesis by simp
qed

text \<open>Who pays is not suspended: a receipt that covers the setup price and \<open>n\<close> units keeps the lag
  check away as long as no more than \<open>n\<close> billing intervals, plus the lag that is allowed, are used.\<close>

theorem paid_up_not_suspended:
  assumes "c \<in> set (db_channels d)" "distinct (map ch_ID (db_channels d))" "channel_offering d c = Some f"
    and "lags_query d = Some lags" "0 < uint (ofr_UnitPrice f)" "0 \<le> n"
    and "uint (ofr_SetupPrice f) + n * uint (ofr_UnitPrice f) \<le> uint (ch_ReceiptBalance c)"
    and "units_used d c \<le> uint (ofr_BillingInterval f) * (uint (ofr_MaxBillingUnitLag f) + n)"
  shows "ch_ID c \<notin> set lags"
proof -
  let ?r = "uint (ch_ReceiptBalance c) - uint (ofr_SetupPrice f)"
  have "0 \<le> n * uint (ofr_UnitPrice f)" using assms(5,6) by simp
  then have r: "0 \<le> ?r" "n * uint (ofr_UnitPrice f) \<le> ?r" using assms(7) by linarith+
  have "n * uint (ofr_UnitPrice f) div uint (ofr_UnitPrice f) \<le> ?r div uint (ofr_UnitPrice f)"
    using r(2) assms(5) by (intro zdiv_mono1)
  then have "n \<le> ?r div uint (ofr_UnitPrice f)" using assms(5) by simp
  moreover have "trunc_div ?r (uint (ofr_UnitPrice f)) = ?r div uint (ofr_UnitPrice f)"
    using r(1) assms(5) by (rule trunc_div_nonneg)
  ultimately have "uint (ofr_BillingInterval f) * (uint (ofr_MaxBillingUnitLag f) + n)
      \<le> uint (ofr_BillingInterval f) * (uint (ofr_MaxBillingUnitLag f) + trunc_div ?r (uint (ofr_UnitPrice f)))"
    by (intro mult_left_mono) auto
  with assms(8) have "\<not> lag_exceeds d c f" by (simp add: lag_exceeds_def)
  then show ?thesis
    using lag_query_row [OF assms(2,1) assms(4) [unfolded lags_query_def]] assms(3) by auto
qed

text \<open>A single monitored channel whose offering has the unit price zero brings the monitor down:
  the lag check divides by it, and the failed query ends in a panic.\<close>

theorem zero_price_panics:
  assumes "c \<in> set (db_channels (w_db w))" "monitored {ServicePending, ServiceActive} (w_db w) c"
    and "channel_offering (w_db w) c = Some f" "ofr_UnitPrice f = 0" "w_faults w = []"
  shows "VerifyBillingLags add w = (Inl Panic, w)"
proof -
  have "lags_query (w_db w) = None"
    using assms(1-4) by (auto simp: lags_query_def lag_query_def Let_def list_ex_iff)
  then show ?thesis
    using assms(5) by (simp add: VerifyBillingLags_def processEachChannel_def bindC_def now_def getC_def
        handleC_def query_ok fail_def)
qed

section \<open>Concrete instances\<close>

lemma sample_monitored: "monitored {ServicePending, ServiceActive} sample_db sample_channel"
  "monitored {ServiceActive} sample_db sample_channel"
  by (simp_all add: monitored_def agent_in_use_def sample_channel_def sample_account_def)

lemma sample_channel_offering: "channel_offering sample_db sample_channel = Some sample_offering"
  by (simp add: channel_offering_def lookup_def OfferingTable_def sample_channel_def sample_offering_def)

lemma sample_units: "units_used sample_db sample_channel = 150"
  by (simp add: units_used_def channel_sessions_def sample_session_def sample_channel_def)

text \<open>Two channels: the first has used 150 units, which with the set-up cost its deposit to the last token; of the
  deposit of the second one token is left.\<close>

definition quota_world :: world where
  "quota_world = initial_world (sample_db\<lparr>db_channels := [sample_channel\<lparr>ch_TotalDeposit := 310\<rparr>,
     sample_channel\<lparr>ch_ID := ''c2'', ch_TotalDeposit := 11\<rparr>], db_jobs := []\<rparr>) 5"

theorem over_quota_terminated_witness:
  "\<exists>w'. VerifyUnitsBasedChannels (Add NewConfig) quota_world = (Inr (), w') \<and> terminating ''c1'' (w_db w')
    \<and> jobs_about ''c2'' (w_db w') = []"
proof -
  have "undisturbed quota_world" "distinct (map ch_ID (db_channels (w_db quota_world)))"
    by (auto simp: undisturbed_def fresh_jobs_def quota_world_def initial_world_def exists_row_def inj_on_def sample_channel_def)
  note w' = over_quota_terminated [OF this, of NewConfig]
  have "over_quota (w_db quota_world) (hd (db_channels (w_db quota_world)))"
    "\<not> over_quota (w_db quota_world) (hd (tl (db_channels (w_db quota_world))))" by code_simp+
  with w' show ?thesis unfolding over_quota_iff [symmetric]
    by (fastforce simp: quota_world_def initial_world_def jobs_about_def sample_channel_def)
qed

lemma sample_lags: "lags_query sample_db = Some []"
  using sample_monitored sample_channel_offering sample_units
  by (simp add: lags_query_def lag_query_def Let_def sample_offering_def lag_exceeds_def trunc_div_def
      sample_channel_def)

theorem suspend_unsuspend_complementary_witness:
  "\<exists>paid. unsuspend_query (sample_db\<lparr>db_channels :=
       replace ch_ID (sample_channel\<lparr>ch_ServiceStatus := ServiceSuspended\<rparr>) [sample_channel]\<rparr>) = Some paid
     \<and> ''c1'' \<in> set paid"
proof -
  have "\<exists>paid. unsuspend_query (sample_db\<lparr>db_channels :=
       replace ch_ID (sample_channel\<lparr>ch_ServiceStatus := ServiceSuspended\<rparr>) [sample_channel]\<rparr>) = Some paid"
    by (simp add: unsuspend_query_def lag_query_def Let_def replace_def channel_offering_def lookup_def
        OfferingTable_def sample_channel_def sample_offering_def)
  then obtain paid where p: "unsuspend_query (sample_db\<lparr>db_channels :=
       replace ch_ID (sample_channel\<lparr>ch_ServiceStatus := ServiceSuspended\<rparr>) [sample_channel]\<rparr>) = Some paid"
    by blast
  have "ch_ID sample_channel \<in> set paid"
    using suspend_unsuspend_complementary [of sample_channel sample_db, OF _ _ sample_monitored(2)
        sample_channel_offering sample_lags] p by simp
  with p show ?thesis by (auto simp: sample_channel_def)
qed

theorem paid_up_not_suspended_witness: "''c1'' \<notin> set (the (lags_query sample_db))"
  using paid_up_not_suspended [of sample_channel sample_db, OF _ _ sample_channel_offering sample_lags,
      of 145] sample_units sample_lags
  by (simp add: sample_channel_def sample_offering_def)

theorem zero_price_panics_witness:
  "\<exists>w. VerifyBillingLags (Add NewConfig) (w :: world) = (Inl Panic, w)"
proof -
  let ?f = "sample_offering\<lparr>ofr_UnitPrice := 0\<rparr>"
  let ?w = "sample_world\<lparr>w_db := sample_db\<lparr>db_offerings := [?f]\<rparr>\<rparr>"
  have "VerifyBillingLags (Add NewConfig) ?w = (Inl Panic, ?w)"
    by (rule zero_price_panics [where c = sample_channel and f = ?f])
      (simp_all add: monitored_def agent_in_use_def channel_offering_def lookup_def OfferingTable_def
        sample_channel_def sample_offering_def sample_account_def)
  then show ?thesis by blast
qed

end
