(* ===== verification/ClientBilling.thy ===== *)
theory ClientBilling
  imports Complex_Main Payment Settings AgentBilling
begin

text \<open>
  The client's billing monitor, \<open>src/client/bill/monitor.go\<close>. Each round it looks at the active
  channels of the accounts in use, and for each either terminates it or works out the payment that
  is due, and raises the deposit when it runs low. Cheques are posted by goroutines: the channel
  and the amount they are started with are the result of \<open>processChannel\<close>, and \<open>postCheque\<close> is the
  goroutine. What the settings say is read anew each round.
\<close>

section \<open>Floating point\<close>

text \<open>A positive number rounded to 53 significant bits, halves to even, as IEEE doubles are.\<close>

definition bit_length :: "int \<Rightarrow> int" where
  "bit_length n = int (length (takeWhile (\<lambda>k. 2 ^ k \<le> n) [0..<400]))"

definition pow2 :: "int \<Rightarrow> rat" where
  "pow2 e = (if 0 \<le> e then 2 ^ nat e else 1 / 2 ^ nat (- e))"

definition round_even :: "rat \<Rightarrow> int" where
  "round_even x = (let f = \<lfloor>x\<rfloor>; r = x - of_int f
     in if r < 1 / 2 \<or> (r = 1 / 2 \<and> even f) then f else f + 1)"

definition double :: "rat \<Rightarrow> rat" where
  "double x = (if x \<le> 0 then 0 else
     (case quotient_of x of (p, q) \<Rightarrow>
        let e = bit_length p - bit_length q - 53;
            e' = (if x < pow2 (e + 53) then e else e + 1)
        in of_int (round_even (x / pow2 e')) * pow2 e'))"

text \<open>\<open>uint64(float64(deposit) * rate)\<close>; out of range it is what amd64 gives.\<close>

definition autoincrease_after :: "u64 \<Rightarrow> rat \<Rightarrow> u64" where
  "autoincrease_after deposit rate =
     (let x = double (double (of_int (uint deposit)) * rate)
      in if x < 2 ^ 64 then word_of_int \<lfloor>x\<rfloor> else 2 ^ 63)"

section \<open>The monitor\<close>

record monitor_settings =
  autoIncrease :: bool
  autoIncreaseAtRate :: rat

definition readSettings :: "('z, monitor_settings) dbcmd" where
  "readSettings =
     bindC (ReadBoolSetting Conn SettingClientAutoincreaseDeposit) (\<lambda>b.
     bindC (ReadUintSetting Conn SettingClientAutoincreaseDepositPercent) (\<lambda>percent.
       ret \<lparr>autoIncrease = b, autoIncreaseAtRate = double (double (of_int (uint percent)) / 100)\<rparr>))"

text \<open>\<open>ComputePrice\<close> of \<open>src/data/misc.go\<close> wraps around.\<close>

definition ComputePrice :: "Offering \<Rightarrow> u64 \<Rightarrow> u64" where
  "ComputePrice offering units = units * ofr_UnitPrice offering + ofr_SetupPrice offering"

definition channel_usage :: "db \<Rightarrow> string \<Rightarrow> Session list" where
  "channel_usage d i = filter (\<lambda>s. ses_Channel s = i) (db_sessions d)"

definition maxInactiveTimeReached :: "Channel \<Rightarrow> Offering \<Rightarrow> ('z, bool) dbcmd" where
  "maxInactiveTimeReached ch offer =
     bindC (query Conn (\<lambda>d. map ses_LastUsageTime (channel_usage d (ch_ID ch)))) (\<lambda>usage.
     bindC now (\<lambda>t.
       let lastUsage = (case usage of [] \<Rightarrow> ch_PreparedAt ch | u # us \<Rightarrow> foldl max u us);
           inactiveSeconds = (word_of_int (trunc_div (t - lastUsage) 1000000000) :: u64)
       in ret (usage \<noteq> [] \<and> ofr_MaxInactiveTimeSec offer < inactiveSeconds)))"

definition isToBeTerminated :: "Channel \<Rightarrow> Offering \<Rightarrow> ('z, bool) dbcmd" where
  "isToBeTerminated ch offer =
     (if ch_ReceiptBalance ch \<noteq> 0 \<and> ch_TotalDeposit ch \<noteq> 0 \<and> ch_ReceiptBalance ch = ch_TotalDeposit ch
      then ret True
      else on_err (\<lambda>_. Cbill cbill_ErrGetConsumedUnits) (maxInactiveTimeReached ch offer))"

text \<open>
  The error of the first query is dropped unless it is that there is no row. The second counts the
  top-ups seen on the blockchain since the last one was asked for; none means one is under way.
\<close>

definition topups_seen :: "db \<Rightarrow> string \<Rightarrow> nat" where
  "topups_seen d chID =
     (let asked = map job_CreatedAt (filter (\<lambda>j. job_Type j = JobClientPreChannelTopUp \<and> job_RelatedID j = chID) (db_jobs d));
          since = (case asked of [] \<Rightarrow> zero_time | t # ts \<Rightarrow> foldl max t ts)
      in length (filter (\<lambda>j. (job_Status j = JobActive \<or> job_Status j = JobDone)
           \<and> job_Type j = JobClientAfterChannelTopUp \<and> job_RelatedID j = chID \<and> since < job_CreatedAt j) (db_jobs d)))"

definition notMinedChannelTopUpExists :: "string \<Rightarrow> ('z, bool) dbcmd" where
  "notMinedChannelTopUpExists chID =
     (let second = bindC (query Conn (\<lambda>d. topups_seen d chID)) (\<lambda>qty. ret (qty = 0))
      in handleC (select_one JobTable Conn (\<lambda>j. job_RelatedID j = chID \<and> job_Type j = JobClientPreChannelTopUp))
           (\<lambda>e. if e = NoRows then ret False else second) (\<lambda>_. second))"

text \<open>\<open>gasPrice\<close> is what \<open>SuggestGasPrice\<close> returns, if it does in time.\<close>

definition checkAndCreateAutoIncreaseJob ::
  "'z adder \<Rightarrow> u64 option \<Rightarrow> monitor_settings \<Rightarrow> Channel \<Rightarrow> u64 \<Rightarrow> ('z, unit) dbcmd" where
  "checkAndCreateAutoIncreaseJob add gasPrice m ch amount =
     (if \<not> autoIncrease m \<or> amount < autoincrease_after (ch_TotalDeposit ch) (autoIncreaseAtRate m) then ret ()
      else handleC (notMinedChannelTopUpExists (ch_ID ch)) (\<lambda>_. ret ()) (\<lambda>exists.
        if exists then ret ()
        else bindC (of_option (Text ''could not fetch suggested gas price'') gasPrice) (\<lambda>price.
          bindC now (\<lambda>t.
          handleC (add Conn (new_job JobClientPreChannelTopUp JobChannel (ch_ID ch) JobBillingChecker
               (Some (enc_DepositData \<lparr>dep_GasPrice = price, dep_Deposit = ch_TotalDeposit ch\<rparr>)) t))
            (\<lambda>e. if e = Job job_ErrAlreadyProcessing \<or> e = Job job_ErrDuplicatedJob then ret () else fail e)
            (\<lambda>_. ret ())))))"

text \<open>The units the client owes, in signed 64-bit arithmetic; a unit price of zero panics.\<close>

definition sdiv64 :: "u64 \<Rightarrow> u64 \<Rightarrow> u64" where
  "sdiv64 a b = word_of_int (trunc_div (sint a) (sint b))"

definition payment_due :: "Channel \<Rightarrow> Offering \<Rightarrow> u64 \<Rightarrow> bool" where
  "payment_due ch offer consumed \<longleftrightarrow>
     1 \<le> sint (sdiv64 (consumed - sdiv64 (ch_ReceiptBalance ch - ofr_SetupPrice offer) (ofr_UnitPrice offer))
            (ofr_BillingInterval offer))"

text \<open>The channel is terminated, or the result is the cheque to post, if any.\<close>

definition processChannel ::
  "'z adder \<Rightarrow> u64 option \<Rightarrow> monitor_settings \<Rightarrow> Channel \<Rightarrow> ('z, (string \<times> u64) option) dbcmd" where
  "processChannel add gasPrice m ch =
     bindC (on_err (\<lambda>_. Cbill cbill_ErrGetOffering) (find_pk OfferingTable Conn (ch_Offering ch))) (\<lambda>offer.
     bindC (isToBeTerminated ch offer) (\<lambda>terminate.
     if terminate then
       handleC (TerminateChannel add (ch_ID ch) JobBillingChecker False)
         (\<lambda>e. if e \<noteq> Proc proc_ErrSameJobExists then fail e else ret None) (\<lambda>_. ret None)
     else
     bindC (on_err (\<lambda>_. Cbill cbill_ErrGetConsumedUnits)
         (bindC (query Conn (\<lambda>d. sum_list (map (\<lambda>s. uint (ses_UnitsUsed s)) (channel_usage d (ch_ID ch)))))
           (\<lambda>n. of_option (Text ''scan'') (if n < 2 ^ 64 then Some (word_of_int n) else None)))) (\<lambda>consumed.
     let amount = ComputePrice offer consumed in
     if ch_TotalDeposit ch < amount then ret (Some (ch_ID ch, ch_TotalDeposit ch))
     else thenC (checkAndCreateAutoIncreaseJob add gasPrice m ch amount)
       (if ofr_UnitPrice offer = 0 \<or> ofr_BillingInterval offer = 0 then fail Panic
        else ret (if payment_due ch offer consumed then Some (ch_ID ch, amount) else None)))))"

text \<open>One round of \<open>Run\<close>; its result are the cheques started. An error ends the monitor.\<close>

definition run_round :: "'z adder \<Rightarrow> u64 option \<Rightarrow> ('z, (string \<times> u64) list) dbcmd" where
  "run_round add gasPrice =
     bindC (query Conn (\<lambda>d. filter (\<lambda>c. (ch_ServiceStatus c = ServiceActive \<or> ch_ServiceStatus c = ServiceSuspended)
         \<and> ch_ChannelStatus c = ChannelActive
         \<and> list_ex (\<lambda>a. acc_EthAddr a = ch_Client c \<and> acc_InUse a) (db_accounts d)) (db_channels d))) (\<lambda>chans.
     bindC readSettings (\<lambda>m.
     bindC (mapC (processChannel add gasPrice m) chans) (\<lambda>cheques.
       ret (List.map_filter (\<lambda>c. c) cheques))))"

section \<open>Posting a cheque\<close>

text \<open>\<open>post\<close> is \<open>pay.PostCheque\<close>; \<open>getKey\<close> unlocks the account. Errors are only logged.\<close>

definition postCheque ::
  "(Account \<Rightarrow> 'k option) \<Rightarrow> (Channel \<Rightarrow> HexString \<Rightarrow> 'k \<Rightarrow> u64 \<Rightarrow> ('z, unit) dbcmd) \<Rightarrow> string
     \<Rightarrow> string \<Rightarrow> u64 \<Rightarrow> ('z, unit) dbcmd" where
  "postCheque getKey post psc channelID amount =
     bindC (find_pk ChannelTable Conn channelID) (\<lambda>channel.
     bindC (select_one AccountTable Conn (\<lambda>a. acc_EthAddr a = ch_Client channel)) (\<lambda>client.
     bindC (of_option (Text ''key'') (getKey client)) (\<lambda>key.
     thenC (post channel (HexFromBytes (address_bytes (lenient_address psc))) key amount)
    (thenC (guardC (is_bigint amount) Violation)
       (bindC (exec_update ChannelTable Conn (\<lambda>c. ch_ID c = channelID \<and> ch_ReceiptBalance c < amount)
           (\<lambda>c. c\<lparr>ch_ReceiptBalance := amount\<rparr>)) (\<lambda>_. ret ()))))))"


section \<open>The deposit bounds what the client pays\<close>

lemma processChannel_cheque:
  assumes "processChannel add gasPrice m ch w = (Inr (Some (i, a)), w')"
  shows "i = ch_ID ch \<and> a \<le> ch_TotalDeposit ch
    \<and> (ch_ReceiptBalance ch = 0 \<or> ch_ReceiptBalance ch \<noteq> ch_TotalDeposit ch)"
  using assms unfolding processChannel_def isToBeTerminated_def Let_def
  by (auto simp: run not_less word_le_nat_alt split: if_splits)

text \<open>C26: the client never makes out a cheque for more than the deposit of the channel, and none for a
  channel whose deposit it has already paid out.\<close>

theorem cheque_within_deposit:
  assumes "processChannel add gasPrice m ch w = (Inr (Some (i, a)), w')"
  shows "i = ch_ID ch \<and> a \<le> ch_TotalDeposit ch
    \<and> (ch_ReceiptBalance ch = 0 \<or> ch_ReceiptBalance ch \<noteq> ch_TotalDeposit ch)"
  using assms by (rule processChannel_cheque)

section \<open>A round ends what is spent\<close>

lemma Add_undisturbed:
  assumes "undisturbed w"
  shows "Add conf Conn j w = (Inl (Job job_ErrDuplicatedJob), w) \<or> (\<exists>j'. job_ID j' = w_uuid w (w_uuids w) \<and> Add conf Conn j w =
    (Inr j', w\<lparr>w_db := (w_db w)\<lparr>db_jobs := db_jobs (w_db w) @ [j']\<rparr>, w_tx := None, w_uuids := Suc (w_uuids w)\<rparr>))"
proof -
  have w: "w_faults w = []" "w_tx w = None" "\<not> exists_row job_ID (db_jobs (w_db w)) (w_uuid w (w_uuids w))"
    using assms by (auto simp: undisturbed_def fresh_jobs_def)
  then show ?thesis
    by (simp add: Add_def Let_def bindC_def thenC_def whenC_def now_def getC_def new_uuid_def on_err_def ret_def fail_def
        checkDuplicated_alt handleC_def select_one_ok insert_row_ok write_db_def split: option.split)
qed

text \<open>What a channel takes along in a round: no disturbance, no table written but the jobs, no ending undone.\<close>

definition goes_on :: "'z world_scheme \<Rightarrow> 'z world_scheme \<Rightarrow> bool" where
  "goes_on w w' \<longleftrightarrow> undisturbed w' \<and> (w_db w')\<lparr>db_jobs := []\<rparr> = (w_db w)\<lparr>db_jobs := []\<rparr>
     \<and> (\<forall>k. ending False k (w_db w) \<longrightarrow> ending False k (w_db w'))"

lemma goes_on_refl: "undisturbed w \<Longrightarrow> goes_on w w"
  by (simp add: goes_on_def)

lemma goes_on_trans: "goes_on u v \<Longrightarrow> goes_on v w \<Longrightarrow> goes_on u w"
  by (simp add: goes_on_def)

lemma topup_goes_on:
  assumes "undisturbed w"
  shows "\<exists>w'. checkAndCreateAutoIncreaseJob (Add conf) (Some price) m ch amount w = (Inr (), w') \<and> goes_on w w'"
proof -
  let ?j = "new_job JobClientPreChannelTopUp JobChannel (ch_ID ch) JobBillingChecker
    (Some (enc_DepositData \<lparr>dep_GasPrice = price, dep_Deposit = ch_TotalDeposit ch\<rparr>)) (w_now w)"
  have "w_faults w = []" using assms by (simp add: undisturbed_def)
  then have "\<exists>b. notMinedChannelTopUpExists (ch_ID ch) w = (Inr b, w)"
    by (cases "find (\<lambda>j. job_RelatedID j = ch_ID ch \<and> job_Type j = JobClientPreChannelTopUp) (db_jobs (w_db w))")
      (simp_all add: notMinedChannelTopUpExists_def Let_def handleC_def bindC_def select_one_ok query_ok ret_def,
        auto)
  then obtain b where b: "notMinedChannelTopUpExists (ch_ID ch) w = (Inr b, w)" ..
  have added: "goes_on w (w\<lparr>w_db := (w_db w)\<lparr>db_jobs := db_jobs (w_db w) @ [j']\<rparr>, w_tx := None, w_uuids := Suc (w_uuids w)\<rparr>)"
    if "job_ID j' = w_uuid w (w_uuids w)" for j'
    using undisturbed_added [OF assms, of "db_jobs (w_db w) @ [j']"] that
    by (auto simp: goes_on_def exists_row_append ending_def active_jobs_def)
  from Add_undisturbed [OF assms, of conf ?j] show ?thesis
    using b goes_on_refl [OF assms] added
    by (auto simp: checkAndCreateAutoIncreaseJob_def handleC_def bindC_def of_option_def now_def getC_def ret_def)
qed

text \<open>The channel has an offering to reckon with, and its sessions have used no more units than 64 bits hold.\<close>

definition billable :: "db \<Rightarrow> Channel \<Rightarrow> bool" where
  "billable d c \<longleftrightarrow> (\<Sum>s \<leftarrow> filter (\<lambda>s. ses_Channel s = ch_ID c) (db_sessions d). uint (ses_UnitsUsed s)) < 2 ^ 64
     \<and> (\<exists>f. lookup OfferingTable d (ch_Offering c) = Some f \<and> ofr_UnitPrice f \<noteq> 0 \<and> ofr_BillingInterval f \<noteq> 0)"

definition spent :: "Channel \<Rightarrow> bool" where
  "spent c \<longleftrightarrow> ch_ReceiptBalance c = ch_TotalDeposit c \<and> ch_TotalDeposit c \<noteq> 0"

lemma isToBeTerminated_ok:
  assumes "w_faults w = []"
  shows "\<exists>b. isToBeTerminated ch offer w = (Inr b, w) \<and> (spent ch \<longrightarrow> b)"
  using assms by (auto simp: isToBeTerminated_def maxInactiveTimeReached_def spent_def on_err_def bindC_def query_ok now_def getC_def
      ret_def Let_def)

lemma processChannel_step:
  assumes "undisturbed w" "lookup ChannelTable (w_db w) (ch_ID ch) = Some ch" "ch_ServiceStatus ch \<in> terminateTransitions"
    and "billable (w_db w) ch"
  shows "\<exists>x w'. processChannel (Add conf) (Some price) m ch w = (Inr x, w') \<and> goes_on w w'
    \<and> (spent ch \<longrightarrow> ending False (ch_ID ch) (w_db w'))"
proof -
  have w: "w_faults w = []" using assms(1) by (simp add: undisturbed_def)
  from assms(4) obtain offer where offer: "lookup OfferingTable (w_db w) (ch_Offering ch) = Some offer"
    and price: "ofr_UnitPrice offer \<noteq> 0" "ofr_BillingInterval offer \<noteq> 0" by (auto simp: billable_def)
  then have found: "on_err (\<lambda>_. Cbill cbill_ErrGetOffering) (find_pk OfferingTable Conn (ch_Offering ch)) w = (Inr offer, w)"
    using w by (simp add: on_err_def find_pk_ok lookup_def)
  obtain b where b: "isToBeTerminated ch offer w = (Inr b, w)" "spent ch \<longrightarrow> b" using isToBeTerminated_ok [OF w] by blast
  show ?thesis
  proof (cases b)
    case True
    obtain r w' where T: "TerminateChannel (Add conf) (ch_ID ch) JobBillingChecker False w = (r, w')"
      "r = Inl (Proc proc_ErrSameJobExists) \<or> (\<exists>jid. r = Inr jid)" "goes_on w w'" "ending False (ch_ID ch) (w_db w')"
      using terminate_step [OF assms(1-3), of conf JobBillingChecker False] unfolding goes_on_def by blast
    then have "processChannel (Add conf) (Some price) m ch w = (Inr None, w')"
      using True b(1) found by (auto simp: processChannel_def bindC_def handleC_def ret_def)
    with T show ?thesis by blast
  next
    case False
    obtain w' where up: "checkAndCreateAutoIncreaseJob (Add conf) (Some price) m ch
        (ComputePrice offer (word_of_int (\<Sum>s \<leftarrow> channel_usage (w_db w) (ch_ID ch). uint (ses_UnitsUsed s)))) w = (Inr (), w')"
      "goes_on w w'" using topup_goes_on [OF assms(1)] by blast
    have units: "(\<Sum>s \<leftarrow> channel_usage (w_db w) (ch_ID ch). uint (ses_UnitsUsed s)) < 2 ^ 64"
      using assms(4) by (simp add: billable_def channel_usage_def)
    have "\<exists>x u. processChannel (Add conf) (Some price) m ch w = (Inr x, u) \<and> (u = w \<or> u = w')"
      using False b(1) found units up(1) price w
      by (auto simp: processChannel_def bindC_def thenC_def on_err_def query_ok of_option_def ret_def Let_def)
    with up(2) goes_on_refl [OF assms(1)] False b(2) show ?thesis by blast
  qed
qed

lemma billable_goes_on: "goes_on w w' \<Longrightarrow> billable (w_db w) c \<Longrightarrow> billable (w_db w') c"
  and lookup_goes_on: "goes_on w w' \<Longrightarrow> lookup ChannelTable (w_db w') i = lookup ChannelTable (w_db w) i"
proof -
  assume "goes_on w w'"
  then have eq: "w_db w' = (w_db w)\<lparr>db_jobs := db_jobs (w_db w')\<rparr>"
    by (cases "w_db w"; cases "w_db w'") (simp add: goes_on_def)
  show "lookup ChannelTable (w_db w') i = lookup ChannelTable (w_db w) i" by (subst eq) (simp add: lookup_def)
  show "billable (w_db w') c" if "billable (w_db w) c" using that by (subst eq) (simp add: billable_def lookup_def OfferingTable_def)
qed

lemma processChannels_step:
  assumes "undisturbed w"
    and "\<forall>c \<in> set cs. lookup ChannelTable (w_db w) (ch_ID c) = Some c \<and> ch_ServiceStatus c \<in> terminateTransitions
      \<and> billable (w_db w) c"
  shows "\<exists>xs w'. mapC (processChannel (Add conf) (Some price) m) cs w = (Inr xs, w') \<and> goes_on w w'
    \<and> (\<forall>c \<in> set cs. spent c \<longrightarrow> ending False (ch_ID c) (w_db w'))"
  using assms
proof (induction cs arbitrary: w)
  case Nil
  then show ?case by (simp add: ret_def goes_on_refl)
next
  case (Cons c cs)
  then obtain x v where v: "processChannel (Add conf) (Some price) m c w = (Inr x, v)" "goes_on w v"
    "spent c \<longrightarrow> ending False (ch_ID c) (w_db v)" using processChannel_step [of w c conf price m] by auto
  then have "undisturbed v" by (simp add: goes_on_def)
  moreover have "\<forall>c \<in> set cs. lookup ChannelTable (w_db v) (ch_ID c) = Some c \<and> ch_ServiceStatus c \<in> terminateTransitions
      \<and> billable (w_db v) c"
    using Cons.prems(2) v(2) by (simp add: lookup_goes_on billable_goes_on)
  ultimately obtain xs w' where w': "mapC (processChannel (Add conf) (Some price) m) cs v = (Inr xs, w')" "goes_on v w'"
    "\<forall>c \<in> set cs. spent c \<longrightarrow> ending False (ch_ID c) (w_db w')" using Cons.IH [of v] by blast
  from w'(2) have "ending False (ch_ID c) (w_db v) \<longrightarrow> ending False (ch_ID c) (w_db w')" by (simp add: goes_on_def)
  with v w' goes_on_trans [OF v(2) w'(2)] show ?case by (auto simp: bindC_def ret_def)
qed

lemma readSettings_ok: "fst (readSettings w) = Inr m \<Longrightarrow> w_faults w = [] \<Longrightarrow> readSettings w = (Inr m, w)"
proof -
  assume ok: "fst (readSettings w) = Inr m" "w_faults w = []"
  then obtain v where read: "readSettings w = (Inr m, v)" by (metis prod.collapse)
  then have "v = w"
    using ok(2) by (auto simp: readSettings_def ReadBoolSetting_def ReadUintSetting_def ReadSetting_def FindByPrimaryKeyTo_def run)
  with read show ?thesis by simp
qed

text \<open>C38: while nothing fails, a round ends with a termination job active for every spent channel, that is one of an
  account in use, active, with its service active or suspended, whose receipt has reached its deposit.
  The round comes to its end if the settings can be read, the node tells a gas price, and every active
  channel has an offering with a price and an interval and has used no more units than
  64 bits hold; a round writes no table but the jobs.\<close>

theorem spent_channel_terminated:
  assumes "undisturbed w" "distinct (map ch_ID (db_channels (w_db w)))" "fst (readSettings w) = Inr m"
    and "\<forall>c \<in> set (db_channels (w_db w)). ch_ChannelStatus c = ChannelActive \<longrightarrow> billable (w_db w) c"
  shows "\<exists>cheques w'. run_round (Add conf) (Some price) w = (Inr cheques, w')
    \<and> (\<forall>c a. c \<in> set (db_channels (w_db w)) \<and> a \<in> set (db_accounts (w_db w)) \<and> acc_EthAddr a = ch_Client c \<and> acc_InUse a
        \<and> ch_ChannelStatus c = ChannelActive \<and> ch_ServiceStatus c \<in> {ServiceActive, ServiceSuspended}
        \<and> ch_ReceiptBalance c = ch_TotalDeposit c \<and> ch_TotalDeposit c \<noteq> 0
        \<longrightarrow> (\<exists>j \<in> set (active_jobs (ch_ID c) (w_db w')). job_Type j = JobClientPreServiceTerminate))
    \<and> (w_db w')\<lparr>db_jobs := []\<rparr> = (w_db w)\<lparr>db_jobs := []\<rparr>"
proof -
  define cs where "cs = filter (\<lambda>c. (ch_ServiceStatus c = ServiceActive \<or> ch_ServiceStatus c = ServiceSuspended)
      \<and> ch_ChannelStatus c = ChannelActive \<and> list_ex (\<lambda>a. acc_EthAddr a = ch_Client c \<and> acc_InUse a) (db_accounts (w_db w)))
    (db_channels (w_db w))"
  have w: "w_faults w = []" using assms(1) by (simp add: undisturbed_def)
  have found: "find (\<lambda>r. ch_ID r = ch_ID c) xs = Some c" if "distinct (map ch_ID xs)" "c \<in> set xs" for c xs
    using that by (induction xs) auto
  have "\<forall>c \<in> set cs. lookup ChannelTable (w_db w) (ch_ID c) = Some c \<and> ch_ServiceStatus c \<in> terminateTransitions
      \<and> billable (w_db w) c"
    using assms(2,4) found by (auto simp: cs_def lookup_def terminateTransitions_def)
  from processChannels_step [OF assms(1) this, of conf price m] obtain xs w' where
    w': "mapC (processChannel (Add conf) (Some price) m) cs w = (Inr xs, w')" "goes_on w w'"
    "\<forall>c \<in> set cs. spent c \<longrightarrow> ending False (ch_ID c) (w_db w')" by blast
  have "run_round (Add conf) (Some price) w = (Inr (List.map_filter (\<lambda>c. c) xs), w')"
    using w w'(1) readSettings_ok [OF assms(3) w] by (simp add: run_round_def bindC_def query_ok ret_def cs_def)
  moreover have "c \<in> set cs" if "c \<in> set (db_channels (w_db w))" "a \<in> set (db_accounts (w_db w))" "acc_EthAddr a = ch_Client c"
    "acc_InUse a" "ch_ChannelStatus c = ChannelActive" "ch_ServiceStatus c \<in> {ServiceActive, ServiceSuspended}" for c a
    using that by (auto simp: cs_def list_ex_iff)
  ultimately show ?thesis
    using w'(2,3) by (intro exI [of _ w'] exI conjI allI impI) (auto simp: goes_on_def spent_def ending_def)
qed

section \<open>What is due\<close>

lemma sdiv64_exact:
  assumes "0 < uint p" "uint n * uint p < 2 ^ 63" "uint n < 2 ^ 63" "uint p < 2 ^ 63"
  shows "sdiv64 (n * p) p = n"
proof -
  have np: "uint (n * p) = uint n * uint p"
    using assms(2) by (simp add: uint_word_ariths)
  have s: "sint x = uint x" if "uint x < 2 ^ 63" for x :: u64
    using that uint_ge_0 [of x] by (simp add: sint_uint signed_take_bit_int_eq_self_iff order_trans [OF _ uint_ge_0])
  show ?thesis
    using assms np s [of p] s [of "n * p"] by (simp add: sdiv64_def trunc_div_nonneg)
qed

text \<open>A payment of what the used units cost, as long as no number wraps around, leaves nothing due
  until more units are used.\<close>

theorem payment_settles:
  assumes "0 < uint (ofr_UnitPrice offer)" "uint (ofr_UnitPrice offer) < 2 ^ 63" "uint consumed < 2 ^ 63"
    and "uint consumed * uint (ofr_UnitPrice offer) < 2 ^ 63"
  shows "\<not> payment_due (ch\<lparr>ch_ReceiptBalance := ComputePrice offer consumed\<rparr>) offer consumed"
  using sdiv64_exact [OF assms(1,4,3,2)]
  by (simp add: payment_due_def ComputePrice_def sdiv64_def trunc_div_def)

text \<open>A failed top-up ends the automatic top-ups of a channel: as long as the job that asked for it is
  kept, the check finds a job without the one that follows it and takes the top-up to be under way.\<close>

theorem failed_topup_blocks:
  assumes "w_faults w = []" "j \<in> set (db_jobs (w_db w))" "job_Type j = JobClientPreChannelTopUp"
    and "job_RelatedID j = ch_ID ch" "job_Status j = JobFailed" "topups_seen (w_db w) (ch_ID ch) = 0"
  shows "checkAndCreateAutoIncreaseJob add gasPrice m ch amount w = (Inr (), w)"
proof -
  have "find (\<lambda>j. job_RelatedID j = ch_ID ch \<and> job_Type j = JobClientPreChannelTopUp) (db_jobs (w_db w)) \<noteq> None"
    using assms(2-4) by (auto simp: find_None_iff_set)
  then have "notMinedChannelTopUpExists (ch_ID ch) w = (Inr True, w)"
    using assms(1,6) by (auto simp: notMinedChannelTopUpExists_def Let_def handleC_def bindC_def select_one_ok
        query_ok ret_def JobTable_def)
  then show ?thesis by (simp add: checkAndCreateAutoIncreaseJob_def handleC_def ret_def)
qed

section \<open>Cheques and the receipts\<close>

definition paid_upto :: "string \<Rightarrow> u64 \<Rightarrow> Channel \<Rightarrow> Channel" where
  "paid_upto i amount c = (if ch_ID c = i \<and> ch_ReceiptBalance c < amount
     then c\<lparr>ch_ReceiptBalance := amount\<rparr> else c)"

interpretation same_but_jobs: db_effect same_but_jobs
  by unfold_locales (auto simp: same_but_jobs_def)

lemma keeps_PostCheque: "keeps same_but_jobs (PostCheque (Add conf) kec sign send channel psc key amount)"
  unfolding PostCheque_def newPayload_def postPayload_def split_beta
  by (intro same_but_jobs.keeps_bindC same_but_jobs.keeps_thenC same_but_jobs.keeps_reads
      same_but_jobs.keeps_rules)
    (auto intro!: same_but_jobs.keeps_bindC same_but_jobs.keeps_thenC same_but_jobs.keeps_whenC
      keeps_TerminateChannel same_but_jobs.keeps_rules split: option.split)

lemma same_but_jobs_channels: "same_but_jobs w w' \<Longrightarrow> db_channels (w_db w') = db_channels (w_db w)"
  unfolding same_but_jobs_def by (metis db.select_convs(7) db.surjective db.update_convs(10))

lemma then_record:
  assumes pre: "keeps same_but_jobs pre"
    and run: "thenC pre (thenC (guardC (is_bigint amount) Violation)
       (bindC (exec_update ChannelTable Conn (\<lambda>c. ch_ID c = i \<and> ch_ReceiptBalance c < amount)
         (\<lambda>c. c\<lparr>ch_ReceiptBalance := amount\<rparr>)) (\<lambda>_. ret ()))) w = (r, w')"
  shows "db_channels (w_db w') =
    (case r of Inl _ \<Rightarrow> db_channels (w_db w) | Inr _ \<Rightarrow> map (paid_upto i amount) (db_channels (w_db w)))"
proof -
  have chans: "db_channels (w_db v) = db_channels (w_db w)" if "pre w = (q, v)" for q v
    using stepsD(1) [OF pre _ that] same_but_jobs_channels by simp
  show ?thesis
  proof (cases r)
    case (Inl e)
    with run chans show ?thesis by (auto simp: thenC_run_Inl bindC_run_Inl guardC_run ret_run dest!: failed_op(5))
  next
    case (Inr u)
    with run obtain v n where "pre w = (Inr (), v)"
      "exec_update ChannelTable Conn (\<lambda>c. ch_ID c = i \<and> ch_ReceiptBalance c < amount)
         (\<lambda>c. c\<lparr>ch_ReceiptBalance := amount\<rparr>) v = (Inr n, w')"
      by (auto simp: thenC_run_Inr bindC_run_Inr guardC_run ret_run)
    with Inr chans show ?thesis
      by (auto simp: exec_update_run paid_upto_def [abs_def] dest!: db_call_state)
  qed
qed

text \<open>After a cheque is posted the client's record of the channel's receipt is raised to its amount, and
  is never lowered; a cheque that is not accepted changes no channel.\<close>

theorem postCheque_records:
  assumes "postCheque getKey (PostCheque (Add conf) kec sign send) psc i amount w = (r, w')"
  shows "db_channels (w_db w') =
    (case r of Inl _ \<Rightarrow> db_channels (w_db w) | Inr _ \<Rightarrow> map (paid_upto i amount) (db_channels (w_db w)))"
proof -
  let ?pre = "bindC (find_pk ChannelTable Conn i) (\<lambda>channel.
     bindC (select_one AccountTable Conn (\<lambda>a. acc_EthAddr a = ch_Client channel)) (\<lambda>client.
     bindC (of_option (Text ''key'') (getKey client)) (\<lambda>key.
       PostCheque (Add conf) kec sign send channel (HexFromBytes (address_bytes (lenient_address psc))) key amount)))
     :: ('a, unit) dbcmd"
  have pre: "keeps same_but_jobs ?pre"
    by (intro same_but_jobs.keeps_bindC same_but_jobs.keeps_reads same_but_jobs.keeps_rules keeps_PostCheque)
  show ?thesis
    by (rule then_record [OF pre]) (use assms in \<open>simp add: postCheque_def thenC_def bindC_assoc\<close>)
qed

section \<open>Concrete instances\<close>

definition no_increase :: monitor_settings where
  "no_increase = \<lparr>autoIncrease = False, autoIncreaseAtRate = 0\<rparr>"

lemma sample_bill:
  "fst (processChannel (Add NewConfig) None no_increase sample_channel
     (sample_world\<lparr>w_now := 1000000000\<rparr>)) = Inr (Some (''c1'', 310))"
  by code_simp

theorem cheque_within_deposit_witness:
  "fst (processChannel (Add NewConfig) None no_increase sample_channel
     (sample_world\<lparr>w_now := 1000000000\<rparr>)) = Inr (Some (''c1'', 310)) \<and> (310 :: u64) \<le> 1000"
proof -
  let ?p = "processChannel (Add NewConfig) None no_increase sample_channel (sample_world\<lparr>w_now := 1000000000\<rparr>)"
  have "?p = (Inr (Some (''c1'', 310)), snd ?p)"
    using sample_bill by (metis prod.collapse)
  from cheque_within_deposit [OF this] sample_bill show ?thesis by (simp add: sample_channel_def)
qed

definition spent_channel :: Channel where
  "spent_channel = sample_channel\<lparr>ch_ReceiptBalance := 1000\<rparr>"

text \<open>A client with two channels, of which it has paid out the first.\<close>

definition spent_world :: world where
  "spent_world = initial_world (sample_db\<lparr>db_accounts := [sample_account ''a1'' ''cc''],
     db_channels := [spent_channel, sample_channel\<lparr>ch_ID := ''c2''\<rparr>], db_jobs := [],
     db_settings := [\<lparr>set_Key = SettingClientAutoincreaseDeposit, set_Value = ''true'', set_Permissions = 2,
         set_Description = None, set_Name = ''top up''\<rparr>,
       \<lparr>set_Key = SettingClientAutoincreaseDepositPercent, set_Value = ''80'', set_Permissions = 2,
         set_Description = None, set_Name = ''at''\<rparr>]\<rparr>) 1000000000"

lemma spent_settings: "\<exists>m. fst (readSettings spent_world) = Inr m"
proof -
  have "fst (ReadBoolSetting Conn SettingClientAutoincreaseDeposit spent_world) = Inr True" by code_simp
  moreover have "fst (ReadUintSetting Conn SettingClientAutoincreaseDepositPercent
      (snd (ReadBoolSetting Conn SettingClientAutoincreaseDeposit spent_world))) = Inr 80" by code_simp
  ultimately show ?thesis
    by (cases "ReadBoolSetting Conn SettingClientAutoincreaseDeposit spent_world")
      (auto simp: readSettings_def bindC_def ret_def split: prod.splits)
qed

theorem spent_channel_terminated_witness:
  "\<exists>cheques w'. run_round (Add NewConfig) (Some 7) spent_world = (Inr cheques, w')
     \<and> (\<exists>j \<in> set (active_jobs ''c1'' (w_db w')). job_Type j = JobClientPreServiceTerminate)"
proof -
  obtain m where "fst (readSettings spent_world) = Inr m" using spent_settings by blast
  moreover have "undisturbed spent_world" "distinct (map ch_ID (db_channels (w_db spent_world)))"
    by (auto simp: undisturbed_def fresh_jobs_def spent_world_def initial_world_def exists_row_def inj_on_def spent_channel_def
        sample_channel_def)
  moreover have "\<forall>c \<in> set (db_channels (w_db spent_world)). ch_ChannelStatus c = ChannelActive \<longrightarrow> billable (w_db spent_world) c"
    by (auto simp: billable_def spent_world_def initial_world_def lookup_def OfferingTable_def spent_channel_def sample_channel_def
        sample_session_def sample_offering_def)
  ultimately obtain cheques w' where run: "run_round (Add NewConfig) (Some 7) spent_world = (Inr cheques, w')"
    and ends: "\<And>c a. c \<in> set (db_channels (w_db spent_world)) \<and> a \<in> set (db_accounts (w_db spent_world))
        \<and> acc_EthAddr a = ch_Client c \<and> acc_InUse a
        \<and> ch_ChannelStatus c = ChannelActive \<and> ch_ServiceStatus c \<in> {ServiceActive, ServiceSuspended}
        \<and> ch_ReceiptBalance c = ch_TotalDeposit c \<and> ch_TotalDeposit c \<noteq> 0
        \<Longrightarrow> \<exists>j \<in> set (active_jobs (ch_ID c) (w_db w')). job_Type j = JobClientPreServiceTerminate"
    using spent_channel_terminated [of spent_world m NewConfig 7] by blast
  have "\<exists>j \<in> set (active_jobs (ch_ID spent_channel) (w_db w')). job_Type j = JobClientPreServiceTerminate"
    by (rule ends [of _ "sample_account ''a1'' ''cc''"])
      (simp add: spent_world_def initial_world_def spent_channel_def sample_channel_def sample_account_def)
  with run show ?thesis by (simp add: spent_channel_def sample_channel_def)
qed

theorem payment_settles_witness:
  "\<not> payment_due (sample_channel\<lparr>ch_ReceiptBalance := 310\<rparr>) sample_offering 150"
  using payment_settles [of sample_offering 150 sample_channel]
  by (simp add: sample_offering_def ComputePrice_def)

definition failed_topup :: Job where
  "failed_topup = (sample_job ''j9'' JobClientPreChannelTopUp JobChannel JobFailed 0)\<lparr>job_RelatedID := ''c1''\<rparr>"

theorem failed_topup_blocks_witness:
  "\<exists>w :: world. db_jobs (w_db w) = [failed_topup]
     \<and> checkAndCreateAutoIncreaseJob (Add NewConfig) (Some 7) \<lparr>autoIncrease = True, autoIncreaseAtRate = 0\<rparr>
         sample_channel 999 w = (Inr (), w)"
  by (intro exI [of _ "sample_world\<lparr>w_db := sample_db\<lparr>db_jobs := [failed_topup]\<rparr>\<rparr>"] conjI
      failed_topup_blocks [of _ failed_topup])
    (simp_all add: failed_topup_def sample_job_def new_job_def sample_channel_def topups_seen_def Let_def)

definition cheque_world :: world where
  "cheque_world = pay_world\<lparr>w_db := (w_db pay_world)\<lparr>db_accounts := [sample_account ''a2'' ''cc'']\<rparr>\<rparr>"

lemma cheque_world_simps [simp]:
  "w_db cheque_world = (w_db pay_world)\<lparr>db_accounts := [sample_account ''a2'' ''cc'']\<rparr>"
  "w_faults cheque_world = []" "can_call Conn cheque_world"
  by (simp_all add: cheque_world_def)

lemma sample_PostCheque:
  "PostCheque (Add NewConfig) (\<lambda>b. b) toy_sign (\<lambda>_ _. Some None) sample_channel
     (HexFromBytes (address_bytes a)) () 310 cheque_world = (Inr (), cheque_world)"
  by (simp add: PostCheque_def newPayload_def postPayload_def bindC_def thenC_def find_pk_ok select_one_ok
      OfferingTable_def EndpointTable_def sample_channel_def sample_offering_def sample_endpoint_def sample_hex guardC_def
      of_option_def toy_sign_def ret_def)

lemma sample_post:
  "fst (postCheque (\<lambda>_. Some ()) (PostCheque (Add NewConfig) (\<lambda>b. b) toy_sign (\<lambda>_ _. Some None)) ''bb'' ''c1'' 310
     cheque_world) = Inr ()"
proof -
  have row: "row_ok ChannelTable (w_db cheque_world) (sample_channel\<lparr>ch_ReceiptBalance := 310\<rparr>)"
    by (simp add: row_ok_def ChannelTable_def sample_channel_def sample_offering_def exists_row_def is_bigint_def is_block_def)
  have "find (\<lambda>a. acc_EthAddr a = ch_Client sample_channel) [sample_account ''a2'' ''cc''] = Some (sample_account ''a2'' ''cc'')"
    "ch_ID sample_channel = ''c1''" "is_bigint 310"
    by (simp_all add: sample_account_def sample_channel_def is_bigint_def)
  with row show ?thesis
    by (simp add: postCheque_def bindC_def thenC_def find_pk_ok select_one_ok AccountTable_def of_option_def
        sample_PostCheque guardC_def ret_def exec_update_ok)
qed

theorem postCheque_records_witness:
  "map ch_ReceiptBalance (db_channels (w_db (snd (postCheque (\<lambda>_. Some ()) (PostCheque (Add NewConfig) (\<lambda>b. b) toy_sign
     (\<lambda>_ _. Some None)) ''bb'' ''c1'' 310 cheque_world)))) = [310]"
proof -
  let ?run = "postCheque (\<lambda>_. Some ()) (PostCheque (Add NewConfig) (\<lambda>b. b) toy_sign (\<lambda>_ _. Some None)) ''bb'' ''c1'' 310
     cheque_world"
  have "?run = (Inr (), snd ?run)" using sample_post by (metis prod.collapse)
  from postCheque_records [OF this] show ?thesis
    by (simp add: cheque_world_def paid_upto_def sample_channel_def word_less_nat_alt)
qed

end
