(* ===== verification/Sessions.thy ===== *)
theory Sessions
  imports Processor Settings
begin

text \<open>
  The session server, \<open>src/sess\<close>: the calls a service adapter makes over JSON-RPC. Each is given the
  product and its password first. \<open>cmp\<close> is the comparison of \<open>bcrypt\<close>, \<open>conf\<close> the configuration of
  the job queue. \<open>logger.Fatal\<close> ends the process, as a panic does.
\<close>

section \<open>Passwords and salts\<close>

text \<open>Go's conversion \<open>string(n)\<close> of an integer gives the UTF-8 encoding of the code point \<open>n\<close>, and that
  of the replacement character if there is no such code point.\<close>

definition rune_string :: "u64 \<Rightarrow> string" where
  "rune_string x = (let n = unat x in map char_of
     (if n < 0x80 then [n]
      else if n < 0x800 then [0xC0 + n div 64, 0x80 + n mod 64]
      else if 0xD800 \<le> n \<and> n < 0xE000 \<or> 0x110000 \<le> n then [0xEF, 0xBF, 0xBD]
      else if n < 0x10000 then [0xE0 + n div 4096, 0x80 + n div 64 mod 64, 0x80 + n mod 64]
      else [0xF0 + n div 262144, 0x80 + n div 4096 mod 64, 0x80 + n div 64 mod 64, 0x80 + n mod 64]))"

definition checkProductPassword ::
  "(bytes \<Rightarrow> bytes \<Rightarrow> bool) \<Rightarrow> string \<Rightarrow> string \<Rightarrow> ('z, Product) dbcmd" where
  "checkProductPassword cmp i password =
     bindC (on_err (\<lambda>_. Sess sess_ErrAccessDenied) (find_pk ProductTable Conn i)) (\<lambda>prod.
     thenC (guardC (ValidatePassword cmp (prd_Password prod) password (rune_string (prd_Salt prod)))
         (Sess sess_ErrAccessDenied))
       (ret prod))"

definition findClientChannel :: "Product \<Rightarrow> string \<Rightarrow> ('z, Channel) dbcmd" where
  "findClientChannel product clientKey =
     thenC (guardC (prd_ClientIdent product = ''by_channel_id'') Panic)
       (on_err (\<lambda>_. Sess sess_ErrChannelNotFound) (find_pk ChannelTable Conn clientKey))"

text \<open>The session that was started last of those that are not stopped.\<close>

definition latest :: "Session list \<Rightarrow> Session option" where
  "latest ss = (case ss of [] \<Rightarrow> None
     | s # rest \<Rightarrow> Some (foldl (\<lambda>a b. if ses_Started a < ses_Started b then b else a) s rest))"

definition current_session :: "string \<Rightarrow> db \<Rightarrow> Session option" where
  "current_session channel d = latest (filter (\<lambda>s. ses_Channel s = channel \<and> ses_Stopped s = None) (db_sessions d))"

definition findCurrentSession :: "string \<Rightarrow> ('z, Session) dbcmd" where
  "findCurrentSession channel =
     on_err (\<lambda>e. if e = NoRows then Sess sess_ErrSessionNotFound else Sess sess_ErrInternal)
       (bindC (query Conn (current_session channel)) (of_option NoRows))"

section \<open>Products\<close>

definition GetEndpoint :: "(bytes \<Rightarrow> bytes \<Rightarrow> bool) \<Rightarrow> string \<Rightarrow> string \<Rightarrow> string \<Rightarrow> ('z, Endpoint) dbcmd" where
  "GetEndpoint cmp product productPassword clientKey =
     bindC (checkProductPassword cmp product productPassword) (\<lambda>prod.
     bindC (findClientChannel prod clientKey) (\<lambda>ch.
       on_err (\<lambda>_. Sess sess_ErrEndpointNotFound) (select_one EndpointTable Conn (\<lambda>e. ep_Channel e = ch_ID ch))))"

definition "ProductExternalIP = ''externalIP''"
definition "UndefinedCountry = ''ZZ''"

text \<open>\<open>parseIP\<close> tells whether \<open>net.ParseIP\<close> accepts the text.\<close>

definition serviceEndpointAddress :: "(string \<Rightarrow> bool) \<Rightarrow> Product \<Rightarrow> (string \<rightharpoonup> string) \<Rightarrow> string option" where
  "serviceEndpointAddress parseIP p conf =
     (if prd_ServiceEndpointAddress p \<noteq> None
         \<and> prd_ServiceEndpointAddress p \<noteq> Some ''127.0.0.1'' \<and> prd_ServiceEndpointAddress p \<noteq> Some ''localhost''
      then prd_ServiceEndpointAddress p
      else case conf ProductExternalIP of
        Some ipStr \<Rightarrow> if parseIP ipStr then Some ipStr else prd_ServiceEndpointAddress p
      | None \<Rightarrow> prd_ServiceEndpointAddress p)"

text \<open>\<open>lookup_country ip\<close> is what \<open>country.GetCountry\<close> finds for an address, if it succeeds.\<close>

definition findCountry :: "(string \<Rightarrow> string option) \<Rightarrow> string \<Rightarrow> string" where
  "findCountry lookup_country ip = (case lookup_country ip of None \<Rightarrow> UndefinedCountry | Some c \<Rightarrow> c)"

text \<open>\<open>marshal\<close> is the text of a configuration, \<open>None\<close> the empty one the caller may pass.\<close>

definition SetProductConfig ::
  "(bytes \<Rightarrow> bytes \<Rightarrow> bool) \<Rightarrow> (string \<Rightarrow> bool) \<Rightarrow> (string \<Rightarrow> string option) \<Rightarrow> ((string \<times> string) list \<Rightarrow> string)
     \<Rightarrow> string \<Rightarrow> string \<Rightarrow> (string \<times> string) list \<Rightarrow> ('z, unit) dbcmd" where
  "SetProductConfig cmp parseIP lookup_country marshal product productPassword config =
     bindC (checkProductPassword cmp product productPassword) (\<lambda>prod.
     thenC (guardC (config \<noteq> []) (Sess sess_ErrBadProductConfig))
       (let addr = serviceEndpointAddress parseIP prod (map_of config);
            country2 = (case addr of None \<Rightarrow> prd_Country prod
              | Some a \<Rightarrow> let c = findCountry lookup_country a in Some (if length c \<noteq> 2 then UndefinedCountry else c))
        in on_err (\<lambda>_. Sess sess_ErrInternal) (update_row ProductTable Conn
             (prod\<lparr>prd_ServiceEndpointAddress := addr, prd_Country := country2,
                prd_Config := marshal (filter (\<lambda>(k, _). k \<noteq> ProductExternalIP) config)\<rparr>))))"

section \<open>Sessions\<close>

definition ServiceReady ::
  "(bytes \<Rightarrow> bytes \<Rightarrow> bool) \<Rightarrow> Config \<Rightarrow> string \<Rightarrow> string \<Rightarrow> string \<Rightarrow> ('z, unit) dbcmd" where
  "ServiceReady cmp conf product productPassword clientKey =
     bindC (checkProductPassword cmp product productPassword) (\<lambda>prod.
     bindC (findClientChannel prod clientKey) (\<lambda>ch.
       whenC (ch_ServiceStatus ch = ServiceActivating)
         (AddWithData conf Conn JobCompleteServiceTransition JobChannel (ch_ID ch) JobSessionServer
            (enc_svc_status ServiceActive))))"

definition AuthClient ::
  "(bytes \<Rightarrow> bytes \<Rightarrow> bool) \<Rightarrow> string \<Rightarrow> string \<Rightarrow> string \<Rightarrow> string \<Rightarrow> ('z, unit) dbcmd" where
  "AuthClient cmp product productPassword clientKey clientPassword =
     bindC (checkProductPassword cmp product productPassword) (\<lambda>prod.
     bindC (findClientChannel prod clientKey) (\<lambda>ch.
     thenC (guardC (ch_ServiceStatus ch = ServiceActive \<or> ch_ServiceStatus ch = ServiceActivating)
         (Sess sess_ErrNonActiveChannel))
       (guardC (ValidatePassword cmp (ch_Password ch) clientPassword (rune_string (ch_Salt ch)))
         (Sess sess_ErrBadClientPassword))))"

definition new_session :: "string \<Rightarrow> string \<Rightarrow> time \<Rightarrow> string \<Rightarrow> u16 \<Rightarrow> Session" where
  "new_session i channel t ip port = \<lparr>ses_ID = i, ses_Channel = channel, ses_Started = t, ses_Stopped = None,
     ses_UnitsUsed = 0, ses_SecondsConsumed = 0, ses_LastUsageTime = t,
     ses_ClientIP = (if ip = [] then None else Some ip), ses_ClientPort = (if port = 0 then None else Some port)\<rparr>"

definition StartSession ::
  "(bytes \<Rightarrow> bytes \<Rightarrow> bool) \<Rightarrow> Config \<Rightarrow> string \<Rightarrow> string \<Rightarrow> string \<Rightarrow> string \<Rightarrow> u16 \<Rightarrow> ('z, Offering) dbcmd" where
  "StartSession cmp conf product productPassword clientKey ip port =
     bindC (checkProductPassword cmp product productPassword) (\<lambda>prod.
     bindC (findClientChannel prod clientKey) (\<lambda>ch.
     bindC (on_err (\<lambda>_. Sess sess_ErrInternal) (find_pk OfferingTable Conn (ch_Offering ch))) (\<lambda>offer.
     bindC now (\<lambda>t.
     thenC (on_err (\<lambda>_. Sess sess_ErrInternal) (in_tx
         (bindC new_uuid (\<lambda>i.
          thenC (insert_row SessionTable Tx (new_session i (ch_ID ch) t ip port))
            (whenC (ch_ServiceStatus ch = ServiceActivating)
              (handleC (AddWithData conf Tx JobCompleteServiceTransition JobChannel (ch_ID ch) JobSessionServer
                  (enc_svc_status ServiceActive))
                (\<lambda>e. if e = Job job_ErrDuplicatedJob then ret () else fail e) ret))))))
       (ret offer)))))"

text \<open>The units arrive in bytes and are kept in whole mebibytes.\<close>

definition used_units :: "usage_rep_type \<Rightarrow> u64 \<Rightarrow> u64 \<Rightarrow> u64 option" where
  "used_units rep old units = (if units = 0 then Some old else case rep of
     ProductUsageIncremental \<Rightarrow> Some (old + units div (1024 * 1024))
   | ProductUsageTotal \<Rightarrow> Some (units div (1024 * 1024))
   | ProductUsageOther _ \<Rightarrow> None)"

definition UpdateSession ::
  "(bytes \<Rightarrow> bytes \<Rightarrow> bool) \<Rightarrow> string \<Rightarrow> string \<Rightarrow> string \<Rightarrow> u64 \<Rightarrow> ('z, unit) dbcmd" where
  "UpdateSession cmp product productPassword clientKey units =
     bindC (checkProductPassword cmp product productPassword) (\<lambda>prod.
     bindC (findClientChannel prod clientKey) (\<lambda>ch.
     thenC (guardC (\<not> (prd_IsServer prod \<and> ch_ServiceStatus ch \<noteq> ServiceActive)) (Sess sess_ErrNonActiveChannel))
    (bindC (findCurrentSession (ch_ID ch)) (\<lambda>sess.
     bindC (of_option Panic (used_units (prd_UsageRepType prod) (ses_UnitsUsed sess) units)) (\<lambda>used.
     bindC now (\<lambda>t.
       on_err (\<lambda>_. Sess sess_ErrInternal)
         (save_row SessionTable Conn (sess\<lparr>ses_UnitsUsed := used, ses_LastUsageTime := t\<rparr>))))))))"

definition StopSession ::
  "(bytes \<Rightarrow> bytes \<Rightarrow> bool) \<Rightarrow> Config \<Rightarrow> string \<Rightarrow> string \<Rightarrow> string \<Rightarrow> ('z, unit) dbcmd" where
  "StopSession cmp conf product productPassword clientKey =
     bindC (checkProductPassword cmp product productPassword) (\<lambda>prod.
     bindC (findClientChannel prod clientKey) (\<lambda>ch.
     if ch_ServiceStatus ch = ServiceTerminated then ret ()
     else thenC (handleC (AddWithData conf Conn JobCompleteServiceTransition JobChannel (ch_ID ch) JobSessionServer
            (enc_svc_status (if ch_ServiceStatus ch = ServiceTerminating then ServiceTerminated else ServiceSuspended)))
          (\<lambda>e. if e = Job job_ErrDuplicatedJob then ret () else fail e) ret)
       (handleC (findCurrentSession (ch_ID ch)) (\<lambda>_. ret ()) (\<lambda>sess.
        bindC now (\<lambda>t.
          on_err (\<lambda>_. Sess sess_ErrInternal)
            (save_row SessionTable Conn (sess\<lparr>ses_LastUsageTime := t, ses_Stopped := Some t\<rparr>)))))))"

section \<open>Changes of the connection\<close>

definition "ConnStart = ''start''"
definition "ConnStop = ''stop''"

definition stop_jobs :: "job_type set" where
  "stop_jobs = {JobClientPreServiceSuspend, JobAgentPreServiceSuspend,
     JobClientPreServiceTerminate, JobAgentPreServiceTerminate}"

text \<open>The notification a finished job gives rise to, if any; errors are logged.\<close>

definition handleConnChange :: "string \<Rightarrow> Job \<Rightarrow> ('z, (string \<times> string) option) dbcmd" where
  "handleConnChange product job =
     handleC (FindByPrimaryKeyTo Conn ChannelTable (job_RelatedID job)) (\<lambda>_. ret None) (\<lambda>ch.
     if ch_ServiceStatus ch \<notin> {ServiceActivating, ServiceSuspending, ServiceTerminating} then ret None
     else handleC (FindByPrimaryKeyTo Conn OfferingTable (ch_Offering ch)) (\<lambda>_. ret None) (\<lambda>offer.
       if ofr_Product offer \<noteq> product then ret None
       else ret (Some (ch_ID ch, if job_Type job \<in> stop_jobs then ConnStop else ConnStart))))"

definition conn_job_types :: "job_type list" where
  "conn_job_types = [JobAgentPreEndpointMsgCreate, JobAgentPreServiceSuspend, JobClientPreServiceSuspend,
     JobAgentPreServiceUnsuspend, JobClientPreServiceUnsuspend, JobAgentPreServiceTerminate,
     JobClientPreServiceTerminate]"

text \<open>\<open>sub\<close> is the identifier of the notifier's new subscription, if the connection has a notifier.\<close>

definition ConnChange ::
  "(bytes \<Rightarrow> bytes \<Rightarrow> bool) \<Rightarrow> string option \<Rightarrow> string \<Rightarrow> string \<Rightarrow> ('z qworld_scheme, go_error, string) cmd" where
  "ConnChange cmp sub product productPassword =
     bindC (checkProductPassword cmp product productPassword) (\<lambda>_.
     bindC (of_option (Sess sess_ErrInternal) sub) (\<lambda>sid.
     bindC (getC q_subs) (\<lambda>m.
       case Subscribe (map job_type_string conn_job_types) sid m of (err, m') \<Rightarrow>
         thenC (modC (\<lambda>w. w\<lparr>q_subs := m'\<rparr>))
           (thenC (guardC (err = None) (Sess sess_ErrInternal)) (ret sid)))))"

text \<open>What runs once the subscription or the connection has ended.\<close>

definition ConnChange_end :: "string \<Rightarrow> ('z qworld_scheme, go_error, unit) cmd" where
  "ConnChange_end sid = modC (\<lambda>w. w\<lparr>q_subs := snd (Unsubscribe (map job_type_string conn_job_types) sid (q_subs w))\<rparr>)"

section \<open>Access\<close>

text \<open>Every salt that is not a code point, and so almost every random salt, gives the same hash input.\<close>

lemma large_salts_alike: "0x110000 \<le> unat x \<Longrightarrow> 0x110000 \<le> unat y \<Longrightarrow> rune_string x = rune_string y"
  by (simp add: rune_string_def Let_def)

text \<open>The product can be used with the password.\<close>

definition may_use :: "(bytes \<Rightarrow> bytes \<Rightarrow> bool) \<Rightarrow> string \<Rightarrow> string \<Rightarrow> db \<Rightarrow> Product \<Rightarrow> bool" where
  "may_use cmp i password d p \<longleftrightarrow> p \<in> set (db_products d) \<and> prd_ID p = i
     \<and> ValidatePassword cmp (prd_Password p) password (rune_string (prd_Salt p))"

lemma ProductTable_simps [simp]:
  "t_rows ProductTable = db_products" "t_key ProductTable = prd_ID"
  "t_put ProductTable rs d = d\<lparr>db_products := rs\<rparr>"
  by (simp_all add: ProductTable_def)

lemma SessionTable_simps [simp]:
  "t_rows SessionTable = db_sessions" "t_key SessionTable = ses_ID"
  "t_put SessionTable rs d = d\<lparr>db_sessions := rs\<rparr>"
  by (simp_all add: SessionTable_def)

lemma checkProductPassword_run:
  assumes "checkProductPassword cmp i password w = (r, w')"
  shows "(\<exists>bs. w' = w\<lparr>w_faults := bs\<rparr>) \<and> (case r of Inr p \<Rightarrow> may_use cmp i password (w_db w) p | Inl e \<Rightarrow> e = Sess sess_ErrAccessDenied)"
  using assms unfolding checkProductPassword_def may_use_def
  by (cases r; auto simp: run dest!: db_call_state failed_op dest: find_Some_in)+

lemma access_denied:
  assumes "\<nexists>p. may_use cmp i password (w_db w) p"
  shows "\<exists>bs. bindC (checkProductPassword cmp i password) k w = (Inl (Sess sess_ErrAccessDenied), w\<lparr>w_faults := bs\<rparr>)"
proof -
  obtain r w' where run: "checkProductPassword cmp i password w = (r, w')" by (cases "checkProductPassword cmp i password w")
  with assms checkProductPassword_run [OF run] show ?thesis by (cases r) (auto simp: bindC_def)
qed

text \<open>C7: without a password that fits the product, every call of the session server is denied and changes
  nothing: no endpoint or offering is handed out, no session is started, counted or stopped, no job
  is queued, and nobody is told of the changes of connections.\<close>

theorem session_calls_need_password:
  fixes w :: "'z qworld_scheme"
  assumes "\<nexists>p. may_use cmp product password (w_db w) p"
  shows "\<exists>bs. (let denied = (Inl (Sess sess_ErrAccessDenied), w\<lparr>w_faults := bs\<rparr>) in
      GetEndpoint cmp product password key w = (Inl (Sess sess_ErrAccessDenied), w\<lparr>w_faults := bs\<rparr>)
    \<and> StartSession cmp conf product password key ip port w = (Inl (Sess sess_ErrAccessDenied), w\<lparr>w_faults := bs\<rparr>)
    \<and> SetProductConfig cmp parseIP country marshal product password config w = denied
    \<and> ServiceReady cmp conf product password key w = denied
    \<and> AuthClient cmp product password key client_password w = denied
    \<and> UpdateSession cmp product password key units w = denied
    \<and> StopSession cmp conf product password key w = denied
    \<and> ConnChange cmp sub product password w = (Inl (Sess sess_ErrAccessDenied), w\<lparr>w_faults := bs\<rparr>))"
proof -
  obtain r w' where run: "checkProductPassword cmp product password w = (r, w')"
    by (cases "checkProductPassword cmp product password w")
  then obtain bs where "w' = w\<lparr>w_faults := bs\<rparr>" "r = Inl (Sess sess_ErrAccessDenied)"
    using checkProductPassword_run [OF run] assms by (cases r) auto
  with run show ?thesis
    by (intro exI [of _ bs]) (simp add: Let_def GetEndpoint_def StartSession_def SetProductConfig_def ServiceReady_def
        AuthClient_def UpdateSession_def StopSession_def ConnChange_def bindC_def)
qed

section \<open>Counting the use\<close>

lemma latest_in: "latest ss = Some s \<Longrightarrow> s \<in> set ss"
proof (cases ss)
  case (Cons a rest)
  have "foldl (\<lambda>a b. if ses_Started a < ses_Started b then b else a) x ys \<in> set (x # ys)" for x ys
    by (induction ys arbitrary: x) auto
  then show "latest ss = Some s \<Longrightarrow> s \<in> set ss" using Cons by (auto simp: latest_def)
qed (simp add: latest_def)

lemma current_session_in:
  "current_session c d = Some s \<Longrightarrow> s \<in> set (db_sessions d) \<and> ses_Channel s = c \<and> ses_Stopped s = None"
  unfolding current_session_def by (drule latest_in) simp

lemma findCurrentSession_run:
  assumes "findCurrentSession c w = (r, w')"
  shows "(\<exists>bs. w' = w\<lparr>w_faults := bs\<rparr>) \<and> (case r of Inr s \<Rightarrow> current_session c (w_db w) = Some s
       | Inl e \<Rightarrow> e = Sess sess_ErrSessionNotFound \<or> e = Sess sess_ErrInternal)"
  using assms unfolding findCurrentSession_def query_def
  by (cases r; auto simp: run dest!: db_call_state split: if_splits)+

lemma findClientChannel_run:
  assumes "findClientChannel p key w = (r, w')"
  shows "(\<exists>bs. w' = w\<lparr>w_faults := bs\<rparr>)
    \<and> (case r of Inr c \<Rightarrow> lookup ChannelTable (w_db w) key = Some c | Inl e \<Rightarrow> e = Panic \<or> e = Sess sess_ErrChannelNotFound)"
proof (cases "prd_ClientIdent p = ''by_channel_id''")
  case True
  with assms have run: "on_err (\<lambda>_. Sess sess_ErrChannelNotFound) (find_pk ChannelTable Conn key) w = (r, w')"
    by (simp add: findClientChannel_def thenC_def bindC_def guardC_def ret_def)
  show ?thesis
  proof (cases r)
    case (Inl e)
    with run failed_op(1) show ?thesis by (fastforce simp: on_err_run_Inl)
  next
    case (Inr c)
    with run have "db_call Conn w = (Inr (), w')" "lookup ChannelTable (w_db w) key = Some c"
      by (auto simp: on_err_run_Inr find_pk_run lookup_def)
    with Inr db_call_state show ?thesis by fastforce
  qed
next
  case False
  with assms have "r = Inl Panic" "w' = w"
    by (simp_all add: findClientChannel_def thenC_def bindC_def guardC_def fail_def)
  then show ?thesis by (auto intro: exI [of _ "w_faults w"])
qed

text \<open>Saving a session that is stored.\<close>

lemma save_stored_session:
  assumes "save_row SessionTable Conn s w = (r, w')" "exists_row ses_ID (db_sessions (w_db w)) (ses_ID s)"
  shows "w_db w' = (case r of Inl _ \<Rightarrow> w_db w
     | Inr _ \<Rightarrow> (w_db w)\<lparr>db_sessions := replace ses_ID s (db_sessions (w_db w))\<rparr>)"
proof -
  obtain q v where upd: "update_row SessionTable Conn s w = (q, v)" by (cases "update_row SessionTable Conn s w")
  have no: "q \<noteq> Inl NoRows"
  proof
    assume "q = Inl NoRows"
    with upd obtain u where "db_call Conn w = (Inr (), u)" "\<not> exists_row ses_ID (db_sessions (w_db u)) (ses_ID s)"
      by (auto simp: update_row_def thenC_run_Inl bindC_run_Inl getC_run guardC_run modC_run dest: db_call_error)
    with assms(2) db_call_view [of Conn w "Inr ()" u Conn] show False by simp
  qed
  show ?thesis
  proof (cases q)
    case (Inl e)
    with assms(1) upd no have "r = Inl e \<and> w' = v" by (auto simp: save_row_def handleC_def fail_def)
    with failed_op(4) upd Inl show ?thesis by fastforce
  next
    case (Inr u)
    with assms(1) upd have "r = Inr () \<and> w' = v" by (auto simp: save_row_def handleC_def ret_def)
    with upd Inr show ?thesis by (auto simp: update_row_run dest!: db_call_state)
  qed
qed

lemma UpdateSession_run:
  assumes "UpdateSession cmp product password key units w = (r, w')"
  shows "case r of Inl _ \<Rightarrow> w_db w' = w_db w
    | Inr _ \<Rightarrow> (\<exists>p ch s used. may_use cmp product password (w_db w) p \<and> lookup ChannelTable (w_db w) key = Some ch
        \<and> (prd_IsServer p \<longrightarrow> ch_ServiceStatus ch = ServiceActive) \<and> current_session (ch_ID ch) (w_db w) = Some s
        \<and> used_units (prd_UsageRepType p) (ses_UnitsUsed s) units = Some used
        \<and> w_db w' = (w_db w)\<lparr>db_sessions := replace ses_ID
            (s\<lparr>ses_UnitsUsed := used, ses_LastUsageTime := w_now w\<rparr>) (db_sessions (w_db w))\<rparr>)"
proof -
  have save: "w_db w' = (case r of Inl _ \<Rightarrow> w_db v | Inr _ \<Rightarrow>
      (w_db v)\<lparr>db_sessions := replace ses_ID (s\<lparr>ses_UnitsUsed := used, ses_LastUsageTime := t\<rparr>) (db_sessions (w_db v))\<rparr>)"
    if "save_row SessionTable Conn (s\<lparr>ses_UnitsUsed := used, ses_LastUsageTime := t\<rparr>) v = (r, w')"
      "current_session c (w_db v) = Some s" for s used t r v c
    using save_stored_session [OF that(1)] current_session_in [OF that(2)]
    by (auto simp: exists_row_def list_ex_iff)
  show ?thesis
  proof (cases r)
    case (Inl e)
    with assms show ?thesis unfolding UpdateSession_def
      by (auto simp: run dest!: checkProductPassword_run findClientChannel_run findCurrentSession_run save)
  next
    case (Inr u)
    with assms show ?thesis unfolding UpdateSession_def
      by (auto simp: run dest!: checkProductPassword_run findClientChannel_run findCurrentSession_run save)
  qed
qed

text \<open>C34: an accepted report changes the current session of the channel and nothing else: an incremental
  product's units are added, modulo the word size, a total's replace what was stored, both in whole
  mebibytes; a server's report is accepted only while the service is active. A refused report
  changes nothing.\<close>

theorem reported_use_counted:
  assumes "UpdateSession cmp product password key units w = (r, w')"
  shows "case r of Inl _ \<Rightarrow> w_db w' = w_db w
    | Inr _ \<Rightarrow> (\<exists>p ch s used. may_use cmp product password (w_db w) p \<and> lookup ChannelTable (w_db w) key = Some ch
        \<and> (prd_IsServer p \<longrightarrow> ch_ServiceStatus ch = ServiceActive) \<and> current_session (ch_ID ch) (w_db w) = Some s
        \<and> used_units (prd_UsageRepType p) (ses_UnitsUsed s) units = Some used
        \<and> w_db w' = (w_db w)\<lparr>db_sessions := replace ses_ID
            (s\<lparr>ses_UnitsUsed := used, ses_LastUsageTime := w_now w\<rparr>) (db_sessions (w_db w))\<rparr>)"
  using assms by (rule UpdateSession_run)

text \<open>What the sessions have counted, and the products, on which the counting depends.\<close>

definition counted :: "db \<Rightarrow> (string \<times> u64) list \<times> Product list" where
  "counted d = (map (\<lambda>s. (ses_ID s, ses_UnitsUsed s)) (db_sessions d), db_products d)"

definition same_count :: "'z world_scheme \<Rightarrow> 'z world_scheme \<Rightarrow> bool" where
  "same_count w w' \<longleftrightarrow> counted (w_db w') = counted (w_db w)"

interpretation same_count: effect_order same_count
  by unfold_locales (auto simp: same_count_def)

definition counts_increments :: "string \<Rightarrow> 'z world_scheme \<Rightarrow> bool" where
  "counts_increments product w \<longleftrightarrow> distinct (map ses_ID (db_sessions (w_db w)))
     \<and> (\<forall>p \<in> set (db_products (w_db w)). prd_ID p = product \<longrightarrow> prd_UsageRepType p = ProductUsageIncremental)"

lemma small_report:
  assumes "unat units < 1024 * 1024"
  shows "steps same_count (counts_increments product)
    (ignoreC (UpdateSession cmp product password key units)) (\<lambda>_. counts_increments product)"
proof (rule stepsI)
  fix w r w' assume I: "counts_increments product w"
    and run: "ignoreC (UpdateSession cmp product password key units) w = (r, w')"
  then obtain q where upd: "UpdateSession cmp product password key units w = (q, w')"
    by (auto simp: ignoreC_run)
  have "same_count w w'"
  proof (cases q)
    case (Inl e)
    with UpdateSession_run [OF upd] show ?thesis by (simp add: same_count_def)
  next
    case (Inr u)
    with UpdateSession_run [OF upd] obtain p ch s used where p: "may_use cmp product password (w_db w) p"
      and "lookup ChannelTable (w_db w) key = Some ch"
      and s: "current_session (ch_ID ch) (w_db w) = Some s"
      and used: "used_units (prd_UsageRepType p) (ses_UnitsUsed s) units = Some used"
      and db: "w_db w' = (w_db w)\<lparr>db_sessions := replace ses_ID
            (s\<lparr>ses_UnitsUsed := used, ses_LastUsageTime := w_now w\<rparr>) (db_sessions (w_db w))\<rparr>"
      by (simp only: sum.case) (elim exE conjE, rule that)
    have "units div (1024 * 1024) = 0"
      using assms by (simp add: word_arith_nat_div unat_div)
    then have "used = ses_UnitsUsed s"
      using I p used by (auto simp: counts_increments_def may_use_def used_units_def split: if_splits)
    moreover have "s' = s" if "s' \<in> set (db_sessions (w_db w))" "ses_ID s' = ses_ID s" for s'
      using I that current_session_in [OF s] by (auto simp: counts_increments_def distinct_map dest: inj_onD)
    ultimately show ?thesis
      by (auto simp: same_count_def counted_def db replace_def comp_def)
  qed
  moreover have "map ses_ID (db_sessions (w_db w')) = map ses_ID (db_sessions (w_db w))" if "same_count w w'"
  proof -
    from that have "map fst (fst (counted (w_db w'))) = map fst (fst (counted (w_db w)))"
      by (simp add: same_count_def)
    then show ?thesis by (simp add: counted_def comp_def)
  qed
  ultimately show "same_count w w' \<and> (\<forall>x. r = Inr x \<longrightarrow> counts_increments product w')"
    using I by (auto simp: counts_increments_def same_count_def counted_def)
qed

text \<open>A product that reports its use in steps of less than a mebibyte uses the service for free: each
  step is rounded down on its own, so that after any number of reports no session has counted more.\<close>

theorem small_reports_lost:
  assumes "\<forall>units \<in> set reports. unat units < 1024 * 1024" and "counts_increments product w"
    and "eachC (\<lambda>units. ignoreC (UpdateSession cmp product password key units)) reports w = (r, w')"
  shows "map (\<lambda>s. (ses_ID s, ses_UnitsUsed s)) (db_sessions (w_db w'))
    = map (\<lambda>s. (ses_ID s, ses_UnitsUsed s)) (db_sessions (w_db w))"
proof -
  have "steps same_count (counts_increments product)
      (eachC (\<lambda>units. ignoreC (UpdateSession cmp product password key units)) reports) (\<lambda>_. counts_increments product)"
    using assms(1) by (intro same_count.steps_eachC small_report) auto
  from stepsD(1) [OF this assms(2,3)] show ?thesis by (simp add: same_count_def counted_def)
qed

section \<open>Starting a session\<close>

lemma StartSession_fails:
  assumes "StartSession cmp conf product password key ip port w = (Inl e, w')"
  shows "w_db w' = w_db w"
proof -
  have body: "keeps same_db (bindC new_uuid (\<lambda>i. thenC (insert_row SessionTable Tx (new_session i c t ip port))
      (whenC b (handleC (AddWithData conf Tx JobCompleteServiceTransition JobChannel c JobSessionServer data)
         (\<lambda>e. if e = Job job_ErrDuplicatedJob then ret () else fail e) ret))))" for c t b data
    unfolding AddWithData_def AddWithDataAndDelay_def
    by (intro keeps_same_db queue.add_tx) (auto intro: keeps_same_db)
  show ?thesis
    using assms unfolding StartSession_def
    by (auto simp: bindC_run_Inl thenC_run_Inl on_err_run_Inl on_err_run_Inr find_pk_run now_run ret_run
        dest!: checkProductPassword_run findClientChannel_run failed_op(1) in_tx_error [OF body] db_call_state)
qed

text \<open>The job that completes the activation of the channel, as it is queued.\<close>

definition completion_job :: "Channel \<Rightarrow> Job \<Rightarrow> bool" where
  "completion_job ch j \<longleftrightarrow> job_Type j = JobCompleteServiceTransition \<and> job_RelatedID j = ch_ID ch
     \<and> job_Status j = JobActive \<and> job_Data j = Some (enc_svc_status ServiceActive)"

lemma AddWithData_job:
  assumes "AddWithData conf q JobCompleteServiceTransition JobChannel (ch_ID ch) creator (enc_svc_status ServiceActive) w = (Inr u, w')"
  shows "\<exists>j. completion_job ch j \<and> view q w' = (view q w)\<lparr>db_jobs := db_jobs (view q w) @ [j]\<rparr>"
  using assms unfolding AddWithData_def AddWithDataAndDelay_def
  by (fastforce simp: run completion_job_def new_job_def dest: queue.add_view queue.add_job)

lemma AddWithData_fails:
  assumes "AddWithData conf q ty rel i creator data w = (Inl e, w')"
  shows "view q w' = view q w"
  using assms unfolding AddWithData_def AddWithDataAndDelay_def by (auto simp: run dest!: queue.add_fails)

text \<open>The transaction in which a session is stored, and its last step.\<close>

abbreviation queue_completion :: "Config \<Rightarrow> Channel \<Rightarrow> ('z, unit) dbcmd" where
  "queue_completion conf ch \<equiv> whenC (ch_ServiceStatus ch = ServiceActivating)
     (handleC (AddWithData conf Tx JobCompleteServiceTransition JobChannel (ch_ID ch) JobSessionServer (enc_svc_status ServiceActive))
       (\<lambda>e. if e = Job job_ErrDuplicatedJob then ret () else fail e) ret)"

abbreviation store_session :: "Config \<Rightarrow> Channel \<Rightarrow> time \<Rightarrow> string \<Rightarrow> u16 \<Rightarrow> ('z, unit) dbcmd" where
  "store_session conf ch t0 ip port \<equiv> bindC new_uuid (\<lambda>i.
     thenC (insert_row SessionTable Tx (new_session i (ch_ID ch) t0 ip port)) (queue_completion conf ch))"

lemma completion_queued:
  assumes "queue_completion conf ch s = (Inr (), v)"
  shows "\<exists>js. view Tx v = (view Tx s)\<lparr>db_jobs := db_jobs (view Tx s) @ js\<rparr>
    \<and> (js = [] \<or> (\<exists>j. js = [j] \<and> completion_job ch j \<and> ch_ServiceStatus ch = ServiceActivating))"
proof -
  have "view Tx v = view Tx s \<or> (\<exists>j. completion_job ch j \<and> ch_ServiceStatus ch = ServiceActivating
      \<and> view Tx v = (view Tx s)\<lparr>db_jobs := db_jobs (view Tx s) @ [j]\<rparr>)"
    using assms by (auto simp: whenC_run handleC_run ret_run fail_run split: if_splits
        dest!: AddWithData_job AddWithData_fails)
  then show ?thesis
  proof (elim disjE exE conjE)
    assume "view Tx v = view Tx s"
    then show ?thesis by (intro exI [of _ "[]"]) simp
  next
    fix j assume "completion_job ch j" "ch_ServiceStatus ch = ServiceActivating"
      "view Tx v = (view Tx s)\<lparr>db_jobs := db_jobs (view Tx s) @ [j]\<rparr>"
    then show ?thesis by (intro exI [of _ "[j]"]) simp
  qed
qed

lemma session_stored:
  assumes "in_tx (store_session conf ch t0 ip port) w = (Inr (), w')"
  shows "\<exists>i js. w_db w' = (w_db w)\<lparr>db_sessions := db_sessions (w_db w) @ [new_session i (ch_ID ch) t0 ip port],
        db_jobs := db_jobs (w_db w) @ js\<rparr>
    \<and> (js = [] \<or> (\<exists>j. js = [j] \<and> completion_job ch j \<and> ch_ServiceStatus ch = ServiceActivating))"
proof -
  from assms obtain bs v where body: "store_session conf ch t0 ip port (w\<lparr>w_faults := bs, w_tx := Some (w_db w)\<rparr>) = (Inr (), v)"
    and w': "w_db w' = view Tx v"
    by (rule in_tx_success)
  from body obtain i w3 s where w3: "w3 = (w\<lparr>w_faults := bs, w_tx := Some (w_db w)\<rparr>)\<lparr>w_uuids := Suc (w_uuids w)\<rparr>"
    and s: "insert_row SessionTable Tx (new_session i (ch_ID ch) t0 ip port) w3 = (Inr (), s)"
    and add: "queue_completion conf ch s = (Inr (), v)"
    by (auto simp: bindC_run_Inr thenC_run_Inr new_uuid_run)
  have "view Tx w3 = w_db w" by (simp add: w3)
  with s have "view Tx s = (w_db w)\<lparr>db_sessions := db_sessions (w_db w) @ [new_session i (ch_ID ch) t0 ip port]\<rparr>"
    using SessionTable.insert_view [OF s] by simp
  with completion_queued [OF add] w' show ?thesis by auto
qed

text \<open>C33: starting a session is all or nothing. It stores one new session, open and with nothing counted,
  and queues the completion of an activation that is under way, unless that is queued already;
  if it fails the database is as it was.\<close>

theorem StartSession_atomic:
  assumes "StartSession cmp conf product password key ip port w = (r, w')"
  shows "case r of Inl _ \<Rightarrow> w_db w' = w_db w
    | Inr offer \<Rightarrow> (\<exists>i ch js. lookup ChannelTable (w_db w) key = Some ch
        \<and> lookup OfferingTable (w_db w) (ch_Offering ch) = Some offer
        \<and> w_db w' = (w_db w)\<lparr>db_sessions := db_sessions (w_db w) @ [new_session i (ch_ID ch) (w_now w) ip port],
            db_jobs := db_jobs (w_db w) @ js\<rparr>
        \<and> (js = [] \<or> (\<exists>j. js = [j] \<and> completion_job ch j \<and> ch_ServiceStatus ch = ServiceActivating)))"
proof (cases r)
  case (Inl e)
  with assms StartSession_fails show ?thesis by fastforce
next
  case (Inr offer)
  with assms obtain ch fs where ch: "lookup ChannelTable (w_db w) key = Some ch"
    and off: "lookup OfferingTable (w_db w) (ch_Offering ch) = Some offer"
    and tx: "in_tx (store_session conf ch (w_now w) ip port) (w\<lparr>w_faults := fs\<rparr>) = (Inr (), w')"
    unfolding StartSession_def
    by (auto simp: bindC_run_Inr thenC_run_Inr on_err_run_Inr find_pk_run now_run ret_run lookup_def OfferingTable_def
        dest!: checkProductPassword_run findClientChannel_run db_call_state)
  from session_stored [OF tx] Inr ch off show ?thesis by auto
qed

section \<open>Concrete instances\<close>

definition sample_product :: Product where
  "sample_product = \<lparr>prd_ID = ''p1'', prd_Name = ''vpn'', prd_OfferTplID = None, prd_OfferAccessID = None,
     prd_UsageRepType = ProductUsageIncremental, prd_IsServer = True, prd_Salt = 7, prd_Password = [],
     prd_ClientIdent = ''by_channel_id'', prd_Config = [], prd_ServiceEndpointAddress = None, prd_Country = None\<rparr>"

definition session_world :: world where
  "session_world = sample_world\<lparr>w_db := sample_db\<lparr>db_products := [sample_product]\<rparr>\<rparr>"

text \<open>A comparison that accepts every password, and one that accepts none.\<close>

definition any_password :: "bytes \<Rightarrow> bytes \<Rightarrow> bool" where
  "any_password h b = True"

definition no_password :: "bytes \<Rightarrow> bytes \<Rightarrow> bool" where
  "no_password h b = False"

definition served_world :: qworld where
  "served_world = \<lparr>w_db = w_db session_world, w_tx = None, w_faults = [], w_now = 0, w_uuid = (\<lambda>n. decimal n), w_uuids = 0,
     q_subs = Map.empty, q_notified = []\<rparr>"

theorem session_calls_need_password_witness:
  "\<exists>bs. UpdateSession no_password ''p1'' ''x'' ''c1'' 9 served_world = (Inl (Sess sess_ErrAccessDenied), served_world\<lparr>w_faults := bs\<rparr>)
     \<and> ConnChange no_password (Some ''s'') ''p1'' ''x'' served_world = (Inl (Sess sess_ErrAccessDenied), served_world\<lparr>w_faults := bs\<rparr>)"
proof -
  have "\<nexists>p. may_use no_password ''p1'' ''x'' (w_db served_world) p"
    by (auto simp: may_use_def ValidatePassword_def no_password_def split: option.splits)
  from session_calls_need_password [OF this, of "''c1''" _ _ _ _ _ _ _ _ 9 "Some ''s''"] show ?thesis unfolding Let_def by blast
qed

lemma session_world_simps [simp]:
  "w_db session_world = sample_db\<lparr>db_products := [sample_product]\<rparr>" "w_faults session_world = []"
  "w_tx session_world = None" "can_call Conn session_world" "w_now session_world = 5000000000000"
  by (simp_all add: session_world_def)

lemma sample_access:
  "checkProductPassword any_password ''p1'' ''x'' session_world = (Inr sample_product, session_world)"
  "findClientChannel sample_product ''c1'' session_world = (Inr sample_channel, session_world)"
  by (simp_all add: checkProductPassword_def findClientChannel_def bindC_def thenC_def on_err_def find_pk_ok guardC_def
      ret_def ValidatePassword_def sample_product_def sample_channel_def any_password_def ToBytes_def b64_decode_def
      trim_space_def)

lemma sample_current: "findCurrentSession ''c1'' session_world = (Inr sample_session, session_world)"
  by (simp add: findCurrentSession_def on_err_def bindC_def query_ok current_session_def latest_def of_option_def ret_def
      sample_session_def)

lemma sample_channel_simps [simp]: "ch_ID sample_channel = ''c1''" "ch_ServiceStatus sample_channel = ServiceActive"
  "ch_Offering sample_channel = ''o1''"
  by (simp_all add: sample_channel_def)

lemma sample_update:
  "fst (UpdateSession any_password ''p1'' ''x'' ''c1'' (3 * 1048576 + 5) session_world) = Inr ()"
  by code_simp

theorem reported_use_counted_witness:
  "\<exists>s used. used_units ProductUsageIncremental (ses_UnitsUsed s) (3 * 1048576 + 5) = Some used
     \<and> db_sessions (w_db (snd (UpdateSession any_password ''p1'' ''x'' ''c1'' (3 * 1048576 + 5) session_world)))
       = [s\<lparr>ses_UnitsUsed := used, ses_LastUsageTime := w_now session_world\<rparr>]"
proof -
  let ?run = "UpdateSession any_password ''p1'' ''x'' ''c1'' (3 * 1048576 + 5) session_world"
  have "?run = (Inr (), snd ?run)" using sample_update by (metis prod.collapse)
  from reported_use_counted [OF this] obtain p ch s used where
    "may_use any_password ''p1'' ''x'' (w_db session_world) p" "lookup ChannelTable (w_db session_world) ''c1'' = Some ch"
    "current_session (ch_ID ch) (w_db session_world) = Some s"
    "used_units (prd_UsageRepType p) (ses_UnitsUsed s) (3 * 1048576 + 5) = Some used"
    "db_sessions (w_db (snd ?run)) = replace ses_ID (s\<lparr>ses_UnitsUsed := used, ses_LastUsageTime := w_now session_world\<rparr>)
       (db_sessions (w_db session_world))"
    by auto
  moreover from this(3) have "s = sample_session"
    by (auto simp: session_world_def dest!: current_session_in)
  ultimately show ?thesis
    by (intro exI [of _ s] exI [of _ used]) (auto simp: may_use_def session_world_def sample_product_def replace_def sample_session_def)
qed

theorem small_reports_lost_witness:
  "map (\<lambda>s. (ses_ID s, ses_UnitsUsed s)) (db_sessions (w_db (snd (eachC (\<lambda>units. ignoreC
     (UpdateSession any_password ''p1'' ''x'' ''c1'' units)) (replicate 5000 1048575) session_world)))) = [(''s1'', 150)]"
proof -
  have "counts_increments ''p1'' session_world"
    by (simp add: counts_increments_def session_world_def sample_product_def)
  from small_reports_lost [OF _ this prod.collapse [symmetric], where reports = "replicate 5000 1048575"]
  show ?thesis by (simp add: session_world_def sample_session_def)
qed

theorem StartSession_atomic_witness:
  "\<exists>i. db_sessions (w_db (snd (StartSession any_password NewConfig ''p1'' ''x'' ''c1'' ''10.0.0.1'' 7 session_world)))
     = [sample_session, new_session i ''c1'' 5000000000000 ''10.0.0.1'' 7]"
proof -
  let ?run = "StartSession any_password NewConfig ''p1'' ''x'' ''c1'' ''10.0.0.1'' 7 session_world"
  have "fst ?run = Inr sample_offering" by code_simp
  then have "?run = (Inr sample_offering, snd ?run)" by (metis prod.collapse)
  from StartSession_atomic [OF this] show ?thesis
    by (auto simp: session_world_def lookup_def sample_channel_def)
qed

end
