(* ===== verification/JobsMaker.thy ===== *)
theory JobsMaker
  imports Processor Settings
begin

text \<open>
  From logs to jobs, \<open>src/bc/jobsmaker.go\<close>: each event of the contracts that the blockchain monitor
  receives becomes the jobs that react to it, different ones on the agent's side and on the client's.
  The number of closings since the last rating is kept in memory. \<open>unpack event data\<close> decodes the two
  values, a block and an amount, that the events of channels carry. A log with too few topics panics.
\<close>

section \<open>Events\<close>

text \<open>The topics of \<open>src/eth/constant.go\<close>.\<close>

definition ServiceChannelCreated :: hash where
  "ServiceChannelCreated = 0x7699dfbb1101aec58b1cfb4a4f5375947c99cb4c645112290d1cb77fc286edc1"
definition ServiceChannelToppedUp :: hash where
  "ServiceChannelToppedUp = 0xd3020c549112ceb2d0f806cd3366f47df57bc519c46133b84ce2cdad970c22a3"
definition ServiceChannelCloseRequested :: hash where
  "ServiceChannelCloseRequested = 0xe4007f6ff086417a4031cdcff1a975882379b19e1ed3547292e131f3c525bcab"
definition ServiceOfferingCreated :: hash where
  "ServiceOfferingCreated = 0xa8c40ba917b58ddcfe866c5b52d417e5e425c459c3b7333bf3b1164e32ddb939"
definition ServiceOfferingDeleted :: hash where
  "ServiceOfferingDeleted = 0xc3013cd9dd5c33b95a9cc1bc076481c9a6a1970be6d7f1ed33adafad6e57d3d6"
definition ServiceOfferingPopedUp :: hash where
  "ServiceOfferingPopedUp = 0x7c6ee8c3412a9ecfd989aa18d379f84f73b718366934885e21e9a399b719c53a"
definition ServiceCooperativeChannelClose :: hash where
  "ServiceCooperativeChannelClose = 0x4a06175bd19aba21163e3c08e7ac80151fad270655624167c5ee9e41b48a58e0"
definition ServiceUnCooperativeChannelClose :: hash where
  "ServiceUnCooperativeChannelClose = 0xd633584c5931ade1a274b7ce309d985207494d074d1afd2f2da5275bb645e3dc"
definition TokenApproval :: hash where
  "TokenApproval = 0x8c5be1e5ebec7d5bd14f71427d1e84f3dd0314c0f7b2291e5b200ac8c7c3b925"
definition TokenTransfer :: hash where
  "TokenTransfer = 0xddf252ad1be2c89b69c2b068fc378daa952ba7f163c4a11628f55a4df523b3ef"

lemmas eth_topics =
  ServiceChannelCreated_def ServiceChannelToppedUp_def ServiceChannelCloseRequested_def ServiceOfferingCreated_def
  ServiceOfferingDeleted_def ServiceOfferingPopedUp_def ServiceCooperativeChannelClose_def
  ServiceUnCooperativeChannelClose_def TokenApproval_def TokenTransfer_def

record jobsMaker =
  jm_unpack :: "string \<Rightarrow> bytes \<Rightarrow> (u32 \<times> u64) option"
  jm_pscAddr :: address
  jm_makeRatingJobAfter :: u64
  jm_isAgent :: bool

record bcworld = world +
  bc_closingsCount :: u64

type_synonym ('z, 'a) bccmd = "('z bcworld_scheme, go_error, 'a) cmd"

definition topic :: "JobEthLog \<Rightarrow> nat \<Rightarrow> ('s, go_error, hash) cmd" where
  "topic l n = of_option Panic (if n < length (elog_Topics l) then Some (elog_Topics l ! n) else None)"

section \<open>Finding what a log is about\<close>

text \<open>An identifier that is not found is the empty string, and so is one that could not be looked up.\<close>

definition findOfferingID :: "hash \<Rightarrow> ('z, string) dbcmd" where
  "findOfferingID t = handleC (select_one OfferingTable Conn (\<lambda>f. ofr_Hash f = HexFromBytes (hash_bytes t)))
     (\<lambda>_. ret []) (\<lambda>f. ret (ofr_ID f))"

definition blockNumber :: "jobsMaker \<Rightarrow> bytes \<Rightarrow> string \<Rightarrow> go_error + u32" where
  "blockNumber m bs event = (case jm_unpack m event bs of
     None \<Rightarrow> Inl (Bc bc_ErrFailedToUnpack) | Some (block, _) \<Rightarrow> Inr block)"

text \<open>The block is decoded with the layout of the top-up event, whichever event it is.\<close>

definition getOpenBlockNumber :: "jobsMaker \<Rightarrow> JobEthLog \<Rightarrow> hash \<Rightarrow> go_error + u32 option" where
  "getOpenBlockNumber m el topic0 =
     (if topic0 \<in> {ServiceChannelToppedUp, ServiceChannelCloseRequested, ServiceCooperativeChannelClose,
          ServiceUnCooperativeChannelClose}
      then map_sum (\<lambda>e. e) Some (blockNumber m (elog_Data el) ''LogChannelToppedUp'') else Inr None)"

definition channel_by_event :: "HexString \<Rightarrow> HexString \<Rightarrow> HexString \<Rightarrow> u32 \<Rightarrow> db \<Rightarrow> string option" where
  "channel_by_event offeringHash agent client block d = map_option ch_ID (find (\<lambda>c.
     list_ex (\<lambda>f. ofr_ID f = ch_Offering c \<and> ofr_Hash f = offeringHash) (db_offerings d)
     \<and> ch_Agent c = agent \<and> ch_Client c = client \<and> ch_Block c = block) (db_channels d))"

definition channel_by_tx :: "HexString \<Rightarrow> db \<Rightarrow> string option" where
  "channel_by_tx h d = map_option ch_ID (find (\<lambda>c.
     list_ex (\<lambda>t. tx_RelatedID t = ch_ID c \<and> tx_Hash t = h) (db_ethtxs d)) (db_channels d))"

definition findChannelID :: "jobsMaker \<Rightarrow> JobEthLog \<Rightarrow> ('z, string) dbcmd" where
  "findChannelID m el =
     bindC (topic el 1) (\<lambda>t1. bindC (topic el 2) (\<lambda>t2. bindC (topic el 3) (\<lambda>t3. bindC (topic el 0) (\<lambda>t0.
     case getOpenBlockNumber m el t0 of
       Inl _ \<Rightarrow> ret []
     | Inr open \<Rightarrow>
         handleC (query Conn (case open of
             Some block \<Rightarrow> channel_by_event (HexFromBytes (hash_bytes t3))
               (HexFromBytes (address_bytes (address_of_topic t1))) (HexFromBytes (address_bytes (address_of_topic t2))) block
           | None \<Rightarrow> channel_by_tx (elog_TxHash el)))
           (\<lambda>_. ret []) (\<lambda>r. ret (case r of None \<Rightarrow> [] | Some i \<Rightarrow> i))))))"

section \<open>Jobs\<close>

text \<open>The monitor sets the creator of all jobs before it adds them.\<close>

definition produceCommon :: "JobEthLog \<Rightarrow> string \<Rightarrow> related_type \<Rightarrow> job_type \<Rightarrow> Job list" where
  "produceCommon l rid rtype jtype = [new_job jtype rtype rid JobBCMonitor (Some (enc_JobData (Some l))) zero_time]"

definition onExistingChannelEvent :: "jobsMaker \<Rightarrow> JobEthLog \<Rightarrow> job_type \<Rightarrow> ('z, Job list) dbcmd" where
  "onExistingChannelEvent m l jtype = bindC (findChannelID m l) (\<lambda>cid.
     ret (if cid = [] then [] else produceCommon l cid JobChannel jtype))"

definition onOfferingRelatedEvent :: "JobEthLog \<Rightarrow> job_type \<Rightarrow> ('z, Job list) dbcmd" where
  "onOfferingRelatedEvent l jtype = bindC (topic l 2) (\<lambda>t. bindC (findOfferingID t) (\<lambda>oid.
     ret (if oid = [] then [] else produceCommon l oid JobOffering jtype)))"

definition agentOnChannelCreated :: "JobEthLog \<Rightarrow> ('z, Job list) dbcmd" where
  "agentOnChannelCreated l = bindC (topic l 3) (\<lambda>t. bindC (findOfferingID t) (\<lambda>oid.
     if oid = [] then ret []
     else bindC new_uuid (\<lambda>i. ret (produceCommon l i JobChannel JobAgentAfterChannelCreate))))"

definition onTokenApprove :: "JobEthLog \<Rightarrow> ('z, Job list) dbcmd" where
  "onTokenApprove l = bindC (topic l 1) (\<lambda>t.
     handleC (select_one AccountTable Conn (\<lambda>a. acc_EthAddr a = HexFromBytes (address_bytes (address_of_topic t))))
       (\<lambda>_. ret []) (\<lambda>acc. ret (produceCommon l (acc_ID acc) JobAccount JobAfterAccountAddBalanceApprove)))"

definition onTokenTransfer :: "jobsMaker \<Rightarrow> JobEthLog \<Rightarrow> ('z, Job list) dbcmd" where
  "onTokenTransfer m l = bindC (topic l 1) (\<lambda>t1. bindC (topic l 2) (\<lambda>t2.
     let addr1 = address_of_topic t1; addr2 = address_of_topic t2;
         jtype = (if addr1 = jm_pscAddr m then JobAfterAccountReturnBalance else JobAfterAccountAddBalance)
     in handleC (select_one AccountTable Conn (\<lambda>a. acc_EthAddr a = HexFromBytes (address_bytes addr1)
             \<or> acc_EthAddr a = HexFromBytes (address_bytes addr2)))
          (\<lambda>_. ret []) (\<lambda>acc. ret (produceCommon l (acc_ID acc) JobAccount jtype))))"

text \<open>\<open>data->'ethereumLog'->'topics'->>n\<close>.\<close>

definition topic_text :: "nat \<Rightarrow> json option \<Rightarrow> string option" where
  "topic_text n j = (case sql_get ''topics'' (sql_get ''ethereumLog'' j) of
     Some (JArr ts) \<Rightarrow> if n < length ts then sql_text (Some (ts ! n)) else None | _ \<Rightarrow> None)"

definition offeringCreateJobRelatedID :: "hash \<Rightarrow> ('z, string) dbcmd" where
  "offeringCreateJobRelatedID h = handleC (select_one JobTable Conn (\<lambda>j.
        topic_text 2 (job_Data j) = Some (hash_hex h)
        \<and> (job_Type j = JobClientAfterOfferingMsgBCPublish \<or> job_Type j = JobClientAfterOfferingPopUp)))
     (\<lambda>_. ret []) (\<lambda>j. ret (job_RelatedID j))"

definition updateCurrentSupplyJobs :: "JobEthLog \<Rightarrow> job_type \<Rightarrow> ('z, Job list) dbcmd" where
  "updateCurrentSupplyJobs l jtype = bindC (topic l 3) (\<lambda>t. bindC (findOfferingID t) (\<lambda>oid.
     bindC (if oid = [] then offeringCreateJobRelatedID t else ret oid) (\<lambda>oid.
       ret (if oid = [] then [] else produceCommon l oid JobOffering jtype))))"

text \<open>Every \<open>rateAfter\<close> closings the ratings are to be computed.\<close>

definition updateRating :: "jobsMaker \<Rightarrow> ('z, bool) bccmd" where
  "updateRating m = bindC (getC bc_closingsCount) (\<lambda>n. let n' = n + 1 in
     if jm_makeRatingJobAfter m \<le> n' then thenC (modC (\<lambda>w. w\<lparr>bc_closingsCount := 0\<rparr>)) (ret True)
     else thenC (modC (\<lambda>w. w\<lparr>bc_closingsCount := n'\<rparr>)) (ret False))"

definition rateJob :: "jobsMaker \<Rightarrow> JobEthLog \<Rightarrow> closing_type \<Rightarrow> ('z, Job) bccmd" where
  "rateJob m l closingType =
     bindC (of_option (Bc bc_ErrInternal) (jm_unpack m (case closingType of
         ClosingCoop \<Rightarrow> ''LogCooperativeChannelClose'' | ClosingUncoop \<Rightarrow> ''LogUnCooperativeChannelClose'') (elog_Data l)))
       (\<lambda>(block, balance).
     bindC new_uuid (\<lambda>i. bindC (topic l 1) (\<lambda>t1. bindC (topic l 2) (\<lambda>t2.
     bindC (updateRating m) (\<lambda>update. bindC new_uuid (\<lambda>rid.
       ret (new_job JobClientRecordClosing JobChannel rid JobBCMonitor (Some (enc_RecordClosingData
         \<lparr>rcd_Rec = Some \<lparr>cl_ID = i, cl_Type = closingType,
            cl_Agent = HexFromBytes (address_bytes (address_of_topic t1)),
            cl_Client = HexFromBytes (address_bytes (address_of_topic t2)), cl_Balance = balance, cl_Block = block\<rparr>,
          rcd_UpdateRatings = update\<rparr>)) zero_time)))))))"

definition clientOnChannelCreated :: "jobsMaker \<Rightarrow> JobEthLog \<Rightarrow> ('z, Job list) bccmd" where
  "clientOnChannelCreated m l = bindC (onExistingChannelEvent m l JobClientAfterChannelCreate) (\<lambda>jobs.
     bindC (updateCurrentSupplyJobs l JobDecrementCurrentSupply) (\<lambda>updateJobs. ret (jobs @ updateJobs)))"

definition clientOnOfferingCreated :: "JobEthLog \<Rightarrow> ('z, Job list) dbcmd" where
  "clientOnOfferingCreated l =
     bindC new_uuid (\<lambda>i. ret (produceCommon l i JobOffering JobClientAfterOfferingMsgBCPublish))"

definition clientOnOfferingPopedUp :: "JobEthLog \<Rightarrow> ('z, Job list) dbcmd" where
  "clientOnOfferingPopedUp l = bindC (topic l 2) (\<lambda>t. bindC (findOfferingID t) (\<lambda>oid.
     bindC (if oid = [] then new_uuid else ret oid) (\<lambda>oid.
       ret (produceCommon l oid JobOffering JobClientAfterOfferingPopUp))))"

text \<open>
  A cooperative close may follow the log of an uncooperative one for the same channel, whose job
  then has raised the supply already.
\<close>

fun same_closing :: "jobsMaker \<Rightarrow> u32 \<Rightarrow> Job list \<Rightarrow> ('s, go_error, bool) cmd" where
  "same_closing m block [] = ret False"
| "same_closing m block (j # js) = (case dec_JobData (job_Data j) of (jdata, ok) \<Rightarrow>
     thenC (guardC ok (Bc bc_ErrInternal))
    (bindC (of_option Panic jdata) (\<lambda>l.
     bindC (of_option (Bc bc_ErrInternal) (jm_unpack m ''LogCooperativeChannelClose'' (elog_Data l))) (\<lambda>(b, _).
       if b = block then ret True else same_closing m block js))))"

definition incrementSupplyAlreadyCreated :: "jobsMaker \<Rightarrow> JobEthLog \<Rightarrow> ('z, bool) dbcmd" where
  "incrementSupplyAlreadyCreated m l =
     bindC (topic l 0) (\<lambda>t0.
     thenC (guardC (\<not> (t0 \<noteq> ServiceCooperativeChannelClose \<and> length (elog_Topics l) \<noteq> 4))
         (Bc bc_ErrWrongNumberOfEventArgs))
    (bindC (of_option (Bc bc_ErrInternal) (jm_unpack m ''LogUnCooperativeChannelClose'' (elog_Data l))) (\<lambda>(block, _).
     bindC (topic l 1) (\<lambda>t1. bindC (topic l 2) (\<lambda>t2. bindC (topic l 3) (\<lambda>t3.
     bindC (on_err (\<lambda>_. Bc bc_ErrInternal) (select_all JobTable Conn (\<lambda>j.
         topic_text 0 (job_Data j) = Some (hash_hex ServiceUnCooperativeChannelClose)
         \<and> topic_text 1 (job_Data j) = Some (hash_hex t1) \<and> topic_text 2 (job_Data j) = Some (hash_hex t2)
         \<and> topic_text 3 (job_Data j) = Some (hash_hex t3) \<and> job_Type j = JobIncrementCurrentSupply)))
       (same_closing m block)))))))"

definition clientOnCooperativeChannelClose :: "jobsMaker \<Rightarrow> JobEthLog \<Rightarrow> ('z, Job list) bccmd" where
  "clientOnCooperativeChannelClose m l =
     bindC (onExistingChannelEvent m l JobClientAfterCooperativeClose) (\<lambda>jobs.
     bindC (rateJob m l ClosingCoop) (\<lambda>rate.
     bindC (updateCurrentSupplyJobs l JobIncrementCurrentSupply) (\<lambda>updateJobs.
     bindC (if updateJobs \<noteq> [] then incrementSupplyAlreadyCreated m l else ret False) (\<lambda>created.
       ret (if created then jobs @ [rate] else jobs @ [rate] @ updateJobs)))))"

text \<open>The closing is recorded as a cooperative one here too.\<close>

definition clientOnUnCooperativeChannelClose :: "jobsMaker \<Rightarrow> JobEthLog \<Rightarrow> ('z, Job list) bccmd" where
  "clientOnUnCooperativeChannelClose m l =
     bindC (onExistingChannelEvent m l JobClientAfterUncooperativeClose) (\<lambda>jobs.
     bindC (rateJob m l ClosingCoop) (\<lambda>rate.
     bindC (updateCurrentSupplyJobs l JobIncrementCurrentSupply) (\<lambda>updateJobs.
       ret (jobs @ [rate] @ updateJobs))))"

section \<open>Dispatch\<close>

definition agentJobsProducers :: "jobsMaker \<Rightarrow> hash \<rightharpoonup> (JobEthLog \<Rightarrow> ('z, Job list) bccmd)" where
  "agentJobsProducers m = map_of
     [(ServiceChannelCreated, agentOnChannelCreated),
      (ServiceChannelToppedUp, \<lambda>l. onExistingChannelEvent m l JobAgentAfterChannelTopUp),
      (ServiceChannelCloseRequested, \<lambda>l. onExistingChannelEvent m l JobAgentAfterUncooperativeCloseRequest),
      (ServiceOfferingCreated, \<lambda>l. onOfferingRelatedEvent l JobAgentAfterOfferingMsgBCPublish),
      (ServiceOfferingDeleted, \<lambda>l. onOfferingRelatedEvent l JobAgentAfterOfferingDelete),
      (ServiceOfferingPopedUp, \<lambda>l. onOfferingRelatedEvent l JobAgentAfterOfferingPopUp),
      (ServiceCooperativeChannelClose, \<lambda>l. onExistingChannelEvent m l JobAgentAfterCooperativeClose),
      (ServiceUnCooperativeChannelClose, \<lambda>l. onExistingChannelEvent m l JobAgentAfterUncooperativeClose),
      (TokenApproval, onTokenApprove),
      (TokenTransfer, onTokenTransfer m)]"

definition clientJobsProducers :: "jobsMaker \<Rightarrow> hash \<rightharpoonup> (JobEthLog \<Rightarrow> ('z, Job list) bccmd)" where
  "clientJobsProducers m = map_of
     [(ServiceChannelCreated, clientOnChannelCreated m),
      (ServiceChannelToppedUp, \<lambda>l. onExistingChannelEvent m l JobClientAfterChannelTopUp),
      (ServiceChannelCloseRequested, \<lambda>l. onExistingChannelEvent m l JobClientAfterUncooperativeCloseRequest),
      (ServiceOfferingCreated, clientOnOfferingCreated),
      (ServiceOfferingDeleted, \<lambda>l. onOfferingRelatedEvent l JobClientAfterOfferingDelete),
      (ServiceOfferingPopedUp, clientOnOfferingPopedUp),
      (ServiceCooperativeChannelClose, clientOnCooperativeChannelClose m),
      (ServiceUnCooperativeChannelClose, clientOnUnCooperativeChannelClose m),
      (TokenApproval, onTokenApprove),
      (TokenTransfer, onTokenTransfer m)]"

definition makeJobs :: "jobsMaker \<Rightarrow> JobEthLog \<Rightarrow> ('z, Job list) bccmd" where
  "makeJobs m l = bindC (topic l 0) (\<lambda>t.
     case (if jm_isAgent m then agentJobsProducers m else clientJobsProducers m) t of
       None \<Rightarrow> fail (Bc bc_ErrUnsupportedTopic) | Some producerF \<Rightarrow> producerF l)"

section \<open>Making jobs reads the database only\<close>

lemma keeps_topic: "keeps same_db (topic l n)"
  unfolding topic_def by (intro keeps_same_db)

lemmas keeps_same_db_making = keeps_same_db keeps_topic

lemma keeps_finding:
  "keeps same_db (findOfferingID t)" "keeps same_db (findChannelID m l)" "keeps same_db (offeringCreateJobRelatedID t)"
  unfolding findOfferingID_def findChannelID_def offeringCreateJobRelatedID_def
  by (intro keeps_same_db_making)+ (auto intro!: keeps_same_db_making split: sum.split)

lemma keeps_produce:
  "keeps same_db (onExistingChannelEvent m l jtype)" "keeps same_db (onOfferingRelatedEvent l jtype)"
  "keeps same_db (agentOnChannelCreated l)" "keeps same_db (onTokenApprove l)" "keeps same_db (onTokenTransfer m l)"
  "keeps same_db (updateCurrentSupplyJobs l jtype)" "keeps same_db (clientOnOfferingCreated l)"
  "keeps same_db (clientOnOfferingPopedUp l)"
  unfolding onExistingChannelEvent_def onOfferingRelatedEvent_def agentOnChannelCreated_def onTokenApprove_def
    onTokenTransfer_def updateCurrentSupplyJobs_def clientOnOfferingCreated_def clientOnOfferingPopedUp_def Let_def
  by (intro keeps_same_db_making keeps_finding; auto intro!: keeps_same_db_making keeps_finding)+

lemma keeps_count: "keeps same_db (modC (\<lambda>w. w\<lparr>bc_closingsCount := n\<rparr>))"
  by (rule same_db.keeps_modC) (simp add: same_db_def)

lemma keeps_rateJob: "keeps same_db (rateJob m l c)"
  unfolding rateJob_def updateRating_def Let_def split_beta
  by (intro keeps_same_db_making) (auto intro!: keeps_same_db_making keeps_count)

lemma keeps_same_closing: "keeps same_db (same_closing m b js)"
  by (induction js) (auto simp: split_beta intro!: keeps_same_db_making)

lemma keeps_increment: "keeps same_db (incrementSupplyAlreadyCreated m l)"
  unfolding incrementSupplyAlreadyCreated_def split_beta
  by (intro keeps_same_db_making keeps_same_closing)

lemma keeps_producers:
  "agentJobsProducers m t = Some f \<Longrightarrow> keeps same_db (f l)" "clientJobsProducers m t = Some f \<Longrightarrow> keeps same_db (f l)"
  unfolding agentJobsProducers_def clientJobsProducers_def clientOnChannelCreated_def clientOnCooperativeChannelClose_def
    clientOnUnCooperativeChannelClose_def
  by (auto split: if_splits intro!: keeps_produce keeps_rateJob keeps_increment keeps_same_db_making)

lemma keeps_makeJobs: "keeps same_db (makeJobs m l)"
  unfolding makeJobs_def
  by (intro keeps_same_db_making) (auto split: option.split intro: keeps_same_db_making keeps_producers)

section \<open>What the jobs are about\<close>

lemma topic_run:
  "topic l n w = (Inr t, w') \<longleftrightarrow> w' = w \<and> n < length (elog_Topics l) \<and> t = elog_Topics l ! n"
  by (auto simp: topic_def run split: if_splits)

lemma findOfferingID_run:
  assumes "findOfferingID t w = (Inr i, w')"
  shows "w_db w' = w_db w \<and> (i = [] \<or> (\<exists>f \<in> set (db_offerings (w_db w)). ofr_ID f = i \<and> ofr_Hash f = HexFromBytes (hash_bytes t)))"
  using assms unfolding findOfferingID_def
  by (auto simp: run OfferingTable_def dest!: find_Some_in db_call_state failed_op)

lemma findChannelID_run:
  assumes "findChannelID m l w = (Inr i, w')"
  shows "w_db w' = w_db w \<and> (i = [] \<or> (\<exists>c \<in> set (db_channels (w_db w)). ch_ID c = i))"
proof -
  have known: "channel_by_event a b c e d = Some i \<Longrightarrow> \<exists>c \<in> set (db_channels d). ch_ID c = i"
    "channel_by_tx h d = Some i \<Longrightarrow> \<exists>c \<in> set (db_channels d). ch_ID c = i" for a b c e h d
    by (auto simp: channel_by_event_def channel_by_tx_def dest!: find_Some_in)
  have "w_db w' = w_db w" using stepsD(1) [OF keeps_finding(2) _ assms] by (simp add: same_db_def)
  then show ?thesis
    using assms unfolding findChannelID_def
    by (auto simp: run topic_run split: sum.splits option.splits dest: known)
qed

text \<open>A job that carries the log and is about something the database knows, or, for a channel that has
  just been created, about one of its offerings.\<close>

definition about_known :: "JobEthLog \<Rightarrow> db \<Rightarrow> Job \<Rightarrow> bool" where
  "about_known l d j \<longleftrightarrow> job_Data j = Some (enc_JobData (Some l)) \<and> (case job_RelatedType j of
     JobChannel \<Rightarrow> if job_Type j = JobAgentAfterChannelCreate
       then \<exists>f \<in> set (db_offerings d). ofr_Hash f = HexFromBytes (hash_bytes (elog_Topics l ! 3))
       else \<exists>c \<in> set (db_channels d). ch_ID c = job_RelatedID j
   | JobOffering \<Rightarrow> \<exists>f \<in> set (db_offerings d). ofr_ID f = job_RelatedID j
       \<and> ofr_Hash f = HexFromBytes (hash_bytes (elog_Topics l ! 2))
   | JobAccount \<Rightarrow> \<exists>a \<in> set (db_accounts d). acc_ID a = job_RelatedID j
       \<and> (acc_EthAddr a = HexFromBytes (address_bytes (address_of_topic (elog_Topics l ! 1)))
         \<or> acc_EthAddr a = HexFromBytes (address_bytes (address_of_topic (elog_Topics l ! 2))))
   | _ \<Rightarrow> False)"

lemma produceCommon_simps:
  "j \<in> set (produceCommon l rid rtype jtype) \<longleftrightarrow> j = new_job jtype rtype rid JobBCMonitor (Some (enc_JobData (Some l))) zero_time"
  "length (produceCommon l rid rtype jtype) = 1"
  by (auto simp: produceCommon_def)

lemma on_existing_about:
  assumes "onExistingChannelEvent m l jtype w = (Inr js, w')" "jtype \<noteq> JobAgentAfterChannelCreate"
  shows "length js \<le> 1 \<and> (\<forall>j \<in> set js. about_known l (w_db w) j)"
  using assms unfolding onExistingChannelEvent_def
  by (auto simp: run produceCommon_simps about_known_def new_job_def split: if_splits dest!: findChannelID_run)

lemma on_offering_about:
  assumes "onOfferingRelatedEvent l jtype w = (Inr js, w')"
  shows "length js \<le> 1 \<and> (\<forall>j \<in> set js. about_known l (w_db w) j)"
  using assms unfolding onOfferingRelatedEvent_def
  by (auto simp: run topic_run produceCommon_simps about_known_def new_job_def split: if_splits dest!: findOfferingID_run)

lemma agent_created_about:
  assumes "agentOnChannelCreated l w = (Inr js, w')"
  shows "length js \<le> 1 \<and> (\<forall>j \<in> set js. about_known l (w_db w) j)"
  using assms unfolding agentOnChannelCreated_def
  by (auto simp: run topic_run produceCommon_simps about_known_def new_job_def split: if_splits dest!: findOfferingID_run)

lemma on_token_about:
  "onTokenApprove l w = (Inr js, w') \<Longrightarrow> length js \<le> 1 \<and> (\<forall>j \<in> set js. about_known l (w_db w) j)"
  "onTokenTransfer m l w = (Inr js, w') \<Longrightarrow> length js \<le> 1 \<and> (\<forall>j \<in> set js. about_known l (w_db w) j)"
  unfolding onTokenApprove_def onTokenTransfer_def Let_def
  by (auto simp: run topic_run produceCommon_simps about_known_def new_job_def AccountTable_def dest!: find_Some_in)

text \<open>C37: the agent reacts only to what concerns it: a log gives at most one job, the job carries the log,
  and it is about a channel, an offering or an account of the agent's database that the topics of the
  log name, or about a new channel on an offering of the agent. Making jobs changes no data.\<close>

theorem agent_jobs_about_known:
  assumes "jm_isAgent m" and run: "makeJobs m l w = (Inr js, w')"
  shows "length js \<le> 1 \<and> (\<forall>j \<in> set js. about_known l (w_db w) j) \<and> w_db w' = w_db w"
proof -
  from run [unfolded makeJobs_def bindC_run_Inr topic_run] assms(1) obtain t f
    where "agentJobsProducers m t = Some f" and f: "f l w = (Inr js, w')"
    by (auto simp: fail_def split: option.splits)
  then have "length js \<le> 1 \<and> (\<forall>j \<in> set js. about_known l (w_db w) j)"
    unfolding agentJobsProducers_def
    by (auto split: if_splits dest!: on_existing_about on_offering_about agent_created_about on_token_about)
  moreover have "w_db w' = w_db w" using stepsD(1) [OF keeps_makeJobs _ run] by (simp add: same_db_def)
  ultimately show ?thesis by blast
qed

section \<open>Closings\<close>

lemma client_close_producers:
  "clientJobsProducers m ServiceCooperativeChannelClose = Some (clientOnCooperativeChannelClose m)"
  "clientJobsProducers m ServiceUnCooperativeChannelClose = Some (clientOnUnCooperativeChannelClose m)"
  by (simp_all add: clientJobsProducers_def eth_topics)

lemma on_existing_types: "onExistingChannelEvent m l jtype w = (Inr js, w') \<Longrightarrow> \<forall>j \<in> set js. job_Type j = jtype"
  unfolding onExistingChannelEvent_def by (auto simp: run produceCommon_simps new_job_def split: if_splits)

lemma rateJob_run:
  assumes "rateJob m l c w = (Inr j, w')"
  shows "job_Type j = JobClientRecordClosing \<and> (\<exists>r. fst (dec_RecordClosingData (job_Data j)) = r
    \<and> snd (dec_RecordClosingData (job_Data j)) \<and> map_option cl_Type (rcd_Rec r) = Some c)"
  using assms unfolding rateJob_def
  by (auto simp: run split_beta new_job_def dec_enc_RecordClosingData)

text \<open>An uncooperative close is recorded as a cooperative one: the jobs made for its log include the one
  that records the closing, and the closing it records has the cooperative type.\<close>

theorem uncooperative_close_recorded_coop:
  assumes "\<not> jm_isAgent m" "elog_Topics l \<noteq> []" "hd (elog_Topics l) = ServiceUnCooperativeChannelClose"
    and run: "makeJobs m l w = (Inr js, w')"
  shows "\<exists>j \<in> set js. job_Type j = JobClientRecordClosing
    \<and> map_option cl_Type (rcd_Rec (fst (dec_RecordClosingData (job_Data j)))) = Some ClosingCoop"
proof -
  from run [unfolded makeJobs_def bindC_run_Inr topic_run] assms(1-3)
  have "clientOnUnCooperativeChannelClose m l w = (Inr js, w')" by (auto simp: hd_conv_nth client_close_producers)
  then obtain x v rate v' where "onExistingChannelEvent m l JobClientAfterUncooperativeClose w = (Inr x, v)"
    and rate: "rateJob m l ClosingCoop v = (Inr rate, v')" and "rate \<in> set js"
    unfolding clientOnUnCooperativeChannelClose_def by (auto simp: bindC_run_Inr ret_run)
  with rateJob_run [OF rate] show ?thesis by blast
qed

lemma same_closing_found:
  assumes "same_closing m block js w = (Inr b, w')" "j \<in> set js"
    and "dec_JobData (job_Data j) = (Some l, True)" "jm_unpack m ''LogCooperativeChannelClose'' (elog_Data l) = Some (block, y)"
  shows b
  using assms(1,2)
proof (induction js arbitrary: w)
  case (Cons k js)
  obtain jd ok where jd: "dec_JobData (job_Data k) = (jd, ok)" by (cases "dec_JobData (job_Data k)")
  from Cons.prems(1) jd obtain lk bk yk where k: "jd = Some lk" "ok"
    "jm_unpack m ''LogCooperativeChannelClose'' (elog_Data lk) = Some (bk, yk)"
    "(if bk = block then ret True else same_closing m block js) w = (Inr b, w')"
    by (auto simp: run)
  show ?case
  proof (cases "bk = block")
    case True
    with k(4) show ?thesis by (simp add: ret_run)
  next
    case False
    with k(4) have rest: "same_closing m block js w = (Inr b, w')" by simp
    from False k(1-3) jd assms(3,4) have "j \<noteq> k" by auto
    with Cons.prems(2) Cons.IH [OF rest] show ?thesis by simp
  qed
qed simp

lemma increment_found:
  assumes "incrementSupplyAlreadyCreated m l w = (Inr b, w')"
    and "elog_Topics l = [ServiceCooperativeChannelClose, t1, t2, t3]"
    and j: "j \<in> set (db_jobs (w_db w))" "job_Type j = JobIncrementCurrentSupply"
      "job_Data j = Some (enc_JobData (Some l'))" "elog_Topics l' = [ServiceUnCooperativeChannelClose, t1, t2, t3]"
    and blocks: "jm_unpack m ''LogUnCooperativeChannelClose'' (elog_Data l) = Some (block, x)"
      "jm_unpack m ''LogCooperativeChannelClose'' (elog_Data l') = Some (block, y)"
  shows b
proof -
  let ?Q = "\<lambda>j. topic_text 0 (job_Data j) = Some (hash_hex ServiceUnCooperativeChannelClose)
         \<and> topic_text 1 (job_Data j) = Some (hash_hex t1) \<and> topic_text 2 (job_Data j) = Some (hash_hex t2)
         \<and> topic_text 3 (job_Data j) = Some (hash_hex t3) \<and> job_Type j = JobIncrementCurrentSupply"
  have Q: "?Q j"
    using j by (simp add: topic_text_def sql_get_def sql_text_def enc_JobData_def enc_EthLog_def enc_hashes_def enc_hash_def)
  from assms(1,2) blocks(1) obtain v where "db_call Conn w = (Inr (), v)"
    and found: "same_closing m block (filter ?Q (db_jobs (w_db w))) v = (Inr b, w')"
    unfolding incrementSupplyAlreadyCreated_def by (auto simp: run topic_run)
  from same_closing_found [OF found _ _ blocks(2), of j] Q j show ?thesis by (auto simp: dec_enc_JobData)
qed

text \<open>C36: a channel's place in the supply of its offering is given back once: when an uncooperative close of
  the channel has led to the job that raises the supply, the log of a cooperative close of the same
  channel does not lead to a second one.\<close>

theorem supply_raised_once:
  assumes "\<not> jm_isAgent m" "elog_Topics l = [ServiceCooperativeChannelClose, t1, t2, t3]"
    and "j \<in> set (db_jobs (w_db w))" "job_Type j = JobIncrementCurrentSupply"
      "job_Data j = Some (enc_JobData (Some l'))" "elog_Topics l' = [ServiceUnCooperativeChannelClose, t1, t2, t3]"
    and "jm_unpack m ''LogUnCooperativeChannelClose'' (elog_Data l) = Some (block, x)"
      "jm_unpack m ''LogCooperativeChannelClose'' (elog_Data l') = Some (block, y)"
    and run: "makeJobs m l w = (Inr js, w')"
  shows "\<forall>k \<in> set js. job_Type k \<noteq> JobIncrementCurrentSupply"
proof -
  from run [unfolded makeJobs_def bindC_run_Inr topic_run] assms(1,2)
  have "clientOnCooperativeChannelClose m l w = (Inr js, w')" by (simp add: client_close_producers)
  then obtain jobs w1 rate w2 up w3 created where
    jobs: "onExistingChannelEvent m l JobClientAfterCooperativeClose w = (Inr jobs, w1)"
    and rate: "rateJob m l ClosingCoop w1 = (Inr rate, w2)"
    and up: "updateCurrentSupplyJobs l JobIncrementCurrentSupply w2 = (Inr up, w3)"
    and created: "(if up \<noteq> [] then incrementSupplyAlreadyCreated m l else ret False) w3 = (Inr created, w')"
    and js: "js = (if created then jobs @ [rate] else jobs @ [rate] @ up)"
    unfolding clientOnCooperativeChannelClose_def by (auto simp: bindC_run_Inr ret_run)
  have "w_db w3 = w_db w"
    using stepsD(1) [OF keeps_produce(1) _ jobs] stepsD(1) [OF keeps_rateJob _ rate] stepsD(1) [OF keeps_produce(6) _ up]
    by (simp add: same_db_def)
  then have "created \<or> up = []"
    using created increment_found [of m l w3 created w' t1 t2 t3 j l' block x y] assms(2-8) by (auto split: if_splits)
  moreover have "\<forall>k \<in> set jobs. job_Type k = JobClientAfterCooperativeClose" by (rule on_existing_types [OF jobs])
  moreover have "job_Type rate = JobClientRecordClosing" using rateJob_run [OF rate] by simp
  ultimately show ?thesis using js by auto
qed

section \<open>Ratings\<close>

text \<open>With \<open>k\<close> closings between ratings, the \<open>i\<close>-th closing asks for one if and only if \<open>k\<close> divides \<open>i\<close>.\<close>

lemma updateRating_every:
  assumes "0 < k" "unat (jm_makeRatingJobAfter m) = k" "unat (bc_closingsCount w) = i mod k"
  shows "\<exists>w'. mapC (\<lambda>_. updateRating m) xs w = (Inr (map (\<lambda>n. k dvd i + n) [1..<Suc (length xs)]), w')"
  using assms(3)
proof (induction xs arbitrary: w i)
  case Nil
  then show ?case by (simp add: ret_def)
next
  case (Cons x xs)
  have "i mod k < k" using assms(1) by simp
  then have n: "unat (bc_closingsCount w + 1) = Suc (i mod k)"
    using Cons.prems unat_less [of "jm_makeRatingJobAfter m"] assms(2)
    by (simp add: unat_word_ariths)
  have dvd: "k dvd Suc i \<longleftrightarrow> k \<le> Suc (i mod k)"
    using \<open>i mod k < k\<close> by (auto simp: dvd_eq_mod_eq_0 mod_Suc)
  define w1 where "w1 = w\<lparr>bc_closingsCount := if k dvd Suc i then 0 else bc_closingsCount w + 1\<rparr>"
  have step: "updateRating m w = (Inr (k dvd Suc i), w1)"
    using n assms(2) dvd by (simp add: updateRating_def bindC_def getC_def thenC_def modC_def ret_def Let_def
        word_le_nat_alt w1_def)
  have "unat (bc_closingsCount w1) = Suc i mod k"
    using n \<open>i mod k < k\<close> by (auto simp: w1_def mod_Suc dvd_eq_mod_eq_0)
  from Cons.IH [OF this] obtain w' where
    rest: "mapC (\<lambda>_. updateRating m) xs w1 = (Inr (map (\<lambda>n. k dvd Suc i + n) [1..<Suc (length xs)]), w')" by blast
  have "map (\<lambda>n. k dvd i + n) [1..<Suc (length (x # xs))]
      = (k dvd Suc i) # map (\<lambda>n. k dvd Suc i + n) [1..<Suc (length xs)]"
    by (simp add: upt_conv_Cons map_Suc_upt [symmetric] comp_def del: upt_Suc)
  with step rest show ?case by (auto simp: bindC_def ret_def)
qed

section \<open>Concrete instances\<close>

text \<open>A layout of one byte for each value.\<close>

definition two_bytes :: "string \<Rightarrow> bytes \<Rightarrow> (u32 \<times> u64) option" where
  "two_bytes event bs = (case bs of [block, balance] \<Rightarrow> Some (ucast block, ucast balance) | _ \<Rightarrow> None)"

definition agent_maker :: jobsMaker where
  "agent_maker = \<lparr>jm_unpack = two_bytes, jm_pscAddr = 1, jm_makeRatingJobAfter = 10, jm_isAgent = True\<rparr>"

definition client_maker :: jobsMaker where
  "client_maker = agent_maker\<lparr>jm_isAgent := False\<rparr>"

definition close_log :: "hash \<Rightarrow> JobEthLog" where
  "close_log t = \<lparr>elog_Block = 9, elog_Data = [7, 5], elog_Topics = [t, 1, 2, 3],
     elog_TxHash = ''t''\<rparr>"

definition bc_world :: "db \<Rightarrow> bcworld" where
  "bc_world d = world.extend (initial_world d 5) \<lparr>bc_closingsCount = 0\<rparr>"

lemma bc_world_simps [simp]:
  "w_db (bc_world d) = d" "w_faults (bc_world d) = []" "w_tx (bc_world d) = None" "can_call Conn (bc_world d)"
  "bc_closingsCount (bc_world d) = 0"
  by (simp_all add: bc_world_def initial_world_def world.extend_def)

text \<open>An offering with a hash that the log of its publication names.\<close>

definition hashed_offering :: Offering where
  "hashed_offering = sample_offering\<lparr>ofr_Hash := HexFromBytes (hash_bytes 3)\<rparr>"

definition publish_log :: JobEthLog where
  "publish_log = (close_log ServiceOfferingCreated)\<lparr>elog_Topics := [ServiceOfferingCreated, 1, 3]\<rparr>"

lemma sample_agent_jobs:
  "makeJobs agent_maker publish_log (bc_world (sample_db\<lparr>db_offerings := [hashed_offering]\<rparr>))
     = (Inr (produceCommon publish_log ''o1'' JobOffering JobAgentAfterOfferingMsgBCPublish),
        bc_world (sample_db\<lparr>db_offerings := [hashed_offering]\<rparr>))"
  by (simp add: makeJobs_def bindC_def topic_def of_option_def ret_def publish_log_def agent_maker_def
      agentJobsProducers_def eth_topics onOfferingRelatedEvent_def findOfferingID_def handleC_def select_one_ok
      OfferingTable_def hashed_offering_def sample_offering_def)

theorem agent_jobs_about_known_witness:
  "about_known publish_log (sample_db\<lparr>db_offerings := [hashed_offering]\<rparr>)
     (hd (produceCommon publish_log ''o1'' JobOffering JobAgentAfterOfferingMsgBCPublish))"
  using agent_jobs_about_known [OF _ sample_agent_jobs] by (simp add: agent_maker_def produceCommon_def)

text \<open>A database in which the job for an uncooperative close of the same channel is stored.\<close>

definition closed_db :: db where
  "closed_db = sample_db\<lparr>db_offerings := [hashed_offering],
     db_jobs := [(hd (produceCommon (close_log ServiceUnCooperativeChannelClose) ''o1'' JobOffering
       JobIncrementCurrentSupply))]\<rparr>"

lemma sample_close_jobs:
  "map job_Type (case fst (makeJobs client_maker (close_log ServiceUnCooperativeChannelClose)
      (bc_world (sample_db\<lparr>db_offerings := [hashed_offering]\<rparr>))) of Inl _ \<Rightarrow> [] | Inr js \<Rightarrow> js)
    = [JobClientRecordClosing, JobIncrementCurrentSupply]"
  by code_simp

lemma sample_second_close:
  "map job_Type (case fst (makeJobs client_maker (close_log ServiceCooperativeChannelClose) (bc_world closed_db)) of
      Inl _ \<Rightarrow> [] | Inr js \<Rightarrow> js) = [JobClientRecordClosing]"
  by code_simp

theorem uncooperative_close_recorded_coop_witness:
  "\<exists>js w' j. makeJobs client_maker (close_log ServiceUnCooperativeChannelClose)
      (bc_world (sample_db\<lparr>db_offerings := [hashed_offering]\<rparr>)) = (Inr js, w') \<and> j \<in> set js
    \<and> map_option cl_Type (rcd_Rec (fst (dec_RecordClosingData (job_Data j)))) = Some ClosingCoop"
proof -
  let ?run = "makeJobs client_maker (close_log ServiceUnCooperativeChannelClose)
      (bc_world (sample_db\<lparr>db_offerings := [hashed_offering]\<rparr>))"
  obtain js w' where run: "?run = (Inr js, w')"
    using sample_close_jobs by (cases ?run; cases "fst ?run") auto
  from uncooperative_close_recorded_coop [OF _ _ _ run] show ?thesis
    using run by (auto simp: client_maker_def agent_maker_def close_log_def)
qed

theorem supply_raised_once_witness:
  "\<exists>js w'. makeJobs client_maker (close_log ServiceCooperativeChannelClose) (bc_world closed_db) = (Inr js, w')
    \<and> (\<forall>k \<in> set js. job_Type k \<noteq> JobIncrementCurrentSupply)"
proof -
  let ?run = "makeJobs client_maker (close_log ServiceCooperativeChannelClose) (bc_world closed_db)"
  let ?j = "hd (produceCommon (close_log ServiceUnCooperativeChannelClose) ''o1'' JobOffering JobIncrementCurrentSupply)"
  obtain js w' where run: "?run = (Inr js, w')"
    using sample_second_close by (cases ?run; cases "fst ?run") auto
  from supply_raised_once [OF _ _ _ _ _ _ _ _ run, of 1 2 3 ?j "close_log ServiceUnCooperativeChannelClose" 7 5 5]
  have "\<forall>k \<in> set js. job_Type k \<noteq> JobIncrementCurrentSupply"
    by (simp add: client_maker_def agent_maker_def close_log_def closed_db_def produceCommon_def new_job_def two_bytes_def)
  with run show ?thesis by blast
qed

end
