(* ===== verification/BcMonitor.thy ===== *)
theory BcMonitor
  imports JobsMaker
begin

text \<open>
  The blockchain monitor: which blocks to scan next (\<open>src/bc/range_of_interest.go\<close>), the queries for
  logs on each side (\<open>src/bc/bc.go\<close>), and a round (\<open>src/bc/monitor.go\<close>) that turns the logs it gets into
  jobs and moves the range on, in one transaction. The node's replies are parameters. How far the
  scan has come is kept in the settings.
\<close>

section \<open>Ranges\<close>

definition safeSub :: "u64 \<Rightarrow> u64 \<Rightarrow> u64" where
  "safeSub a b = (if b < a then a - b else 0)"

text \<open>The range from the three settings; a limit that cannot be read gives the range from 0 to 0.\<close>

definition next_range :: "u64 \<Rightarrow> u64 \<Rightarrow> u64 \<Rightarrow> u64 \<Rightarrow> u64 \<times> u64" where
  "next_range latestBlock unreliableNum limitNum processed =
     (let start = (if processed = 0 then safeSub (safeSub latestBlock unreliableNum) limitNum else processed) + 1;
          last = safeSub latestBlock unreliableNum
      in (start, if limitNum \<noteq> 0 \<and> start < last \<and> limitNum < last - start then start + limitNum else last))"

definition rangeOfInterest :: "u64 \<Rightarrow> ('z, u64 \<times> u64) dbcmd" where
  "rangeOfInterest latestBlock =
     bindC (GetUint64Setting SettingMinConfirmations) (\<lambda>unreliableNum.
     handleC (GetUint64Setting SettingBlockLimit) (\<lambda>_. ret (0, 0)) (\<lambda>limitNum.
     bindC (GetUint64Setting SettingLastProcessedBlock) (\<lambda>processed.
       ret (next_range latestBlock unreliableNum limitNum processed))))"

definition offerings_range :: "u64 \<Rightarrow> u64 \<Rightarrow> u64 \<Rightarrow> u64 \<Rightarrow> u64 \<Rightarrow> u64 \<times> u64" where
  "offerings_range upBlock unreliableNum limitNum freshNum searched =
     (let lastFrom = (if searched = 0 then safeSub upBlock unreliableNum + 1 else searched);
          from = safeSub (safeSub lastFrom limitNum) 1;
          last = safeSub lastFrom 1
      in if last \<le> safeSub upBlock freshNum then (0, 0)
         else let from' = (if from < safeSub upBlock freshNum
                then safeSub (safeSub upBlock freshNum) unreliableNum else from)
              in if last \<le> from' then (0, 0) else (from', last))"

definition offeringsRangeOfInterest :: "u64 \<Rightarrow> ('z, u64 \<times> u64) dbcmd" where
  "offeringsRangeOfInterest upBlock =
     bindC (GetUint64Setting SettingMinConfirmations) (\<lambda>unreliableNum.
     bindC (GetUint64Setting SettingBlockLimit) (\<lambda>limitNum.
     bindC (GetUint64Setting SettingOfferingsFreshBlocks) (\<lambda>freshNum.
     bindC (GetUint64Setting SettingLastBackSearchBlock) (\<lambda>searched.
       ret (offerings_range upBlock unreliableNum limitNum freshNum searched)))))"

section \<open>Queries\<close>

text \<open>An empty list of topics at a position matches any topic.\<close>

record FilterQuery =
  fq_Addresses :: "address list"
  fq_FromBlock :: u64
  fq_ToBlock :: u64
  fq_Topics :: "hash list list"

text \<open>\<open>common.HexToHash\<close> is as lenient as \<open>common.HexToAddress\<close>.\<close>

definition lenient_hash :: "string \<Rightarrow> hash" where
  "lenient_hash s = (let t = (if has_0x_prefix s then drop 2 s else s)
     in BytesToHash (fst (hex_decode (if odd (length t) then CHR ''0'' # t else t))))"

definition getAddressesInUse :: "('z, hash list) dbcmd" where
  "getAddressesInUse = on_err (\<lambda>_. Text ''could not query account addresses'')
     (query Conn (\<lambda>d. map (\<lambda>a. lenient_hash (acc_EthAddr a)) (filter acc_InUse (db_accounts d))))"

definition updateLastProcessedBlock :: "u64 \<Rightarrow> ('z, unit) dbcmd" where
  "updateLastProcessedBlock to = UpdateUint64Setting Tx SettingLastProcessedBlock to"

text \<open>The result is the queries and what to do in the transaction when they are done.\<close>

definition agent_queries :: "address \<Rightarrow> address \<Rightarrow> u64 \<Rightarrow> u64 \<Rightarrow> hash list \<Rightarrow> FilterQuery list" where
  "agent_queries pscAddr ptcAddr from to addrs =
     [\<lparr>fq_Addresses = [pscAddr, ptcAddr], fq_FromBlock = from, fq_ToBlock = to,
        fq_Topics = [[ServiceChannelCreated, ServiceChannelToppedUp, ServiceChannelCloseRequested,
            ServiceOfferingCreated, ServiceOfferingDeleted, ServiceOfferingPopedUp, ServiceCooperativeChannelClose,
            ServiceUnCooperativeChannelClose, TokenApproval, TokenTransfer], addrs]\<rparr>,
      \<lparr>fq_Addresses = [ptcAddr], fq_FromBlock = from, fq_ToBlock = to, fq_Topics = [[TokenTransfer], [], addrs]\<rparr>]"

definition getAgentFilterQueries ::
  "u64 \<Rightarrow> address \<Rightarrow> address \<Rightarrow> ('z, FilterQuery list \<times> ('z, unit) dbcmd) dbcmd" where
  "getAgentFilterQueries latestBlock pscAddr ptcAddr =
     bindC (on_err (\<lambda>_. Text ''could not get range of interest'') (rangeOfInterest latestBlock)) (\<lambda>(from, to).
     if to \<le> from then ret ([], ret ())
     else bindC (on_err (\<lambda>_. Text ''could not get addresses in use'') getAddressesInUse) (\<lambda>addrs.
       ret (if addrs = [] then ([], ret ())
         else (agent_queries pscAddr ptcAddr from to addrs, updateLastProcessedBlock to))))"

definition client_queries :: "address \<Rightarrow> address \<Rightarrow> u64 \<Rightarrow> u64 \<Rightarrow> hash list \<Rightarrow> FilterQuery list" where
  "client_queries pscAddr ptcAddr from to addrs = (if to < from then [] else
     [\<lparr>fq_Addresses = [pscAddr, ptcAddr], fq_FromBlock = from, fq_ToBlock = to,
        fq_Topics = [[TokenTransfer, ServiceChannelToppedUp, ServiceChannelCloseRequested], [], addrs]\<rparr>,
      \<lparr>fq_Addresses = [ptcAddr], fq_FromBlock = from, fq_ToBlock = to,
        fq_Topics = [[TokenTransfer, TokenApproval], addrs]\<rparr>,
      \<lparr>fq_Addresses = [pscAddr], fq_FromBlock = from, fq_ToBlock = to,
        fq_Topics = [[ServiceChannelCreated, ServiceOfferingCreated, ServiceOfferingDeleted, ServiceOfferingPopedUp,
            ServiceCooperativeChannelClose, ServiceUnCooperativeChannelClose]]\<rparr>])"

definition start_block_setting :: "u64 \<Rightarrow> Setting" where
  "start_block_setting block = \<lparr>set_Key = SettingClientMonitoringStartBlock, set_Value = decimal (unat block),
     set_Permissions = 0, set_Description = Some ''Block from which (Client) monitoring started started.'',
     set_Name = ''Client monitoring start block''\<rparr>"

text \<open>The block from which offerings are searched backwards, stored when it is first needed.\<close>

definition start_block :: "u64 \<Rightarrow> ('z, u64) dbcmd" where
  "start_block latestBlock =
     handleC (select_one SettingTable Conn (\<lambda>s. set_Key s = SettingClientMonitoringStartBlock))
       (\<lambda>e. if e = NoRows then thenC (insert_row SettingTable Conn (start_block_setting latestBlock)) (ret latestBlock)
            else fail (Text ''could not get start block''))
       (\<lambda>s. bindC (of_option (Text ''could not parse start block'') (parse_uint 64 (set_Value s))) (\<lambda>val.
          if val = 0 then thenC (on_err (\<lambda>_. Text ''could not set initial start block value'')
              (save_row SettingTable Conn (s\<lparr>set_Value := decimal (unat latestBlock)\<rparr>))) (ret latestBlock)
          else ret (word_of_nat val)))"

definition getClientFilterQueries ::
  "u64 \<Rightarrow> address \<Rightarrow> address \<Rightarrow> ('z, FilterQuery list \<times> ('z, unit) dbcmd) dbcmd" where
  "getClientFilterQueries latestBlock pscAddr ptcAddr =
     bindC (on_err (\<lambda>_. Text ''could not get range of interest'') (rangeOfInterest latestBlock)) (\<lambda>(from, to).
     bindC (on_err (\<lambda>_. Text ''could not get addresses in use'') getAddressesInUse) (\<lambda>addrs.
     if addrs = [] then ret ([], ret ())
     else bindC (start_block latestBlock) (\<lambda>upBlock.
       bindC (on_err (\<lambda>_. Text ''could not get offerings range of interest'') (offeringsRangeOfInterest upBlock))
         (\<lambda>(offeringsFrom, offeringsTo).
       ret (let qs = client_queries pscAddr ptcAddr from to addrs
              @ (if offeringsTo < offeringsFrom then [] else
                  [\<lparr>fq_Addresses = [pscAddr], fq_FromBlock = offeringsFrom, fq_ToBlock = offeringsTo,
                     fq_Topics = [[ServiceOfferingCreated, ServiceOfferingPopedUp]]\<rparr>])
            in if qs = [] then ([], ret ())
               else (qs, thenC (updateLastProcessedBlock to)
                      (UpdateUint64Setting Tx SettingLastBackSearchBlock offeringsFrom)))))))"

section \<open>A round\<close>

text \<open>A log of the node.\<close>

record chain_log =
  lg_BlockNumber :: u64
  lg_Data :: bytes
  lg_Topics :: "hash list"
  lg_TxHash :: hash

definition eth_log :: "chain_log \<Rightarrow> JobEthLog" where
  "eth_log g = \<lparr>elog_Block = lg_BlockNumber g, elog_Data = lg_Data g, elog_Topics = lg_Topics g,
     elog_TxHash = HexFromBytes (hash_bytes (lg_TxHash g))\<rparr>"

text \<open>The jobs for the logs of one query, and for all queries. Logging takes the first topic, so a log
  without topics panics.\<close>

definition log_jobs :: "jobsMaker \<Rightarrow> chain_log \<Rightarrow> ('z, Job list) bccmd" where
  "log_jobs m g = thenC (guardC (lg_Topics g \<noteq> []) Panic)
     (on_err (\<lambda>e. if e = Panic then Panic else Text ''could not construct jobs'') (makeJobs m (eth_log g)))"

definition query_jobs :: "jobsMaker \<Rightarrow> (FilterQuery \<Rightarrow> chain_log list option) \<Rightarrow> FilterQuery \<Rightarrow> ('z, Job list) bccmd" where
  "query_jobs m filterLogs q = bindC (of_option (Text ''could not filter logs'') (filterLogs q)) (\<lambda>logs.
     bindC (mapC (log_jobs m) logs) (\<lambda>js. ret (concat js)))"

definition add_jobs :: "'z adder \<Rightarrow> Job list \<Rightarrow> ('z, unit) dbcmd" where
  "add_jobs add = eachC (\<lambda>j. handleC (add Tx (j\<lparr>job_CreatedBy := JobBCMonitor\<rparr>))
     (\<lambda>e. if e = Job job_ErrDuplicatedJob then ret () else fail (Text ''could not insert a job'')) (\<lambda>_. ret ()))"

definition Round ::
  "(querier \<Rightarrow> Job \<Rightarrow> ('z bcworld_scheme, go_error, Job) cmd) \<Rightarrow> jobsMaker \<Rightarrow> address \<Rightarrow> u64 option
     \<Rightarrow> (FilterQuery \<Rightarrow> chain_log list option) \<Rightarrow> ('z, unit) bccmd" where
  "Round add m ptcAddr latest filterLogs =
     bindC (of_option (Text ''could not get the latest block'') latest) (\<lambda>latestBlock.
     bindC (on_err (\<lambda>_. Text ''could not get filter logs queries'')
        (if jm_isAgent m then getAgentFilterQueries latestBlock (jm_pscAddr m) ptcAddr
         else getClientFilterQueries latestBlock (jm_pscAddr m) ptcAddr)) (\<lambda>(queries, doneRound).
     if queries = [] then ret ()
     else bindC (mapC (query_jobs m filterLogs) queries) (\<lambda>js.
       in_tx (thenC (add_jobs add (concat js)) doneRound))))"

section \<open>The first start\<close>

definition initSetting :: "string \<Rightarrow> string \<Rightarrow> string \<Rightarrow> ('z, unit) dbcmd" where
  "initSetting key desc name =
     handleC (select_one SettingTable Conn (\<lambda>s. set_Key s = key))
       (\<lambda>e. if e = NoRows then insert_row SettingTable Conn \<lparr>set_Key = key, set_Value = ''0'', set_Permissions = 1,
            set_Description = Some desc, set_Name = name\<rparr> else ret ())
       (\<lambda>_. ret ())"

definition initLastProccessedBlock :: "('z, unit) dbcmd" where
  "initLastProccessedBlock = initSetting SettingLastProcessedBlock
     ''Last block number in blockchain stores last proccessed block.'' ''last processed block''"

definition initLastOfferingSearchFromBlock :: "('z, unit) dbcmd" where
  "initLastOfferingSearchFromBlock = initSetting SettingLastBackSearchBlock
     (CHR 0x27 # ''On client, the last block offerings searched from.'') ''last back search block''"

definition NewMonitor :: "bool \<Rightarrow> ('z, unit) dbcmd" where
  "NewMonitor client = thenC (on_err (\<lambda>_. Bc bc_ErrInternal) initLastProccessedBlock)
     (whenC client (on_err (\<lambda>_. Bc bc_ErrInternal) initLastOfferingSearchFromBlock))"

section \<open>Bounds of the range\<close>

lemma unat_safeSub: "unat (safeSub a b) = unat a - unat b"
  by (auto simp: safeSub_def word_less_nat_alt unat_sub word_le_nat_alt)

text \<open>The range that is scanned next ends far enough from the head of the chain, is no longer than the
  limit, and begins right behind the last block that was processed.\<close>

theorem next_range_bounds:
  assumes "next_range latest unreliable limit processed = (from, to)" "from \<le> to" "to \<noteq> 0"
  shows "unat to + unat unreliable \<le> unat latest
    \<and> (limit \<noteq> 0 \<longrightarrow> unat to - unat from \<le> unat limit) \<and> (processed \<noteq> 0 \<longrightarrow> from = processed + 1)"
proof (intro conjI impI)
  let ?last = "safeSub latest unreliable"
  have last: "unat ?last = unat latest - unat unreliable" by (rule unat_safeSub)
  from assms(1) have to: "to = (if limit \<noteq> 0 \<and> from < ?last \<and> limit < ?last - from then from + limit else ?last)"
    and from_eq: "from = (if processed = 0 then safeSub (safeSub latest unreliable) limit else processed) + 1"
    by (auto simp: next_range_def Let_def)
  show "from = processed + 1" if "processed \<noteq> 0" using that from_eq by simp
  have cut: "unat (from + limit) = unat from + unat limit \<and> unat from + unat limit \<le> unat ?last"
    if "from < ?last" "limit < ?last - from"
  proof -
    have "unat (?last - from) = unat ?last - unat from" using that(1) by (simp add: unat_sub less_imp_le)
    with that have "unat from + unat limit < unat ?last" by (simp add: word_less_nat_alt)
    then show ?thesis using unat_less [of ?last] by (simp add: unat_word_ariths)
  qed
  have "unat to \<le> unat ?last" using to cut by (auto split: if_splits)
  moreover have "0 < unat to" using assms(3) by (simp add: unat_gt_0)
  ultimately show "unat to + unat unreliable \<le> unat latest" using last by linarith
  show "unat to - unat from \<le> unat limit" if "limit \<noteq> 0"
  proof (cases "from < ?last \<and> limit < ?last - from")
    case True
    with to cut that show ?thesis by simp
  next
    case False
    have "unat ?last - unat from \<le> unat limit"
    proof (cases "from < ?last")
      case True
      with False have "unat (?last - from) \<le> unat limit" by (simp add: not_less word_le_nat_alt [symmetric])
      with unat_sub [OF less_imp_le [OF True]] show ?thesis by simp
    next
      case no: False
      then show ?thesis by (simp add: word_le_nat_alt not_less)
    qed
    with to False show ?thesis by auto
  qed
qed

section \<open>A round is all or nothing\<close>

lemma keeps_settings:
  "keeps same_db (GetUint64Setting key)" "keeps same_db (rangeOfInterest latest)" "keeps same_db getAddressesInUse"
  "keeps same_db (getAgentFilterQueries latest psc ptc)"
proof -
  show get: "keeps same_db (GetUint64Setting key)" for key
    unfolding GetUint64Setting_def by (intro keeps_same_db)
  show range: "keeps same_db (rangeOfInterest latest)"
    unfolding rangeOfInterest_def by (intro keeps_same_db get)
  show addr: "keeps same_db getAddressesInUse"
    unfolding getAddressesInUse_def by (intro keeps_same_db)
  show "keeps same_db (getAgentFilterQueries latest psc ptc)"
    unfolding getAgentFilterQueries_def split_beta
    by (intro keeps_same_db range) (auto intro!: keeps_same_db addr)
qed

lemma keeps_query_jobs: "keeps same_db (query_jobs m filterLogs q)"
  unfolding query_jobs_def log_jobs_def by (intro keeps_same_db keeps_makeJobs)

lemma keeps_add_jobs: "keeps same_db (add_jobs (Add conf) js)"
  unfolding add_jobs_def by (intro keeps_same_db queue.add_tx) (auto intro: keeps_same_db)

lemma keeps_UpdateUint64Setting: "keeps same_db (UpdateUint64Setting Tx key val)"
  unfolding UpdateUint64Setting_def by (intro keeps_same_db)

lemma agent_queries_done:
  assumes "getAgentFilterQueries latest psc ptc w = (Inr (qs, fin), w')" "qs \<noteq> []"
  shows "\<exists>from to v v' addrs. rangeOfInterest latest w = (Inr (from, to), v) \<and> getAddressesInUse v = (Inr addrs, v')
    \<and> from < to \<and> qs = agent_queries psc ptc from to addrs \<and> fin = updateLastProcessedBlock to"
  using assms unfolding getAgentFilterQueries_def split_beta
  by (force simp: bindC_run_Inr on_err_run_Inr ret_run split: if_splits)

text \<open>C35: a round of the agent's monitor that fails leaves the database as it was: the blocks it looked at
  are looked at again.\<close>

theorem agent_Round_atomic:
  assumes "jm_isAgent m" and run: "Round (Add conf) m ptcAddr latest filterLogs w = (Inl e, w')"
  shows "w_db w' = w_db w"
proof -
  have queries: "w_db v = w_db w" if "getAgentFilterQueries b psc ptc w = (r, v)" for b psc ptc r v
    using stepsD(1) [OF keeps_settings(4) _ that] by (simp add: same_db_def)
  have logs: "w_db v' = w_db v" if "mapC (query_jobs m filterLogs) qs v = (r, v')" for qs v r v'
  proof -
    have "keeps same_db (mapC (query_jobs m filterLogs) qs)" by (intro same_db.keeps_mapC keeps_query_jobs)
    from stepsD(1) [OF this _ that] show ?thesis by (simp add: same_db_def)
  qed
  have tx: "w_db v' = w_db v" if "in_tx (thenC (add_jobs (Add conf) js) (updateLastProcessedBlock to)) v = (Inl e, v')" for js to v v' e
    using that by (rule in_tx_error [rotated])
      (auto simp: updateLastProcessedBlock_def intro: same_db.keeps_thenC keeps_add_jobs keeps_UpdateUint64Setting)
  from run assms(1) consider "latest = None" "w' = w"
    | b r where "getAgentFilterQueries b (jm_pscAddr m) ptcAddr w = (r, w')"
    | b qs fin v r where "getAgentFilterQueries b (jm_pscAddr m) ptcAddr w = (Inr (qs, fin), v)"
        "mapC (query_jobs m filterLogs) qs v = (r, w')"
    | b qs fin v js v' where "getAgentFilterQueries b (jm_pscAddr m) ptcAddr w = (Inr (qs, fin), v)" "qs \<noteq> []"
        "mapC (query_jobs m filterLogs) qs v = (Inr js, v')" "in_tx (thenC (add_jobs (Add conf) (concat js)) fin) v' = (Inl e, w')"
    unfolding Round_def
    by (auto simp: bindC_run_Inl of_option_run on_err_run_Inl on_err_run_Inr ret_run split: if_splits)
  then show ?thesis
  proof cases
    case 4
    then obtain to where "fin = updateLastProcessedBlock to" using agent_queries_done by blast
    with 4 have "w_db w' = w_db v'" using tx by blast
    with queries [OF 4(1)] logs [OF 4(3)] show ?thesis by simp
  next
    case 3
    with queries [OF 3(1)] logs [OF 3(2)] show ?thesis by simp
  qed (use queries in auto)
qed

section \<open>No block is skipped\<close>

lemma Add_duplicate:
  assumes "Add conf q j w = (Inl (Job job_ErrDuplicatedJob), w')"
  shows "\<exists>r \<in> set (db_jobs (w_db w)). duplicates j r"
  using assms unfolding Add_def Let_def
  by (auto simp: run checkDuplicated_run find_None_iff_set split: if_splits)

text \<open>A job is taken care of: it has been added, or one like it was stored before.\<close>

definition taken_care :: "Job list \<Rightarrow> Job list \<Rightarrow> Job \<Rightarrow> bool" where
  "taken_care stored jobs j \<longleftrightarrow> (\<exists>r \<in> set stored. duplicates j r)
     \<or> (\<exists>k \<in> set jobs. job_Type k = job_Type j \<and> job_RelatedID k = job_RelatedID j \<and> job_Data k = job_Data j)"

lemma add_jobs_run:
  assumes "add_jobs (Add conf) js w = (Inr (), w')"
  shows "\<exists>new. view Tx w' = (view Tx w)\<lparr>db_jobs := db_jobs (view Tx w) @ new\<rparr>
    \<and> (\<forall>j \<in> set js. taken_care (db_jobs (w_db w)) (db_jobs (view Tx w) @ new) j)"
  using assms
proof (induction js arbitrary: w)
  case Nil
  then show ?case by (auto simp: add_jobs_def ret_run intro: exI [of _ "[]"])
next
  case (Cons j js)
  let ?j = "j\<lparr>job_CreatedBy := JobBCMonitor\<rparr>"
  from Cons.prems obtain r v where add: "Add conf Tx ?j w = (r, v)"
    and r: "r = Inl (Job job_ErrDuplicatedJob) \<or> (\<exists>k. r = Inr k)"
    and rest: "add_jobs (Add conf) js v = (Inr (), w')"
    unfolding add_jobs_def by (auto simp: thenC_run_Inr handleC_run ret_run fail_run split: if_splits)
  have db: "w_db v = w_db w" using stepsD(1) [OF queue.add_tx _ add] by (simp add: same_db_def)
  have one: "\<exists>n. view Tx v = (view Tx w)\<lparr>db_jobs := db_jobs (view Tx w) @ n\<rparr>
    \<and> taken_care (db_jobs (w_db w)) (db_jobs (view Tx w) @ n) j"
  proof (cases r)
    case (Inl e)
    with r add have dup: "Add conf Tx ?j w = (Inl (Job job_ErrDuplicatedJob), v)" by auto
    have "duplicates ?j x = duplicates j x" for x by (auto simp: duplicates_def split: option.split)
    with Add_duplicate [OF dup] queue.add_fails [OF dup] show ?thesis
      by (intro exI [of _ "[]"]) (auto simp: taken_care_def)
  next
    case (Inr k)
    with add Add_run [of conf Tx ?j w k v] show ?thesis
      by (intro exI [of _ "[k]"]) (auto simp: taken_care_def)
  qed
  then obtain n where n: "view Tx v = (view Tx w)\<lparr>db_jobs := db_jobs (view Tx w) @ n\<rparr>"
    "taken_care (db_jobs (w_db w)) (db_jobs (view Tx w) @ n) j" by blast
  from Cons.IH [OF rest] obtain new where new: "view Tx w' = (view Tx v)\<lparr>db_jobs := db_jobs (view Tx v) @ new\<rparr>"
    "\<forall>j \<in> set js. taken_care (db_jobs (w_db v)) (db_jobs (view Tx v) @ new) j" by blast
  have more: "taken_care s (xs @ ys) k" if "taken_care s xs k" for s xs ys k
    using that by (auto simp: taken_care_def)
  show ?case
    using n new db more [OF n(2), of new] by (intro exI [of _ "n @ new"]) auto
qed

lemma SettingTable_simps [simp]:
  "t_rows SettingTable = db_settings" "t_key SettingTable = set_Key"
  "t_put SettingTable rs d = d\<lparr>db_settings := rs\<rparr>"
  by (simp_all add: SettingTable_def)

text \<open>A setting's value, as it is read.\<close>

definition setting :: "string \<Rightarrow> db \<Rightarrow> u64 option" where
  "setting key d = (case find (\<lambda>s. set_Key s = key) (db_settings d) of None \<Rightarrow> None
     | Some s \<Rightarrow> map_option word_of_nat (parse_uint 64 (set_Value s)))"

lemma GetUint64Setting_run:
  "GetUint64Setting key w = (Inr n, w') \<longleftrightarrow> db_call Conn w = (Inr (), w') \<and> setting key (w_db w) = Some n"
  unfolding GetUint64Setting_def setting_def by (auto simp: run split: option.splits)

lemma GetUint64Setting_ok:
  assumes "w_faults w = []" "setting key (w_db w) = Some n"
  shows "GetUint64Setting key w = (Inr n, w)"
  using assms by (simp add: GetUint64Setting_run)

lemma UpdateUint64Setting_settings:
  assumes "UpdateUint64Setting Tx key val w = (Inr (), w')"
  shows "\<exists>ss. view Tx w' = (view Tx w)\<lparr>db_settings := ss\<rparr>
    \<and> (\<forall>d. setting key (d\<lparr>db_settings := ss\<rparr>) = (if exists_row set_Key (db_settings (view Tx w)) key then Some val else None)
        \<and> (\<forall>k. k \<noteq> key \<longrightarrow> setting k (d\<lparr>db_settings := ss\<rparr>) = setting k (view Tx w)))"
proof -
  let ?up = "\<lambda>s. if set_Key s = key then s\<lparr>set_Value := decimal (unat val)\<rparr> else s"
  have parse: "parse_uint 64 (decimal (unat val)) = Some (unat val)"
    using unat_less [of val] by (intro parse_uint_decimal) simp
  have same: "find (\<lambda>s. set_Key s = k) (map ?up ss) = map_option ?up (find (\<lambda>s. set_Key s = k) ss)" for k ss
    by (induction ss) auto
  have none: "find (\<lambda>s. set_Key s = key) ss = None \<longleftrightarrow> \<not> exists_row set_Key ss key" for ss
    by (auto simp: find_None_iff_set exists_row_def list_ex_iff)
  have view: "view Tx w' = (view Tx w)\<lparr>db_settings := map ?up (db_settings (view Tx w))\<rparr>"
    using assms unfolding UpdateUint64Setting_def by (auto simp: run dest!: SettingTable.exec_update_view)
  have this_key: "setting key (d\<lparr>db_settings := map ?up ss\<rparr>) = (if exists_row set_Key ss key then Some val else None)" for d ss
  proof (cases "find (\<lambda>s. set_Key s = key) ss")
    case None
    with none [of ss] same [of key ss] show ?thesis by (simp add: setting_def)
  next
    case (Some s)
    with none [of ss] same [of key ss] parse find_Some_in [OF Some] show ?thesis by (simp add: setting_def)
  qed
  have other: "setting k (d\<lparr>db_settings := map ?up ss\<rparr>) = setting k (d'\<lparr>db_settings := ss\<rparr>)" if "k \<noteq> key" for k d d' ss
  proof (cases "find (\<lambda>s. set_Key s = k) ss")
    case None
    with same [of k ss] show ?thesis by (simp add: setting_def)
  next
    case (Some s)
    with same [of k ss] that find_Some_in [OF Some] show ?thesis by (simp add: setting_def)
  qed
  have "setting k (d\<lparr>db_settings := map ?up (db_settings (view Tx w))\<rparr>) = setting k (view Tx w)" if "k \<noteq> key" for k d
    using other [of k "db_settings (view Tx w)" d "view Tx w"] that by simp
  then show ?thesis
    using view this_key by (intro exI [of _ "map ?up (db_settings (view Tx w))"] conjI allI impI) auto
qed

lemma rangeOfInterest_run:
  assumes "rangeOfInterest latest w = (Inr (from, to), v)" "to \<noteq> 0"
  shows "\<exists>unreliable limit processed. setting SettingMinConfirmations (w_db w) = Some unreliable
    \<and> setting SettingBlockLimit (w_db w) = Some limit \<and> setting SettingLastProcessedBlock (w_db w) = Some processed
    \<and> (from, to) = next_range latest unreliable limit processed"
  using assms unfolding rangeOfInterest_def
  by (auto simp: bindC_run_Inr handleC_run ret_run GetUint64Setting_run dest!: db_call_state split: sum.splits)

lemma rangeOfInterest_ok:
  assumes "w_faults w = []" "setting SettingMinConfirmations (w_db w) = Some unreliable"
    "setting SettingBlockLimit (w_db w) = Some limit" "setting SettingLastProcessedBlock (w_db w) = Some processed"
  shows "rangeOfInterest latest w = (Inr (next_range latest unreliable limit processed), w)"
  using assms by (simp add: rangeOfInterest_def bindC_def handleC_def GetUint64Setting_ok ret_def)

lemma getAddressesInUse_run:
  "getAddressesInUse w = (Inr addrs, w') \<Longrightarrow>
     addrs = map (\<lambda>a. lenient_hash (acc_EthAddr a)) (filter acc_InUse (db_accounts (w_db w)))"
  by (auto simp: getAddressesInUse_def run query_def dest!: db_call_state)

lemma log_jobs_run: "log_jobs m g w = (Inr gs, w') \<Longrightarrow> makeJobs m (eth_log g) w = (Inr gs, w')"
  by (auto simp: log_jobs_def run)

lemma query_jobs_run:
  assumes "mapC (query_jobs m filterLogs) qs w = (Inr js, w')" "q \<in> set qs"
  shows "\<exists>logs. filterLogs q = Some logs \<and> (\<forall>g \<in> set logs. \<exists>u gs u'. same_db w u
    \<and> makeJobs m (eth_log g) u = (Inr gs, u') \<and> set gs \<subseteq> set (concat js))"
  using assms
proof (induction qs arbitrary: w js)
  case (Cons p qs)
  from Cons.prems(1) obtain j1 v js' where one: "query_jobs m filterLogs p w = (Inr j1, v)"
    and rest: "mapC (query_jobs m filterLogs) qs v = (Inr js', w')" and js: "js = j1 # js'"
    by (auto simp: bindC_run_Inr ret_run)
  have v: "w_db v = w_db w" using stepsD(1) [OF keeps_query_jobs _ one] by (simp add: same_db_def)
  show ?case
  proof (cases "q = p")
    case True
    from one obtain logs k where logs: "filterLogs p = Some logs" "mapC (log_jobs m) logs w = (Inr k, v)" "j1 = concat k"
      by (auto simp: query_jobs_def bindC_run_Inr of_option_run ret_run)
    have "\<exists>u gs u'. same_db w u \<and> makeJobs m (eth_log g) u = (Inr gs, u') \<and> set gs \<subseteq> set (concat k)"
      if "g \<in> set logs" for g
      using logs(2) that
    proof (induction logs arbitrary: w k)
      case (Cons h logs)
      from Cons.prems(1) obtain gs v' k' where h: "makeJobs m (eth_log h) w = (Inr gs, v')"
        and rest: "mapC (log_jobs m) logs v' = (Inr k', v)" and k: "k = gs # k'"
        by (auto simp: bindC_run_Inr ret_run dest: log_jobs_run)
      have "w_db v' = w_db w" using stepsD(1) [OF keeps_makeJobs _ h] by (simp add: same_db_def)
      show ?case
      proof (cases "g = h")
        case True
        with h k show ?thesis by (intro exI [of _ w] exI [of _ gs] exI [of _ v']) (auto simp: same_db_def)
      next
        case False
        with Cons.prems(2) Cons.IH [OF rest] \<open>w_db v' = w_db w\<close> k show ?thesis
          by (auto simp: same_db_def)
      qed
    qed simp
    moreover have "set (concat k) \<subseteq> set (concat js)" using js logs(3) by auto
    ultimately show ?thesis using True logs(1) by (meson subset_trans)
  next
    case False
    with Cons.IH [OF rest] Cons.prems(2) js v show ?thesis
      by (simp add: same_db_def) (meson le_supI2)
  qed
qed simp

text \<open>The addresses in use, whose logs the agent asks for.\<close>

abbreviation used_addresses :: "db \<Rightarrow> hash list" where
  "used_addresses d \<equiv> map (\<lambda>a. lenient_hash (acc_EthAddr a)) (filter acc_InUse (db_accounts d))"

lemma agent_queries_run:
  assumes queries: "getAgentFilterQueries latest pscAddr ptcAddr w = (Inr (qs, fin), v1)"
    and range: "rangeOfInterest latest w = (Inr (from, to), v)" "from < to"
    and used: "\<exists>a \<in> set (db_accounts (w_db w)). acc_InUse a"
  shows "w_db v1 = w_db w \<and> qs = agent_queries pscAddr ptcAddr from to (used_addresses (w_db w))
    \<and> fin = updateLastProcessedBlock to \<and> qs \<noteq> []"
proof -
  from queries range obtain v2 addrs where addr: "getAddressesInUse v = (Inr addrs, v2)"
    and qs: "(qs, fin) = (if addrs = [] then ([], ret ())
      else (agent_queries pscAddr ptcAddr from to addrs, updateLastProcessedBlock to))"
    unfolding getAgentFilterQueries_def
    by (auto simp: bindC_run_Inr on_err_run_Inr ret_run linorder_not_le [symmetric] simp del: linorder_not_le)
  have dbv: "w_db v = w_db w" using stepsD(1) [OF keeps_settings(2) _ range(1)] by (simp add: same_db_def)
  have "w_db v1 = w_db w" using stepsD(1) [OF keeps_settings(4) _ queries] by (simp add: same_db_def)
  moreover have addrs: "addrs = used_addresses (w_db w)" using getAddressesInUse_run [OF addr] dbv by simp
  moreover have "addrs \<noteq> []" using addrs used by (auto simp: filter_empty_conv)
  ultimately show ?thesis using qs by (auto simp: agent_queries_def)
qed

text \<open>What the transaction at the end of a round stores.\<close>

lemma round_stored:
  assumes tx: "in_tx (thenC (add_jobs (Add conf) js) (updateLastProcessedBlock to)) v = (Inr (), w')"
  obtains new ss where "w_db w' = (w_db v)\<lparr>db_jobs := db_jobs (w_db v) @ new, db_settings := ss\<rparr>"
    "\<forall>j \<in> set js. taken_care (db_jobs (w_db v)) (db_jobs (w_db v) @ new) j"
    "\<forall>d. setting SettingLastProcessedBlock (d\<lparr>db_settings := ss\<rparr>)
        = (if exists_row set_Key (db_settings (w_db v)) SettingLastProcessedBlock then Some to else None)
      \<and> (\<forall>k. k \<noteq> SettingLastProcessedBlock \<longrightarrow> setting k (d\<lparr>db_settings := ss\<rparr>) = setting k (w_db v))"
proof -
  from tx obtain bs v5 where
    body: "thenC (add_jobs (Add conf) js) (updateLastProcessedBlock to) (v\<lparr>w_faults := bs, w_tx := Some (w_db v)\<rparr>) = (Inr (), v5)"
    and db': "w_db w' = view Tx v5"
    by (rule in_tx_success)
  let ?v = "v\<lparr>w_faults := bs, w_tx := Some (w_db v)\<rparr>"
  from body obtain v4 where add: "add_jobs (Add conf) js ?v = (Inr (), v4)"
    and upd: "UpdateUint64Setting Tx SettingLastProcessedBlock to v4 = (Inr (), v5)"
    unfolding updateLastProcessedBlock_def by (auto simp: thenC_run_Inr)
  from add_jobs_run [OF add] obtain new where v4: "view Tx v4 = (w_db v)\<lparr>db_jobs := db_jobs (w_db v) @ new\<rparr>"
    and care: "\<forall>j \<in> set js. taken_care (db_jobs (w_db v)) (db_jobs (w_db v) @ new) j"
    by auto
  have sv4: "setting k (view Tx v4) = setting k (w_db v)"
    "exists_row set_Key (db_settings (view Tx v4)) = exists_row set_Key (db_settings (w_db v))" for k
    by (simp_all add: v4 setting_def)
  from UpdateUint64Setting_settings [OF upd] obtain ss where v5: "view Tx v5 = (view Tx v4)\<lparr>db_settings := ss\<rparr>"
    and ss: "\<forall>d. setting SettingLastProcessedBlock (d\<lparr>db_settings := ss\<rparr>)
        = (if exists_row set_Key (db_settings (w_db v)) SettingLastProcessedBlock then Some to else None)
      \<and> (\<forall>k. k \<noteq> SettingLastProcessedBlock \<longrightarrow> setting k (d\<lparr>db_settings := ss\<rparr>) = setting k (w_db v))"
    unfolding sv4 by blast
  have "w_db w' = (w_db v)\<lparr>db_jobs := db_jobs (w_db v) @ new, db_settings := ss\<rparr>" using db' v5 v4 by simp
  from that [OF this care ss] show ?thesis .
qed

lemma next_scan:
  assumes range: "rangeOfInterest latest w = (Inr (from, to), v)" "from < to" and calm: "w_faults w' = []"
    and moved: "setting SettingLastProcessedBlock (w_db w')
        = (if exists_row set_Key (db_settings (w_db w)) SettingLastProcessedBlock then Some to else None)"
      "\<And>k. k \<noteq> SettingLastProcessedBlock \<Longrightarrow> setting k (w_db w') = setting k (w_db w)"
  shows "map_sum id fst (fst (rangeOfInterest later w')) = Inr (to + 1)"
proof -
  from range(2) have to: "to \<noteq> 0" by auto
  from rangeOfInterest_run [OF range(1) this] obtain unreliable limit processed where
    old: "setting SettingMinConfirmations (w_db w) = Some unreliable" "setting SettingBlockLimit (w_db w) = Some limit"
      "setting SettingLastProcessedBlock (w_db w) = Some processed" by blast
  have "exists_row set_Key (db_settings (w_db w)) SettingLastProcessedBlock"
    using old(3) by (auto simp: setting_def exists_row_def list_ex_iff dest: find_Some_in split: option.splits)
  with moved old have "setting SettingMinConfirmations (w_db w') = Some unreliable"
    "setting SettingBlockLimit (w_db w') = Some limit" "setting SettingLastProcessedBlock (w_db w') = Some to"
    by (simp_all add: setting_keys)
  from rangeOfInterest_ok [OF calm this] to show ?thesis by (simp add: next_range_def Let_def)
qed

text \<open>C3: no block is left out. After a round of the agent's monitor that succeeds, every log the node
  gave for the agent's addresses in the range has been turned into jobs, each of these jobs is stored
  or was stored before, and the next range begins one block behind this one.\<close>

theorem scan_without_gaps:
  assumes agent: "jm_isAgent m" and run: "Round (Add conf) m ptcAddr (Some latest) filterLogs w = (Inr (), w')"
    and range: "rangeOfInterest latest w = (Inr (from, to), v)" "from < to"
    and used: "\<exists>a \<in> set (db_accounts (w_db w)). acc_InUse a" and calm: "w_faults w' = []"
  shows "(\<forall>q \<in> set (agent_queries (jm_pscAddr m) ptcAddr from to
            (map (\<lambda>a. lenient_hash (acc_EthAddr a)) (filter acc_InUse (db_accounts (w_db w))))).
      \<exists>logs. filterLogs q = Some logs \<and> (\<forall>g \<in> set logs. \<exists>u js u'. same_db w u
        \<and> makeJobs m (eth_log g) u = (Inr js, u')
        \<and> (\<forall>j \<in> set js. taken_care (db_jobs (w_db w)) (db_jobs (w_db w')) j)))
    \<and> map_sum id fst (fst (rangeOfInterest later w')) = Inr (to + 1)"
proof
  from run agent obtain qs fin v1 where queries: "getAgentFilterQueries latest (jm_pscAddr m) ptcAddr w = (Inr (qs, fin), v1)"
    and rest: "(if qs = [] then ret () else bindC (mapC (query_jobs m filterLogs) qs) (\<lambda>js.
       in_tx (thenC (add_jobs (Add conf) (concat js)) fin))) v1 = (Inr (), w')"
    unfolding Round_def by (auto simp: bindC_run_Inr of_option_run on_err_run_Inr)
  note q = agent_queries_run [OF queries range used]
  with rest obtain js v3 where js: "mapC (query_jobs m filterLogs) qs v1 = (Inr js, v3)"
    and tx: "in_tx (thenC (add_jobs (Add conf) (concat js)) (updateLastProcessedBlock to)) v3 = (Inr (), w')"
    by (auto simp: bindC_run_Inr)
  have "keeps same_db (mapC (query_jobs m filterLogs) qs)" by (intro same_db.keeps_mapC keeps_query_jobs)
  from stepsD(1) [OF this _ js] q have v3: "w_db v3 = w_db w" by (simp add: same_db_def)
  obtain new ss where
    db': "w_db w' = (w_db w)\<lparr>db_jobs := db_jobs (w_db w) @ new, db_settings := ss\<rparr>"
    and care: "\<forall>j \<in> set (concat js). taken_care (db_jobs (w_db w)) (db_jobs (w_db w) @ new) j"
    and ss: "\<forall>d. setting SettingLastProcessedBlock (d\<lparr>db_settings := ss\<rparr>)
        = (if exists_row set_Key (db_settings (w_db w)) SettingLastProcessedBlock then Some to else None)
      \<and> (\<forall>k. k \<noteq> SettingLastProcessedBlock \<longrightarrow> setting k (d\<lparr>db_settings := ss\<rparr>) = setting k (w_db w))"
    by (rule round_stored [OF tx, unfolded v3])
  have jobs: "db_jobs (w_db w') = db_jobs (w_db w) @ new" using db' by simp
  have dbv1: "w_db v1 = w_db w" and qs: "qs = agent_queries (jm_pscAddr m) ptcAddr from to (used_addresses (w_db w))"
    using q by simp_all
  show "\<forall>q \<in> set (agent_queries (jm_pscAddr m) ptcAddr from to
            (map (\<lambda>a. lenient_hash (acc_EthAddr a)) (filter acc_InUse (db_accounts (w_db w))))).
      \<exists>logs. filterLogs q = Some logs \<and> (\<forall>g \<in> set logs. \<exists>u js u'. same_db w u
        \<and> makeJobs m (eth_log g) u = (Inr js, u')
        \<and> (\<forall>j \<in> set js. taken_care (db_jobs (w_db w)) (db_jobs (w_db w')) j))"
    unfolding qs [symmetric] jobs
    using query_jobs_run [OF js] dbv1 care unfolding same_db_def by (metis (no_types, lifting) subset_iff)
  show "map_sum id fst (fst (rangeOfInterest later w')) = Inr (to + 1)"
    using ss by (intro next_scan [OF range calm]) (simp_all add: db')
qed

section \<open>No log is worked on anew\<close>

text \<open>The jobs of the committed database stay.\<close>

definition same_jobs :: "'z world_scheme \<Rightarrow> 'z world_scheme \<Rightarrow> bool" where
  "same_jobs w w' \<longleftrightarrow> db_jobs (w_db w') = db_jobs (w_db w)"

interpretation same_jobs: db_effect same_jobs
  by unfold_locales (auto simp: same_jobs_def)

lemmas keeps_same_jobs = same_jobs.keeps_reads same_jobs.keeps_rules same_jobs.keeps_bindC same_jobs.keeps_thenC
  same_jobs.keeps_handleC same_jobs.steps_on_err same_jobs.keeps_db_call

lemma keeps_setting_rows: "keeps same_jobs (insert_row SettingTable Conn s)" "keeps same_jobs (save_row SettingTable Conn s)"
proof -
  show ins: "keeps same_jobs (insert_row SettingTable Conn s)" for s
    unfolding insert_row_def by (intro keeps_same_jobs same_jobs.keeps_modC) (simp add: same_jobs_def)
  show "keeps same_jobs (save_row SettingTable Conn s)"
    unfolding save_row_def update_row_def
    by (intro keeps_same_jobs same_jobs.keeps_modC) (auto intro: keeps_same_jobs ins simp: same_jobs_def)
qed

lemma same_db_jobs: "keeps same_db m \<Longrightarrow> keeps same_jobs m"
  by (rule stepsI) (auto simp: same_db_def same_jobs_def dest: stepsD(1))

lemma keeps_jobs_queries:
  "keeps same_jobs (getAgentFilterQueries b psc ptc)" "keeps same_jobs (getClientFilterQueries b psc ptc)"
proof -
  note up = same_db_jobs
  show "keeps same_jobs (getAgentFilterQueries b psc ptc)" by (rule up) (rule keeps_settings)
  have off: "keeps same_db (offeringsRangeOfInterest n)" for n
    unfolding offeringsRangeOfInterest_def by (intro keeps_same_db keeps_settings)
  have start: "keeps same_jobs (start_block b)"
    unfolding start_block_def by (intro keeps_same_jobs keeps_setting_rows) (auto intro: keeps_same_jobs keeps_setting_rows)
  show "keeps same_jobs (getClientFilterQueries b psc ptc)"
    unfolding getClientFilterQueries_def split_beta
    by (auto intro!: keeps_same_jobs start up [OF off] up [OF keeps_settings(2)] up [OF keeps_settings(3)])
qed

text \<open>What is done at the end of the transaction adds no jobs.\<close>

definition adds_no_jobs :: "('z, unit) dbcmd \<Rightarrow> bool" where
  "adds_no_jobs m \<longleftrightarrow> keeps same_db m \<and> (\<forall>w w'. m w = (Inr (), w') \<longrightarrow> db_jobs (view Tx w') = db_jobs (view Tx w))"

lemma update_adds_no_jobs: "adds_no_jobs (UpdateUint64Setting Tx key val)"
  using UpdateUint64Setting_settings [of key val] keeps_UpdateUint64Setting [of key val]
  by (fastforce simp: adds_no_jobs_def)

lemma done_adds_no_jobs:
  "getAgentFilterQueries b psc ptc w = (Inr (qs, fin), w') \<Longrightarrow> adds_no_jobs fin"
  "getClientFilterQueries b psc ptc w = (Inr (qs, fin), w') \<Longrightarrow> adds_no_jobs fin"
proof -
  have ret: "adds_no_jobs (ret ())" by (simp add: adds_no_jobs_def ret_run same_db.keeps_rules)
  have both: "adds_no_jobs (thenC m k)" if "adds_no_jobs m" "adds_no_jobs k" for m k :: "('z, unit) dbcmd"
    using that unfolding adds_no_jobs_def by (auto simp: thenC_run_Inr intro: same_db.keeps_thenC)
  note parts = ret both update_adds_no_jobs
  show "getAgentFilterQueries b psc ptc w = (Inr (qs, fin), w') \<Longrightarrow> adds_no_jobs fin"
    unfolding getAgentFilterQueries_def updateLastProcessedBlock_def
    by (auto simp: bindC_run_Inr on_err_run_Inr ret_run parts split: if_splits prod.splits)
  show "getClientFilterQueries b psc ptc w = (Inr (qs, fin), w') \<Longrightarrow> adds_no_jobs fin"
    unfolding getClientFilterQueries_def updateLastProcessedBlock_def Let_def
    by (auto simp: bindC_run_Inr on_err_run_Inr ret_run parts split: if_splits prod.splits)
qed

text \<open>None of the jobs that are added is one of the rows that were committed before.\<close>

definition all_new :: "Config \<Rightarrow> Job list \<Rightarrow> Job list \<Rightarrow> bool" where
  "all_new conf stored new \<longleftrightarrow> (\<forall>k \<in> set new. Duplicated (typeConfig conf (job_Type k)) \<or> (\<forall>r \<in> set stored. \<not> duplicates k r))"

lemma add_jobs_new:
  assumes "add_jobs (Add conf) js w = (Inr (), w')"
  shows "\<exists>new. db_jobs (view Tx w') = db_jobs (view Tx w) @ new \<and> all_new conf (db_jobs (w_db w)) new"
  using assms
proof (induction js arbitrary: w)
  case Nil
  then show ?case by (auto simp: add_jobs_def ret_run all_new_def)
next
  case (Cons j js)
  let ?j = "j\<lparr>job_CreatedBy := JobBCMonitor\<rparr>"
  from Cons.prems obtain r v where add: "Add conf Tx ?j w = (r, v)"
    and rest: "add_jobs (Add conf) js v = (Inr (), w')"
    unfolding add_jobs_def by (auto simp: thenC_run_Inr handleC_run ret_run fail_run split: if_splits)
  have db: "w_db v = w_db w" using stepsD(1) [OF queue.add_tx _ add] by (simp add: same_db_def)
  have "\<exists>n. db_jobs (view Tx v) = db_jobs (view Tx w) @ n \<and> all_new conf (db_jobs (w_db w)) n"
  proof (cases r)
    case (Inl e)
    with add queue.add_fails show ?thesis by (fastforce simp: all_new_def)
  next
    case (Inr k)
    note k = Add_run [OF add [unfolded Inr]]
    have "duplicates k x = duplicates ?j x" for x unfolding duplicates_def k(3-5) by (simp split: option.split)
    with k(1,3,9) show ?thesis by (intro exI [of _ "[k]"]) (auto simp: all_new_def)
  qed
  then obtain n where "db_jobs (view Tx v) = db_jobs (view Tx w) @ n" "all_new conf (db_jobs (w_db w)) n" by blast
  moreover from Cons.IH [OF rest] obtain m where "db_jobs (view Tx w') = db_jobs (view Tx v) @ m" "all_new conf (db_jobs (w_db v)) m"
    by blast
  ultimately show ?case using db by (intro exI [of _ "n @ m"]) (auto simp: all_new_def)
qed

lemma round_tx_new:
  assumes "in_tx (thenC (add_jobs (Add conf) js) fin) w = (r, w')" "adds_no_jobs fin"
  shows "\<exists>new. db_jobs (w_db w') = db_jobs (w_db w) @ new \<and> all_new conf (db_jobs (w_db w)) new"
proof (cases r)
  case (Inl e)
  have "keeps same_db (thenC (add_jobs (Add conf) js) fin)"
    using assms(2) by (auto simp: adds_no_jobs_def intro: same_db.keeps_thenC keeps_add_jobs)
  from in_tx_error [OF this] assms(1) Inl show ?thesis by (auto simp: all_new_def)
next
  case (Inr u)
  with assms(1) obtain bs v where body: "thenC (add_jobs (Add conf) js) fin (w\<lparr>w_faults := bs, w_tx := Some (w_db w)\<rparr>) = (Inr u, v)"
    and w': "w_db w' = view Tx v" using in_tx_success by metis
  then obtain t where t: "add_jobs (Add conf) js (w\<lparr>w_faults := bs, w_tx := Some (w_db w)\<rparr>) = (Inr (), t)" "fin t = (Inr (), v)"
    by (auto simp: thenC_run_Inr)
  from add_jobs_new [OF t(1)] t(2) assms(2) w' show ?thesis by (auto simp: adds_no_jobs_def)
qed

lemma round_cases [case_names 1 2 3 4]:
  assumes "bindC (of_option e latest) (\<lambda>b. bindC (on_err g (get b)) (\<lambda>(qs, fin). if qs = [] then ret ()
    else bindC (mapC f qs) (\<lambda>js. in_tx (thenC (add js) fin)))) w = (r, w')"
  obtains "w' = w" | b x where "get b w = (x, w')"
    | b qs fin v x where "get b w = (Inr (qs, fin), v)" "mapC f qs v = (x, w')"
    | b qs fin v js v' where "get b w = (Inr (qs, fin), v)" "mapC f qs v = (Inr js, v')"
        "in_tx (thenC (add js) fin) v' = (r, w')"
proof (cases latest)
  case None
  with assms that(1) show ?thesis by (simp add: bindC_def of_option_def fail_def)
next
  case (Some b)
  obtain x v where get: "get b w = (x, v)" by (cases "get b w")
  show ?thesis
  proof (cases "\<exists>qs fin. x = Inr (qs, fin) \<and> qs \<noteq> []")
    case False
    with Some get assms have "w' = v" by (cases x) (auto simp: bindC_def of_option_def on_err_def ret_def)
    with get that(2) show ?thesis by simp
  next
    case True
    then obtain qs fin where x: "x = Inr (qs, fin)" "qs \<noteq> []" by blast
    obtain y v' where js: "mapC f qs v = (y, v')" by (cases "mapC f qs v")
    have run: "(case y of Inl e \<Rightarrow> (Inl e, v') | Inr js \<Rightarrow> in_tx (thenC (add js) fin) v') = (r, w')"
      using assms Some get x js by (simp add: bindC_def of_option_def on_err_def ret_def)
    show ?thesis using run get x js that(3,4) by (cases y) auto
  qed
qed

lemma Round_new:
  fixes w :: "'a bcworld_scheme"
  assumes "Round (Add conf) m ptcAddr latest filterLogs w = (r, w')"
  shows "\<exists>new. db_jobs (w_db w') = db_jobs (w_db w) @ new \<and> all_new conf (db_jobs (w_db w)) new"
proof -
  define get :: "u64 \<Rightarrow> ('a bcworld_scheme, go_error, FilterQuery list \<times> ('a bcworld_scheme, go_error, unit) cmd) cmd"
    where "get b = (if jm_isAgent m then getAgentFilterQueries b (jm_pscAddr m) ptcAddr
    else getClientFilterQueries b (jm_pscAddr m) ptcAddr)" for b
  have queries: "db_jobs (w_db v) = db_jobs (w_db w)" if "get b w = (x, v)" for b x v
    using that stepsD(1) [OF keeps_jobs_queries(1)] stepsD(1) [OF keeps_jobs_queries(2)]
    by (auto simp: same_jobs_def get_def split: if_splits)
  have logs: "w_db v' = w_db v" if "mapC (query_jobs m filterLogs) qs v = (x, v')" for qs v x v'
    using stepsD(1) [OF same_db.keeps_mapC [OF keeps_query_jobs] TrueI that] by (simp add: same_db_def)
  have none: ?thesis if "db_jobs (w_db w') = db_jobs (w_db w)" using that by (auto simp: all_new_def)
  show ?thesis
    using assms unfolding Round_def get_def [symmetric]
  proof (cases rule: round_cases)
    case (4 b qs fin v js v')
    have "adds_no_jobs fin" using 4(1) done_adds_no_jobs by (auto simp: get_def split: if_splits)
    from round_tx_new [OF 4(3) this] queries [OF 4(1)] logs [OF 4(2)] show ?thesis by simp
  next
    case (3 b qs fin v x)
    with queries [OF 3(1)] logs [OF 3(2)] none show ?thesis by simp
  qed (use none queries in auto)
qed

text \<open>C10: no round works on a log anew. Whether a round of the monitor succeeds or fails, it only adds jobs, and none of
  them is for a log that a job of the same type for the same object was stored for when the round began,
  whatever became of that job; but for the types whose configuration allows duplicates and for updates of
  balances, which any log may ask for. (Two jobs of one round may still be for one log: inside the
  transaction the check does not see what the round itself has added.)\<close>

theorem round_never_repeats:
  assumes "Round (Add conf) m ptcAddr latest filterLogs w = (r, w')"
  shows "\<exists>new. db_jobs (w_db w') = db_jobs (w_db w) @ new
    \<and> (\<forall>k l. k \<in> set new \<and> job_Data k = Some (enc_JobData (Some l)) \<and> job_Type k \<noteq> JobAccountUpdateBalances
        \<and> \<not> Duplicated (typeConfig conf (job_Type k))
        \<longrightarrow> (\<forall>j \<in> set (db_jobs (w_db w)). \<not> (job_Type j = job_Type k \<and> job_RelatedID j = job_RelatedID k
              \<and> log_hash j = Some (elog_TxHash l))))"
proof -
  from Round_new [OF assms] obtain new where new: "db_jobs (w_db w') = db_jobs (w_db w) @ new" "all_new conf (db_jobs (w_db w)) new"
    by blast
  then show ?thesis using log_hash_duplicates unfolding all_new_def by (intro exI [of _ new]) metis
qed

section \<open>Concrete instances\<close>

text \<open>An agent's database with the three settings, of which ten blocks have been processed.\<close>

definition number_setting :: "string \<Rightarrow> string \<Rightarrow> Setting" where
  "number_setting key val = \<lparr>set_Key = key, set_Value = val, set_Permissions = 2, set_Description = None, set_Name = key\<rparr>"

definition chain_db :: db where
  "chain_db = sample_db\<lparr>db_offerings := [hashed_offering], db_settings :=
     [number_setting SettingMinConfirmations ''3'', number_setting SettingBlockLimit ''5'',
      number_setting SettingLastProcessedBlock ''10'']\<rparr>"

definition publication :: chain_log where
  "publication = \<lparr>lg_BlockNumber = 12, lg_Data = [7, 5], lg_Topics = [ServiceOfferingCreated, 0xaa, 3], lg_TxHash = 4\<rparr>"

definition sample_node :: "FilterQuery \<Rightarrow> chain_log list option" where
  "sample_node q = Some (if fq_Addresses q = [1, 2] then [publication] else [])"

theorem next_range_bounds_witness:
  "next_range 100 3 5 10 = (11, 16) \<and> unat (16 :: u64) + unat (3 :: u64) \<le> unat (100 :: u64)
   \<and> unat (16 :: u64) - unat (11 :: u64) \<le> unat (5 :: u64) \<and> (11 :: u64) = 10 + 1"
  using next_range_bounds [of 100 3 5 10 11 16] by (simp add: next_range_def safeSub_def Let_def)

lemma sample_range: "fst (rangeOfInterest 100 (bc_world chain_db)) = Inr (11, 16)"
  by code_simp

definition sample_Round :: "(FilterQuery \<Rightarrow> chain_log list option) \<Rightarrow> (go_error + unit) \<times> bcworld" where
  "sample_Round node = Round (Add NewConfig) agent_maker 2 (Some 100) node (bc_world chain_db)"

lemma sample_Round_runs:
  "(case sample_Round sample_node of (r, w) \<Rightarrow> r = Inr () \<and> w_faults w = [])
   \<and> (case fst (sample_Round (\<lambda>_. None)) of Inl e \<Rightarrow> True | _ \<Rightarrow> False)"
  by code_simp

theorem agent_Round_atomic_witness:
  "\<exists>e w'. sample_Round (\<lambda>_. None) = (Inl e, w') \<and> w_db w' = chain_db"
proof -
  obtain e w' where run: "sample_Round (\<lambda>_. None) = (Inl e, w')"
    using sample_Round_runs by (cases "sample_Round (\<lambda>_. None)") (auto split: sum.splits)
  have "jm_isAgent agent_maker" by (simp add: agent_maker_def)
  from agent_Round_atomic [OF this run [unfolded sample_Round_def]] run show ?thesis by auto
qed

theorem scan_without_gaps_witness:
  "\<exists>w'. sample_Round sample_node = (Inr (), w') \<and> map_sum id fst (fst (rangeOfInterest 200 w')) = Inr 17"
proof -
  obtain w' where run: "sample_Round sample_node = (Inr (), w')" "w_faults w' = []"
    using sample_Round_runs by (cases "sample_Round sample_node") auto
  obtain v where range: "rangeOfInterest 100 (bc_world chain_db) = (Inr (11, 16), v)"
    using sample_range by (cases "rangeOfInterest 100 (bc_world chain_db)") auto
  have "jm_isAgent agent_maker" "\<exists>a \<in> set (db_accounts (w_db (bc_world chain_db))). acc_InUse a"
    by (simp_all add: agent_maker_def chain_db_def sample_account_def)
  from scan_without_gaps [THEN conjunct2, OF this(1) run(1) [unfolded sample_Round_def] range _ this(2) run(2)] run(1)
  show ?thesis by auto
qed

text \<open>The jobs of the round are done, and the same blocks are looked at again.\<close>

definition done_db :: db where
  "done_db = chain_db\<lparr>db_jobs := map (\<lambda>j. j\<lparr>job_Status := JobDone\<rparr>) (db_jobs (w_db (snd (sample_Round sample_node))))\<rparr>"

lemma repeated_Round_runs:
  "(case Round (Add NewConfig) agent_maker 2 (Some 100) sample_node (bc_world done_db) of (r, w) \<Rightarrow>
     r = Inr () \<and> length (db_jobs (w_db w)) = 2) \<and> length (db_jobs done_db) = 2"
  by code_simp

theorem round_never_repeats_witness:
  "\<exists>w'. Round (Add NewConfig) agent_maker 2 (Some 100) sample_node (bc_world done_db) = (Inr (), w') \<and> db_jobs (w_db w') = db_jobs done_db"
proof -
  obtain w' where run: "Round (Add NewConfig) agent_maker 2 (Some 100) sample_node (bc_world done_db) = (Inr (), w')"
    "length (db_jobs (w_db w')) = 2"
    using repeated_Round_runs by (cases "Round (Add NewConfig) agent_maker 2 (Some 100) sample_node (bc_world done_db)") auto
  obtain new where "db_jobs (w_db w') = db_jobs (w_db (bc_world done_db)) @ new"
    using round_never_repeats [OF run(1)] by blast
  moreover have "w_db (bc_world done_db) = done_db" by simp
  ultimately show ?thesis using run repeated_Round_runs by simp
qed

end
