(* ===== verification/Messages.thy ===== *)
theory Messages
  imports ClientBilling
begin

text \<open>
  What agents and clients send each other: the sealing of messages (\<open>src/messages/crypto.go\<close>), the
  message that describes an offering (\<open>src/messages/offer\<close>), and the endpoint message that tells a
  client how to connect (\<open>src/messages/ept\<close>). The cryptographic functions, which may fail, are
  parameters; those that are randomised are taken at the values of one run. So are the JSON
  Schema validator and the text that \<open>encoding/json\<close> makes of a message.
\<close>

section \<open>Signing and sealing\<close>

record 'k Crypto =
  cr_kec :: "bytes \<Rightarrow> bytes"
  cr_sign :: "'k \<Rightarrow> bytes \<Rightarrow> bytes option"
  cr_valid :: "bytes \<Rightarrow> bytes \<Rightarrow> bytes \<Rightarrow> bool"
  cr_encrypt :: "bytes \<Rightarrow> bytes \<Rightarrow> bytes option"
  cr_decrypt :: "'k \<Rightarrow> bytes \<Rightarrow> bytes option"
  cr_address :: "'k \<Rightarrow> address"
  cr_pub_address :: "bytes \<Rightarrow> address option"

definition sigLen :: nat where
  "sigLen = 64"

definition packSignature :: "bytes \<Rightarrow> bytes \<Rightarrow> bytes" where
  "packSignature msg sig = msg @ sig"

text \<open>The last byte of a signature is dropped.\<close>

definition signature :: "'k Crypto \<Rightarrow> 'k \<Rightarrow> bytes \<Rightarrow> go_error + bytes" where
  "signature cr key msg = (case cr_sign cr key (cr_kec cr msg) of
     None \<Rightarrow> Inl (Text ''sign'') | Some sig \<Rightarrow> if sig = [] then Inl Panic else Inr (butlast sig))"

definition PackWithSignature :: "'k Crypto \<Rightarrow> bytes \<Rightarrow> 'k \<Rightarrow> go_error + bytes" where
  "PackWithSignature cr msg key = (case signature cr key msg of
     Inl e \<Rightarrow> Inl e | Inr sig \<Rightarrow> Inr (packSignature msg sig))"

text \<open>Slicing a message that is shorter than a signature panics.\<close>

definition UnpackSignature :: "bytes \<Rightarrow> go_error + bytes \<times> bytes" where
  "UnpackSignature c = (if length c < sigLen then Inl Panic
     else Inr (take (length c - sigLen) c, drop (length c - sigLen) c))"

definition VerifySignature :: "'k Crypto \<Rightarrow> bytes \<Rightarrow> bytes \<Rightarrow> bytes \<Rightarrow> bool" where
  "VerifySignature cr pubk msg sig = cr_valid cr pubk msg sig"

definition AgentSeal :: "'k Crypto \<Rightarrow> bytes \<Rightarrow> bytes \<Rightarrow> 'k \<Rightarrow> go_error + bytes" where
  "AgentSeal cr msg clientPub agentKey = (case cr_encrypt cr clientPub msg of
     None \<Rightarrow> Inl (Text ''encrypt'') | Some msgEncrypted \<Rightarrow> PackWithSignature cr msgEncrypted agentKey)"

definition ClientOpen :: "'k Crypto \<Rightarrow> bytes \<Rightarrow> bytes \<Rightarrow> 'k \<Rightarrow> go_error + bytes" where
  "ClientOpen cr c agentPub clientPrv = (case UnpackSignature c of
     Inl e \<Rightarrow> Inl e
   | Inr (sealed, sig) \<Rightarrow>
       if \<not> VerifySignature cr agentPub (cr_kec cr sealed) sig then Inl (Msg msg_ErrWrongSignature)
       else (case cr_decrypt cr clientPrv sealed of None \<Rightarrow> Inl (Text ''decrypt'') | Some opened \<Rightarrow> Inr opened))"

text \<open>The documented behaviour of the primitives: signatures have 65 bytes, of which the first 64
  verify under the public key that belongs to the key, and what is encrypted for a public key its
  key decrypts.\<close>

definition signs_for :: "'k Crypto \<Rightarrow> 'k \<Rightarrow> bytes \<Rightarrow> bool" where
  "signs_for cr key pub \<longleftrightarrow> key_pair (cr_sign cr) (cr_valid cr) key pub
     \<and> (\<forall>h sig. cr_sign cr key h = Some sig \<longrightarrow> length sig = Suc sigLen)"

definition decrypts_for :: "'k Crypto \<Rightarrow> 'k \<Rightarrow> bytes \<Rightarrow> bool" where
  "decrypts_for cr key pub \<longleftrightarrow> (\<forall>m c. cr_encrypt cr pub m = Some c \<longrightarrow> cr_decrypt cr key c = Some m)"

lemma PackWithSignature_run:
  assumes "PackWithSignature cr msg key = Inr packed" "signs_for cr key pub"
  shows "\<exists>sig. UnpackSignature packed = Inr (msg, sig) \<and> VerifySignature cr pub (cr_kec cr msg) sig"
  using assms
  by (auto simp: PackWithSignature_def signature_def UnpackSignature_def packSignature_def VerifySignature_def
      signs_for_def key_pair_def sigLen_def split: sum.splits option.splits if_splits)

text \<open>C27: a message that the agent seals for a client is opened by that client as it was.\<close>

theorem seal_opens:
  assumes "AgentSeal cr msg clientPub agentKey = Inr c"
    and "signs_for cr agentKey agentPub" "decrypts_for cr clientKey clientPub"
  shows "ClientOpen cr c agentPub clientKey = Inr msg"
  using assms PackWithSignature_run [OF _ assms(2)]
  by (force simp: AgentSeal_def ClientOpen_def decrypts_for_def split: option.splits)

text \<open>A message of fewer than 64 bytes is not refused: opening it panics.\<close>

lemma short_message_panics: "length c < sigLen \<Longrightarrow> ClientOpen cr c agentPub clientPrv = Inl Panic"
  by (simp add: ClientOpen_def UnpackSignature_def)

section \<open>The message of an offering\<close>

record OfferMsg =
  om_AgentPubKey :: Base64String
  om_TemplateHash :: HexString
  om_Country :: string
  om_ServiceSupply :: u16
  om_IPType :: string
  om_UnitName :: string
  om_UnitType :: unit_type
  om_BillingType :: bill_type
  om_SetupPrice :: u64
  om_UnitPrice :: u64
  om_MinUnits :: u64
  om_MaxUnit :: "u64 option"
  om_BillingInterval :: u64
  om_MaxBillingUnitLag :: u64
  om_MaxSuspendTime :: u64
  om_MaxInactiveTimeSec :: u64
  om_FreeUnits :: u8
  om_Nonce :: string
  om_ServiceSpecificParameters :: string

definition OfferingMessage :: "Account \<Rightarrow> Template \<Rightarrow> Offering \<Rightarrow> OfferMsg" where
  "OfferingMessage agent template offering =
     \<lparr>om_AgentPubKey = acc_PublicKey agent, om_TemplateHash = tpl_Hash template, om_Country = ofr_Country offering,
      om_ServiceSupply = ofr_Supply offering, om_IPType = ofr_IPType offering, om_UnitName = ofr_UnitName offering,
      om_UnitType = ofr_UnitType offering, om_BillingType = ofr_BillingType offering,
      om_SetupPrice = ofr_SetupPrice offering, om_UnitPrice = ofr_UnitPrice offering,
      om_MinUnits = ofr_MinUnits offering, om_MaxUnit = ofr_MaxUnit offering,
      om_BillingInterval = ofr_BillingInterval offering, om_MaxBillingUnitLag = ofr_MaxBillingUnitLag offering,
      om_MaxSuspendTime = ofr_MaxSuspendTime offering, om_MaxInactiveTimeSec = ofr_MaxInactiveTimeSec offering,
      om_FreeUnits = ofr_FreeUnits offering, om_Nonce = ofr_ID offering,
      om_ServiceSpecificParameters = ofr_AdditionalParams offering\<rparr>"

text \<open>The text of messages, and its reader.\<close>

record 'm format =
  fm_marshal :: "'m \<Rightarrow> bytes option"
  fm_unmarshal :: "bytes \<Rightarrow> 'm option"
  fm_valid :: "string \<Rightarrow> 'm \<Rightarrow> bool"

definition ValidMsg :: "OfferMsg format \<Rightarrow> string \<Rightarrow> OfferMsg \<Rightarrow> bool" where
  "ValidMsg fm schema msg = fm_valid fm schema msg"

text \<open>\<open>setOfferingHash\<close> of \<open>src/ui/offering.go\<close>: the agent signs the message; the hash of the whole names
  the offering on the blockchain.\<close>

definition setOfferingHash ::
  "'k Crypto \<Rightarrow> OfferMsg format \<Rightarrow> 'k option \<Rightarrow> Offering \<Rightarrow> Template \<Rightarrow> Account \<Rightarrow> go_error + Offering" where
  "setOfferingHash cr fm agentKey offering template agent =
     (case fm_marshal fm (OfferingMessage agent template offering) of None \<Rightarrow> Inl (Ui ui_ErrInternal)
      | Some msgBytes \<Rightarrow>
     (case agentKey of None \<Rightarrow> Inl (Ui ui_ErrInternal)
      | Some key \<Rightarrow>
     (case PackWithSignature cr msgBytes key of
        Inl e \<Rightarrow> Inl (if e = Panic then Panic else Ui ui_ErrInternal)
      | Inr packed \<Rightarrow> Inr (offering\<lparr>ofr_RawMsg := FromBytes packed,
          ofr_Hash := HexFromBytes (hash_bytes (BytesToHash (cr_kec cr packed)))\<rparr>))))"

section \<open>The endpoint message\<close>

record EptMsg =
  em_TemplateHash :: HexString
  em_Username :: string
  em_Password :: string
  em_PaymentReceiverAddress :: string
  em_ServiceEndpointAddress :: string
  em_AdditionalParams :: "(string \<times> string) list"

record ept_service =
  es_payAddr :: string
  es_config :: "string \<Rightarrow> (string \<times> string) list option"
  es_format :: "EptMsg format"
  es_genPass :: string
  es_timeout :: bool

definition fillMsg ::
  "string \<Rightarrow> string \<Rightarrow> Channel \<Rightarrow> Product \<Rightarrow> Template \<Rightarrow> (string \<times> string) list \<Rightarrow> go_error + EptMsg" where
  "fillMsg genPass payAddr ch product tmpl conf =
     (case prd_OfferAccessID product of None \<Rightarrow> Inl (Ept ept_ErrProdOfferAccessID)
      | Some _ \<Rightarrow> (case prd_ServiceEndpointAddress product of None \<Rightarrow> Inl (Ept ept_ErrProdEndAddress)
         | Some addr \<Rightarrow> Inr \<lparr>em_TemplateHash = tpl_Hash tmpl, em_Username = ch_ID ch, em_Password = genPass,
              em_PaymentReceiverAddress = payAddr, em_ServiceEndpointAddress = addr, em_AdditionalParams = conf\<rparr>))"

text \<open>The four look-ups follow each other. A missing access template is a null key, which no row has.
  \<open>es_timeout\<close> says that the timer fires first.\<close>

definition objects :: "string \<Rightarrow> ('z, Channel \<times> Offering \<times> Product \<times> Template) dbcmd" where
  "objects channelID =
     bindC (find_pk ChannelTable Conn channelID) (\<lambda>ch.
     bindC (find_pk OfferingTable Conn (ch_Offering ch)) (\<lambda>offer.
     bindC (find_pk ProductTable Conn (ofr_Product offer)) (\<lambda>product.
     bindC (select_one TemplateTable Conn (\<lambda>t. Some (tpl_ID t) = prd_OfferAccessID product)) (\<lambda>tmpl.
       ret (ch, offer, product, tmpl)))))"

definition of_sum :: "'e + 'a \<Rightarrow> ('s, 'e, 'a) cmd" where
  "of_sum r = (case r of Inl e \<Rightarrow> fail e | Inr x \<Rightarrow> ret x)"

lemma of_sum_run [run]: "of_sum x s = (r, s') \<longleftrightarrow> r = x \<and> s' = s"
  by (auto simp: of_sum_def run split: sum.splits)

definition genMsg :: "ept_service \<Rightarrow> Channel \<Rightarrow> Product \<Rightarrow> Template \<Rightarrow> go_error + EptMsg" where
  "genMsg s ch product tmpl = (case es_config s (prd_Config product) of None \<Rightarrow> Inl (Text ''config'')
     | Some conf \<Rightarrow> fillMsg (es_genPass s) (es_payAddr s) ch product tmpl conf)"

definition processing :: "ept_service \<Rightarrow> string \<Rightarrow> ('z, EptMsg) dbcmd" where
  "processing s channelID = bindC (objects channelID) (\<lambda>(ch, offer, product, tmpl).
     bindC (of_sum (genMsg s ch product tmpl)) (\<lambda>msg.
     thenC (guardC (fm_valid (es_format s) (tpl_Raw tmpl) msg) (Ept ept_ErrInvalidFormat))
       (ret msg)))"

definition EndpointMessage :: "ept_service \<Rightarrow> string \<Rightarrow> ('z, EptMsg) dbcmd" where
  "EndpointMessage s channelID = (if es_timeout s then fail (Ept ept_ErrTimeOut) else processing s channelID)"

section \<open>Concrete instances\<close>

text \<open>Toy primitives: a signature is the padded hash and one more byte, a sealed text is reversed.\<close>

definition pad64 :: "bytes \<Rightarrow> bytes" where
  "pad64 h = take 64 (h @ replicate 64 0)"

definition toy_crypto :: "unit Crypto" where
  "toy_crypto = \<lparr>cr_kec = (\<lambda>b. b), cr_sign = (\<lambda>_ h. Some (pad64 h @ [0])), cr_valid = (\<lambda>_ h sig. sig = pad64 h),
     cr_encrypt = (\<lambda>_ m. Some (rev m)), cr_decrypt = (\<lambda>_ c. Some (rev c)), cr_address = (\<lambda>_. 170),
     cr_pub_address = (\<lambda>_. Some 170)\<rparr>"

lemma length_pad64 [simp]: "length (pad64 h) = 64"
  by (simp add: pad64_def)

lemma toy_signs: "signs_for toy_crypto () pub"
  by (simp add: signs_for_def key_pair_def toy_crypto_def sigLen_def)

lemma toy_decrypts: "decrypts_for toy_crypto () pub"
  by (auto simp: decrypts_for_def toy_crypto_def)

theorem seal_opens_witness:
  "\<exists>c. AgentSeal toy_crypto [1, 2, 3] [9] () = Inr c \<and> ClientOpen toy_crypto c [7] () = Inr [1, 2, 3]"
proof -
  obtain c where c: "AgentSeal toy_crypto [1, 2, 3] [9] () = Inr c"
    by (simp add: AgentSeal_def PackWithSignature_def signature_def toy_crypto_def)
  from seal_opens [OF this toy_signs toy_decrypts] c show ?thesis by blast
qed

end
