(* ===== verification/WorkerBase.thy ===== *)
theory WorkerBase
  imports Messages
begin

text \<open>
  What the job handlers of \<open>src/proc/worker\<close> share: the worker with its collaborators, the selectors,
  the reading of event logs and job data, the transactions sent to the blockchain, and the
  handlers common to agents and clients (\<open>worker.go\<close>, \<open>selectors.go\<close>, \<open>event.go\<close>, \<open>eth.go\<close>, \<open>misc.go\<close>,
  \<open>common.go\<close>). The node, the key store, the event decoder and the country and message services are
  parameters: the fields of the worker. What has been sent to the blockchain is part of the world.
\<close>

section \<open>The blockchain\<close>

record transaction =
  etx_Hash :: hash
  etx_Nonce :: u64
  etx_GasPrice :: int
  etx_Gas :: u64
  etx_Raw :: string

datatype (plugins only: code size) eth_call =
    PTCIncreaseApproval address int
  | PSCAddBalanceERC20 u64
  | PSCReturnBalanceERC20 u64
  | CooperativeClose address u32 hash u64 bytes bytes
  | RegisterServiceOffering hash u64 u16 u8 Base64String
  | PSCRemoveServiceOffering hash
  | PSCPopupServiceOffering hash u8 Base64String
  | PSCCreateChannel address hash u64
  | PSCTopUpChannel address u32 hash u64
  | PSCUncooperativeClose address u32 hash u64
  | PSCSettle address u32 hash
  | SendTransaction u64 int string

text \<open>What the contract knows of an offering.\<close>

record offering_info =
  oi_Agent :: address
  oi_MinDeposit :: u64
  oi_MaxSupply :: u16
  oi_CurrentSupply :: u16
  oi_UpdateBlock :: u32
  oi_Active :: bool

text \<open>The node's answers; \<open>None\<close> is an error. A call is made from an address with a gas limit and price.\<close>

record Backend =
  bk_PTCAllowance :: "address \<Rightarrow> address \<Rightarrow> u64 option"
  bk_PTCBalanceOf :: "address \<Rightarrow> int option"
  bk_PSCBalanceOf :: "address \<Rightarrow> u64 option"
  bk_EthBalanceAt :: "address \<Rightarrow> int option"
  bk_SuggestGasPrice :: "int option"
  bk_LatestBlockNumber :: "int option"
  bk_GetTransactionByHash :: "hash \<Rightarrow> (transaction \<times> bool) option"
  bk_PSCGetOfferingInfo :: "hash \<Rightarrow> offering_info option"
  bk_PSCGetSettleBlock :: "address \<Rightarrow> address \<Rightarrow> u32 \<Rightarrow> hash \<Rightarrow> u32 option"
  bk_transact :: "address \<Rightarrow> u64 \<Rightarrow> int option \<Rightarrow> eth_call \<Rightarrow> transaction option"
  bk_reprice :: "string \<Rightarrow> u64 \<Rightarrow> transaction option"

record GasConf =
  gas_Approve :: u64
  gas_AddBalanceERC20 :: u64
  gas_RegisterServiceOffering :: u64
  gas_CreateChannel :: u64
  gas_CooperativeClose :: u64
  gas_ReturnBalanceERC20 :: u64
  gas_UncooperativeClose :: u64
  gas_Settle :: u64
  gas_TopUp :: u64
  gas_PopupServiceOffering :: u64
  gas_RemoveServiceOffering :: u64

text \<open>A client of an agent's SOMC server: the offering's message and the endpoint, or an error.\<close>

record SomcClient =
  so_Offering :: "HexString \<Rightarrow> Base64String option"
  so_Endpoint :: "Base64String \<Rightarrow> Base64String option"

record 'k Worker =
  wk_crypto :: "'k Crypto"
  wk_ept :: ept_service
  wk_offer_format :: "OfferMsg format"
  wk_eth :: Backend
  wk_gasConf :: GasConf
  wk_pscAddr :: address
  wk_getKey :: "Account \<Rightarrow> 'k option"
  wk_recover :: "transaction \<Rightarrow> (address \<times> bytes) option"
  wk_queue :: Config
  wk_torHostName :: Base64String
  wk_country :: "string \<Rightarrow> string option"
  wk_somc :: "u8 \<Rightarrow> Base64String \<Rightarrow> go_error + SomcClient"
  wk_unpackTopUp :: "bytes \<Rightarrow> (u32 \<times> u64) option"
  wk_unpackCreated :: "bytes \<Rightarrow> u64 option"
  wk_unpackOffering :: "bytes \<Rightarrow> (u16 \<times> u8 \<times> string) option"
  wk_validJSON :: "string \<Rightarrow> bytes \<Rightarrow> bool"
  wk_marshalParams :: "(string \<times> string) list \<Rightarrow> string"
  wk_salt :: u64
  wk_bcrypt :: "bytes \<Rightarrow> bytes option"

record wworld = qworld +
  w_sent :: "(address \<times> eth_call) list"

type_synonym ('z, 'a) wcmd = "('z wworld_scheme, go_error, 'a) cmd"

abbreviation "werr e \<equiv> (\<lambda>_. Worker e)"

definition transact ::
  "'k Worker \<Rightarrow> 'k \<Rightarrow> u64 \<Rightarrow> int option \<Rightarrow> eth_call \<Rightarrow> worker_error \<Rightarrow> ('z, transaction) wcmd" where
  "transact wk key gasLimit gasPrice call e =
     (let from = cr_address (wk_crypto wk) key in
      bindC (of_option (Worker e) (bk_transact (wk_eth wk) from gasLimit gasPrice call)) (\<lambda>tx.
        thenC (modC (\<lambda>w. w\<lparr>w_sent := w_sent w @ [(from, call)]\<rparr>)) (ret tx)))"

section \<open>Selectors\<close>

definition isJobInvalid :: "Job \<Rightarrow> job_type \<Rightarrow> related_type \<Rightarrow> bool" where
  "isJobInvalid job jobType relType \<longleftrightarrow> job_Type job \<noteq> jobType \<or> job_RelatedType job \<noteq> relType"

definition related :: "'r table \<Rightarrow> worker_error \<Rightarrow> related_type \<Rightarrow> Job \<Rightarrow> job_type \<Rightarrow> ('z, 'r) dbcmd" where
  "related T notFound relType job jobType =
     (if isJobInvalid job jobType relType then fail (Worker worker_ErrInvalidJob)
      else on_err (werr notFound) (FindByPrimaryKeyTo Conn T (job_RelatedID job)))"

definition relatedOffering :: "Job \<Rightarrow> job_type \<Rightarrow> ('z, Offering) dbcmd" where
  "relatedOffering = related OfferingTable worker_ErrOfferingNotFound JobOffering"

definition relatedChannel :: "Job \<Rightarrow> job_type \<Rightarrow> ('z, Channel) dbcmd" where
  "relatedChannel = related ChannelTable worker_ErrChannelNotFound JobChannel"

definition relatedEthTx :: "Job \<Rightarrow> job_type \<Rightarrow> ('z, EthTx) dbcmd" where
  "relatedEthTx = related EthTxTable worker_ErrTxNotFound JobTransaction"

definition relatedAccount :: "Job \<Rightarrow> job_type \<Rightarrow> ('z, Account) dbcmd" where
  "relatedAccount = related AccountTable worker_ErrAccountNotFound JobAccount"

text \<open>Every handler uses the log it asks for at once, so a job without a log panics.\<close>

definition ethLog :: "Job \<Rightarrow> ('z, JobEthLog) dbcmd" where
  "ethLog job = (case dec_JobData (job_Data job) of (jdata, ok) \<Rightarrow>
     thenC (guardC ok (Worker worker_ErrEthLogNotFound)) (of_option Panic jdata))"

definition channel :: "string \<Rightarrow> ('z, Channel) dbcmd" where
  "channel pk = on_err (werr worker_ErrChannelNotFound) (FindByPrimaryKeyTo Conn ChannelTable pk)"

definition offering :: "string \<Rightarrow> ('z, Offering) dbcmd" where
  "offering pk = on_err (werr worker_ErrOfferingNotFound) (FindByPrimaryKeyTo Conn OfferingTable pk)"

definition productByPK :: "string \<Rightarrow> ('z, Product) dbcmd" where
  "productByPK pk = on_err (werr worker_ErrProductNotFound) (FindByPrimaryKeyTo Conn ProductTable pk)"

definition offeringByHashString :: "HexString \<Rightarrow> ('z, Offering) dbcmd" where
  "offeringByHashString h = on_err (\<lambda>e. Worker (if e = NoRows then worker_ErrOfferingNotFound else worker_ErrInternal))
     (select_one OfferingTable Conn (\<lambda>f. ofr_Hash f = h))"

definition offeringByHash :: "hash \<Rightarrow> ('z, Offering) dbcmd" where
  "offeringByHash h = offeringByHashString (HexFromBytes (hash_bytes h))"

definition account :: "HexString \<Rightarrow> ('z, Account) dbcmd" where
  "account ethAddr = on_err (werr worker_ErrAccountNotFound) (FindOneTo Conn AccountTable acc_EthAddr ethAddr)"

definition accountByPK :: "string \<Rightarrow> ('z, Account) dbcmd" where
  "accountByPK pk = on_err (werr worker_ErrAccountNotFound) (FindByPrimaryKeyTo Conn AccountTable pk)"

definition user :: "HexString \<Rightarrow> ('z, User) dbcmd" where
  "user ethAddr = on_err (werr worker_ErrUserNotFound) (FindOneTo Conn UserTable usr_EthAddr ethAddr)"

definition templateByHash :: "HexString \<Rightarrow> ('z, Template) dbcmd" where
  "templateByHash h = on_err (werr worker_ErrTemplateByHashNotFound) (FindOneTo Conn TemplateTable tpl_Hash h)"

section \<open>Job data and helpers\<close>

definition unmarshalDataTo :: "'a decoder \<Rightarrow> json option \<Rightarrow> ('s, go_error, 'a) cmd" where
  "unmarshalDataTo dec jobData = (case dec jobData of (v, ok) \<Rightarrow>
     thenC (guardC ok (Worker worker_ErrParseJobData)) (ret v))"

definition balanceData :: "Job \<Rightarrow> ('s, go_error, JobBalanceData) cmd" where
  "balanceData job = unmarshalDataTo dec_BalanceData (job_Data job)"

definition publishData :: "Job \<Rightarrow> ('s, go_error, u64) cmd" where
  "publishData job = unmarshalDataTo dec_PublishData (job_Data job)"

definition hexAddress :: "HexString \<Rightarrow> ('s, go_error, address) cmd" where
  "hexAddress h = (case HexToAddress h of (a, ok) \<Rightarrow> thenC (guardC ok (Worker worker_ErrParseEthAddr)) (ret a))"

definition toOfferingHashArr :: "HexString \<Rightarrow> ('s, go_error, hash) cmd" where
  "toOfferingHashArr h = (case HexToHash h of (x, ok) \<Rightarrow> thenC (guardC ok (Worker worker_ErrParseOfferingHash)) (ret x))"

definition key :: "'k Worker \<Rightarrow> Account \<Rightarrow> ('s, go_error, 'k) cmd" where
  "key wk acc = of_option (Worker worker_ErrParsePrivateKey) (wk_getKey wk acc)"

definition accountKey :: "'k Worker \<Rightarrow> HexString \<Rightarrow> ('z, 'k) dbcmd" where
  "accountKey wk ethAddr = bindC (account ethAddr) (key wk)"

definition getTransaction :: "'k Worker \<Rightarrow> hash \<Rightarrow> ('s, go_error, transaction) cmd" where
  "getTransaction wk h =
     bindC (of_option (Worker worker_ErrEthGetTransaction) (bk_GetTransactionByHash (wk_eth wk) h)) (\<lambda>(tx, pen).
       if pen then fail (Worker worker_ErrEthTxInPendingState) else ret tx)"

definition ethLogTx :: "'k Worker \<Rightarrow> JobEthLog \<Rightarrow> ('s, go_error, transaction) cmd" where
  "ethLogTx wk l = (case HexToHash (elog_TxHash l) of (h, ok) \<Rightarrow>
     thenC (guardC ok (Worker worker_ErrParseEthLog)) (getTransaction wk h))"

text \<open>The sender of a transaction, unless it is known already or could not be looked up.\<close>

definition newUser :: "'k Worker \<Rightarrow> transaction \<Rightarrow> ('z, User option) dbcmd" where
  "newUser wk tx = bindC (of_option (Worker worker_ErrRecoverClientPubKey) (wk_recover wk tx)) (\<lambda>(addr, pub).
     let a = HexFromBytes (address_bytes addr) in
     handleC (select_one UserTable Conn (\<lambda>u. usr_EthAddr u = a))
       (\<lambda>e. if e \<noteq> NoRows then ret None
            else bindC new_uuid (\<lambda>i. ret (Some \<lparr>usr_ID = i, usr_EthAddr = a, usr_PublicKey = FromBytes pub\<rparr>)))
       (\<lambda>_. ret None))"

definition addJob :: "'k Worker \<Rightarrow> querier \<Rightarrow> job_type \<Rightarrow> related_type \<Rightarrow> string \<Rightarrow> ('z, unit) dbcmd" where
  "addJob wk q jType rType rID = on_err (werr worker_ErrAddJob) (AddSimple (wk_queue wk) q jType rType rID JobTask)"

definition addJobWithData ::
  "'k Worker \<Rightarrow> querier \<Rightarrow> job_type \<Rightarrow> related_type \<Rightarrow> string \<Rightarrow> json \<Rightarrow> ('z, unit) dbcmd" where
  "addJobWithData wk q jType rType rID jData = on_err (werr worker_ErrAddJob)
     (AddWithData (wk_queue wk) q jType rType rID JobTask jData)"

definition addJobWithDelay ::
  "'k Worker \<Rightarrow> querier \<Rightarrow> job_type \<Rightarrow> related_type \<Rightarrow> string \<Rightarrow> duration \<Rightarrow> ('z, unit) dbcmd" where
  "addJobWithDelay wk q jType rType rID delay = on_err (werr worker_ErrAddJob)
     (AddWithDelay (wk_queue wk) q jType rType rID JobTask delay)"

definition saveRecord :: "querier \<Rightarrow> 'r table \<Rightarrow> 'r \<Rightarrow> ('z, unit) dbcmd" where
  "saveRecord q T rec = on_err (werr worker_ErrInternal) (Save q T rec)"

definition updateRecord :: "querier \<Rightarrow> 'r table \<Rightarrow> 'r \<Rightarrow> ('z, unit) dbcmd" where
  "updateRecord q T rec = on_err (werr worker_ErrInternal) (update_row T q rec)"

definition ethBalance :: "'k Worker \<Rightarrow> address \<Rightarrow> ('s, go_error, int) cmd" where
  "ethBalance wk addr = of_option (Worker worker_ErrEthRetrieveBalance) (bk_EthBalanceAt (wk_eth wk) addr)"

text \<open>\<open>big.Int.Uint64\<close> keeps the low 64 bits.\<close>

definition big_u64 :: "int \<Rightarrow> u64" where
  "big_u64 n = word_of_int n"

definition big_bytes :: "int \<Rightarrow> bytes" where
  "big_bytes n = dropWhile (\<lambda>b. b = 0) (int_bytes 32 n)"

definition updateBalances :: "'k Worker \<Rightarrow> querier \<Rightarrow> Account \<Rightarrow> ('z, unit) dbcmd" where
  "updateBalances wk q acc =
     bindC (hexAddress (acc_EthAddr acc)) (\<lambda>addr.
     bindC (of_option (Worker worker_ErrPTCRetrieveBalance) (bk_PTCBalanceOf (wk_eth wk) addr)) (\<lambda>ptc.
     bindC (of_option (Worker worker_ErrPSCRetrieveBalance) (bk_PSCBalanceOf (wk_eth wk) addr)) (\<lambda>psc.
     bindC (ethBalance wk addr) (\<lambda>amount.
     bindC now (\<lambda>t.
       saveRecord q AccountTable (acc\<lparr>acc_PTCBalance := big_u64 ptc, acc_PSCBalance := psc,
         acc_EthBalance := FromBytes (big_bytes amount), acc_LastBalanceCheck := Some t\<rparr>))))))"

definition updateAccountBalancesJob :: "'k Worker \<Rightarrow> Job \<Rightarrow> job_type \<Rightarrow> ('z, unit) dbcmd" where
  "updateAccountBalancesJob wk job jobType = bindC (relatedAccount job jobType) (updateBalances wk Conn)"

definition saveEthTX ::
  "Job \<Rightarrow> transaction \<Rightarrow> string \<Rightarrow> related_type \<Rightarrow> string \<Rightarrow> HexString \<Rightarrow> HexString \<Rightarrow> ('z, unit) dbcmd" where
  "saveEthTX job tx method relatedType relatedID from to =
     bindC new_uuid (\<lambda>i. bindC now (\<lambda>t.
       on_err (werr worker_ErrInternal) (Insert Conn EthTxTable
         \<lparr>tx_ID = i, tx_Hash = HexFromBytes (hash_bytes (etx_Hash tx)), tx_Method = method, tx_Status = TxSent,
          tx_JobID = Some (job_ID job), tx_Issued = t, tx_AddrFrom = from, tx_AddrTo = to,
          tx_Nonce = Some (decimal (unat (etx_Nonce tx))), tx_GasPrice = big_u64 (etx_GasPrice tx),
          tx_Gas = etx_Gas tx, tx_TxRaw = etx_Raw tx, tx_RelatedType = relatedType, tx_RelatedID = relatedID\<rparr>)))"

definition pscHex :: "'k Worker \<Rightarrow> HexString" where
  "pscHex wk = HexFromBytes (address_bytes (wk_pscAddr wk))"

definition keyFromChannelData :: "'k Worker \<Rightarrow> string \<Rightarrow> ('z, Base64String) dbcmd" where
  "keyFromChannelData wk channelID =
     bindC (channel channelID) (\<lambda>ch.
     bindC (offering (ch_Offering ch)) (\<lambda>offer.
     bindC (of_option (Worker worker_ErrInternal)
         (ChannelKey (cr_kec (wk_crypto wk)) (ch_Client ch) (ch_Agent ch) (ch_Block ch) (ofr_Hash offer))) (\<lambda>k.
       ret (FromBytes k))))"

definition updateRelatedOffering :: "Job \<Rightarrow> job_type \<Rightarrow> offer_status \<Rightarrow> ('z, unit) dbcmd" where
  "updateRelatedOffering job jobType status = bindC (relatedOffering job jobType) (\<lambda>offer.
     saveRecord Conn OfferingTable (offer\<lparr>ofr_Status := status\<rparr>))"

text \<open>A transaction that is opened and committed by hand, and rolled back by a deferred call. What fails in
  between is returned as it is.\<close>

definition handler_tx :: "('z, unit) dbcmd \<Rightarrow> ('z, unit) dbcmd" where
  "handler_tx f = thenC (on_err (werr worker_ErrInternal) begin_tx)
     (handleC f (\<lambda>e. thenC rollback_tx (fail e)) (\<lambda>_. on_err (werr worker_ErrInternal) commit_tx))"

section \<open>Event logs\<close>

text \<open>What has been unpacked has the number and the types of the arguments it was unpacked with.\<close>

record logChannelTopUpInput =
  tu_agentAddr :: address
  tu_clientAddr :: address
  tu_offeringHash :: hash
  tu_openBlockNum :: u32
  tu_addedDeposit :: u64

definition extractLogChannelToppedUp :: "'k Worker \<Rightarrow> JobEthLog \<Rightarrow> go_error + logChannelTopUpInput" where
  "extractLogChannelToppedUp wk l = (case wk_unpackTopUp wk (elog_Data l) of
     None \<Rightarrow> Inl (Worker worker_ErrParseEthLog)
   | Some (openBlockNum, addedDeposit) \<Rightarrow>
       (case elog_Topics l of [_, t1, t2, t3] \<Rightarrow> Inr \<lparr>tu_agentAddr = address_of_topic t1,
            tu_clientAddr = address_of_topic t2, tu_offeringHash = t3, tu_openBlockNum = openBlockNum,
            tu_addedDeposit = addedDeposit\<rparr>
        | _ \<Rightarrow> Inl (Worker worker_ErrWrongLogTopicsNumber)))"

record logChannelCreatedInput =
  lc_agentAddr :: address
  lc_clientAddr :: address
  lc_offeringHash :: hash
  lc_deposit :: u64

definition extractLogChannelCreated :: "'k Worker \<Rightarrow> JobEthLog \<Rightarrow> go_error + logChannelCreatedInput" where
  "extractLogChannelCreated wk l = (case wk_unpackCreated wk (elog_Data l) of
     None \<Rightarrow> Inl (Worker worker_ErrParseEthLog)
   | Some deposit \<Rightarrow>
       (case elog_Topics l of [_, t1, t2, t3] \<Rightarrow> Inr \<lparr>lc_agentAddr = address_of_topic t1,
            lc_clientAddr = address_of_topic t2, lc_offeringHash = t3, lc_deposit = deposit\<rparr>
        | _ \<Rightarrow> Inl (Worker worker_ErrWrongLogTopicsNumber)))"

text \<open>\<open>minDeposit\<close> is read from the topic and used by neither handler.\<close>

record logOfferingCreatedInput =
  lo_agentAddr :: address
  lo_offeringHash :: hash
  lo_minDeposit :: int
  lo_currentSupply :: u16
  lo_somcType :: u8
  lo_somcData :: Base64String

definition extractLogOfferingCreated :: "'k Worker \<Rightarrow> JobEthLog \<Rightarrow> go_error + logOfferingCreatedInput" where
  "extractLogOfferingCreated wk l = (case elog_Topics l of [_, t1, t2, t3] \<Rightarrow>
       (case wk_unpackOffering wk (elog_Data l) of
          None \<Rightarrow> Inl (Worker worker_ErrParseJobData)
        | Some (curSupply, somcType, somcData) \<Rightarrow> Inr \<lparr>lo_agentAddr = address_of_topic t1, lo_offeringHash = t2,
            lo_minDeposit = uint t3, lo_currentSupply = curSupply, lo_somcType = somcType, lo_somcData = somcData\<rparr>)
     | _ \<Rightarrow> Inl (Worker worker_ErrWrongLogTopicsNumber))"

text \<open>A popped up offering is unpacked with the arguments of a published one, which are the same.\<close>

record logOfferingPopUpInput =
  lp_agentAddr :: address
  lp_offeringHash :: hash
  lp_minDeposit :: u64
  lp_currentSupply :: u16
  lp_somcType :: u8
  lp_somcData :: Base64String

definition extractLogOfferingPopUp :: "'k Worker \<Rightarrow> JobEthLog \<Rightarrow> go_error + logOfferingPopUpInput" where
  "extractLogOfferingPopUp wk l = (case elog_Topics l of [_, t1, t2, t3] \<Rightarrow>
       (case wk_unpackOffering wk (elog_Data l) of
          None \<Rightarrow> Inl (Worker worker_ErrParseJobData)
        | Some (currentSupply, somcType, somcData) \<Rightarrow> Inr \<lparr>lp_agentAddr = address_of_topic t1,
            lp_offeringHash = t2, lp_minDeposit = ucast t3, lp_currentSupply = currentSupply,
            lp_somcType = somcType, lp_somcData = somcData\<rparr>)
     | _ \<Rightarrow> Inl (Worker worker_ErrWrongLogTopicsNumber))"

section \<open>Handlers that agents and clients share\<close>

text \<open>A status that is \<open>null\<close> leaves the service as it was.\<close>

definition CompleteServiceTransition :: "Job \<Rightarrow> ('z, unit) dbcmd" where
  "CompleteServiceTransition job =
     bindC (relatedChannel job JobCompleteServiceTransition) (\<lambda>ch.
     bindC (if job_Data job = Some JNull then ret (ch_ServiceStatus ch)
            else unmarshalDataTo dec_svc_status (job_Data job)) (\<lambda>status.
       saveRecord Conn ChannelTable (ch\<lparr>ch_ServiceStatus := status\<rparr>)))"

definition afterChannelTopUp :: "'k Worker \<Rightarrow> Job \<Rightarrow> job_type \<Rightarrow> ('z, unit) dbcmd" where
  "afterChannelTopUp wk job jobType =
     bindC (relatedChannel job jobType) (\<lambda>ch.
     bindC (ethLog job) (\<lambda>l.
     bindC (of_sum (map_sum (\<lambda>_. Text ''could not parse log'') (\<lambda>x. x) (extractLogChannelToppedUp wk l))) (\<lambda>logInput.
     bindC (hexAddress (ch_Agent ch)) (\<lambda>agentAddr.
     bindC (hexAddress (ch_Client ch)) (\<lambda>clientAddr.
     bindC (offering (ch_Offering ch)) (\<lambda>offer.
     bindC (toOfferingHashArr (ofr_Hash offer)) (\<lambda>offeringHash.
     thenC (guardC (agentAddr = tu_agentAddr logInput \<and> clientAddr = tu_clientAddr logInput
         \<and> offeringHash = tu_offeringHash logInput \<and> ch_Block ch = tu_openBlockNum logInput)
         (Worker worker_ErrEthLogChannelMismatch))
    (thenC (updateRecord Conn ChannelTable (ch\<lparr>ch_TotalDeposit := ch_TotalDeposit ch + tu_addedDeposit logInput\<rparr>))
       (whenC (job_Type job = JobClientAfterChannelTopUp)
         (bindC (account (ch_Client ch)) (\<lambda>acc.
            addJob wk Conn JobAccountUpdateBalances JobAccount (acc_ID acc))))))))))))"

text \<open>
  A hash that cannot be parsed is only logged. The transaction is made anew from its stored text,
  which may be unreadable, with the new price and without a signature, and sent.
\<close>

definition IncreaseTxGasPrice :: "'k Worker \<Rightarrow> Job \<Rightarrow> ('z, unit) wcmd" where
  "IncreaseTxGasPrice wk job =
     bindC (relatedEthTx job JobIncreaseTxGasPrice) (\<lambda>ethTx.
     bindC (publishData job) (\<lambda>gasPrice.
     thenC (guardC (\<not> gasPrice \<le> tx_GasPrice ethTx) (Worker worker_ErrTxNoGasIncrease))
    (bindC (of_option (Worker worker_ErrEthGetTransaction)
         (bk_GetTransactionByHash (wk_eth wk) (fst (HexToHash (tx_Hash ethTx))))) (\<lambda>(_, pending).
     thenC (guardC pending (Worker worker_ErrEthTxIsMined))
    (bindC (of_option (Text ''could not build or send transaction'') (bk_reprice (wk_eth wk) (tx_TxRaw ethTx) gasPrice)) (\<lambda>tx.
     thenC (modC (\<lambda>w. w\<lparr>w_sent := w_sent w @ [(0, SendTransaction (etx_Nonce tx) (etx_GasPrice tx) (etx_Raw tx))]\<rparr>))
       (saveEthTX job tx (tx_Method ethTx) JobTransaction (tx_ID ethTx) (tx_AddrFrom ethTx) (tx_AddrTo ethTx))))))))"

end
