(* ===== verification/WorkerAccount.thy ===== *)
theory WorkerAccount
  imports WorkerBase
begin

text \<open>
  The handlers that move an account's tokens between the token and the service contract,
  \<open>src/proc/worker/account.go\<close>.
\<close>

section \<open>Handlers\<close>

definition PreAccountAddBalanceApprove :: "'k Worker \<Rightarrow> Job \<Rightarrow> ('z, unit) wcmd" where
  "PreAccountAddBalanceApprove wk job =
     bindC (relatedAccount job JobPreAccountAddBalanceApprove) (\<lambda>acc.
     bindC (balanceData job) (\<lambda>jobData.
     bindC (hexAddress (acc_EthAddr acc)) (\<lambda>addr.
     bindC (ethBalance wk addr) (\<lambda>ethBal.
     bindC (of_option (Worker worker_ErrPTCRetrieveAllowance) (bk_PTCAllowance (wk_eth wk) addr (wk_pscAddr wk))) (\<lambda>allowance.
     if bal_Amount jobData \<le> allowance
     then addJobWithData wk Conn JobPreAccountAddBalance (job_RelatedType job) (job_RelatedID job) (enc_BalanceData jobData)
     else
     bindC (of_option (Worker worker_ErrPTCRetrieveBalance) (bk_PTCBalanceOf (wk_eth wk) addr)) (\<lambda>amount.
     thenC (guardC (\<not> big_u64 amount < bal_Amount jobData - allowance) (Worker worker_ErrInsufficientPTCBalance))
    (thenC (guardC (\<not> big_u64 ethBal < gas_Approve (wk_gasConf wk) * bal_GasPrice jobData
           + gas_AddBalanceERC20 (wk_gasConf wk) * bal_GasPrice jobData) (Worker worker_ErrInsufficientEthBalance))
    (bindC (key wk acc) (\<lambda>k.
     bindC (transact wk k (gas_Approve (wk_gasConf wk)) (Some (uint (bal_GasPrice jobData)))
         (PTCIncreaseApproval (wk_pscAddr wk) (uint (bal_Amount jobData - allowance))) worker_ErrPTCIncreaseApproval) (\<lambda>tx.
       saveEthTX job tx ''PTCIncreaseApproval'' (job_RelatedType job) (job_RelatedID job) (acc_EthAddr acc)
         (pscHex wk)))))))))))"

text \<open>The data of the job whose transaction the log is of.\<close>

definition approving_job :: "HexString \<Rightarrow> string \<Rightarrow> db \<Rightarrow> Job option" where
  "approving_job txHash relatedID d = find (\<lambda>j. list_ex (\<lambda>t. tx_JobID t = Some (job_ID j) \<and> tx_Hash t = txHash) (db_ethtxs d)
     \<and> job_RelatedType j = JobAccount \<and> job_RelatedID j = relatedID
     \<and> job_Type j = JobPreAccountAddBalanceApprove) (db_jobs d)"

definition approvedBalanceData :: "Job \<Rightarrow> ('z, JobBalanceData) dbcmd" where
  "approvedBalanceData job = bindC (ethLog job) (\<lambda>l.
     bindC (on_err (werr worker_ErrFindApprovalBalanceData)
         (bindC (query Conn (approving_job (elog_TxHash l) (job_RelatedID job))) (of_option NoRows)))
       balanceData)"

definition AfterAccountAddBalanceApprove :: "'k Worker \<Rightarrow> Job \<Rightarrow> ('z, unit) dbcmd" where
  "AfterAccountAddBalanceApprove wk job =
     bindC (relatedAccount job JobAfterAccountAddBalanceApprove) (\<lambda>acc.
     bindC (approvedBalanceData job) (\<lambda>jobData.
       addJobWithData wk Conn JobPreAccountAddBalance (job_RelatedType job) (acc_ID acc) (enc_BalanceData jobData)))"

definition PreAccountAddBalance :: "'k Worker \<Rightarrow> Job \<Rightarrow> ('z, unit) wcmd" where
  "PreAccountAddBalance wk job =
     bindC (relatedAccount job JobPreAccountAddBalance) (\<lambda>acc.
     bindC (balanceData job) (\<lambda>jobData.
     bindC (hexAddress (acc_EthAddr acc)) (\<lambda>addr.
     bindC (of_option (Worker worker_ErrPTCRetrieveBalance) (bk_PTCBalanceOf (wk_eth wk) addr)) (\<lambda>amount.
     thenC (guardC (\<not> big_u64 amount < bal_Amount jobData) (Worker worker_ErrInsufficientPTCBalance))
    (bindC (ethBalance wk addr) (\<lambda>ethBal.
     thenC (guardC (\<not> big_u64 ethBal < gas_AddBalanceERC20 (wk_gasConf wk) * bal_GasPrice jobData)
         (Worker worker_ErrInsufficientEthBalance))
    (bindC (key wk acc) (\<lambda>k.
     bindC (transact wk k (gas_AddBalanceERC20 (wk_gasConf wk)) (Some (uint (bal_GasPrice jobData)))
         (PSCAddBalanceERC20 (bal_Amount jobData)) worker_ErrPSCAddBalance) (\<lambda>tx.
       saveEthTX job tx ''PSCAddBalanceERC20'' (job_RelatedType job) (job_RelatedID job) (acc_EthAddr acc)
         (pscHex wk))))))))))"

definition AfterAccountAddBalance :: "'k Worker \<Rightarrow> Job \<Rightarrow> ('z, unit) dbcmd" where
  "AfterAccountAddBalance wk job = updateAccountBalancesJob wk job JobAfterAccountAddBalance"

definition AfterAccountReturnBalance :: "'k Worker \<Rightarrow> Job \<Rightarrow> ('z, unit) dbcmd" where
  "AfterAccountReturnBalance wk job = updateAccountBalancesJob wk job JobAfterAccountReturnBalance"

definition AccountUpdateBalances :: "'k Worker \<Rightarrow> Job \<Rightarrow> ('z, unit) dbcmd" where
  "AccountUpdateBalances wk job = updateAccountBalancesJob wk job JobAccountUpdateBalances"

definition PreAccountReturnBalance :: "'k Worker \<Rightarrow> Job \<Rightarrow> ('z, unit) wcmd" where
  "PreAccountReturnBalance wk job =
     bindC (relatedAccount job JobPreAccountReturnBalance) (\<lambda>acc.
     bindC (key wk acc) (\<lambda>k.
     bindC (balanceData job) (\<lambda>jobData.
     bindC (of_option (Worker worker_ErrPSCReturnBalance) (bk_PSCBalanceOf (wk_eth wk) (cr_address (wk_crypto wk) k))) (\<lambda>amount.
     thenC (guardC (\<not> amount < bal_Amount jobData) (Worker worker_ErrInsufficientPSCBalance))
    (bindC (ethBalance wk (cr_address (wk_crypto wk) k)) (\<lambda>ethAmount.
     thenC (guardC (\<not> big_u64 ethAmount < gas_ReturnBalanceERC20 (wk_gasConf wk) * bal_GasPrice jobData)
         (Worker worker_ErrInsufficientEthBalance))
    (bindC (transact wk k (gas_ReturnBalanceERC20 (wk_gasConf wk)) (Some (uint (bal_GasPrice jobData)))
         (PSCReturnBalanceERC20 (bal_Amount jobData)) worker_ErrPSCRetrieveBalance) (\<lambda>tx.
       saveEthTX job tx ''PSCReturnBalanceERC20'' (job_RelatedType job) (job_RelatedID job) (acc_EthAddr acc)
         (pscHex wk)))))))))"

end
