(* ===== verification/WorkerAgent.thy ===== *)
theory WorkerAgent
  imports WorkerAccount Sessions
begin

text \<open>
  The agent's job handlers, \<open>src/proc/worker/agent.go\<close>: what follows the logs of its channels and
  offerings, the transitions of a service, the endpoint message, and the transactions that publish,
  pop up and remove an offering and close a channel.
\<close>

section \<open>Channels\<close>

definition AgentAfterChannelCreate :: "'k Worker \<Rightarrow> Job \<Rightarrow> ('z, unit) dbcmd" where
  "AgentAfterChannelCreate wk job =
     (if isJobInvalid job JobAgentAfterChannelCreate JobChannel then fail (Worker worker_ErrInvalidJob)
      else bindC (ethLog job) (\<lambda>l.
     bindC (ethLogTx wk l) (\<lambda>ethTx.
     bindC (newUser wk ethTx) (\<lambda>client.
     handler_tx
       (thenC (case client of None \<Rightarrow> ret () | Some u \<Rightarrow> on_err (werr worker_ErrInternal) (insert_row UserTable Tx u))
       (bindC (of_sum (extractLogChannelCreated wk l)) (\<lambda>created.
        bindC (offeringByHash (lc_offeringHash created)) (\<lambda>offer.
        thenC (guardC (\<not> lc_deposit created < ComputePrice offer (ofr_MinUnits offer)) (Worker worker_ErrSmallDeposit))
       (thenC (updateRecord Tx OfferingTable (offer\<lparr>ofr_CurrentSupply := ofr_CurrentSupply offer - 1\<rparr>))
       (thenC (on_err (werr worker_ErrInternal) (insert_row ChannelTable Tx
           \<lparr>ch_ID = job_RelatedID job, ch_Agent = HexFromBytes (address_bytes (lc_agentAddr created)),
            ch_Client = HexFromBytes (address_bytes (lc_clientAddr created)), ch_Offering = ofr_ID offer,
            ch_Block = ucast (elog_Block l), ch_ChannelStatus = ChannelActive, ch_ServiceStatus = ServicePending,
            ch_ServiceChangedTime = None, ch_PreparedAt = zero_time, ch_TotalDeposit = lc_deposit created,
            ch_Salt = 0, ch_Username = None, ch_Password = [], ch_ReceiptBalance = 0, ch_ReceiptSignature = None\<rparr>))
         (addJob wk Tx JobAgentPreEndpointMsgCreate JobChannel (job_RelatedID job))))))))))))"

definition AgentAfterChannelTopUp :: "'k Worker \<Rightarrow> Job \<Rightarrow> ('z, unit) dbcmd" where
  "AgentAfterChannelTopUp wk job = afterChannelTopUp wk job JobAgentAfterChannelTopUp"

definition terminateService :: "'k Worker \<Rightarrow> Channel \<Rightarrow> bool \<Rightarrow> ('z, unit) dbcmd" where
  "terminateService wk ch agent = whenC (ch_ServiceStatus ch \<noteq> ServiceTerminated)
     (on_err (werr worker_ErrTerminateChannel)
       (bindC (TerminateChannel (Add (wk_queue wk)) (ch_ID ch) JobTask agent) (\<lambda>_. ret ())))"

definition AgentAfterUncooperativeCloseRequest :: "'k Worker \<Rightarrow> Job \<Rightarrow> ('z, unit) dbcmd" where
  "AgentAfterUncooperativeCloseRequest wk job =
     bindC (relatedChannel job JobAgentAfterUncooperativeCloseRequest) (\<lambda>ch.
     thenC (terminateService wk ch True)
       (updateRecord Conn ChannelTable (ch\<lparr>ch_ChannelStatus := ChannelInChallenge\<rparr>)))"

text \<open>The offering is read through the connection and written through \<open>q\<close>.\<close>

definition incrementCurrentSupply :: "querier \<Rightarrow> string \<Rightarrow> ('z, unit) dbcmd" where
  "incrementCurrentSupply q pk =
     bindC (on_err (werr worker_ErrInternal) (offering pk)) (\<lambda>offer.
       updateRecord q OfferingTable (offer\<lparr>ofr_CurrentSupply := ofr_CurrentSupply offer + 1\<rparr>))"

definition updateBalancesOf :: "'k Worker \<Rightarrow> querier \<Rightarrow> HexString \<Rightarrow> ('z, unit) dbcmd" where
  "updateBalancesOf wk q addr =
     bindC (account addr) (\<lambda>acc. addJob wk q JobAccountUpdateBalances JobAccount (acc_ID acc))"

definition AgentAfterUncooperativeClose :: "'k Worker \<Rightarrow> Job \<Rightarrow> ('z, unit) dbcmd" where
  "AgentAfterUncooperativeClose wk job =
     bindC (relatedChannel job JobAgentAfterUncooperativeClose) (\<lambda>ch.
     thenC (terminateService wk ch True)
    (thenC (updateRecord Conn ChannelTable (ch\<lparr>ch_ChannelStatus := ChannelClosedUncoop\<rparr>))
    (thenC (incrementCurrentSupply Conn (ch_Offering ch))
       (updateBalancesOf wk Conn (ch_Agent ch)))))"

definition AgentAfterCooperativeClose :: "'k Worker \<Rightarrow> Job \<Rightarrow> ('z, unit) dbcmd" where
  "AgentAfterCooperativeClose wk job =
     bindC (relatedChannel job JobAgentAfterCooperativeClose) (\<lambda>ch.
     in_tx
      (thenC (updateRecord Tx ChannelTable (ch\<lparr>ch_ChannelStatus := ChannelClosedCoop\<rparr>))
      (thenC (incrementCurrentSupply Tx (ch_Offering ch))
         (updateBalancesOf wk Tx (ch_Agent ch)))))"

section \<open>The service\<close>

text \<open>The next status of a service, by the kind of the job.\<close>

definition agent_next_status :: "job_type \<Rightarrow> svc_status \<Rightarrow> svc_status" where
  "agent_next_status jobType s =
     (if jobType = JobAgentPreServiceSuspend then (if s = ServiceActive then ServiceSuspending else ServiceSuspended)
      else if jobType = JobAgentPreServiceTerminate then (if s = ServiceActive then ServiceTerminating else ServiceTerminated)
      else if jobType = JobAgentPreServiceUnsuspend then ServiceActivating else s)"

definition agentUpdateServiceStatus :: "Job \<Rightarrow> job_type \<Rightarrow> ('z, Channel) dbcmd" where
  "agentUpdateServiceStatus job jobType =
     bindC (relatedChannel job jobType) (\<lambda>ch.
     bindC now (\<lambda>t.
     let ch' = ch\<lparr>ch_ServiceStatus := agent_next_status jobType (ch_ServiceStatus ch), ch_ServiceChangedTime := Some t\<rparr>
     in thenC (updateRecord Conn ChannelTable ch') (ret ch')))"

definition AgentPreServiceSuspend :: "Job \<Rightarrow> ('z, unit) dbcmd" where
  "AgentPreServiceSuspend job = bindC (agentUpdateServiceStatus job JobAgentPreServiceSuspend) (\<lambda>_. ret ())"

definition AgentPreServiceUnsuspend :: "Job \<Rightarrow> ('z, unit) dbcmd" where
  "AgentPreServiceUnsuspend job = bindC (agentUpdateServiceStatus job JobAgentPreServiceUnsuspend) (\<lambda>_. ret ())"

definition agentCooperativeClose :: "'k Worker \<Rightarrow> Job \<Rightarrow> Channel \<Rightarrow> ('z, unit) wcmd" where
  "agentCooperativeClose wk job ch =
     bindC (offering (ch_Offering ch)) (\<lambda>offer.
     bindC (account (ch_Agent ch)) (\<lambda>agent.
     bindC (toOfferingHashArr (ofr_Hash offer)) (\<lambda>offeringHash.
     bindC (hexAddress (ch_Client ch)) (\<lambda>clientAddr.
     bindC (key wk agent) (\<lambda>accKey.
     bindC (of_option (Worker worker_ErrSignClosingMsg) (cr_sign (wk_crypto wk) accKey
         (BalanceClosingHash (cr_kec (wk_crypto wk)) clientAddr (wk_pscAddr wk) (ch_Block ch) offeringHash
           (ch_ReceiptBalance ch)))) (\<lambda>closingSig.
     bindC (hexAddress (ch_Agent ch)) (\<lambda>agentAddr.
     bindC (of_option (Worker worker_ErrNoReceiptSignature) (ch_ReceiptSignature ch)) (\<lambda>receiptSig.
     bindC (of_option (Worker worker_ErrInternal) (ToBytes receiptSig)) (\<lambda>balanceMsgSig.
     bindC (of_option (Worker worker_ErrInternal) (bk_SuggestGasPrice (wk_eth wk))) (\<lambda>gasPrice.
     bindC (transact wk accKey (gas_CooperativeClose (wk_gasConf wk)) (Some gasPrice)
         (CooperativeClose agentAddr (ch_Block ch) offeringHash (ch_ReceiptBalance ch) balanceMsgSig closingSig)
         worker_ErrPSCCooperativeClose) (\<lambda>tx.
       saveEthTX job tx ''CooperativeClose'' (job_RelatedType job) (job_RelatedID job) (acc_EthAddr agent)
         (pscHex wk))))))))))))"

definition AgentPreServiceTerminate :: "'k Worker \<Rightarrow> Job \<Rightarrow> ('z, unit) wcmd" where
  "AgentPreServiceTerminate wk job =
     bindC (agentUpdateServiceStatus job JobAgentPreServiceTerminate) (\<lambda>ch.
       if ch_ReceiptBalance ch = 0 then ret () else agentCooperativeClose wk job ch)"

section \<open>The endpoint message\<close>

definition keep_panic :: "worker_error \<Rightarrow> go_error + 'a \<Rightarrow> go_error + 'a" where
  "keep_panic e = map_sum (\<lambda>x. if x = Panic then Panic else Worker e) (\<lambda>x. x)"

text \<open>The transaction is left open when the password cannot be hashed or the offering not be read.\<close>

definition saveEndpoint :: "'k Worker \<Rightarrow> Channel \<Rightarrow> EptMsg \<Rightarrow> Template \<Rightarrow> bytes \<Rightarrow> ('z, unit) dbcmd" where
  "saveEndpoint wk ch msg tmpl msgSealed =
     bindC new_uuid (\<lambda>i.
     thenC (on_err (werr worker_ErrInternal) begin_tx)
    (thenC (handleC (insert_row EndpointTable Tx
           \<lparr>ep_ID = i, ep_Template = tpl_ID tmpl, ep_Channel = ch_ID ch,
            ep_Hash = HexFromBytes (cr_kec (wk_crypto wk) msgSealed), ep_RawMsg = FromBytes msgSealed,
            ep_PaymentReceiverAddress = Some (em_PaymentReceiverAddress msg),
            ep_ServiceEndpointAddress = Some (em_ServiceEndpointAddress msg),
            ep_Username = Some (em_Username msg), ep_Password = Some (em_Password msg),
            ep_AdditionalParams = wk_marshalParams wk (em_AdditionalParams msg), ep_CountryStatus = None\<rparr>)
         (\<lambda>e. thenC rollback_tx (fail e)) ret)
    (bindC (of_option (Worker worker_ErrGeneratePasswordHash)
         (HashPassword (wk_bcrypt wk) (em_Password msg) (rune_string (wk_salt wk)))) (\<lambda>passwordHash.
     bindC (offering (ch_Offering ch)) (\<lambda>offer.
     bindC now (\<lambda>t.
     let status = (if ofr_BillingType offer = BillingPrepaid \<or> 0 < ofr_SetupPrice offer
           then ServiceSuspending else ServiceActivating)
     in thenC (handleC (update_row ChannelTable Tx (ch\<lparr>ch_Password := passwordHash, ch_Salt := wk_salt wk,
             ch_ServiceStatus := status, ch_ServiceChangedTime := Some (t + 60000000000)\<rparr>))
           (\<lambda>e. thenC rollback_tx (fail (Worker worker_ErrInternal))) ret)
         (on_err (werr worker_ErrInternal) commit_tx)))))))"

definition AgentPreEndpointMsgCreate :: "'k Worker \<Rightarrow> Job \<Rightarrow> ('z, unit) dbcmd" where
  "AgentPreEndpointMsgCreate wk job =
     bindC (relatedChannel job JobAgentPreEndpointMsgCreate) (\<lambda>ch.
     bindC (on_err (werr worker_ErrMakeEndpointMsg) (EndpointMessage (wk_ept wk) (ch_ID ch))) (\<lambda>msg.
     bindC (templateByHash (em_TemplateHash msg)) (\<lambda>tmpl.
     bindC (of_option (Worker worker_ErrInternal) (fm_marshal (es_format (wk_ept wk)) msg)) (\<lambda>msgBytes.
     bindC (user (ch_Client ch)) (\<lambda>client.
     bindC (of_option (Worker worker_ErrInternal) (ToBytes (usr_PublicKey client))) (\<lambda>clientPub.
     bindC (account (ch_Agent ch)) (\<lambda>agent.
     bindC (key wk agent) (\<lambda>agentKey.
     bindC (of_sum (keep_panic worker_ErrEndpointMsgSeal (AgentSeal (wk_crypto wk) msgBytes clientPub agentKey))) (\<lambda>msgSealed.
       saveEndpoint wk ch msg tmpl msgSealed)))))))))"

section \<open>Offerings\<close>

text \<open>The gas limit of the check of the Ether balance has not been set yet, so it is 0.\<close>

definition AgentPreOfferingMsgBCPublish :: "'k Worker \<Rightarrow> Job \<Rightarrow> ('z, unit) wcmd" where
  "AgentPreOfferingMsgBCPublish wk job =
     bindC (relatedOffering job JobAgentPreOfferingMsgBCPublish) (\<lambda>offer.
     let minDeposit = ComputePrice offer (ofr_MinUnits offer) in
     bindC (account (ofr_Agent offer)) (\<lambda>agent.
     bindC (key wk agent) (\<lambda>agentKey.
     bindC (productByPK (ofr_Product offer)) (\<lambda>product.
     let country = (case prd_Country product of Some c \<Rightarrow> if length c = 2 then c else UndefinedCountry
           | None \<Rightarrow> UndefinedCountry) in
     bindC (publishData job) (\<lambda>gasPrice.
     case HexToBytes (ofr_Hash offer) of (offeringHash, ok) \<Rightarrow>
     thenC (guardC ok (Text ''hash''))
    (let from = cr_address (wk_crypto wk) agentKey; gasLimit = 0 in
     bindC (of_option (Worker worker_ErrPSCReturnBalance) (bk_PSCBalanceOf (wk_eth wk) from)) (\<lambda>pscBalance.
     thenC (guardC (\<not> pscBalance < minDeposit * ucast (ofr_Supply offer)) (Worker worker_ErrInsufficientPSCBalance))
    (bindC (ethBalance wk from) (\<lambda>ethAmount.
     thenC (guardC (\<not> big_u64 ethAmount < gasLimit * gasPrice) (Worker worker_ErrInsufficientEthBalance))
    (thenC (guardC (wk_torHostName wk \<noteq> []) (Worker worker_ErrTorNoSet))
    (bindC (transact wk agentKey (gas_RegisterServiceOffering (wk_gasConf wk)) (Some (uint gasPrice))
         (RegisterServiceOffering (BytesToHash offeringHash) minDeposit (ofr_Supply offer) OfferingSOMCTor
           (wk_torHostName wk)) worker_ErrPSCRegisterOffering) (\<lambda>tx.
     thenC (updateRecord Conn OfferingTable (offer\<lparr>ofr_Country := country, ofr_SOMCType := OfferingSOMCTor,
         ofr_SOMCData := wk_torHostName wk, ofr_Status := OfferRegistering\<rparr>))
       (saveEthTX job tx ''RegisterServiceOffering'' (job_RelatedType job) (job_RelatedID job) (acc_EthAddr agent)
         (pscHex wk))))))))))))))"

definition AgentAfterOfferingMsgBCPublish :: "'k Worker \<Rightarrow> Job \<Rightarrow> ('z, unit) dbcmd" where
  "AgentAfterOfferingMsgBCPublish wk job =
     bindC (relatedOffering job JobAgentAfterOfferingMsgBCPublish) (\<lambda>offer.
     bindC (ethLog job) (\<lambda>l.
     thenC (updateRecord Conn OfferingTable (offer\<lparr>ofr_Status := OfferRegistered, ofr_BlockNumberUpdated := elog_Block l\<rparr>))
       (updateBalancesOf wk Conn (ofr_Agent offer))))"

definition AgentAfterOfferingDelete :: "'k Worker \<Rightarrow> Job \<Rightarrow> ('z, unit) dbcmd" where
  "AgentAfterOfferingDelete wk job =
     bindC (relatedOffering job JobAgentAfterOfferingDelete) (\<lambda>offer.
     thenC (saveRecord Conn OfferingTable (offer\<lparr>ofr_Status := OfferRemoved\<rparr>))
       (updateBalancesOf wk Conn (ofr_Agent offer)))"

definition getOfferingBlockNumber :: "'k Worker \<Rightarrow> hash \<Rightarrow> ('s, go_error, u32) cmd" where
  "getOfferingBlockNumber wk h =
     bindC (of_option (Worker worker_ErrInternal) (bk_PSCGetOfferingInfo (wk_eth wk) h)) (\<lambda>info.
     thenC (guardC (oi_Active info) (Worker worker_ErrOfferingNotActive)) (ret (oi_UpdateBlock info)))"

definition checkInPeriod :: "'k Worker \<Rightarrow> hash \<Rightarrow> string \<Rightarrow> worker_error \<Rightarrow> ('z, unit) dbcmd" where
  "checkInPeriod wk h periodKey periodErr =
     bindC (getOfferingBlockNumber wk h) (\<lambda>updateBlock.
     bindC (of_option (Worker worker_ErrInternal) (bk_LatestBlockNumber (wk_eth wk))) (\<lambda>lastBlock.
     bindC (on_err (werr periodErr) (ReadUintSetting Conn periodKey)) (\<lambda>period.
       guardC (\<not> big_u64 lastBlock < ucast updateBlock + period) (Worker periodErr))))"

definition AgentPreOfferingDelete :: "'k Worker \<Rightarrow> Job \<Rightarrow> ('z, unit) wcmd" where
  "AgentPreOfferingDelete wk job =
     bindC (relatedOffering job JobAgentPreOfferingDelete) (\<lambda>offer.
     thenC (guardC (ofr_Status offer = OfferRegistered \<or> ofr_Status offer = OfferPoppedUp)
         (Worker worker_ErrOfferNotRegistered))
    (bindC (publishData job) (\<lambda>gasPrice.
     bindC (accountKey wk (ofr_Agent offer)) (\<lambda>k.
     case HexToHash (ofr_Hash offer) of (h, ok) \<Rightarrow>
     thenC (guardC ok (Text ''hash''))
    (thenC (checkInPeriod wk h SettingsPeriodRemove worker_ErrOfferingDeletePeriodIsNotOver)
    (bindC (transact wk k (gas_RemoveServiceOffering (wk_gasConf wk)) (Some (uint gasPrice))
         (PSCRemoveServiceOffering h) worker_ErrPSCRemoveOffering) (\<lambda>tx.
     thenC (saveRecord Conn OfferingTable (offer\<lparr>ofr_Status := OfferRemoving\<rparr>))
       (saveEthTX job tx ''RemoveServiceOffering'' (job_RelatedType job) (job_RelatedID job) (ofr_Agent offer)
         (pscHex wk)))))))))"

definition agentOfferingPopUpFindRelatedJobs :: "string \<Rightarrow> string \<Rightarrow> ('z, unit) dbcmd" where
  "agentOfferingPopUpFindRelatedJobs i jobID =
     bindC (on_err (werr worker_ErrInternal) (query Conn (\<lambda>d. length (filter (\<lambda>j.
         (job_Type j = JobAgentPreOfferingDelete \<or> job_Type j = JobAgentPreOfferingPopUp)
         \<and> job_Status j = JobActive \<and> job_RelatedID j = i \<and> job_ID j \<noteq> jobID) (db_jobs d))))) (\<lambda>count.
       guardC (count = 0) (Worker worker_ErrUncompletedJobsExists))"

definition AgentPreOfferingPopUp :: "'k Worker \<Rightarrow> Job \<Rightarrow> ('z, unit) wcmd" where
  "AgentPreOfferingPopUp wk job =
     bindC (relatedOffering job JobAgentPreOfferingPopUp) (\<lambda>offer.
     thenC (guardC (ofr_Status offer = OfferRegistered \<or> ofr_Status offer = OfferPoppedUp)
         (Worker worker_ErrOfferNotRegistered))
    (bindC (publishData job) (\<lambda>gasPrice.
     case HexToHash (ofr_Hash offer) of (h, ok) \<Rightarrow>
     thenC (guardC ok (Worker worker_ErrInternal))
    (thenC (agentOfferingPopUpFindRelatedJobs (ofr_ID offer) (job_ID job))
    (thenC (checkInPeriod wk h SettingsPeriodPopUp worker_ErrPopUpPeriodIsNotOver)
    (bindC (accountKey wk (ofr_Agent offer)) (\<lambda>k.
     bindC (transact wk k (gas_PopupServiceOffering (wk_gasConf wk)) (Some (uint gasPrice))
         (PSCPopupServiceOffering h (ofr_SOMCType offer) (ofr_SOMCData offer)) worker_ErrPSCPopUpOffering) (\<lambda>tx.
     thenC (saveRecord Conn OfferingTable (offer\<lparr>ofr_Status := OfferPoppingUp\<rparr>))
       (saveEthTX job tx ''PopupServiceOffering'' (job_RelatedType job) (job_RelatedID job) (ofr_Agent offer)
         (pscHex wk))))))))))"

definition AgentAfterOfferingPopUp :: "'k Worker \<Rightarrow> Job \<Rightarrow> ('z, unit) dbcmd" where
  "AgentAfterOfferingPopUp wk job =
     bindC (ethLog job) (\<lambda>l.
     bindC (of_sum (extractLogOfferingPopUp wk l)) (\<lambda>popUp.
     bindC (on_err (werr worker_ErrInternal) (select_one OfferingTable Conn (\<lambda>f.
         ofr_Hash f = HexFromBytes (hash_bytes (lp_offeringHash popUp))))) (\<lambda>offer.
       saveRecord Conn OfferingTable (offer\<lparr>ofr_BlockNumberUpdated := elog_Block l, ofr_Status := OfferPoppedUp\<rparr>))))"

end
