(* ===== verification/WorkerClient.thy ===== *)
theory WorkerClient
  imports WorkerAgent
begin

text \<open>
  The client's job handlers, \<open>src/proc/worker/client.go\<close>, but for the ratings: creating, topping up
  and closing channels, fetching endpoints and offerings, the transitions of a service, and the
  supply of offerings. A handler that changes its job returns it.
\<close>

section \<open>Creating a channel\<close>

definition checkDeposit :: "'k Worker \<Rightarrow> Account \<Rightarrow> u64 \<Rightarrow> ('s, go_error, unit) cmd" where
  "checkDeposit wk acc deposit =
     bindC (hexAddress (acc_EthAddr acc)) (\<lambda>addr.
     bindC (of_option (Worker worker_ErrPSCReturnBalance) (bk_PSCBalanceOf (wk_eth wk) addr)) (\<lambda>amount.
       guardC (\<not> amount < deposit) (Worker worker_ErrInsufficientPSCBalance)))"

definition clientPreChannelCreateCheckSupply :: "'k Worker \<Rightarrow> Offering \<Rightarrow> hash \<Rightarrow> ('s, go_error, unit) cmd" where
  "clientPreChannelCreateCheckSupply wk offer offerHash =
     bindC (of_option (Worker worker_ErrPSCOfferingSupply) (bk_PSCGetOfferingInfo (wk_eth wk) offerHash)) (\<lambda>info.
       guardC (oi_CurrentSupply info \<noteq> 0 \<and> ofr_CurrentSupply offer \<noteq> 0) (Worker worker_ErrOfferingNoSupply))"

definition clientPreChannelCreateSaveTX ::
  "'k Worker \<Rightarrow> Job \<Rightarrow> Account \<Rightarrow> Offering \<Rightarrow> hash \<Rightarrow> u64 \<Rightarrow> int \<Rightarrow> ('z, unit) wcmd" where
  "clientPreChannelCreateSaveTX wk job acc offer offerHash deposit gasPrice =
     bindC (hexAddress (ofr_Agent offer)) (\<lambda>agentAddr.
     bindC (key wk acc) (\<lambda>k.
     bindC (transact wk k (gas_CreateChannel (wk_gasConf wk)) (Some gasPrice)
         (PSCCreateChannel agentAddr offerHash deposit) worker_ErrPSCCreateChannel) (\<lambda>tx.
     thenC (saveEthTX job tx ''CreateChannel'' JobChannel (job_RelatedID job) (acc_EthAddr acc) (ofr_Agent offer))
       (on_err (werr worker_ErrInternal) (Insert Conn ChannelTable
         \<lparr>ch_ID = job_RelatedID job, ch_Agent = ofr_Agent offer, ch_Client = acc_EthAddr acc, ch_Offering = ofr_ID offer,
          ch_Block = 0, ch_ChannelStatus = ChannelPending, ch_ServiceStatus = ServicePending,
          ch_ServiceChangedTime = None, ch_PreparedAt = zero_time, ch_TotalDeposit = deposit, ch_Salt = 0,
          ch_Username = None, ch_Password = [], ch_ReceiptBalance = 0, ch_ReceiptSignature = None\<rparr>)))))"

record ClientPreChannelCreateData =
  pcc_Account :: string
  pcc_Offering :: string
  pcc_GasPrice :: u64
  pcc_Deposit :: u64

definition dec_ChannelCreateData :: "ClientPreChannelCreateData decoder" where
  "dec_ChannelCreateData = dec_struct (\<lambda>m.
     (case dec_str (m ''account'') of (a, ok1) \<Rightarrow> case dec_str (m ''offering'') of (f, ok2) \<Rightarrow>
      case dec_u64 (m ''gasPrice'') of (g, ok3) \<Rightarrow> case dec_u64 (m ''deposit'') of (d, ok4) \<Rightarrow>
        (\<lparr>pcc_Account = a, pcc_Offering = f, pcc_GasPrice = g, pcc_Deposit = d\<rparr>, ok1 \<and> ok2 \<and> ok3 \<and> ok4)))"

text \<open>An error in looking the agent up, other than that there is none, is dropped.\<close>

definition rememberAgent :: "HexString \<Rightarrow> Base64String \<Rightarrow> ('z, unit) dbcmd" where
  "rememberAgent agentEthAddr pubKey =
     handleC (select_one UserTable Conn (\<lambda>u. usr_EthAddr u = agentEthAddr))
       (\<lambda>e. if e = NoRows then bindC new_uuid (\<lambda>i. on_err (werr worker_ErrInternal) (insert_row UserTable Conn
              \<lparr>usr_ID = i, usr_EthAddr = agentEthAddr, usr_PublicKey = pubKey\<rparr>)) else ret ())
       (\<lambda>_. ret ())"

definition suggested :: "'k Worker \<Rightarrow> u64 \<Rightarrow> ('s, go_error, int) cmd" where
  "suggested wk gasPrice = (if gasPrice \<noteq> 0 then ret (uint gasPrice)
     else of_option (Worker worker_ErrInternal) (bk_SuggestGasPrice (wk_eth wk)))"

definition ClientPreChannelCreate :: "'k Worker \<Rightarrow> Job \<Rightarrow> ('z, unit) wcmd" where
  "ClientPreChannelCreate wk job =
     bindC (unmarshalDataTo dec_ChannelCreateData (job_Data job)) (\<lambda>jdata.
     bindC (accountByPK (pcc_Account jdata)) (\<lambda>acc.
     bindC (offering (pcc_Offering jdata)) (\<lambda>offer.
     let price = ComputePrice offer (ofr_MinUnits offer);
         deposit = (if pcc_Deposit jdata = 0 then price else pcc_Deposit jdata) in
     thenC (checkDeposit wk acc deposit)
    (thenC (guardC (\<not> deposit < price) (Worker worker_ErrSmallDeposit))
    (bindC (toOfferingHashArr (ofr_Hash offer)) (\<lambda>offerHash.
     thenC (clientPreChannelCreateCheckSupply wk offer offerHash)
    (bindC (of_option (Worker worker_ErrInternal) (ToBytes (ofr_RawMsg offer))) (\<lambda>raw.
     bindC (of_sum (UnpackSignature raw)) (\<lambda>(msgRaw, _).
     bindC (of_option (Worker worker_ErrInternal) (fm_unmarshal (wk_offer_format wk) msgRaw)) (\<lambda>msg.
     bindC (of_option (Worker worker_ErrInternal) (ToBytes (om_AgentPubKey msg))) (\<lambda>pubk.
     bindC (of_option (Worker worker_ErrInternal) (cr_pub_address (wk_crypto wk) pubk)) (\<lambda>addr.
     thenC (rememberAgent (HexFromBytes (address_bytes addr)) (om_AgentPubKey msg))
    (bindC (suggested wk (pcc_GasPrice jdata)) (\<lambda>gasPrice.
       clientPreChannelCreateSaveTX wk job acc offer offerHash deposit gasPrice))))))))))))))"

definition fetchEndpoint :: "'k Worker \<Rightarrow> u8 \<Rightarrow> Base64String \<Rightarrow> Base64String \<Rightarrow> bytes option" where
  "fetchEndpoint wk somcType somcData k = (case wk_somc wk somcType somcData of
     Inl _ \<Rightarrow> None
   | Inr client \<Rightarrow> (case so_Endpoint client k of None \<Rightarrow> None | Some rawMsg \<Rightarrow> ToBytes rawMsg))"

definition ClientAfterChannelCreate :: "'k Worker \<Rightarrow> Job \<Rightarrow> ('z, unit) dbcmd" where
  "ClientAfterChannelCreate wk job =
     bindC (relatedChannel job JobClientAfterChannelCreate) (\<lambda>ch.
     bindC (ethLog job) (\<lambda>l.
     thenC (saveRecord Conn ChannelTable (ch\<lparr>ch_Block := ucast (elog_Block l), ch_ChannelStatus := ChannelActive\<rparr>))
    (bindC (keyFromChannelData wk (ch_ID ch)) (\<lambda>k.
     bindC (offering (ch_Offering ch)) (\<lambda>offer.
     bindC (of_option (Worker worker_ErrGetEndpoint) (fetchEndpoint wk (ofr_SOMCType offer) (ofr_SOMCData offer) k)) (\<lambda>sealed.
     thenC (addJobWithData wk Conn JobClientEndpointGet JobChannel (ch_ID ch) (enc_EndpointCreateData sealed))
       (updateBalancesOf wk Conn (ch_Client ch))))))))"

section \<open>The endpoint\<close>

definition extractEndpointMessage :: "'k Worker \<Rightarrow> Channel \<Rightarrow> bytes \<Rightarrow> ('z, EptMsg) dbcmd" where
  "extractEndpointMessage wk ch sealed =
     bindC (account (ch_Client ch)) (\<lambda>client.
     bindC (user (ch_Agent ch)) (\<lambda>agent.
     bindC (of_option (Worker worker_ErrInternal) (ToBytes (usr_PublicKey agent))) (\<lambda>pub.
     bindC (key wk client) (\<lambda>k.
     bindC (of_sum (keep_panic worker_ErrDecryptEndpointMsg (ClientOpen (wk_crypto wk) sealed pub k))) (\<lambda>mdata.
     bindC (of_option (Worker worker_ErrInternal) (fm_unmarshal (es_format (wk_ept wk)) mdata)) (\<lambda>msg.
     bindC (templateByHash (em_TemplateHash msg)) (\<lambda>tpl.
     thenC (guardC (wk_validJSON wk (tpl_Raw tpl) mdata) (Worker worker_ErrInvalidEndpoint))
       (ret msg))))))))"

definition endpoint_country :: "'k Worker \<Rightarrow> Offering \<Rightarrow> string \<Rightarrow> country_status" where
  "endpoint_country wk offer addr = (case wk_country wk addr of
     None \<Rightarrow> CountryStatusUnknown
   | Some c \<Rightarrow> if length c \<noteq> 2 then CountryStatusUnknown
       else if c = ofr_Country offer then CountryStatusValid else CountryStatusInvalid)"

text \<open>Inside its transaction the handler writes through the connection.\<close>

definition ClientEndpointGet :: "'k Worker \<Rightarrow> Job \<Rightarrow> ('z, unit) dbcmd" where
  "ClientEndpointGet wk job =
     bindC (relatedChannel job JobClientEndpointGet) (\<lambda>ch.
     bindC (unmarshalDataTo dec_EndpointCreateData (job_Data job)) (\<lambda>sealed.
     bindC (extractEndpointMessage wk ch sealed) (\<lambda>msg.
     bindC (offering (ch_Offering ch)) (\<lambda>offer.
     in_tx
      (bindC new_uuid (\<lambda>i.
       thenC (on_err (werr worker_ErrInternal) (insert_row EndpointTable Conn
           \<lparr>ep_ID = i, ep_Template = ofr_Template offer, ep_Channel = ch_ID ch, ep_Hash = em_TemplateHash msg,
            ep_RawMsg = FromBytes sealed, ep_PaymentReceiverAddress = Some (em_PaymentReceiverAddress msg),
            ep_ServiceEndpointAddress = Some (em_ServiceEndpointAddress msg), ep_Username = Some (em_Username msg),
            ep_Password = Some (em_Password msg), ep_AdditionalParams = wk_marshalParams wk (em_AdditionalParams msg),
            ep_CountryStatus = Some (endpoint_country wk offer (em_ServiceEndpointAddress msg))\<rparr>))
      (bindC now (\<lambda>t.
         saveRecord Conn ChannelTable (ch\<lparr>ch_ServiceStatus := ServiceSuspended, ch_ServiceChangedTime := Some t,
           ch_PreparedAt := t\<rparr>)))))))))"

section \<open>Closing a channel\<close>

definition ClientAfterUncooperativeClose :: "'k Worker \<Rightarrow> Job \<Rightarrow> ('z, unit) dbcmd" where
  "ClientAfterUncooperativeClose wk job =
     bindC (relatedChannel job JobClientAfterUncooperativeClose) (\<lambda>ch.
     thenC (saveRecord Conn ChannelTable (ch\<lparr>ch_ChannelStatus := ChannelClosedUncoop\<rparr>))
       (updateBalancesOf wk Conn (ch_Client ch)))"

definition ClientAfterCooperativeClose :: "'k Worker \<Rightarrow> Job \<Rightarrow> ('z, unit) dbcmd" where
  "ClientAfterCooperativeClose wk job =
     bindC (relatedChannel job JobClientAfterCooperativeClose) (\<lambda>ch.
     thenC (saveRecord Conn ChannelTable (ch\<lparr>ch_ChannelStatus := ChannelClosedCoop\<rparr>))
    (thenC (terminateService wk ch False)
       (updateBalancesOf wk Conn (ch_Client ch))))"

definition clientSetService :: "Job \<Rightarrow> job_type \<Rightarrow> (svc_status \<Rightarrow> svc_status) \<Rightarrow> ('z, unit) dbcmd" where
  "clientSetService job jobType next =
     bindC (relatedChannel job jobType) (\<lambda>ch. bindC now (\<lambda>t.
       saveRecord Conn ChannelTable (ch\<lparr>ch_ServiceStatus := next (ch_ServiceStatus ch), ch_ServiceChangedTime := Some t\<rparr>)))"

definition ClientPreServiceTerminate :: "Job \<Rightarrow> ('z, unit) dbcmd" where
  "ClientPreServiceTerminate job = clientSetService job JobClientPreServiceTerminate
     (\<lambda>s. if s = ServiceActive then ServiceTerminating else ServiceTerminated)"

definition ClientPreServiceSuspend :: "Job \<Rightarrow> ('z, unit) dbcmd" where
  "ClientPreServiceSuspend job = clientSetService job JobClientPreServiceSuspend (\<lambda>_. ServiceSuspending)"

definition ClientPreServiceUnsuspend :: "Job \<Rightarrow> ('z, unit) dbcmd" where
  "ClientPreServiceUnsuspend job = clientSetService job JobClientPreServiceUnsuspend (\<lambda>_. ServiceActivating)"

definition clientValidateChannelForClose :: "Channel \<Rightarrow> ('s, go_error, unit) cmd" where
  "clientValidateChannelForClose ch =
     thenC (guardC (ch_ChannelStatus ch = ChannelActive \<or> ch_ChannelStatus ch = ChannelPending)
         (Worker worker_ErrInvalidChannelStatus))
    (thenC (guardC (ch_ServiceStatus ch = ServiceTerminated \<or> ch_ServiceStatus ch = ServicePending)
         (Worker worker_ErrInvalidServiceStatus))
       (guardC (\<not> ch_TotalDeposit ch < ch_ReceiptBalance ch) (Worker worker_ErrChannelReceiptBalance)))"

definition doClientPreUncooperativeCloseRequestAndSaveTx ::
  "'k Worker \<Rightarrow> Job \<Rightarrow> Channel \<Rightarrow> Account \<Rightarrow> Offering \<Rightarrow> u64 \<Rightarrow> ('z, unit) wcmd" where
  "doClientPreUncooperativeCloseRequestAndSaveTx wk job ch acc offer gasPrice =
     bindC (hexAddress (ch_Agent ch)) (\<lambda>agent.
     bindC (key wk acc) (\<lambda>k.
     bindC (suggested wk gasPrice) (\<lambda>price.
     bindC (toOfferingHashArr (ofr_Hash offer)) (\<lambda>offerHash.
     bindC (transact wk k (gas_UncooperativeClose (wk_gasConf wk)) (Some price)
         (PSCUncooperativeClose agent (ch_Block ch) offerHash (ch_ReceiptBalance ch)) worker_ErrPSCUncooperativeClose) (\<lambda>tx.
     thenC (saveEthTX job tx ''UncooperativeClose'' JobChannel (ch_ID ch) (acc_EthAddr acc) (pscHex wk))
       (saveRecord Conn ChannelTable (ch\<lparr>ch_ChannelStatus := ChannelWaitChallenge\<rparr>)))))))"

definition ClientPreUncooperativeCloseRequest :: "'k Worker \<Rightarrow> Job \<Rightarrow> ('z, unit) wcmd" where
  "ClientPreUncooperativeCloseRequest wk job =
     bindC (relatedChannel job JobClientPreUncooperativeCloseRequest) (\<lambda>ch.
     bindC (publishData job) (\<lambda>gasPrice.
     bindC (offering (ch_Offering ch)) (\<lambda>offer.
     bindC (account (ch_Client ch)) (\<lambda>acc.
     thenC (clientValidateChannelForClose ch)
       (doClientPreUncooperativeCloseRequestAndSaveTx wk job ch acc offer gasPrice)))))"

definition BlockDuration :: u64 where
  "BlockDuration = 15 * second"

definition ClientAfterUncooperativeCloseRequest :: "'k Worker \<Rightarrow> Job \<Rightarrow> ('z, unit) dbcmd" where
  "ClientAfterUncooperativeCloseRequest wk job =
     bindC (relatedChannel job JobClientAfterUncooperativeCloseRequest) (\<lambda>ch.
     thenC (updateRecord Conn ChannelTable (ch\<lparr>ch_ChannelStatus := ChannelInChallenge\<rparr>))
    (bindC (ReadUintSetting Conn SettingsPeriodChallange) (\<lambda>challengePeriod.
       addJobWithDelay wk Conn JobClientPreUncooperativeClose JobChannel (ch_ID ch)
         (go_duration challengePeriod BlockDuration))))"

text \<open>The difference of the blocks is taken with signed numbers of 64 bits.\<close>

definition blocksTillChallangeEnd ::
  "'k Worker \<Rightarrow> address \<Rightarrow> address \<Rightarrow> u32 \<Rightarrow> hash \<Rightarrow> ('s, go_error, int) cmd" where
  "blocksTillChallangeEnd wk client agent block h =
     bindC (of_option (Worker worker_ErrPSCGetChannelInfo) (bk_PSCGetSettleBlock (wk_eth wk) client agent block h)) (\<lambda>settleBlock.
     bindC (of_option (Worker worker_ErrEthLatestBlockNumber) (bk_LatestBlockNumber (wk_eth wk))) (\<lambda>curr.
       ret (sint (ucast settleBlock - big_u64 curr))))"

definition settle :: "'k Worker \<Rightarrow> Account \<Rightarrow> address \<Rightarrow> u32 \<Rightarrow> hash \<Rightarrow> ('z, transaction) wcmd" where
  "settle wk acc agent block h =
     bindC (key wk acc) (\<lambda>k. transact wk k 0 None (PSCSettle agent block h) worker_ErrPSCSettle)"

definition ClientPreUncooperativeClose :: "'k Worker \<Rightarrow> Job \<Rightarrow> ('z, Job) wcmd" where
  "ClientPreUncooperativeClose wk job =
     handleC (select_one JobTable Conn (\<lambda>j. job_RelatedID j = job_RelatedID job
         \<and> job_RelatedType j = job_RelatedType job \<and> job_Type j = JobClientAfterCooperativeClose))
      (\<lambda>_.
     bindC (relatedChannel job JobClientPreUncooperativeClose) (\<lambda>ch.
     if ch_ChannelStatus ch = ChannelClosedCoop then ret job
     else
     bindC (hexAddress (ch_Agent ch)) (\<lambda>agent.
     bindC (hexAddress (ch_Client ch)) (\<lambda>client.
     bindC (account (ch_Client ch)) (\<lambda>acc.
     bindC (offering (ch_Offering ch)) (\<lambda>offer.
     bindC (toOfferingHashArr (ofr_Hash offer)) (\<lambda>offerHash.
     bindC (blocksTillChallangeEnd wk client agent (ch_Block ch) offerHash) (\<lambda>blocks.
     thenC (guardC (\<not> 0 < blocks) (Worker worker_ErrChallengePeriodIsNotOver))
    (bindC (settle wk acc agent (ch_Block ch) offerHash) (\<lambda>tx.
     thenC (saveEthTX job tx ''Settle'' JobChannel (ch_ID ch) (acc_EthAddr acc) (pscHex wk))
    (thenC (saveRecord Conn ChannelTable (ch\<lparr>ch_ChannelStatus := ChannelWaitUncoop\<rparr>))
       (ret job))))))))))))
      (\<lambda>_. let job' = job\<lparr>job_Status := JobCanceled\<rparr>
           in thenC (ignoreC (save_row JobTable Conn job')) (ret job'))"

section \<open>Topping up a channel\<close>

definition clientPreChannelTopUpSaveTx ::
  "'k Worker \<Rightarrow> Job \<Rightarrow> Channel \<Rightarrow> Account \<Rightarrow> Offering \<Rightarrow> u64 \<Rightarrow> u64 \<Rightarrow> ('z, unit) wcmd" where
  "clientPreChannelTopUpSaveTx wk job ch acc offer gasPrice deposit =
     bindC (on_err (werr worker_ErrParseOfferingHash) (hexAddress (ch_Agent ch))) (\<lambda>agent.
     bindC (toOfferingHashArr (ofr_Hash offer)) (\<lambda>offerHash.
     bindC (key wk acc) (\<lambda>k.
     bindC (suggested wk gasPrice) (\<lambda>price.
     bindC (transact wk k (gas_TopUp (wk_gasConf wk)) (Some price)
         (PSCTopUpChannel agent (ch_Block ch) offerHash deposit) worker_ErrPSCTopUpChannel) (\<lambda>tx.
       saveEthTX job tx ''TopUpChannel'' JobChannel (ch_ID ch) (acc_EthAddr acc) (pscHex wk))))))"

definition ClientPreChannelTopUp :: "'k Worker \<Rightarrow> Job \<Rightarrow> ('z, unit) wcmd" where
  "ClientPreChannelTopUp wk job =
     bindC (relatedChannel job JobClientPreChannelTopUp) (\<lambda>ch.
     bindC (offering (ch_Offering ch)) (\<lambda>offer.
     bindC (account (ch_Client ch)) (\<lambda>acc.
     bindC (unmarshalDataTo dec_DepositData (job_Data job)) (\<lambda>jdata.
     thenC (checkDeposit wk acc (dep_Deposit jdata))
       (clientPreChannelTopUpSaveTx wk job ch acc offer (dep_GasPrice jdata) (dep_Deposit jdata))))))"

definition ClientAfterChannelTopUp :: "'k Worker \<Rightarrow> Job \<Rightarrow> ('z, unit) dbcmd" where
  "ClientAfterChannelTopUp wk job = afterChannelTopUp wk job JobClientAfterChannelTopUp"

section \<open>Offerings\<close>

text \<open>
  The contract is asked about the hash of the message that came, while the offering is stored under
  the hash that was asked for; the two are not compared, and neither are the agent of the log and
  the key in the message.
\<close>

definition fillOfferingFromMsg ::
  "'k Worker \<Rightarrow> bytes \<Rightarrow> u64 \<Rightarrow> HexString \<Rightarrow> HexString \<Rightarrow> string \<Rightarrow> u8 \<Rightarrow> Base64String \<Rightarrow> ('z, Offering) dbcmd" where
  "fillOfferingFromMsg wk raw blockNumber agent h relID somcType somcData =
     handleC (offeringByHashString h)
      (\<lambda>_.
     bindC (of_option (Worker worker_ErrInternal)
         (bk_PSCGetOfferingInfo (wk_eth wk) (BytesToHash (cr_kec (wk_crypto wk) raw)))) (\<lambda>info.
     thenC (guardC (oi_Active info) (Worker worker_ErrOfferingNotActive))
    (bindC (of_sum (UnpackSignature raw)) (\<lambda>(msgRaw, sig).
     bindC (of_option (Worker worker_ErrInternal) (fm_unmarshal (wk_offer_format wk) msgRaw)) (\<lambda>msg.
     bindC (of_option (Worker worker_ErrInternal) (ToBytes (om_AgentPubKey msg))) (\<lambda>pubk.
     thenC (guardC (VerifySignature (wk_crypto wk) pubk (cr_kec (wk_crypto wk) msgRaw) sig)
         (Worker worker_ErrWrongOfferingMsgSignature))
    (bindC (templateByHash (om_TemplateHash msg)) (\<lambda>tpl.
     thenC (guardC (ValidMsg (wk_offer_format wk) (tpl_Raw tpl) msg) (Worker worker_ErrOfferNotCorrespondToTemplate))
    (bindC (on_err (werr worker_ErrProductNotFound) (select_one ProductTable Conn (\<lambda>p.
         prd_OfferTplID p = Some (tpl_ID tpl) \<and> \<not> prd_IsServer p))) (\<lambda>product.
       ret \<lparr>ofr_ID = relID, ofr_IsLocal = False, ofr_IPType = om_IPType msg, ofr_Template = tpl_ID tpl,
         ofr_Product = prd_ID product, ofr_Hash = h, ofr_Status = OfferRegistered, ofr_BlockNumberUpdated = blockNumber,
         ofr_Agent = agent, ofr_RawMsg = FromBytes raw, ofr_ServiceName = prd_Name product, ofr_Description = None,
         ofr_Country = om_Country msg, ofr_Supply = om_ServiceSupply msg, ofr_CurrentSupply = om_ServiceSupply msg,
         ofr_UnitName = om_UnitName msg, ofr_UnitType = om_UnitType msg, ofr_BillingType = om_BillingType msg,
         ofr_SetupPrice = om_SetupPrice msg, ofr_UnitPrice = om_UnitPrice msg, ofr_MinUnits = om_MinUnits msg,
         ofr_MaxUnit = om_MaxUnit msg, ofr_BillingInterval = om_BillingInterval msg,
         ofr_MaxBillingUnitLag = om_MaxBillingUnitLag msg, ofr_MaxSuspendTime = om_MaxSuspendTime msg,
         ofr_MaxInactiveTimeSec = om_MaxInactiveTimeSec msg, ofr_FreeUnits = om_FreeUnits msg,
         ofr_AdditionalParams = om_ServiceSpecificParameters msg, ofr_AutoPopUp = None, ofr_SOMCType = somcType,
         ofr_SOMCData = somcData, ofr_SOMCSuccessPing = None\<rparr>))))))))))
      (\<lambda>_. fail (Worker worker_ErrOfferingExists))"

definition fetchOffering :: "SomcClient \<Rightarrow> HexString \<Rightarrow> bytes option" where
  "fetchOffering client h = (case so_Offering client h of None \<Rightarrow> None | Some rawMsg \<Rightarrow> ToBytes rawMsg)"

text \<open>Three errors cancel the job, the others but an internal one are dropped.\<close>

definition clientRetrieveAndSaveOffering ::
  "'k Worker \<Rightarrow> Job \<Rightarrow> u64 \<Rightarrow> u8 \<Rightarrow> Base64String \<Rightarrow> address \<Rightarrow> hash \<Rightarrow> u16 \<Rightarrow> ('z, Job) dbcmd" where
  "clientRetrieveAndSaveOffering wk job block somcType somcData agentAddr h currentSupply =
     (case wk_somc wk somcType somcData of
        Inl e \<Rightarrow> if e = Somc somc_ErrUnknownSOMCType then ret job else fail (Worker worker_ErrFetchOffering)
      | Inr client \<Rightarrow>
     bindC (of_option (Worker worker_ErrFetchOffering) (fetchOffering client (HexFromBytes (hash_bytes h)))) (\<lambda>raw.
     handleC (fillOfferingFromMsg wk raw block (HexFromBytes (address_bytes agentAddr)) (HexFromBytes (hash_bytes h))
         (job_RelatedID job) somcType somcData)
      (\<lambda>e. if e = Panic then fail Panic
         else if e \<in> {Worker worker_ErrTemplateByHashNotFound, Worker worker_ErrOfferingNotActive, Worker worker_ErrOfferingExists}
         then let job' = job\<lparr>job_Status := JobCanceled\<rparr> in thenC (ignoreC (save_row JobTable Conn job')) (ret job')
         else if e \<noteq> Worker worker_ErrInternal then ret job
         else fail (Worker worker_ErrFetchOffering))
      (\<lambda>offer.
     bindC (of_option (Worker worker_ErrInternal) (bk_PSCGetOfferingInfo (wk_eth wk) h)) (\<lambda>info.
     thenC (guardC (oi_MinDeposit info = ComputePrice offer (ofr_MinUnits offer)) (Worker worker_ErrOfferingDeposit))
    (thenC (on_err (werr worker_ErrInternal) (Insert Conn OfferingTable
         (offer\<lparr>ofr_Supply := oi_MaxSupply info, ofr_CurrentSupply := currentSupply\<rparr>)))
       (ret job))))))"

definition ClientAfterOfferingMsgBCPublish :: "'k Worker \<Rightarrow> Job \<Rightarrow> ('z, Job) dbcmd" where
  "ClientAfterOfferingMsgBCPublish wk job =
     bindC (ethLog job) (\<lambda>l.
     bindC (of_sum (extractLogOfferingCreated wk l)) (\<lambda>created.
       clientRetrieveAndSaveOffering wk job (elog_Block l) (lo_somcType created) (lo_somcData created)
         (lo_agentAddr created) (lo_offeringHash created) (lo_currentSupply created)))"

definition ClientAfterOfferingPopUp :: "'k Worker \<Rightarrow> Job \<Rightarrow> ('z, Job) dbcmd" where
  "ClientAfterOfferingPopUp wk job =
     bindC (ethLog job) (\<lambda>l.
     bindC (of_sum (extractLogOfferingPopUp wk l)) (\<lambda>popUp.
     handleC (select_one OfferingTable Conn (\<lambda>f. ofr_Hash f = HexFromBytes (hash_bytes (lp_offeringHash popUp))))
      (\<lambda>e. if e = NoRows then clientRetrieveAndSaveOffering wk job (elog_Block l) (lp_somcType popUp) (lp_somcData popUp)
           (lp_agentAddr popUp) (lp_offeringHash popUp) (lp_currentSupply popUp)
         else fail (Worker worker_ErrInternal))
      (\<lambda>offer. if ofr_Status offer \<noteq> OfferRemoved \<and> ofr_BlockNumberUpdated offer < elog_Block l
         then thenC (saveRecord Conn OfferingTable
             (offer\<lparr>ofr_BlockNumberUpdated := elog_Block l, ofr_Status := OfferPoppedUp\<rparr>)) (ret job)
         else ret job)))"

definition ClientAfterOfferingDelete :: "Job \<Rightarrow> ('z, unit) dbcmd" where
  "ClientAfterOfferingDelete job = updateRelatedOffering job JobClientAfterOfferingDelete OfferRemoved"

definition updateOfferingSupplyFromChain :: "'k Worker \<Rightarrow> Offering \<Rightarrow> ('z, unit) dbcmd" where
  "updateOfferingSupplyFromChain wk offer =
     bindC (toOfferingHashArr (ofr_Hash offer)) (\<lambda>h.
     bindC (of_option (Worker worker_ErrPSCOfferingSupply) (bk_PSCGetOfferingInfo (wk_eth wk) h)) (\<lambda>info.
       on_err (werr worker_ErrInternal) (save_row OfferingTable Conn (offer\<lparr>ofr_CurrentSupply := oi_CurrentSupply info\<rparr>))))"

text \<open>A job about an offering that is not known is skipped.\<close>

definition withRelatedOffering :: "Job \<Rightarrow> job_type \<Rightarrow> (Offering \<Rightarrow> ('z, unit) dbcmd) \<Rightarrow> ('z, unit) dbcmd" where
  "withRelatedOffering job jobType f = handleC (relatedOffering job jobType)
     (\<lambda>e. if e = Worker worker_ErrOfferingNotFound then ret () else fail e) f"

definition DecrementCurrentSupply :: "'k Worker \<Rightarrow> Job \<Rightarrow> ('z, unit) dbcmd" where
  "DecrementCurrentSupply wk job = withRelatedOffering job JobDecrementCurrentSupply (\<lambda>offer.
     if ofr_CurrentSupply offer = 0 then updateOfferingSupplyFromChain wk offer
     else saveRecord Conn OfferingTable (offer\<lparr>ofr_CurrentSupply := ofr_CurrentSupply offer - 1\<rparr>))"

definition IncrementCurrentSupply :: "'k Worker \<Rightarrow> Job \<Rightarrow> ('z, unit) dbcmd" where
  "IncrementCurrentSupply wk job = withRelatedOffering job JobIncrementCurrentSupply (\<lambda>offer.
     if ofr_Supply offer < ofr_CurrentSupply offer + 1 then updateOfferingSupplyFromChain wk offer
     else saveRecord Conn OfferingTable (offer\<lparr>ofr_CurrentSupply := ofr_CurrentSupply offer + 1\<rparr>))"

end
