(* ===== verification/Ratings.thy ===== *)
theory Ratings
  imports WorkerClient
begin

text \<open>
  The ratings that a client computes from the closings it has seen, the end of
  \<open>src/proc/worker/client.go\<close>: the events within the fresh blocks, an initial rate for each address,
  and a number of ranking steps over two maps that are swapped. \<open>order\<close> is the order in which Go
  visits the map of addresses in each step, an arbitrary one; \<open>undefined\<close> is what the platform
  makes of a conversion of a number out of range.
\<close>

section \<open>Events\<close>

record closingEvent =
  ce_Agent :: HexString
  ce_Client :: HexString
  ce_Type :: closing_type
  ce_Cost :: u64

text \<open>
  The arithmetic of PostgreSQL: an overflow of \<open>balance * block\<close>, a division by zero, and a sum that
  does not fit the variable it is scanned into are errors. The groups come in any order, here in
  that of their first closing.
\<close>

definition closing_cost :: "int \<Rightarrow> Closing \<Rightarrow> int option" where
  "closing_cost height c = (let p = uint (cl_Balance c) * uint (cl_Block c)
     in if height = 0 \<or> 2 ^ 63 \<le> p then None else Some (trunc_div p height))"

definition same_group :: "Closing \<Rightarrow> Closing \<Rightarrow> bool" where
  "same_group a b \<longleftrightarrow> cl_Agent a = cl_Agent b \<and> cl_Client a = cl_Client b \<and> cl_Type a = cl_Type b"

fun first_of_groups :: "Closing list \<Rightarrow> Closing list" where
  "first_of_groups [] = []"
| "first_of_groups (c # cs) = c # filter (\<lambda>x. \<not> same_group x c) (first_of_groups cs)"

definition closing_groups :: "int \<Rightarrow> int \<Rightarrow> db \<Rightarrow> closingEvent list option" where
  "closing_groups height oldest d =
     (let cs = filter (\<lambda>c. oldest \<le> uint (cl_Block c)) (db_closings d);
          cost = (\<lambda>c. sum_list (map (\<lambda>x. the (closing_cost height x)) (filter (same_group c) cs)))
      in if list_all (\<lambda>c. closing_cost height c \<noteq> None) cs
           \<and> list_all (\<lambda>c. 0 \<le> cost c \<and> cost c < 2 ^ 64) (first_of_groups cs)
         then Some (map (\<lambda>c. \<lparr>ce_Agent = cl_Agent c, ce_Client = cl_Client c, ce_Type = cl_Type c,
              ce_Cost = word_of_int (cost c)\<rparr>) (first_of_groups cs))
         else None)"

definition closingEvents :: "'k Worker \<Rightarrow> ('z, closingEvent list) dbcmd" where
  "closingEvents wk =
     bindC (of_option (Worker worker_ErrInternal) (bk_LatestBlockNumber (wk_eth wk))) (\<lambda>latestBlock.
     bindC (on_err (werr worker_ErrInternal) (GetUint64Setting SettingOfferingsFreshBlocks)) (\<lambda>freshNum.
     let height = sint (big_u64 latestBlock); oldest = sint (big_u64 latestBlock - freshNum) in
     on_err (werr worker_ErrInternal)
       (bindC (query Conn (closing_groups height oldest)) (of_option (Text ''closings'')))))"

section \<open>Rates\<close>

text \<open>
  The sum of the costs times the share of cooperative closings, weighted by \<open>2 - 2 / 2 ^ n\<close>, in
  double precision; from 64 events on the power wraps to 0 and the division gives an infinity.
\<close>

definition getInitialRate :: "u64 \<Rightarrow> closingEvent list \<Rightarrow> u64" where
  "getInitialRate undefined_rate events =
     (if events = [] then 0
      else let amount = foldl (\<lambda>a e. double (a + double (of_int (uint (ce_Cost e))))) 0 events;
               nCoop = of_nat (length (filter (\<lambda>e. ce_Type e = ClosingCoop) events));
               n = of_nat (length events);
               x = double (double (double (2 * amount - double (2 * amount / 2 ^ length events)) * nCoop) / n)
           in if 64 \<le> length events \<or> 2 ^ 64 \<le> x then undefined_rate else word_of_int \<lfloor>x\<rfloor>)"

definition events_of :: "closingEvent list \<Rightarrow> HexString \<Rightarrow> closingEvent list" where
  "events_of events addr = concat (map (\<lambda>e.
     (if ce_Agent e = addr then [e] else []) @ (if ce_Client e = addr then [e] else [])) events)"

definition addresses :: "closingEvent list \<Rightarrow> HexString set" where
  "addresses events = ce_Agent ` set events \<union> ce_Client ` set events"

text \<open>Addresses with a single event have no initial rate.\<close>

definition initial_rating :: "u64 \<Rightarrow> closingEvent list \<Rightarrow> HexString \<rightharpoonup> u64" where
  "initial_rating undefined_rate events addr = (let es = events_of events addr
     in if length es \<le> 1 then None else Some (getInitialRate undefined_rate es))"

definition linked_to :: "HexString \<Rightarrow> closingEvent \<Rightarrow> HexString" where
  "linked_to addr link = (if addr = ce_Agent link then ce_Client link else ce_Agent link)"

text \<open>A missing key reads as 0.\<close>

definition rate :: "(HexString \<rightharpoonup> u64) \<Rightarrow> HexString \<Rightarrow> u64" where
  "rate m addr = (case m addr of None \<Rightarrow> 0 | Some v \<Rightarrow> v)"

definition addr_rating :: "closingEvent list \<Rightarrow> (HexString \<rightharpoonup> u64) \<Rightarrow> HexString \<Rightarrow> u64" where
  "addr_rating events from addr = foldl (\<lambda>r link.
     r + rate from (linked_to addr link) div of_nat (length (events_of events (linked_to addr link)))) 0
     (events_of events addr)"

fun rank_loop ::
  "closingEvent list \<Rightarrow> (nat \<Rightarrow> HexString list) \<Rightarrow> nat \<Rightarrow> (HexString \<rightharpoonup> u64) \<Rightarrow> (HexString \<rightharpoonup> u64) \<Rightarrow> (HexString \<rightharpoonup> u64)
     \<Rightarrow> (HexString \<rightharpoonup> u64)" where
  "rank_loop events order 0 rating from to = rating"
| "rank_loop events order (Suc n) rating from to =
     (let to' = foldl (\<lambda>m addr. m(addr \<mapsto> addr_rating events from addr)) to (order n)
      in rank_loop events order n to' to' from)"

definition updateRatings ::
  "u64 \<Rightarrow> (nat \<Rightarrow> HexString list) \<Rightarrow> ((HexString \<rightharpoonup> u64) \<Rightarrow> HexString list) \<Rightarrow> 'k Worker \<Rightarrow> ('z, unit) dbcmd" where
  "updateRatings undefined_rate order keys wk =
     bindC (on_err (werr worker_ErrInternal) (ReadUint64Setting Conn SettingRatingRankingSteps)) (\<lambda>rankSteps.
     bindC (closingEvents wk) (\<lambda>events.
     let initial = initial_rating undefined_rate events;
         rating = rank_loop events order (unat rankSteps) initial initial Map.empty in
     in_tx
      (thenC (on_err (werr worker_ErrInternal) (exec_delete RatingTable Tx (\<lambda>_. True)))
        (eachC (\<lambda>addr. on_err (werr worker_ErrInternal)
           (insert_row RatingTable Tx \<lparr>rt_EthAddr = addr, rt_Val = rate rating addr\<rparr>)) (keys rating)))))"

text \<open>A closing is stored once. A job without a record panics.\<close>

definition ClientRecordClosing ::
  "u64 \<Rightarrow> (nat \<Rightarrow> HexString list) \<Rightarrow> ((HexString \<rightharpoonup> u64) \<Rightarrow> HexString list) \<Rightarrow> 'k Worker \<Rightarrow> Job \<Rightarrow> ('z, unit) dbcmd" where
  "ClientRecordClosing undefined_rate order keys wk job =
     bindC (unmarshalDataTo dec_RecordClosingData (job_Data job)) (\<lambda>jdata.
     bindC (of_option Panic (rcd_Rec jdata)) (\<lambda>rec.
     thenC (handleC (select_one ClosingTable Conn (\<lambda>c. cl_Agent c = cl_Agent rec \<and> cl_Client c = cl_Client rec
           \<and> cl_Block c = cl_Block rec \<and> cl_Type c = cl_Type rec))
         (\<lambda>e. if e = NoRows then insert_row ClosingTable Conn rec else fail (Worker worker_ErrInternal))
         (\<lambda>_. ret ()))
       (whenC (rcd_UpdateRatings jdata) (updateRatings undefined_rate order keys wk))))"

section \<open>What the loop computes\<close>

text \<open>One step of the ranking, on one map.\<close>

definition rank_step :: "closingEvent list \<Rightarrow> (HexString \<rightharpoonup> u64) \<Rightarrow> (HexString \<rightharpoonup> u64)" where
  "rank_step events m addr = (if addr \<in> addresses events then Some (addr_rating events m addr) else None)"

lemma foldl_upd: "foldl (\<lambda>m a. m(a \<mapsto> f a)) m xs = (\<lambda>a. if a \<in> set xs then Some (f a) else m a)"
  by (induction xs arbitrary: m) auto

lemma rank_loop_step:
  assumes "set (order n) = addresses events" "dom to \<subseteq> addresses events"
  shows "foldl (\<lambda>m addr. m(addr \<mapsto> addr_rating events from addr)) to (order n) = rank_step events from"
  using assms by (auto simp: foldl_upd rank_step_def fun_eq_iff domIff subset_iff)

lemma dom_rank_step: "dom (rank_step events m) = addresses events"
  by (auto simp: rank_step_def split: if_splits)

lemma rank_loop_iterates:
  assumes "\<And>k. set (order k) = addresses events" "dom m \<subseteq> addresses events" "dom m2 \<subseteq> addresses events"
  shows "rank_loop events order n m m m2 = (rank_step events ^^ n) m"
  using assms(2,3)
proof (induction n arbitrary: m m2)
  case (Suc n)
  have "rank_loop events order (Suc n) m m m2
      = rank_loop events order n (rank_step events m) (rank_step events m) m"
    using rank_loop_step [of order n, OF assms(1) Suc.prems(2)] by (simp add: Let_def)
  also have "\<dots> = (rank_step events ^^ n) (rank_step events m)"
    using Suc.IH [OF _ Suc.prems(1)] dom_rank_step by simp
  finally show ?case by (simp add: funpow_swap1)
qed simp

lemma events_of_address: "events_of events a \<noteq> [] \<longleftrightarrow> a \<in> addresses events"
  by (auto simp: events_of_def addresses_def)

lemma dom_initial_rating: "dom (initial_rating u events) \<subseteq> addresses events"
proof
  fix a assume "a \<in> dom (initial_rating u events)"
  then have "events_of events a \<noteq> []" by (auto simp: initial_rating_def Let_def split: if_splits)
  then show "a \<in> addresses events" by (simp add: events_of_address)
qed

text \<open>C20: swapping the two maps computes the iteration of one step: whatever order the addresses are
  visited in, \<open>n\<close> rounds on the initial ratings give the \<open>n\<close>-fold step, and no rating of an earlier
  round is left behind.\<close>

theorem ranking_is_iteration:
  assumes "\<And>k. set (order k) = addresses events"
  shows "rank_loop events order n (initial_rating u events) (initial_rating u events) Map.empty
    = (rank_step events ^^ n) (initial_rating u events)"
  using rank_loop_iterates [OF assms dom_initial_rating] by simp

section \<open>No rating comes from nothing\<close>

definition total_rating :: "closingEvent list \<Rightarrow> (HexString \<rightharpoonup> u64) \<Rightarrow> nat" where
  "total_rating events m = (\<Sum>a \<in> addresses events. unat (rate m a))"

lemma unat_foldl_sum:
  "unat (foldl (\<lambda>r l. r + g l) (r :: u64) xs) \<le> unat r + (\<Sum>l \<leftarrow> xs. unat (g l))"
proof (induction xs arbitrary: r)
  case (Cons x xs)
  have "unat (r + g x) \<le> unat r + unat (g x)" by (simp add: unat_word_ariths)
  with Cons [of "r + g x"] show ?case by simp
qed simp

lemma length_events_of:
  "length (events_of events a) = (\<Sum>e \<leftarrow> events. of_bool (ce_Agent e = a) + of_bool (ce_Client e = a))"
  by (induction events) (auto simp: events_of_def)

lemma finite_addresses [simp]: "finite (addresses events)"
  by (simp add: addresses_def)

text \<open>Each event hands a share of either end's rating to the other end.\<close>

lemma sum_shares:
  fixes f :: "HexString \<Rightarrow> nat"
  assumes "finite A" "ce_Agent ` set events \<union> ce_Client ` set events \<subseteq> A"
  shows "(\<Sum>a \<in> A. \<Sum>l \<leftarrow> events_of events a. f (linked_to a l)) = (\<Sum>a \<in> A. length (events_of events a) * f a)"
  using assms(2)
proof (induction events)
  case Nil
  then show ?case by (simp add: events_of_def)
next
  case (Cons e es)
  let ?one = "\<lambda>a. (if ce_Agent e = a then f (ce_Client e) else 0) + (if ce_Client e = a then f (linked_to a e) else 0)"
  have "(\<Sum>l \<leftarrow> events_of (e # es) a. f (linked_to a l)) = ?one a + (\<Sum>l \<leftarrow> events_of es a. f (linked_to a l))" for a
    by (simp add: events_of_def linked_to_def)
  moreover have "length (events_of (e # es) a) * f a = of_bool (ce_Agent e = a) * f a + of_bool (ce_Client e = a) * f a
      + length (events_of es a) * f a" for a
    by (simp add: events_of_def distrib_right)
  moreover have "(\<Sum>a \<in> A. ?one a) = f (ce_Client e) + f (ce_Agent e)"
  proof -
    have "(\<Sum>a \<in> A. ?one a) = f (ce_Client e) + f (linked_to (ce_Client e) e)"
      using assms(1) Cons.prems by (simp add: sum.distrib sum.delta)
    then show ?thesis by (simp add: linked_to_def)
  qed
  moreover have "(\<Sum>a \<in> A. of_bool (ce_Agent e = a) * f a + of_bool (ce_Client e = a) * f a) = f (ce_Client e) + f (ce_Agent e)"
    using assms(1) Cons.prems by (simp add: sum.distrib of_bool_def if_distrib [of "\<lambda>x. x * _"] sum.delta cong: if_cong)
  ultimately show ?case
    using Cons by (simp add: sum.distrib)
qed

lemma rank_step_total:
  assumes "length events < 2 ^ 62"
  shows "total_rating events (rank_step events m) \<le> total_rating events m"
proof -
  let ?n = "\<lambda>a. length (events_of events a)"
  let ?share = "\<lambda>a. unat (rate m a) div ?n a"
  have short: "?n a < 2 ^ 64" for a
  proof -
    have "?n a \<le> (\<Sum>e \<leftarrow> events. 2)" unfolding length_events_of by (rule sum_list_mono) simp
    with assms show ?thesis by (simp add: sum_list_triv)
  qed
  have share: "unat (rate m a div of_nat (?n a)) = ?share a" for a
    using short [of a] by (simp add: unat_div unat_of_nat take_bit_nat_eq_self)
  have "unat (rate (rank_step events m) a) \<le> (\<Sum>l \<leftarrow> events_of events a. ?share (linked_to a l))"
    if "a \<in> addresses events" for a
    using that unat_foldl_sum [of "\<lambda>l. rate m (linked_to a l) div of_nat (?n (linked_to a l))" 0 "events_of events a"]
    by (simp add: rate_def [of "rank_step events m"] rank_step_def addr_rating_def share)
  then have "total_rating events (rank_step events m) \<le> (\<Sum>a \<in> addresses events. \<Sum>l \<leftarrow> events_of events a. ?share (linked_to a l))"
    unfolding total_rating_def by (rule sum_mono)
  also have "\<dots> = (\<Sum>a \<in> addresses events. ?n a * ?share a)"
    by (rule sum_shares) (simp_all add: addresses_def)
  also have "\<dots> \<le> total_rating events m"
    unfolding total_rating_def by (rule sum_mono) simp
  finally show ?thesis .
qed

text \<open>C28: ranking only passes ratings on: no number of rounds raises the total of the ratings, so no address
  can gain by closings what others do not lose, and no sum of shares overflows unless the initial
  rates do.\<close>

theorem ranking_conserves:
  assumes "\<And>k. set (order k) = addresses events" "length events < 2 ^ 62"
  shows "total_rating events (rank_loop events order n (initial_rating u events) (initial_rating u events) Map.empty)
    \<le> total_rating events (initial_rating u events)"
proof -
  have iter: "total_rating events ((rank_step events ^^ n) m) \<le> total_rating events m" for m
    by (induction n) (auto intro: order_trans rank_step_total [OF assms(2)])
  from iter rank_loop_iterates [OF assms(1) dom_initial_rating] show ?thesis by simp
qed

section \<open>Concrete instances\<close>

text \<open>Three closings between an agent and two clients.\<close>

definition sample_events :: "closingEvent list" where
  "sample_events =
     [\<lparr>ce_Agent = ''a'', ce_Client = ''c'', ce_Type = ClosingCoop, ce_Cost = 100\<rparr>,
      \<lparr>ce_Agent = ''a'', ce_Client = ''d'', ce_Type = ClosingCoop, ce_Cost = 60\<rparr>,
      \<lparr>ce_Agent = ''a'', ce_Client = ''c'', ce_Type = ClosingUncoop, ce_Cost = 40\<rparr>]"

definition sample_order :: "nat \<Rightarrow> HexString list" where
  "sample_order k = (if even k then [''a'', ''c'', ''d''] else [''d'', ''c'', ''a''])"

lemma sample_order_all: "set (sample_order k) = addresses sample_events"
  by (auto simp: sample_order_def addresses_def sample_events_def)

theorem ranking_is_iteration_witness:
  "rank_loop sample_events sample_order 3 (initial_rating 0 sample_events) (initial_rating 0 sample_events) Map.empty
    = (rank_step sample_events ^^ 3) (initial_rating 0 sample_events)"
  by (rule ranking_is_iteration) (rule sample_order_all)

theorem ranking_conserves_witness:
  "total_rating sample_events
      (rank_loop sample_events sample_order 3 (initial_rating 0 sample_events) (initial_rating 0 sample_events) Map.empty)
    \<le> total_rating sample_events (initial_rating 0 sample_events)"
  by (rule ranking_conserves) (rule sample_order_all, simp add: sample_events_def)

end
