(* ===== verification/Handlers.thy ===== *)
theory Handlers
  imports Ratings
begin

text \<open>
  The map of handlers that the job queue is made with (\<open>src/proc/handlers/job.go\<close>), and what holds of
  all of them: whatever a handler does and however it ends, it leaves alone what belongs to the user, and
  no run of a handler sends more than one transaction to the blockchain. Both are instances of one
  contract, the locales \<open>worker_effect\<close> and \<open>sending_effect\<close>, for which every handler is checked once.
\<close>

section \<open>The handlers\<close>

text \<open>
  A handler gets a pointer to its job; the model returns the job it leaves. A panic, here an error
  like the others, ends the process.
\<close>

definition by_job :: "(Job \<Rightarrow> ('s, go_error, unit) cmd) \<Rightarrow> 's handler" where
  "by_job f job w = (case f job w of (Inl e, w') \<Rightarrow> ((Some e, job), w') | (Inr _, w') \<Rightarrow> ((None, job), w'))"

definition with_job :: "(Job \<Rightarrow> ('s, go_error, Job) cmd) \<Rightarrow> 's handler" where
  "with_job f job w = (case f job w of (Inl e, w') \<Rightarrow> ((Some e, job), w') | (Inr j, w') \<Rightarrow> ((None, j), w'))"

definition HandlersMap ::
  "u64 \<Rightarrow> (nat \<Rightarrow> HexString list) \<Rightarrow> ((HexString \<rightharpoonup> u64) \<Rightarrow> HexString list) \<Rightarrow> 'k Worker
     \<Rightarrow> job_type \<rightharpoonup> 'z wworld_scheme handler" where
  "HandlersMap undefined_rate order keys worker jobType = (case jobType of
       JobAgentAfterChannelCreate \<Rightarrow> Some (by_job (AgentAfterChannelCreate worker))
     | JobAgentAfterChannelTopUp \<Rightarrow> Some (by_job (AgentAfterChannelTopUp worker))
     | JobAgentAfterUncooperativeCloseRequest \<Rightarrow> Some (by_job (AgentAfterUncooperativeCloseRequest worker))
     | JobAgentAfterUncooperativeClose \<Rightarrow> Some (by_job (AgentAfterUncooperativeClose worker))
     | JobAgentAfterCooperativeClose \<Rightarrow> Some (by_job (AgentAfterCooperativeClose worker))
     | JobAgentPreServiceSuspend \<Rightarrow> Some (by_job AgentPreServiceSuspend)
     | JobAgentPreServiceUnsuspend \<Rightarrow> Some (by_job AgentPreServiceUnsuspend)
     | JobAgentPreServiceTerminate \<Rightarrow> Some (by_job (AgentPreServiceTerminate worker))
     | JobAgentPreEndpointMsgCreate \<Rightarrow> Some (by_job (AgentPreEndpointMsgCreate worker))
     | JobAgentPreOfferingMsgBCPublish \<Rightarrow> Some (by_job (AgentPreOfferingMsgBCPublish worker))
     | JobAgentAfterOfferingMsgBCPublish \<Rightarrow> Some (by_job (AgentAfterOfferingMsgBCPublish worker))
     | JobAgentPreOfferingPopUp \<Rightarrow> Some (by_job (AgentPreOfferingPopUp worker))
     | JobAgentAfterOfferingPopUp \<Rightarrow> Some (by_job (AgentAfterOfferingPopUp worker))
     | JobAgentPreOfferingDelete \<Rightarrow> Some (by_job (AgentPreOfferingDelete worker))
     | JobAgentAfterOfferingDelete \<Rightarrow> Some (by_job (AgentAfterOfferingDelete worker))
     | JobClientAfterOfferingDelete \<Rightarrow> Some (by_job ClientAfterOfferingDelete)
     | JobClientAfterOfferingPopUp \<Rightarrow> Some (with_job (ClientAfterOfferingPopUp worker))
     | JobClientPreChannelCreate \<Rightarrow> Some (by_job (ClientPreChannelCreate worker))
     | JobClientAfterChannelCreate \<Rightarrow> Some (by_job (ClientAfterChannelCreate worker))
     | JobClientEndpointGet \<Rightarrow> Some (by_job (ClientEndpointGet worker))
     | JobClientAfterUncooperativeClose \<Rightarrow> Some (by_job (ClientAfterUncooperativeClose worker))
     | JobClientAfterCooperativeClose \<Rightarrow> Some (by_job (ClientAfterCooperativeClose worker))
     | JobClientPreUncooperativeClose \<Rightarrow> Some (with_job (ClientPreUncooperativeClose worker))
     | JobClientPreChannelTopUp \<Rightarrow> Some (by_job (ClientPreChannelTopUp worker))
     | JobClientAfterChannelTopUp \<Rightarrow> Some (by_job (ClientAfterChannelTopUp worker))
     | JobClientPreUncooperativeCloseRequest \<Rightarrow> Some (by_job (ClientPreUncooperativeCloseRequest worker))
     | JobClientAfterUncooperativeCloseRequest \<Rightarrow> Some (by_job (ClientAfterUncooperativeCloseRequest worker))
     | JobClientPreServiceTerminate \<Rightarrow> Some (by_job ClientPreServiceTerminate)
     | JobClientPreServiceSuspend \<Rightarrow> Some (by_job ClientPreServiceSuspend)
     | JobClientPreServiceUnsuspend \<Rightarrow> Some (by_job ClientPreServiceUnsuspend)
     | JobClientAfterOfferingMsgBCPublish \<Rightarrow> Some (with_job (ClientAfterOfferingMsgBCPublish worker))
     | JobCompleteServiceTransition \<Rightarrow> Some (by_job CompleteServiceTransition)
     | JobClientRecordClosing \<Rightarrow> Some (by_job (ClientRecordClosing undefined_rate order keys worker))
     | JobPreAccountAddBalanceApprove \<Rightarrow> Some (by_job (PreAccountAddBalanceApprove worker))
     | JobAfterAccountAddBalanceApprove \<Rightarrow> Some (by_job (AfterAccountAddBalanceApprove worker))
     | JobPreAccountAddBalance \<Rightarrow> Some (by_job (PreAccountAddBalance worker))
     | JobAfterAccountAddBalance \<Rightarrow> Some (by_job (AfterAccountAddBalance worker))
     | JobPreAccountReturnBalance \<Rightarrow> Some (by_job (PreAccountReturnBalance worker))
     | JobAfterAccountReturnBalance \<Rightarrow> Some (by_job (AfterAccountReturnBalance worker))
     | JobAccountUpdateBalances \<Rightarrow> Some (by_job (AccountUpdateBalances worker))
     | JobDecrementCurrentSupply \<Rightarrow> Some (by_job (DecrementCurrentSupply worker))
     | JobIncrementCurrentSupply \<Rightarrow> Some (by_job (IncrementCurrentSupply worker))
     | JobIncreaseTxGasPrice \<Rightarrow> Some (by_job (IncreaseTxGasPrice worker)))"

text \<open>Every kind of job has a handler, so a worker never stops for the lack of one.\<close>

lemma HandlersMap_total: "\<exists>h. HandlersMap undefined_rate order keys worker ty = Some h"
  by (cases ty) (simp_all add: HandlersMap_def)

section \<open>The contracts\<close>

text \<open>
  \<open>obs\<close> is the part of the database that a piece of code has to leave alone. A table may be written
  freely if \<open>obs\<close> does not look at it.
\<close>

definition writes_freely :: "(db \<Rightarrow> 'o) \<Rightarrow> 'r table \<Rightarrow> bool" where
  "writes_freely obs T \<longleftrightarrow> db_table T \<and> (\<forall>rs d. obs (t_put T rs d) = obs d)"

lemma writes_freelyD: "writes_freely obs T \<Longrightarrow> db_table T" "writes_freely obs T \<Longrightarrow> obs (t_put T rs d) = obs d"
  by (simp_all add: writes_freely_def)

lemma writes_freely_unit: "db_table T \<Longrightarrow> writes_freely (\<lambda>_. ()) T"
  by (simp add: writes_freely_def)

text \<open>
  An effect that every write keeps which leaves the database, as seen by one querier, as sound as it
  found it, and \<open>obs\<close> of it as it was. Jobs may always be written.
\<close>

locale lawful_effect = db_effect R for R :: "'z world_scheme \<Rightarrow> 'z world_scheme \<Rightarrow> bool" +
  fixes q :: querier and obs :: "db \<Rightarrow> 'o"
  assumes lawful: "(db_ok (view q w) \<Longrightarrow> db_ok (f (view q w)) \<and> obs (f (view q w)) = obs (view q w)) \<Longrightarrow> R w (write_db q f w)"
    and free_jobs: "obs (d\<lparr>db_jobs := js\<rparr>) = obs d"
begin

lemma jobs_free: "writes_freely obs JobTable"
  by (simp add: writes_freely_def JobTable.db_table_axioms) (simp add: JobTable_def free_jobs)

lemma keeps_insert: "writes_freely obs T \<Longrightarrow> keeps R (insert_row T q r)"
proof (rule stepsI, intro conjI allI impI TrueI)
  fix w w' :: "'z world_scheme" and res assume free: "writes_freely obs T" and run: "insert_row T q r w = (res, w')"
  note T = writes_freelyD(1) [OF free]
  show "R w w'"
  proof (cases res)
    case (Inl e)
    with run show ?thesis by (auto dest!: failed_op simp: faults)
  next
    case (Inr u)
    with run obtain v where v: "db_call q w = (Inr (), v)" "\<not> exists_row (t_key T) (t_rows T (view q w)) (t_key T r)"
      "row_ok T (view q w) r" "w' = write_db q (\<lambda>d. t_put T (t_rows T d @ [r]) d) v"
      by (auto simp: insert_row_run)
    from v(1) have view: "view q v = view q w" and "R w v" by (auto simp: db_call_ok faults dest: db_call_state)
    moreover have "R v w'" unfolding v(4)
      by (rule lawful) (use v(2,3) in \<open>simp add: view db_table.ok_append [OF T] row_ok_def writes_freelyD(2) [OF free]\<close>)
    ultimately show ?thesis by (blast intro: trans)
  qed
qed

lemma keeps_update: "writes_freely obs T \<Longrightarrow> keeps R (update_row T q r)"
proof (rule stepsI, intro conjI allI impI TrueI)
  fix w w' :: "'z world_scheme" and res assume free: "writes_freely obs T" and run: "update_row T q r w = (res, w')"
  note T = writes_freelyD(1) [OF free]
  show "R w w'"
  proof (cases res)
    case (Inl e)
    with run show ?thesis by (auto dest!: failed_op simp: faults)
  next
    case (Inr u)
    with run obtain v where v: "db_call q w = (Inr (), v)" "row_ok T (view q w) r"
      "w' = write_db q (\<lambda>d. t_put T (replace (t_key T) r (t_rows T d)) d) v"
      by (auto simp: update_row_run)
    from v(1) have view: "view q v = view q w" and "R w v" by (auto simp: db_call_ok faults dest: db_call_state)
    moreover have "R v w'" unfolding v(3)
      by (rule lawful) (use v(2) in \<open>simp add: view db_table.ok_replace [OF T] row_ok_def writes_freelyD(2) [OF free]\<close>)
    ultimately show ?thesis by (blast intro: trans)
  qed
qed

lemma keeps_exec_update:
  assumes free: "writes_freely obs T" and key: "\<And>r. t_key T (f r) = t_key T r"
  shows "keeps R (exec_update T q P f)"
proof (rule stepsI, intro conjI allI impI TrueI)
  fix w w' :: "'z world_scheme" and res assume run: "exec_update T q P f w = (res, w')"
  note T = writes_freelyD(1) [OF free]
  show "R w w'"
  proof (cases res)
    case (Inl e)
    with run show ?thesis by (auto dest!: failed_op simp: faults)
  next
    case (Inr n)
    with run obtain v where v: "db_call q w = (Inr (), v)"
      "list_all (\<lambda>r. P r \<longrightarrow> row_ok T (view q w) (f r)) (t_rows T (view q w))"
      "w' = write_db q (\<lambda>d. t_put T (map (\<lambda>r. if P r then f r else r) (t_rows T d)) d) v"
      by (auto simp: exec_update_run)
    from v(1) have view: "view q v = view q w" and "R w v" by (auto simp: db_call_ok faults dest: db_call_state)
    moreover have "R v w'" unfolding v(3)
      by (rule lawful)
        (use v(2) in \<open>auto simp: view row_ok_def list_all_iff key writes_freelyD(2) [OF free] intro!: db_table.ok_map [OF T]\<close>)
    ultimately show ?thesis by (blast intro: trans)
  qed
qed

lemma keeps_delete: "writes_freely obs T \<Longrightarrow> keeps R (exec_delete T q P)"
  unfolding exec_delete_def
  by (intro keeps_thenC keeps_db_call keeps_modC lawful conjI) (auto simp: writes_freely_def intro: db_table.ok_filter)

lemma keeps_save: "writes_freely obs T \<Longrightarrow> keeps R (save_row T q r)"
  unfolding save_row_def by (intro keeps_handleC keeps_update keeps_rules) (auto intro: keeps_insert keeps_rules)

lemma keeps_saves: "writes_freely obs T \<Longrightarrow> keeps R (Save q T r)" "writes_freely obs T \<Longrightarrow> keeps R (Insert q T r)"
  unfolding Save_def Insert_def by (auto intro!: steps_on_err keeps_save keeps_insert)

end

text \<open>The rules for the forms that are not operators on commands.\<close>

lemma keeps_control:
  "(b \<Longrightarrow> steps R P m Q) \<Longrightarrow> (\<not> b \<Longrightarrow> steps R P k Q) \<Longrightarrow> steps R P (if b then m else k) Q"
  "steps R P (f a) Q \<Longrightarrow> steps R P (Let a f) Q"
  "(\<And>x y. steps R P (g x y) Q) \<Longrightarrow> steps R P (case_prod g p) Q"
  "steps R P m Q \<Longrightarrow> (\<And>y. steps R P (h y) Q) \<Longrightarrow> steps R P (case z of None \<Rightarrow> m | Some y \<Rightarrow> h y) Q"
  "(\<And>e. steps R P (h1 e) Q) \<Longrightarrow> (\<And>y. steps R P (h2 y) Q) \<Longrightarrow> steps R P (case v of Inl e \<Rightarrow> h1 e | Inr y \<Rightarrow> h2 y) Q"
  by (auto split: prod.split option.split sum.split)

lemmas all_db_tables =
  SettingTable.db_table_axioms AccountTable.db_table_axioms UserTable.db_table_axioms TemplateTable.db_table_axioms
  ProductTable.db_table_axioms OfferingTable.db_table_axioms ChannelTable.db_table_axioms SessionTable.db_table_axioms
  EndpointTable.db_table_axioms JobTable.db_table_axioms EthTxTable.db_table_axioms ClosingTable.db_table_axioms
  RatingTable.db_table_axioms

section \<open>Reading\<close>

context db_effect
begin

lemmas keeps_basic =
  keeps_reads keeps_rules keeps_bindC keeps_thenC keeps_whenC keeps_eachC keeps_mapC keeps_handleC keeps_ignoreC
  steps_on_err keeps_control

lemma keeps_misc:
  "keeps R (FindByPrimaryKeyTo q T k)" "keeps R (FindOneTo q T (c :: 'r \<Rightarrow> string) a)" "keeps R (ReadUintSetting q k)"
  "keeps R (ReadUint64Setting q k)" "keeps R (GetUint64Setting k)" "keeps R (of_sum x)" "keeps R (unmarshalDataTo dec d)"
  "keeps R (hexAddress h)" "keeps R (toOfferingHashArr h)" "keeps R (key wk acc)" "keeps R (getTransaction wk th)"
  "keeps R (ethBalance wk ad)"
  unfolding FindByPrimaryKeyTo_def FindOneTo_def ReadUintSetting_def ReadUint64Setting_def ReadSetting_def
    GetUint64Setting_def of_sum_def unmarshalDataTo_def hexAddress_def toOfferingHashArr_def key_def getTransaction_def
    ethBalance_def
  by (intro keeps_basic)+

lemma keeps_selectors:
  "keeps R (related T e rt job ty)" "keeps R (ethLog job)" "keeps R (channel pk)" "keeps R (offering pk)"
  "keeps R (productByPK pk)" "keeps R (offeringByHashString hs)" "keeps R (offeringByHash h)" "keeps R (account a)"
  "keeps R (accountByPK pk)" "keeps R (user a)" "keeps R (templateByHash hs)" "keeps R (ethLogTx wk l)"
  "keeps R (newUser wk t)" "keeps R (keyFromChannelData wk pk)" "keeps R (accountKey wk a)" "keeps R (balanceData job)"
  "keeps R (publishData job)" "keeps R (EndpointMessage ept pk)"
  unfolding related_def ethLog_def channel_def offering_def productByPK_def offeringByHash_def offeringByHashString_def
    account_def accountByPK_def user_def templateByHash_def ethLogTx_def newUser_def keyFromChannelData_def
    accountKey_def balanceData_def publishData_def EndpointMessage_def processing_def objects_def
  by (intro keeps_basic keeps_misc)+

lemma keeps_related:
  "keeps R (relatedOffering job ty)" "keeps R (relatedChannel job ty)" "keeps R (relatedEthTx job ty)"
  "keeps R (relatedAccount job ty)"
  unfolding relatedOffering_def relatedChannel_def relatedEthTx_def relatedAccount_def
  by (intro keeps_selectors)+

lemma keeps_node:
  "keeps R (getOfferingBlockNumber wk h)" "keeps R (checkInPeriod wk h k e)" "keeps R (agentOfferingPopUpFindRelatedJobs i j)"
  "keeps R (checkDeposit wk acc dep)" "keeps R (clientPreChannelCreateCheckSupply wk offer h)" "keeps R (suggested wk g)"
  "keeps R (extractEndpointMessage wk ch sealed)" "keeps R (clientValidateChannelForClose ch)"
  "keeps R (blocksTillChallangeEnd wk client agent block h)" "keeps R (approvedBalanceData job)"
  "keeps R (fillOfferingFromMsg wk raw n a hs i st sd)" "keeps R (closingEvents wk)"
  unfolding getOfferingBlockNumber_def checkInPeriod_def agentOfferingPopUpFindRelatedJobs_def checkDeposit_def
    clientPreChannelCreateCheckSupply_def suggested_def extractEndpointMessage_def clientValidateChannelForClose_def
    blocksTillChallangeEnd_def approvedBalanceData_def fillOfferingFromMsg_def closingEvents_def
  by (intro keeps_basic keeps_misc keeps_selectors)+

lemmas keeps_reading = keeps_basic keeps_misc keeps_selectors keeps_related keeps_node

end

section \<open>Writing\<close>

context lawful_effect
begin

lemma keeps_Add: "keeps R (Add conf q j)"
  unfolding Add_def checkDuplicated_alt Let_def by (intro keeps_basic keeps_insert jobs_free)

lemma keeps_jobs:
  "keeps R (addJob wk q ty rt i)" "keeps R (addJobWithData wk q ty rt i d)" "keeps R (addJobWithDelay wk q ty rt i dl)"
  unfolding addJob_def addJobWithData_def addJobWithDelay_def AddSimple_def AddWithData_def AddWithDelay_def
    AddWithDataAndDelay_def
  by (intro keeps_basic keeps_Add)+

lemma keeps_records:
  "writes_freely obs T \<Longrightarrow> keeps R (saveRecord q T rec)" "writes_freely obs T \<Longrightarrow> keeps R (updateRecord q T rec)"
  unfolding saveRecord_def updateRecord_def by (auto intro!: steps_on_err keeps_saves keeps_update)

lemma keeps_supply:
  "writes_freely obs OfferingTable \<Longrightarrow> keeps R (incrementCurrentSupply q pk)" "keeps R (updateBalancesOf wk q a)"
  unfolding updateBalancesOf_def incrementCurrentSupply_def
  by (intro keeps_reading keeps_jobs keeps_records; assumption)+

lemmas keeps_writing = keeps_insert keeps_update keeps_save keeps_delete keeps_saves keeps_jobs keeps_records keeps_supply
  jobs_free

end

text \<open>
  The three effects of code that opens transactions: \<open>R\<close> outside one, where it writes through the connection,
  \<open>R1\<close> in a transaction it writes through, and \<open>R2\<close> in one past which it writes through the connection.
\<close>

locale tx_effect =
  conn: lawful_effect R Conn obs + tx: lawful_effect R1 Tx obs + past: lawful_effect R2 Conn obs
  for R R1 R2 :: "'z world_scheme \<Rightarrow> 'z world_scheme \<Rightarrow> bool" and obs :: "db \<Rightarrow> 'o" +
  assumes opened: "R1 (w\<lparr>w_tx := Some (w_db w)\<rparr>) w' \<Longrightarrow> R w w'" "R2 (w\<lparr>w_tx := Some (w_db w)\<rparr>) w' \<Longrightarrow> R w w'"
    and committed: "R1 w (w\<lparr>w_db := view Tx w, w_tx := None\<rparr>)" "R2 w (w\<lparr>w_db := view Tx w, w_tx := None\<rparr>)"
    and closed: "R1 w (w\<lparr>w_tx := None\<rparr>)" "R2 w (w\<lparr>w_tx := None\<rparr>)"
begin

lemma keeps_closing:
  "keeps R1 rollback_tx" "keeps R2 rollback_tx" "keeps R1 commit_tx" "keeps R2 commit_tx"
proof -
  show "keeps R1 rollback_tx" "keeps R2 rollback_tx"
    unfolding rollback_tx_def by (rule tx.keeps_modC past.keeps_modC, rule closed)+
  have "R1 w w' \<and> R2 w w'" if run: "commit_tx w = (r, w')" for w w' :: "'z world_scheme" and r
  proof -
    obtain x v where v: "db_call Tx w = (x, v)" by (cases "db_call Tx w")
    then have "R1 w v" "R2 w v" by (auto dest!: db_call_state simp: tx.faults past.faults)
    with v run show ?thesis
      by (auto simp: commit_tx_def split: sum.splits
          intro: tx.trans [OF _ closed(1)] past.trans [OF _ closed(2)] tx.trans [OF _ committed(1)] past.trans [OF _ committed(2)])
  qed
  then show "keeps R1 commit_tx" "keeps R2 commit_tx" by (auto intro!: stepsI)
qed

lemma keeps_begin:
  assumes "keeps R1 k \<or> keeps R2 k"
  shows "keeps R (thenC begin_tx k)" "keeps R (thenC (on_err g begin_tx) k)"
proof -
  have opens: "case r of Inl _ \<Rightarrow> R w u | Inr _ \<Rightarrow> \<forall>w'. R1 u w' \<or> R2 u w' \<longrightarrow> R w w'"
    if run: "begin_tx w = (r, u)" for w u :: "'z world_scheme" and r
  proof -
    obtain x v where v: "db_call Conn w = (x, v)" by (cases "db_call Conn w")
    then have "R w v" by (auto dest!: db_call_state simp: conn.faults)
    with v run show ?thesis
      by (auto simp: begin_tx_def thenC_def bindC_def modC_def split: sum.splits intro: conn.trans opened)
  qed
  have k: "R1 u w' \<or> R2 u w'" if "k u = (r, w')" for u w' r
    using assms that by (metis stepsD(1))
  have "R w w'" if "begin_tx w = (r, u)" "case r of Inl _ \<Rightarrow> w' = u | Inr _ \<Rightarrow> \<exists>x. k u = (x, w')"
    for w u w' :: "'z world_scheme" and r
    using opens [OF that(1)] that(2) k by (auto split: sum.splits)
  then show "keeps R (thenC begin_tx k)" "keeps R (thenC (on_err g begin_tx) k)"
    by (auto intro!: stepsI simp: thenC_def bindC_def on_err_def split: prod.splits sum.splits)
qed

lemma keeps_in_tx: "keeps R1 f \<Longrightarrow> keeps R (in_tx f)"
  unfolding in_tx_def by (rule keeps_begin(1), rule disjI1) (intro tx.keeps_basic keeps_closing)

lemma keeps_in_tx_past: "keeps R2 f \<Longrightarrow> keeps R (in_tx f)"
  unfolding in_tx_def by (rule keeps_begin(1), rule disjI2) (intro past.keeps_basic keeps_closing)

lemma keeps_handler_tx: "keeps R1 f \<Longrightarrow> keeps R (handler_tx f)"
  unfolding handler_tx_def by (intro keeps_begin(2) disjI1 tx.keeps_basic keeps_closing)

lemma keeps_cancelling: "keeps R1 (checkJobExists rel ty)" "keeps R1 (cancelJobs rel)"
  unfolding checkJobExists_def cancelJobs_def
  by (intro tx.keeps_reading tx.keeps_exec_update tx.jobs_free; simp add: JobTable_def)+

lemma keeps_terminate: "keeps R (WorkerAgent.terminateService wk ch agent)"
  unfolding WorkerAgent.terminateService_def TerminateChannel_def alterServiceStatus_def Let_def
  by (intro conn.keeps_basic keeps_in_tx) (intro tx.keeps_basic tx.keeps_reads keeps_cancelling tx.keeps_Add)

end

text \<open>
  The handlers write all tables but those of the user: settings, templates, products and the sessions
  of the adapters; and of an account they write the balances.
\<close>

locale worker_effect = tx_effect R R1 R2 obs
  for R R1 R2 :: "'z world_scheme \<Rightarrow> 'z world_scheme \<Rightarrow> bool" and obs :: "db \<Rightarrow> 'o" +
  assumes free_tables: "obs (d\<lparr>db_users := us\<rparr>) = obs d" "obs (d\<lparr>db_offerings := fs\<rparr>) = obs d"
      "obs (d\<lparr>db_channels := cs\<rparr>) = obs d" "obs (d\<lparr>db_endpoints := es\<rparr>) = obs d" "obs (d\<lparr>db_ethtxs := ts\<rparr>) = obs d"
      "obs (d\<lparr>db_closings := ls\<rparr>) = obs d" "obs (d\<lparr>db_ratings := gs\<rparr>) = obs d"
    and balances: "db_ok d \<Longrightarrow> acc \<in> set (db_accounts d) \<Longrightarrow> obs (d\<lparr>db_accounts := replace acc_ID
      (acc\<lparr>acc_PTCBalance := ptc, acc_PSCBalance := psc, acc_EthBalance := eth, acc_LastBalanceCheck := t\<rparr>) (db_accounts d)\<rparr>) = obs d"
begin

lemma handler_tables:
  "writes_freely obs UserTable" "writes_freely obs OfferingTable" "writes_freely obs ChannelTable"
  "writes_freely obs EndpointTable" "writes_freely obs EthTxTable" "writes_freely obs ClosingTable"
  "writes_freely obs RatingTable"
  by (simp_all add: writes_freely_def all_db_tables)
    (simp_all add: UserTable_def OfferingTable_def ChannelTable_def EndpointTable_def EthTxTable_def ClosingTable_def
      RatingTable_def free_tables)

lemma keeps_balance_row:
  "steps R (\<lambda>w. acc \<in> set (db_accounts (w_db w))) (saveRecord Conn AccountTable
     (acc\<lparr>acc_PTCBalance := ptc, acc_PSCBalance := psc, acc_EthBalance := eth, acc_LastBalanceCheck := t\<rparr>)) (\<lambda>_ _. True)"
proof (rule stepsI, intro conjI allI impI TrueI)
  fix w w' :: "'z world_scheme" and res
  let ?row = "acc\<lparr>acc_PTCBalance := ptc, acc_PSCBalance := psc, acc_EthBalance := eth, acc_LastBalanceCheck := t\<rparr>"
  assume acc: "acc \<in> set (db_accounts (w_db w))" and save: "saveRecord Conn AccountTable ?row w = (res, w')"
  obtain x v where upd: "update_row AccountTable Conn ?row w = (x, v)" by (cases "update_row AccountTable Conn ?row w")
  show "R w w'"
  proof (cases x)
    case (Inl e)
    have "exists_row acc_ID (db_accounts (w_db w)) (acc_ID acc)" using acc by (auto simp: exists_row_def list_ex_iff)
    then have "e \<noteq> NoRows" using upd Inl by (auto simp: update_row_def run AccountTable_def dest: db_call_error db_call_ok [where q = Conn])
    with Inl upd save have "w' = v" by (auto simp: saveRecord_def Save_def save_row_def on_err_def handleC_def fail_def)
    with upd Inl show ?thesis by (auto dest!: failed_op(4) simp: conn.faults)
  next
    case (Inr u)
    with upd save have w': "w' = v" by (auto simp: saveRecord_def Save_def save_row_def on_err_def handleC_def ret_def)
    from upd Inr obtain u' where u: "db_call Conn w = (Inr (), u')" "row_ok AccountTable (view Conn w) ?row"
      "v = write_db Conn (\<lambda>d. t_put AccountTable (replace (t_key AccountTable) ?row (t_rows AccountTable d)) d) u'"
      by (auto simp: update_row_run)
    from u(1) have same: "w_db u' = w_db w" and "R w u'" by (auto dest!: db_call_state simp: conn.faults)
    moreover have "R u' v" unfolding u(3)
    proof (rule conn.lawful)
      assume ok: "db_ok (view Conn u')"
      have "t_check AccountTable ?row" using u(2) by (simp add: row_ok_def)
      with ok AccountTable.ok_replace have "db_ok (t_put AccountTable (replace (t_key AccountTable) ?row (t_rows AccountTable (view Conn u'))) (view Conn u'))"
        by blast
      moreover have "obs (t_put AccountTable (replace (t_key AccountTable) ?row (t_rows AccountTable (view Conn u'))) (view Conn u'))
          = obs (view Conn u')"
        using balances [OF ok] acc same by (simp add: AccountTable_def)
      ultimately show "db_ok (t_put AccountTable (replace (t_key AccountTable) ?row (t_rows AccountTable (view Conn u'))) (view Conn u'))
        \<and> obs (t_put AccountTable (replace (t_key AccountTable) ?row (t_rows AccountTable (view Conn u'))) (view Conn u'))
          = obs (view Conn u')" ..
    qed
    ultimately show ?thesis unfolding w' by (blast intro: conn.trans)
  qed
qed

lemma steps_holding:
  "keeps R m \<Longrightarrow> keeps same_db m \<Longrightarrow> steps R (\<lambda>w. acc \<in> set (db_accounts (w_db w))) m (\<lambda>_ w. acc \<in> set (db_accounts (w_db w)))"
  by (rule stepsI) (auto simp: same_db_def dest: stepsD(1))

lemma keeps_updateBalances:
  "steps R (\<lambda>w. acc \<in> set (db_accounts (w_db w))) (updateBalances wk Conn acc) (\<lambda>_ _. True)"
  unfolding updateBalances_def ethBalance_def hexAddress_def
  by (intro conn.steps_bindC [where Q = "\<lambda>_ w. acc \<in> set (db_accounts (w_db w))"] steps_holding keeps_balance_row
    conn.keeps_basic same_db.keeps_basic)

lemma keeps_account_update: "keeps R (updateAccountBalancesJob wk job ty)"
proof -
  have "steps R (\<lambda>_. True) (relatedAccount job ty) (\<lambda>acc w. acc \<in> set (db_accounts (w_db w)))"
  proof (rule stepsI, intro conjI allI impI)
    fix w w' :: "'z world_scheme" and res assume read: "relatedAccount job ty w = (res, w')"
    show "R w w'" using stepsD(1) [OF conn.keeps_related(4) TrueI read] .
    show "acc \<in> set (db_accounts (w_db w'))" if "res = Inr acc" for acc
      using read that unfolding relatedAccount_def related_def FindByPrimaryKeyTo_def
      by (auto simp: run fail_def AccountTable_def dest!: db_call_state find_Some_in split: if_splits)
  qed
  then show ?thesis unfolding updateAccountBalancesJob_def by (rule conn.steps_bindC) (rule keeps_updateBalances)
qed

lemmas keeps_all = conn.keeps_reading conn.keeps_writing keeps_terminate handler_tables

text \<open>The handlers that touch the database only.\<close>

lemma keeps_channel_handlers:
  "keeps R (CompleteServiceTransition job)" "keeps R (afterChannelTopUp wk job ty)"
  "keeps R (AgentAfterUncooperativeCloseRequest wk job)" "keeps R (AgentAfterUncooperativeClose wk job)"
  "keeps R (AgentPreServiceSuspend job)" "keeps R (AgentPreServiceUnsuspend job)" "keeps R (agentUpdateServiceStatus job ty)"
  "keeps R (ClientAfterChannelCreate wk job)" "keeps R (ClientAfterUncooperativeClose wk job)"
  "keeps R (ClientAfterCooperativeClose wk job)" "keeps R (clientSetService job ty nxt)"
  "keeps R (ClientAfterUncooperativeCloseRequest wk job)"
  unfolding CompleteServiceTransition_def afterChannelTopUp_def AgentAfterUncooperativeCloseRequest_def
    AgentAfterUncooperativeClose_def AgentPreServiceSuspend_def AgentPreServiceUnsuspend_def agentUpdateServiceStatus_def
    ClientAfterChannelCreate_def ClientAfterUncooperativeClose_def ClientAfterCooperativeClose_def clientSetService_def
    ClientAfterUncooperativeCloseRequest_def
  by (intro keeps_all)+

lemma keeps_tx_handlers:
  "keeps R (AgentAfterChannelCreate wk job)" "keeps R (AgentAfterCooperativeClose wk job)"
  "keeps R (updateRatings u order keys wk)"
  unfolding AgentAfterChannelCreate_def AgentAfterCooperativeClose_def updateRatings_def
  by (intro keeps_all keeps_handler_tx keeps_in_tx, (intro tx.keeps_reading tx.keeps_writing handler_tables)?)+

lemma keeps_saveEndpoint: "keeps R (saveEndpoint wk ch msg tmpl sealed)"
  unfolding saveEndpoint_def
  by (intro conn.keeps_basic conn.keeps_reads keeps_begin disjI1) (intro tx.keeps_reading tx.keeps_writing handler_tables keeps_closing)

lemma keeps_endpoint_handlers: "keeps R (AgentPreEndpointMsgCreate wk job)" "keeps R (ClientEndpointGet wk job)"
  unfolding AgentPreEndpointMsgCreate_def ClientEndpointGet_def
  by (intro keeps_all keeps_saveEndpoint keeps_in_tx_past, (intro past.keeps_reading past.keeps_writing handler_tables)?)+

lemma keeps_offering_handlers:
  "keeps R (updateRelatedOffering job ty st)" "keeps R (AgentAfterOfferingMsgBCPublish wk job)"
  "keeps R (AgentAfterOfferingDelete wk job)" "keeps R (AgentAfterOfferingPopUp wk job)"
  "keeps R (clientRetrieveAndSaveOffering wk job b sty sd a h cs)" "keeps R (ClientAfterOfferingMsgBCPublish wk job)"
  "keeps R (ClientAfterOfferingPopUp wk job)" "keeps R (ClientAfterOfferingDelete job)"
  "keeps R (DecrementCurrentSupply wk job)" "keeps R (IncrementCurrentSupply wk job)"
  "keeps R (ClientRecordClosing u order keys wk job)"
  unfolding updateRelatedOffering_def AgentAfterOfferingMsgBCPublish_def AgentAfterOfferingDelete_def
    AgentAfterOfferingPopUp_def clientRetrieveAndSaveOffering_def ClientAfterOfferingMsgBCPublish_def
    ClientAfterOfferingPopUp_def ClientAfterOfferingDelete_def DecrementCurrentSupply_def IncrementCurrentSupply_def
    withRelatedOffering_def updateOfferingSupplyFromChain_def ClientRecordClosing_def
  by (intro keeps_all keeps_tx_handlers)+

lemma keeps_account_handlers:
  "keeps R (AfterAccountAddBalanceApprove wk job)" "keeps R (updateAccountBalancesJob wk job ty)"
  unfolding AfterAccountAddBalanceApprove_def by (intro keeps_all keeps_account_update)+

lemmas keeps_handlers = keeps_channel_handlers keeps_tx_handlers keeps_endpoint_handlers keeps_offering_handlers
  keeps_account_handlers

end

section \<open>Sending\<close>

text \<open>The effect of a handler that may send a transaction, once.\<close>

locale sending_effect = worker_effect R R1 R2 obs
  for R R1 R2 :: "'z wworld_scheme \<Rightarrow> 'z wworld_scheme \<Rightarrow> bool" and obs :: "db \<Rightarrow> 'o" +
  fixes S :: "'z wworld_scheme \<Rightarrow> 'z wworld_scheme \<Rightarrow> bool"
  assumes silent: "R w w' \<Longrightarrow> S w w'"
    and before: "R w v \<Longrightarrow> S v w' \<Longrightarrow> S w w'"
    and after: "S w v \<Longrightarrow> R v w' \<Longrightarrow> S w w'"
    and sent: "S w (w\<lparr>w_sent := w_sent w @ [x]\<rparr>)"
begin

lemma sends_silent: "keeps R m \<Longrightarrow> keeps S m"
  by (auto simp: steps_def silent)

lemma sends_later: "keeps R m \<Longrightarrow> (\<And>x. keeps S (f x)) \<Longrightarrow> keeps S (bindC m f)"
  by (rule stepsI) (auto simp: bindC_def split: prod.splits sum.splits intro: silent before dest: stepsD(1))

lemma sends_first: "keeps S m \<Longrightarrow> (\<And>x. keeps R (f x)) \<Longrightarrow> keeps S (bindC m f)"
  by (rule stepsI) (auto simp: bindC_def split: prod.splits sum.splits intro: after dest: stepsD(1))

lemma sends_then_later: "keeps R m \<Longrightarrow> keeps S k \<Longrightarrow> keeps S (thenC m k)"
  unfolding thenC_def by (rule sends_later)

lemma sends_then_first: "keeps S m \<Longrightarrow> keeps R k \<Longrightarrow> keeps S (thenC m k)"
  unfolding thenC_def by (rule sends_first)

lemma sends_handle:
  "keeps R m \<Longrightarrow> (\<And>e. keeps S (h e)) \<Longrightarrow> (\<And>x. keeps S (k x)) \<Longrightarrow> keeps S (handleC m h k)"
  by (rule stepsI) (simp add: handleC_run, metis before stepsD(1))

lemma sends_mod: "keeps S (modC (\<lambda>w. w\<lparr>w_sent := w_sent w @ [x]\<rparr>))"
  by (simp add: steps_def modC_def sent)

lemma sends_transact: "keeps S (transact wk k gas price call e)"
  unfolding transact_def Let_def
  by (intro sends_later sends_then_first sends_mod conn.keeps_rules)

lemma sends_settle: "keeps S (settle wk acc agent block h)"
  unfolding settle_def by (intro sends_later sends_transact conn.keeps_reading)

lemmas sends_here = sends_first [OF sends_transact] sends_first [OF sends_settle] sends_then_first [OF sends_mod]
lemmas sends_around = sends_later sends_then_later sends_handle keeps_control

lemma keeps_saveEthTX: "keeps R (saveEthTX job t m rt i a b)"
  unfolding saveEthTX_def by (intro conn.keeps_basic conn.keeps_reads conn.keeps_saves handler_tables)

lemmas keeps_rest = keeps_all keeps_handlers keeps_saveEthTX

lemma sends_parts:
  "keeps S (agentCooperativeClose wk job ch)" "keeps S (clientPreChannelCreateSaveTX wk job acc offer h dep g)"
  "keeps S (doClientPreUncooperativeCloseRequestAndSaveTx wk job ch acc offer gp)"
  "keeps S (clientPreChannelTopUpSaveTx wk job ch acc offer gp dep)"
  unfolding agentCooperativeClose_def clientPreChannelCreateSaveTX_def clientPreChannelTopUpSaveTx_def
    doClientPreUncooperativeCloseRequestAndSaveTx_def
  by (rule sends_here | rule sends_around | intro keeps_rest | rule sends_silent)+

lemma sends_account:
  "keeps S (PreAccountAddBalanceApprove wk job)" "keeps S (PreAccountAddBalance wk job)"
  "keeps S (PreAccountReturnBalance wk job)" "keeps S (IncreaseTxGasPrice wk job)"
  unfolding PreAccountAddBalanceApprove_def PreAccountAddBalance_def PreAccountReturnBalance_def IncreaseTxGasPrice_def
  by (rule sends_here | rule sends_around | intro keeps_rest | rule sends_silent)+

lemma sends_agent:
  "keeps S (AgentPreServiceTerminate wk job)" "keeps S (AgentPreOfferingMsgBCPublish wk job)"
  "keeps S (AgentPreOfferingDelete wk job)" "keeps S (AgentPreOfferingPopUp wk job)"
  unfolding AgentPreServiceTerminate_def AgentPreOfferingMsgBCPublish_def AgentPreOfferingDelete_def
    AgentPreOfferingPopUp_def
  by (rule sends_here | rule sends_parts | rule sends_around | intro keeps_rest | rule sends_silent)+

lemma keeps_rememberAgent: "keeps R (rememberAgent a k)"
  unfolding rememberAgent_def by (intro keeps_rest)

lemma sends_client:
  "keeps S (ClientPreChannelCreate wk job)" "keeps S (ClientPreUncooperativeCloseRequest wk job)"
  "keeps S (ClientPreUncooperativeClose wk job)" "keeps S (ClientPreChannelTopUp wk job)"
  unfolding ClientPreChannelCreate_def ClientPreUncooperativeCloseRequest_def ClientPreUncooperativeClose_def
    ClientPreChannelTopUp_def
  by (rule sends_here | rule sends_parts | rule sends_around | intro keeps_rest keeps_rememberAgent | rule sends_silent)+

lemma sends_by_job: "keeps S (f job) \<Longrightarrow> by_job f job w = (r, w') \<Longrightarrow> S w w'"
  using stepsD(1) [of S "\<lambda>_. True" "f job"] by (auto simp: by_job_def split: prod.splits sum.splits)

lemma sends_with_job: "keeps S (f job) \<Longrightarrow> with_job f job w = (r, w') \<Longrightarrow> S w w'"
  using stepsD(1) [of S "\<lambda>_. True" "f job"] by (auto simp: with_job_def split: prod.splits sum.splits)

lemmas handler_defs = AgentAfterChannelTopUp_def ClientAfterChannelTopUp_def AfterAccountAddBalance_def
  AfterAccountReturnBalance_def AccountUpdateBalances_def ClientPreServiceTerminate_def ClientPreServiceSuspend_def
  ClientPreServiceUnsuspend_def

lemma handlers_send:
  assumes "HandlersMap undefined_rate order keys worker ty = Some h" "h job w = (r, w')"
  shows "S w w'"
proof -
  have "\<exists>f. (h = by_job f \<and> keeps S (f job)) \<or> (\<exists>g. h = with_job g \<and> keeps S (g job))"
    using assms(1)
    by (cases ty) (auto simp: HandlersMap_def handler_defs
        intro!: sends_account sends_agent sends_client keeps_handlers [THEN sends_silent])
  with assms(2) show ?thesis by (auto intro: sends_by_job sends_with_job)
qed

end

section \<open>What every handler promises\<close>

definition same_sent :: "'z wworld_scheme \<Rightarrow> 'z wworld_scheme \<Rightarrow> bool" where
  "same_sent w w' \<longleftrightarrow> w_sent w' = w_sent w"

definition sends_once :: "'z wworld_scheme \<Rightarrow> 'z wworld_scheme \<Rightarrow> bool" where
  "sends_once w w' \<longleftrightarrow> w_sent w' = w_sent w \<or> (\<exists>x. w_sent w' = w_sent w @ [x])"

lemma write_db_sent: "w_sent (write_db q f w) = w_sent w"
  by (simp add: write_db_def split: querier.split)

interpretation sending: sending_effect same_sent same_sent same_sent "\<lambda>_. ()" sends_once
  by unfold_locales (auto simp: same_sent_def sends_once_def write_db_sent)

text \<open>An account without its balances, and the part of the database no job has to do with.\<close>

definition account_keys :: "Account \<Rightarrow> Account" where
  "account_keys a = a\<lparr>acc_PTCBalance := 0, acc_PSCBalance := 0, acc_EthBalance := [], acc_LastBalanceCheck := None\<rparr>"

definition users_part :: "db \<Rightarrow> Setting list \<times> Template list \<times> Product list \<times> Session list \<times> Account list" where
  "users_part d = (db_settings d, db_templates d, db_products d, db_sessions d, map account_keys (db_accounts d))"

lemma users_part_free [simp]:
  "users_part (d\<lparr>db_jobs := js\<rparr>) = users_part d" "users_part (d\<lparr>db_users := us\<rparr>) = users_part d"
  "users_part (d\<lparr>db_offerings := fs\<rparr>) = users_part d" "users_part (d\<lparr>db_channels := cs\<rparr>) = users_part d"
  "users_part (d\<lparr>db_endpoints := es\<rparr>) = users_part d" "users_part (d\<lparr>db_ethtxs := ts\<rparr>) = users_part d"
  "users_part (d\<lparr>db_closings := ls\<rparr>) = users_part d" "users_part (d\<lparr>db_ratings := gs\<rparr>) = users_part d"
  by (simp_all add: users_part_def)

lemma users_part_balances:
  assumes "db_ok d" "acc \<in> set (db_accounts d)"
  shows "users_part (d\<lparr>db_accounts := replace acc_ID
    (acc\<lparr>acc_PTCBalance := ptc, acc_PSCBalance := psc, acc_EthBalance := eth, acc_LastBalanceCheck := t\<rparr>) (db_accounts d)\<rparr>) = users_part d"
proof -
  have "distinct (map acc_ID (db_accounts d))" using assms(1) by (simp add: db_ok_def table_ok_def AccountTable_def)
  then have "a = acc" if "a \<in> set (db_accounts d)" "acc_ID a = acc_ID acc" for a
    using that assms(2) by (auto simp: distinct_map inj_on_def)
  then show ?thesis by (auto simp: users_part_def replace_def account_keys_def)
qed

text \<open>The database is sound and the user's part of it is \<open>x\<close>; in a transaction, so is the working copy. In one
  past which the handler writes, both copies are the same.\<close>

definition sound :: "(db \<Rightarrow> 'o) \<Rightarrow> 'o \<Rightarrow> 'z world_scheme \<Rightarrow> bool" where
  "sound obs x w \<longleftrightarrow> db_ok (w_db w) \<and> obs (w_db w) = x"

definition sound_tx :: "(db \<Rightarrow> 'o) \<Rightarrow> 'o \<Rightarrow> 'z world_scheme \<Rightarrow> bool" where
  "sound_tx obs x w \<longleftrightarrow> sound obs x w \<and> (\<forall>d. w_tx w = Some d \<longrightarrow> db_ok d \<and> obs d = x)"

definition sound_past :: "(db \<Rightarrow> 'o) \<Rightarrow> 'o \<Rightarrow> 'z world_scheme \<Rightarrow> bool" where
  "sound_past obs x w \<longleftrightarrow> sound obs x w \<and> (w_tx w = None \<or> w_tx w = Some (w_db w))"

lemmas sound_defs = sound_def sound_tx_def sound_past_def

lemma sound_opens:
  "sound obs x w \<Longrightarrow> sound_tx obs x (w\<lparr>w_tx := Some (w_db w)\<rparr>)"
  "sound obs x w \<Longrightarrow> sound_past obs x (w\<lparr>w_tx := Some (w_db w)\<rparr>)"
  "sound_tx obs x w \<Longrightarrow> sound obs x w" "sound_past obs x w \<Longrightarrow> sound obs x w"
  by (simp_all add: sound_defs)

lemma sound_closes:
  "preserving (sound_tx obs x) (w\<lparr>w_tx := Some (w_db w)\<rparr>) w' \<Longrightarrow> preserving (sound obs x) w w'"
  "preserving (sound_past obs x) (w\<lparr>w_tx := Some (w_db w)\<rparr>) w' \<Longrightarrow> preserving (sound obs x) w w'"
  "preserving (sound_tx obs x) w (w\<lparr>w_db := view Tx w, w_tx := None\<rparr>)"
  "preserving (sound_past obs x) w (w\<lparr>w_db := view Tx w, w_tx := None\<rparr>)"
  "preserving (sound_tx obs x) w (w\<lparr>w_tx := None\<rparr>)" "preserving (sound_past obs x) w (w\<lparr>w_tx := None\<rparr>)"
proof -
  show "preserving (sound_tx obs x) (w\<lparr>w_tx := Some (w_db w)\<rparr>) w' \<Longrightarrow> preserving (sound obs x) w w'"
    "preserving (sound_past obs x) (w\<lparr>w_tx := Some (w_db w)\<rparr>) w' \<Longrightarrow> preserving (sound obs x) w w'"
    unfolding preserving_def by (blast intro: sound_opens)+
qed (cases "w_tx w"; simp add: preserving_def sound_defs view_def)+

lemma sound_writes:
  assumes "db_ok (view q w) \<Longrightarrow> db_ok (f (view q w)) \<and> obs (f (view q w)) = obs (view q w)"
  shows "q = Conn \<Longrightarrow> preserving (sound obs x) w (write_db q f w)" "q = Tx \<Longrightarrow> preserving (sound_tx obs x) w (write_db q f w)"
    "q = Conn \<Longrightarrow> preserving (sound_past obs x) w (write_db q f w)"
proof -
  show "q = Conn \<Longrightarrow> preserving (sound obs x) w (write_db q f w)"
    using assms by (simp add: preserving_def sound_defs)
  show "q = Tx \<Longrightarrow> preserving (sound_tx obs x) w (write_db q f w)"
    using assms unfolding preserving_def sound_defs by (cases "w_tx w") simp_all
  show "q = Conn \<Longrightarrow> preserving (sound_past obs x) w (write_db q f w)"
    using assms unfolding preserving_def sound_defs by auto
qed

lemma sound_tx_effect:
  assumes "\<And>d js. obs (d\<lparr>db_jobs := js\<rparr>) = obs d"
  shows "tx_effect (preserving (sound obs x)) (preserving (sound_tx obs x)) (preserving (sound_past obs x)) obs"
  by unfold_locales
    (erule sound_closes(1,2) | rule assms sound_closes(3-6) | rule sound_writes [OF _ refl], drule (1) meta_mp, assumption
      | (simp add: preserving_def sound_defs; fail))+

interpretation frame: worker_effect "preserving (sound users_part p)" "preserving (sound_tx users_part p)"
  "preserving (sound_past users_part p)" users_part
  by (rule worker_effect.intro [OF sound_tx_effect], rule users_part_free, unfold_locales)
    (simp_all add: users_part_balances)

interpretation frame: sending_effect "preserving (sound users_part p)" "preserving (sound_tx users_part p)"
  "preserving (sound_past users_part p)" users_part "preserving (sound users_part p)"
  by unfold_locales (auto simp: preserving_def sound_def)

text \<open>C19: running the handler of a job, whatever its kind, sends at most one transaction to the blockchain,
  and none it cannot account for: what was sent before stays sent.\<close>

theorem job_sends_at_most_one:
  assumes "HandlersMap undefined_rate order keys worker ty = Some h" "h job w = (r, w')"
  shows "w_sent w' = w_sent w \<or> (\<exists>address call. w_sent w' = w_sent w @ [(address, call)])"
  using sending.handlers_send [OF assms] by (simp add: sends_once_def)

lemma processJob_world: "snd (processJob conf h job w) = snd (h job w)"
proof -
  obtain r j w' where run: "h job w = ((r, j), w')" by (metis surj_pair)
  show ?thesis
  proof (cases r)
    case None
    with run show ?thesis by (simp only: processJob_ok snd_conv)
  next
    case (Some e)
    with run show ?thesis by (simp only: processJob_error [OF _ refl] snd_conv)
  qed
qed

lemma sound_processJob:
  assumes "processJob conf h job w = (r, w')" and "\<And>r v. h job w = (r, v) \<Longrightarrow> preserving (sound users_part p) w v"
  shows "preserving (sound users_part p) w w'"
  using assms(2) [OF surjective_pairing] assms(1) processJob_world [of conf h job w] by simp

lemma sound_reread: "keeps (preserving (sound users_part p)) (reread job)"
  unfolding reread_def
  by (rule frame.keeps_begin(1), rule disjI1)
    (intro frame.tx.keeps_basic frame.tx.keeps_reads frame.keeps_closing)

lemma sound_saveJobAndNotify: "keeps (preserving (sound users_part p)) (saveJobAndNotify job result)"
  unfolding saveJobAndNotify_def notify_def
  by (intro frame.conn.keeps_basic frame.conn.keeps_save frame.conn.jobs_free preserving.keeps_modC)
    (simp_all add: preserving_def sound_def)

lemma processWorker_step_sound:
  fixes w w' :: "'z wworld_scheme"
  assumes "processWorker_step conf (HandlersMap undefined_rate order keys worker) i w = (n, w')"
  shows "preserving (sound users_part p) w w'"
proof -
  note trans = preserving.trans
  obtain x w1 where x: "find_pk JobTable Conn i w = (x, w1)" by (cases "find_pk JobTable Conn i w")
  then have 1: "preserving (sound users_part p) w w1" using stepsD(1) [OF frame.conn.keeps_reads(1) TrueI] by blast
  show ?thesis
  proof (cases "\<exists>job. x = Inr job \<and> \<not> (job_Status job \<noteq> JobActive \<or> w_now w1 < job_NotBefore job)")
    case False
    with x 1 assms show ?thesis by (auto simp: processWorker_step_def split: sum.splits if_splits)
  next
    case True
    then obtain job where job: "x = Inr job" "job_Status job = JobActive" "\<not> w_now w1 < job_NotBefore job" by auto
    obtain h :: "'z wworld_scheme handler" where
      h: "HandlersMap undefined_rate order keys worker (job_Type job) = Some h" using HandlersMap_total by blast
    obtain res job2 w2 where run: "processJob conf h job w1 = ((res, job2), w2)" by (metis surj_pair)
    then have 2: "preserving (sound users_part p) w1 w2" by (rule sound_processJob) (rule frame.handlers_send [OF h])
    obtain y w3 where y: "(if job_Status job2 = JobActive then reread job2 w2 else (Inr job2, w2)) = (y, w3)"
      by (metis surj_pair)
    then have 3: "preserving (sound users_part p) w2 w3"
      using stepsD(1) [OF sound_reread TrueI, of job2 w2] by (auto simp: preserving.refl split: if_splits)
    show ?thesis
    proof (cases y)
      case (Inl e)
      with x job h run y assms have "w' = w3" by (simp add: processWorker_step_def)
      with 1 2 3 show ?thesis by (blast intro: trans)
    next
      case (Inr job3)
      obtain z w4 where z: "saveJobAndNotify job3 res w3 = (z, w4)" by (metis surj_pair)
      then have "preserving (sound users_part p) w3 w4" using stepsD(1) [OF sound_saveJobAndNotify TrueI] by blast
      moreover from x job h run y Inr z assms have "w' = w4"
        by (auto simp: processWorker_step_def split: sum.splits)
      ultimately show ?thesis using 1 2 3 by (blast intro: trans)
    qed
  qed
qed

text \<open>C17: no job touches what belongs to the user: whatever jobs a worker of the queue runs with the handlers of the
  controller, settings, templates, products, sessions and the accounts with their keys stay as they
  are, but for the balances of accounts, whatever the blockchain and the peers answer, and wherever a
  handler fails or panics.\<close>

theorem queue_leaves_user_alone:
  assumes "db_ok (w_db w)" and "processWorker conf (HandlersMap undefined_rate order keys worker) jobs w = (e, w')"
  shows "db_settings (w_db w') = db_settings (w_db w) \<and> db_templates (w_db w') = db_templates (w_db w)
    \<and> db_products (w_db w') = db_products (w_db w) \<and> db_sessions (w_db w') = db_sessions (w_db w)
    \<and> map account_keys (db_accounts (w_db w')) = map account_keys (db_accounts (w_db w))"
proof -
  have "db_ok (w_db w') \<and> users_part (w_db w') = users_part (w_db w)"
    using assms
  proof (induction jobs arbitrary: w)
    case (Cons i jobs)
    then obtain n v where step: "processWorker_step conf (HandlersMap undefined_rate order keys worker) i w = (n, v)"
      by (metis surj_pair)
    with Cons.prems(1) have "db_ok (w_db v) \<and> users_part (w_db v) = users_part (w_db w)"
      using processWorker_step_sound [OF step, of "users_part (w_db w)"] by (simp add: preserving_def sound_def)
    with Cons step show ?case by (auto split: worker_next.splits)
  qed simp
  then show ?thesis by (simp add: users_part_def)
qed

section \<open>Concrete instances\<close>

text \<open>A node whose calls succeed, a key store with one key, and peers that do not answer.\<close>

definition sample_transaction :: transaction where
  "sample_transaction = \<lparr>etx_Hash = 5, etx_Nonce = 1, etx_GasPrice = 7, etx_Gas = 21000, etx_Raw = ''tx''\<rparr>"

definition sample_backend :: Backend where
  "sample_backend = \<lparr>bk_PTCAllowance = (\<lambda>_ _. Some 0), bk_PTCBalanceOf = (\<lambda>_. Some 900), bk_PSCBalanceOf = (\<lambda>_. Some 800),
     bk_EthBalanceAt = (\<lambda>_. Some 1000000), bk_SuggestGasPrice = Some 7, bk_LatestBlockNumber = Some 100,
     bk_GetTransactionByHash = (\<lambda>_. Some (sample_transaction, False)),
     bk_PSCGetOfferingInfo = (\<lambda>_. Some \<lparr>oi_Agent = 170, oi_MinDeposit = 210, oi_MaxSupply = 3, oi_CurrentSupply = 2,
       oi_UpdateBlock = 5, oi_Active = True\<rparr>),
     bk_PSCGetSettleBlock = (\<lambda>_ _ _ _. Some 90),
     bk_transact = (\<lambda>_ _ _ _. Some sample_transaction), bk_reprice = (\<lambda>_ _. Some sample_transaction)\<rparr>"

definition sample_worker :: "unit Worker" where
  "sample_worker = \<lparr>wk_crypto = toy_crypto,
     wk_ept = \<lparr>es_payAddr = ''url'', es_config = (\<lambda>_. Some []),
       es_format = \<lparr>fm_marshal = (\<lambda>_. None), fm_unmarshal = (\<lambda>_. None), fm_valid = (\<lambda>_ _. True)\<rparr>,
       es_genPass = ''pass'', es_timeout = False\<rparr>,
     wk_offer_format = \<lparr>fm_marshal = (\<lambda>_. None), fm_unmarshal = (\<lambda>_. None), fm_valid = (\<lambda>_ _. True)\<rparr>,
     wk_eth = sample_backend,
     wk_gasConf = \<lparr>gas_Approve = 1, gas_AddBalanceERC20 = 1, gas_RegisterServiceOffering = 1, gas_CreateChannel = 1,
       gas_CooperativeClose = 1, gas_ReturnBalanceERC20 = 1, gas_UncooperativeClose = 1, gas_Settle = 1, gas_TopUp = 1,
       gas_PopupServiceOffering = 1, gas_RemoveServiceOffering = 1\<rparr>,
     wk_pscAddr = 187, wk_getKey = (\<lambda>_. Some ()), wk_recover = (\<lambda>_. Some (204, [1, 2])), wk_queue = NewConfig,
     wk_torHostName = ''tor'', wk_country = (\<lambda>_. None), wk_somc = (\<lambda>_ _. Inl (Text ''somc'')),
     wk_unpackTopUp = (\<lambda>_. Some (9, 50)), wk_unpackCreated = (\<lambda>_. Some 300), wk_unpackOffering = (\<lambda>_. None),
     wk_validJSON = (\<lambda>_ _. True), wk_marshalParams = (\<lambda>_. []), wk_salt = 3, wk_bcrypt = (\<lambda>b. Some b)\<rparr>"

definition worker_world :: "db \<Rightarrow> wworld" where
  "worker_world d = \<lparr>w_db = d, w_tx = None, w_faults = [], w_now = 5000000000000,
     w_uuid = (\<lambda>n. ''u'' @ decimal n), w_uuids = 0, q_subs = Map.empty, q_notified = [], w_sent = []\<rparr>"

text \<open>An account returns 5 of its tokens.\<close>

definition return_job :: Job where
  "return_job = (sample_job ''j9'' JobPreAccountReturnBalance JobAccount JobActive 4)\<lparr>job_RelatedID := ''a1'',
     job_Data := Some (enc_BalanceData \<lparr>bal_GasPrice = 7, bal_Amount = 5\<rparr>)\<rparr>"

definition return_db :: db where
  "return_db = sample_db\<lparr>db_jobs := [return_job]\<rparr>"

lemma sample_return:
  "w_sent (snd (by_job (PreAccountReturnBalance sample_worker) return_job (worker_world return_db)))
    = [(170, PSCReturnBalanceERC20 5)]"
  by code_simp

theorem job_sends_at_most_one_witness:
  "\<exists>r w'. by_job (PreAccountReturnBalance sample_worker) return_job (worker_world return_db) = (r, w')
    \<and> (\<exists>address call. w_sent w' = [(address, call)])"
proof -
  have h: "HandlersMap 0 (\<lambda>_. []) (\<lambda>_. []) sample_worker JobPreAccountReturnBalance
      = Some (by_job (PreAccountReturnBalance sample_worker))"
    by (simp add: HandlersMap_def)
  obtain r w' where run: "by_job (PreAccountReturnBalance sample_worker) return_job (worker_world return_db) = (r, w')"
    by (metis surj_pair)
  from job_sends_at_most_one [OF h run] sample_return run show ?thesis by (auto simp: worker_world_def)
qed

lemma return_db_ok: "db_ok return_db"
  by code_simp

theorem queue_leaves_user_alone_witness:
  "let w' = snd (processWorker NewConfig (HandlersMap 0 (\<lambda>_. []) (\<lambda>_. []) sample_worker) [''j9'', ''x''] (worker_world return_db))
   in db_settings (w_db w') = db_settings return_db \<and> map account_keys (db_accounts (w_db w')) = map account_keys (db_accounts return_db)"
proof -
  have ok: "db_ok (w_db (worker_world return_db))" using return_db_ok by (simp add: worker_world_def)
  obtain e w' where run: "processWorker NewConfig (HandlersMap 0 (\<lambda>_. []) (\<lambda>_. []) sample_worker) [''j9'', ''x'']
    (worker_world return_db) = (e, w')" by (metis surj_pair)
  have "w_db (worker_world return_db) = return_db" by (simp add: worker_world_def)
  with queue_leaves_user_alone [OF ok run] show ?thesis unfolding run by simp
qed

end
