(* ===== verification/Effects.thy ===== *)
theory Effects
  imports Handlers
begin

text \<open>
  Facts about single runs that the theories on handlers and on the calls of the user share: what a
  transaction opened and closed by hand leaves behind, what reading keeps, and what a queued job adds.
\<close>

section \<open>Transactions opened by hand\<close>

abbreviation "manual_tx g h f \<equiv>
  thenC (on_err g begin_tx) (handleC f (\<lambda>e. thenC rollback_tx (fail e)) (\<lambda>_. on_err h commit_tx))"

lemma manual_tx_error:
  assumes "keeps same_db f" "manual_tx g h f w = (Inl e, w')"
  shows "w_db w' = w_db w"
proof -
  have opened: "w_db t = w_db w" if "begin_tx w = (r, t)" for r t
    using that by (auto simp: begin_tx_def thenC_def bindC_def modC_def
        split: prod.splits sum.splits dest!: db_call_state)
  have body: "w_db t = w_db s" if "f s = (r, t)" for s r t
    using keepsD [OF assms(1), of s] that by (simp add: same_db_def)
  have commit: "w_db t = w_db s" if "commit_tx s = (Inl e, t)" for s t e
    using that by (auto simp: commit_tx_def split: prod.splits sum.splits dest!: db_call_state)
  show ?thesis
    using assms(2)
    by (auto simp: rollback_tx_def run dest!: opened body commit)
qed

lemma manual_tx_success:
  assumes "manual_tx g h f w = (Inr x, w')"
  obtains bs v where "f (w\<lparr>w_faults := bs, w_tx := Some (w_db w)\<rparr>) = (Inr (), v)" "w_db w' = view Tx v"
proof -
  from assms obtain u v where u: "begin_tx w = (Inr (), u)" and f: "f u = (Inr (), v)" and c: "commit_tx v = (Inr (), w')"
    by (auto simp: run)
  from u obtain bs where "u = w\<lparr>w_faults := bs, w_tx := Some (w_db w)\<rparr>"
    by (auto simp: begin_tx_def run dest!: db_call_state)
  moreover from c have "w_db w' = view Tx v"
    by (auto simp: commit_tx_def db_call_ok split: prod.splits sum.splits)
  ultimately show ?thesis using that f by blast
qed

text \<open>What is written through the transaction stays in it.\<close>

interpretation same_db_tx: lawful_effect same_db Tx "\<lambda>_. ()"
  by unfold_locales (simp_all add: same_db_write_Tx)

lemmas all_tables_free = all_db_tables [THEN writes_freely_unit]

lemma handler_tx_error: "keeps same_db f \<Longrightarrow> handler_tx f w = (Inl e, w') \<Longrightarrow> w_db w' = w_db w"
  unfolding handler_tx_def by (rule manual_tx_error)

lemma handler_tx_success:
  assumes "handler_tx f w = (Inr x, w')"
  obtains bs v where "f (w\<lparr>w_faults := bs, w_tx := Some (w_db w)\<rparr>) = (Inr (), v)" "w_db w' = view Tx v"
  using manual_tx_success [OF assms [unfolded handler_tx_def]] .

section \<open>Reading keeps everything\<close>

definition same_view :: "'z world_scheme \<Rightarrow> 'z world_scheme \<Rightarrow> bool" where
  "same_view w w' \<longleftrightarrow> w_db w' = w_db w \<and> w_tx w' = w_tx w \<and> w_now w' = w_now w"

interpretation same_view: db_effect same_view
  by unfold_locales (auto simp: same_view_def)

lemma same_view_view: "same_view w w' \<Longrightarrow> view q w' = view q w"
  by (auto simp: same_view_def view_def split: querier.split option.split)

lemma keeps_view: "keeps same_view m \<Longrightarrow> m w = (r, w') \<Longrightarrow> same_view w w'"
  using stepsD(1) [of same_view "\<lambda>_. True" m "\<lambda>_ _. True" w r w'] by simp

lemma keeps_view_db: "keeps same_view m \<Longrightarrow> m u = (x, v) \<Longrightarrow> w_db v = w_db u"
  using keeps_view [of m u x v] by (simp add: same_view_def)

lemmas reads = keeps_view_db [OF same_view.keeps_selectors(2)] keeps_view_db [OF same_view.keeps_selectors(12)]
  keeps_view_db [OF same_view.keeps_selectors(13)]

lemma addJob_run:
  assumes "addJob wk q ty rt i w = (Inr u, w')"
  shows "\<exists>j. view q w' = (view q w)\<lparr>db_jobs := db_jobs (view q w) @ [j]\<rparr> \<and> job_Type j = ty
    \<and> job_RelatedType j = rt \<and> job_RelatedID j = i \<and> job_Status j = JobActive
    \<and> \<not> exists_row job_ID (db_jobs (view q w)) (job_ID j)"
  using assms unfolding addJob_def AddSimple_def AddWithData_def AddWithDataAndDelay_def
  by (fastforce simp: run new_job_def dest: queue.add_view queue.add_job)

lemma offeringByHash_run:
  assumes "offeringByHash h w = (Inr f, w')"
  shows "f \<in> set (db_offerings (w_db w)) \<and> ofr_Hash f = HexFromBytes (hash_bytes h)"
  using assms unfolding offeringByHash_def offeringByHashString_def
  by (auto simp: run OfferingTable_def dest!: find_Some_in)

lemma table_simps [simp]:
  "t_rows OfferingTable = db_offerings" "t_key OfferingTable = ofr_ID" "t_put OfferingTable rs d = d\<lparr>db_offerings := rs\<rparr>"
  "t_rows UserTable = db_users" "t_key UserTable = usr_ID" "t_put UserTable us d = d\<lparr>db_users := us\<rparr>"
  by (simp_all add: OfferingTable_def UserTable_def)

lemma select_all_reads: "select_all T q P w = (r, w') \<Longrightarrow> same_view w w'"
  by (rule keeps_view [OF same_view.keeps_reads(3)])

end
