(* ===== verification/WorkerLaws.thy ===== *)
theory WorkerLaws
  imports Effects JobsMaker
begin

text \<open>
  What single handlers promise: opening a channel is all or nothing and never oversells an offering,
  the agent's accounting of its supply follows an abstract one, and a close that fails half-way is
  not retried.
\<close>

section \<open>Opening a channel\<close>

definition opened_channel :: "Job \<Rightarrow> JobEthLog \<Rightarrow> logChannelCreatedInput \<Rightarrow> Offering \<Rightarrow> Channel" where
  "opened_channel job l created offer =
     \<lparr>ch_ID = job_RelatedID job, ch_Agent = HexFromBytes (address_bytes (lc_agentAddr created)),
      ch_Client = HexFromBytes (address_bytes (lc_clientAddr created)), ch_Offering = ofr_ID offer,
      ch_Block = ucast (elog_Block l), ch_ChannelStatus = ChannelActive, ch_ServiceStatus = ServicePending,
      ch_ServiceChangedTime = None, ch_PreparedAt = zero_time, ch_TotalDeposit = lc_deposit created,
      ch_Salt = 0, ch_Username = None, ch_Password = [], ch_ReceiptBalance = 0, ch_ReceiptSignature = None\<rparr>"

text \<open>The transaction in which a channel is opened.\<close>

definition open_tx :: "'k Worker \<Rightarrow> Job \<Rightarrow> JobEthLog \<Rightarrow> User option \<Rightarrow> ('z, unit) dbcmd" where
  "open_tx wk job l client =
     thenC (case client of None \<Rightarrow> ret () | Some u \<Rightarrow> on_err (werr worker_ErrInternal) (insert_row UserTable Tx u))
       (bindC (of_sum (extractLogChannelCreated wk l)) (\<lambda>created.
        bindC (offeringByHash (lc_offeringHash created)) (\<lambda>offer.
        thenC (guardC (\<not> lc_deposit created < ComputePrice offer (ofr_MinUnits offer)) (Worker worker_ErrSmallDeposit))
       (thenC (updateRecord Tx OfferingTable (offer\<lparr>ofr_CurrentSupply := ofr_CurrentSupply offer - 1\<rparr>))
       (thenC (on_err (werr worker_ErrInternal) (insert_row ChannelTable Tx (opened_channel job l created offer)))
         (addJob wk Tx JobAgentPreEndpointMsgCreate JobChannel (job_RelatedID job)))))))"

lemma AgentAfterChannelCreate_open_tx:
  "AgentAfterChannelCreate wk job =
     (if isJobInvalid job JobAgentAfterChannelCreate JobChannel then fail (Worker worker_ErrInvalidJob)
      else bindC (ethLog job) (\<lambda>l. bindC (ethLogTx wk l) (\<lambda>ethTx. bindC (newUser wk ethTx) (\<lambda>client.
        handler_tx (open_tx wk job l client)))))"
  unfolding AgentAfterChannelCreate_def open_tx_def opened_channel_def ..

text \<open>What has been opened: the offering with one place less, the channel with the deposit of the log,
  the job that makes the endpoint message, and at most one new user.\<close>

definition opened :: "'k Worker \<Rightarrow> Job \<Rightarrow> JobEthLog \<Rightarrow> db \<Rightarrow> db \<Rightarrow> bool" where
  "opened wk job l d d' \<longleftrightarrow> (\<exists>us created offer j. extractLogChannelCreated wk l = Inr created
     \<and> offer \<in> set (db_offerings d) \<and> ofr_Hash offer = HexFromBytes (hash_bytes (lc_offeringHash created))
     \<and> ComputePrice offer (ofr_MinUnits offer) \<le> lc_deposit created
     \<and> ofr_CurrentSupply offer - 1 \<le> ofr_Supply offer
     \<and> length us \<le> 1 \<and> job_Type j = JobAgentPreEndpointMsgCreate \<and> job_RelatedID j = job_RelatedID job
     \<and> job_Status j = JobActive \<and> \<not> exists_row ch_ID (db_channels d) (job_RelatedID job)
     \<and> d' = d\<lparr>db_users := db_users d @ us,
         db_offerings := replace ofr_ID (offer\<lparr>ofr_CurrentSupply := ofr_CurrentSupply offer - 1\<rparr>) (db_offerings d),
         db_channels := db_channels d @ [opened_channel job l created offer], db_jobs := db_jobs d @ [j]\<rparr>)"

lemma open_tx_run:
  assumes "open_tx wk job l client w = (Inr u, w')" and tx: "w_tx w = Some (w_db w)"
  shows "opened wk job l (w_db w) (view Tx w')"
proof -
  from assms(1) obtain s1 created offer s2 s3 s4 where
    users: "(case client of None \<Rightarrow> ret () | Some u \<Rightarrow> on_err (werr worker_ErrInternal) (insert_row UserTable Tx u)) w = (Inr (), s1)"
    and created: "Inr created = extractLogChannelCreated wk l"
    and off: "offeringByHash (lc_offeringHash created) s1 = (Inr offer, s2)"
    and dep: "\<not> lc_deposit created < ComputePrice offer (ofr_MinUnits offer)"
    and upd: "update_row OfferingTable Tx (offer\<lparr>ofr_CurrentSupply := ofr_CurrentSupply offer - 1\<rparr>) s2 = (Inr (), s3)"
    and ins: "insert_row ChannelTable Tx (opened_channel job l created offer) s3 = (Inr (), s4)"
    and add: "addJob wk Tx JobAgentPreEndpointMsgCreate JobChannel (job_RelatedID job) s4 = (Inr u, w')"
    unfolding open_tx_def updateRecord_def by (auto simp: run)
  have view: "view Tx w = w_db w" using tx by (simp add: view_def)
  obtain us where s1: "view Tx s1 = (w_db w)\<lparr>db_users := db_users (w_db w) @ us\<rparr>" "length us \<le> 1" "w_db s1 = w_db w"
  proof (cases client)
    case None
    with users have "s1 = w" by (simp add: ret_def)
    with view show ?thesis by (intro that [of "[]"]) simp_all
  next
    case (Some c)
    with users have ins: "insert_row UserTable Tx c w = (Inr (), s1)" by (simp add: run)
    have "w_db s1 = w_db w" using ins by (auto simp: insert_row_run dest!: db_call_state)
    with UserTable.insert_view(1) [OF ins] view show ?thesis by (intro that [of "[c]"]) simp_all
  qed
  have "same_view s1 s2" using keeps_view [OF same_view.keeps_selectors(7) off] .
  then have s2: "view Tx s2 = view Tx s1" by (rule same_view_view)
  from OfferingTable.update_view(1) [OF upd] have s3: "view Tx s3 = (view Tx s2)\<lparr>db_offerings :=
    replace ofr_ID (offer\<lparr>ofr_CurrentSupply := ofr_CurrentSupply offer - 1\<rparr>) (db_offerings (view Tx s2))\<rparr>" by simp
  from upd have sup: "ofr_CurrentSupply offer - 1 \<le> ofr_Supply offer"
    by (auto simp: update_row_run row_ok_def OfferingTable_def)
  from ChannelTable.insert_view [OF ins] have s4: "view Tx s4 = (view Tx s3)\<lparr>db_channels := db_channels (view Tx s3) @
    [opened_channel job l created offer]\<rparr>" "\<not> exists_row ch_ID (db_channels (view Tx s3)) (job_RelatedID job)"
    by (simp_all add: opened_channel_def)
  from addJob_run [OF add] obtain j where j: "view Tx w' = (view Tx s4)\<lparr>db_jobs := db_jobs (view Tx s4) @ [j]\<rparr>"
    "job_Type j = JobAgentPreEndpointMsgCreate" "job_RelatedID j = job_RelatedID job" "job_Status j = JobActive" by blast
  show ?thesis
    unfolding opened_def
    using created [symmetric] offeringByHash_run [OF off] dep sup s1 s2 s3 s4 j
    by (intro exI [of _ us] exI [of _ created] exI [of _ offer] exI [of _ j]) (simp add: not_less)
qed

lemma keeps_open_tx: "keeps same_db (open_tx wk job l client)"
  unfolding open_tx_def by (intro same_db.keeps_reading same_db_tx.keeps_writing all_tables_free)

lemmas open_tx_fails = handler_tx_error [OF keeps_open_tx]

lemma channel_create_opened:
  assumes "AgentAfterChannelCreate wk job w = (Inr u, w')"
  shows "\<exists>l. dec_JobData (job_Data job) = (Some l, True) \<and> opened wk job l (w_db w) (w_db w')"
proof -
  from assms obtain l u1 t u2 client u3 where l: "ethLog job w = (Inr l, u1)" "ethLogTx wk l u1 = (Inr t, u2)"
    "newUser wk t u2 = (Inr client, u3)" and tx: "handler_tx (open_tx wk job l client) u3 = (Inr u, w')"
    unfolding AgentAfterChannelCreate_open_tx by (auto simp: bindC_run_Inr fail_run split: if_splits)
  have u3: "w_db u3 = w_db w" using reads(1) [OF l(1)] reads(2) [OF l(2)] reads(3) [OF l(3)] by simp
  from tx obtain bs v where "open_tx wk job l client (u3\<lparr>w_faults := bs, w_tx := Some (w_db u3)\<rparr>) = (Inr (), v)"
    and v: "w_db w' = view Tx v" by (rule handler_tx_success)
  from open_tx_run [OF this(1)] have "opened wk job l (w_db w) (w_db w')" by (simp add: u3 v)
  moreover from l(1) have "dec_JobData (job_Data job) = (Some l, True)"
    by (auto simp: ethLog_def run split: prod.splits option.splits)
  ultimately show ?thesis by blast
qed

lemma channel_create_fails:
  assumes "AgentAfterChannelCreate wk job w = (Inl e, w')"
  shows "w_db w' = w_db w"
  using assms unfolding AgentAfterChannelCreate_open_tx
  by (auto simp: bindC_run_Inl fail_run split: if_splits dest!: reads open_tx_fails)

text \<open>C13: opening a channel is all or nothing. When it succeeds the deposit of the log covers the least use
  of the offering, the offering has one place less, the channel of the job is stored with that deposit
  and the job that makes its endpoint message is queued, and nothing else changes but that the client
  may become known; when it fails the database is as it was.\<close>

theorem AgentAfterChannelCreate_atomic:
  assumes "AgentAfterChannelCreate wk job w = (r, w')"
  shows "case r of Inl _ \<Rightarrow> w_db w' = w_db w
    | Inr _ \<Rightarrow> (\<exists>l. dec_JobData (job_Data job) = (Some l, True) \<and> opened wk job l (w_db w) (w_db w'))"
  using assms by (cases r) (auto dest: channel_create_opened channel_create_fails)

section \<open>The supply of an offering\<close>

text \<open>
  What the agent promises of an offering: it has places, some free, the others taken by an open
  channel each. Opening a channel takes a free place, closing it gives the place back.
\<close>

datatype supply_action = Take | Give

inductive supply_step :: "supply_action \<Rightarrow> nat \<times> nat \<Rightarrow> nat \<times> nat \<Rightarrow> bool" where
  take_place: "supply_step Take (Suc free, taken) (free, Suc taken)"
| give_place: "supply_step Give (free, Suc taken) (Suc free, taken)"

inductive_simps supply_step_simps [simp]: "supply_step Take (a, b) (c, d)" "supply_step Give (a, b) (c, d)"

lemma supply_kept: "(\<lambda>p p'. \<exists>a. supply_step a p p')\<^sup>*\<^sup>* p p' \<Longrightarrow> fst p' + snd p' = fst p + snd p"
  by (induction rule: rtranclp_induct) (auto elim: supply_step.cases)

definition is_open :: "Channel \<Rightarrow> bool" where
  "is_open ch \<longleftrightarrow> ch_ChannelStatus ch \<noteq> ChannelClosedCoop \<and> ch_ChannelStatus ch \<noteq> ChannelClosedUncoop"

definition supply_of :: "string \<Rightarrow> db \<Rightarrow> (nat \<times> nat) option" where
  "supply_of i d = map_option (\<lambda>f. (unat (ofr_CurrentSupply f),
     length (filter (\<lambda>c. ch_Offering c = i \<and> is_open c) (db_channels d)))) (lookup OfferingTable d i)"

text \<open>One place of the offering k moves, and nothing else does.\<close>

definition supply_moves :: "supply_action \<Rightarrow> string \<Rightarrow> db \<Rightarrow> db \<Rightarrow> bool" where
  "supply_moves a k d d' \<longleftrightarrow> (\<exists>p p'. supply_of k d = Some p \<and> supply_of k d' = Some p' \<and> supply_step a p p')
     \<and> (\<forall>i. i \<noteq> k \<longrightarrow> supply_of i d' = supply_of i d)"

lemma lookup_mem:
  "distinct (map (t_key T) (t_rows T d)) \<Longrightarrow> r \<in> set (t_rows T d) \<Longrightarrow> lookup T d (t_key T r) = Some r"
proof -
  have "find (\<lambda>x. t_key T x = t_key T r) rs = Some r" if "distinct (map (t_key T) rs)" "r \<in> set rs" for rs
    using that by (induction rs) auto
  then show "distinct (map (t_key T) (t_rows T d)) \<Longrightarrow> r \<in> set (t_rows T d) \<Longrightarrow> lookup T d (t_key T r) = Some r"
    by (simp add: lookup_def)
qed

lemma filter_replace:
  assumes "distinct (map kf rs)" "r \<in> set rs" "kf r' = kf r"
  shows "length (filter P (replace kf r' rs)) + of_bool (P r) = length (filter P rs) + of_bool (P r')"
  using assms(1,2)
proof (induction rs)
  case (Cons x xs)
  show ?case
  proof (cases "x = r")
    case True
    with Cons.prems have "\<forall>y \<in> set xs. kf y \<noteq> kf r" by (simp add: image_iff) metis
    then have "replace kf r' xs = xs" using assms(3) by (simp add: replace_def map_idI)
    with True assms(3) show ?thesis by (simp add: replace_def)
  next
    case False
    with Cons have "r \<in> set xs" "kf x \<noteq> kf r" by auto
    with Cons assms(3) show ?thesis by (auto simp: replace_def)
  qed
qed simp

lemma lookup_replace_offering:
  assumes "f \<in> set (db_offerings d)" "ofr_ID f' = ofr_ID f"
  shows "lookup OfferingTable (d\<lparr>db_offerings := replace ofr_ID f' (db_offerings d)\<rparr>) i
    = (if i = ofr_ID f then Some f' else lookup OfferingTable d i)"
proof -
  have "exists_row ofr_ID (db_offerings d) (ofr_ID f')" using assms by (auto simp: exists_row_def list_ex_iff)
  from find_replace [OF this, of i] show ?thesis using assms(2) by (simp add: lookup_def)
qed

lemma minus_one_u16: "(- 1 :: u16) = 65535"
  by simp

lemma opened_supply:
  assumes "db_ok d" "opened wk job l d d'" and "\<And>f. f \<in> set (db_offerings d) \<Longrightarrow> ofr_Supply f < 65535"
  shows "\<exists>k. supply_moves Take k d d'"
proof -
  from assms(2) obtain us created offer j where offer: "offer \<in> set (db_offerings d)"
    and sup: "ofr_CurrentSupply offer - 1 \<le> ofr_Supply offer"
    and d': "d' = d\<lparr>db_users := db_users d @ us,
         db_offerings := replace ofr_ID (offer\<lparr>ofr_CurrentSupply := ofr_CurrentSupply offer - 1\<rparr>) (db_offerings d),
         db_channels := db_channels d @ [opened_channel job l created offer], db_jobs := db_jobs d @ [j]\<rparr>"
    unfolding opened_def by blast
  have "distinct (map ofr_ID (db_offerings d))" using assms(1) by (simp add: db_ok_def table_ok_def)
  with lookup_mem [of OfferingTable d offer] offer have look: "lookup OfferingTable d (ofr_ID offer) = Some offer" by simp
  have "ofr_CurrentSupply offer \<noteq> 0"
    using sup assms(3) [OF offer] by (auto simp: minus_one_u16 simp del: word_n1_ge)
  then have "unat (ofr_CurrentSupply offer) = Suc (unat (ofr_CurrentSupply offer - 1))"
    by (simp add: unat_minus_one unat_gt_0)
  moreover have "lookup OfferingTable d' i = (if i = ofr_ID offer
      then Some (offer\<lparr>ofr_CurrentSupply := ofr_CurrentSupply offer - 1\<rparr>) else lookup OfferingTable d i)" for i
    using lookup_replace_offering [OF offer, of "offer\<lparr>ofr_CurrentSupply := ofr_CurrentSupply offer - 1\<rparr>" i]
    by (simp add: d' lookup_def)
  moreover have "filter (\<lambda>c. ch_Offering c = i \<and> is_open c) (db_channels d')
      = filter (\<lambda>c. ch_Offering c = i \<and> is_open c) (db_channels d)
        @ (if i = ofr_ID offer then [opened_channel job l created offer] else [])" for i
    by (simp add: d' opened_channel_def is_open_def)
  ultimately show ?thesis
    using look by (intro exI [of _ "ofr_ID offer"]) (simp add: supply_moves_def supply_of_def)
qed

text \<open>What closing a channel has changed, the jobs aside.\<close>

definition gave_back :: "Channel \<Rightarrow> chan_status \<Rightarrow> db \<Rightarrow> db \<Rightarrow> bool" where
  "gave_back ch status d d' \<longleftrightarrow> (\<exists>offer js. lookup OfferingTable d (ch_Offering ch) = Some offer
     \<and> ofr_CurrentSupply offer + 1 \<le> ofr_Supply offer
     \<and> d' = d\<lparr>db_channels := replace ch_ID (ch\<lparr>ch_ChannelStatus := status\<rparr>) (db_channels d),
         db_offerings := replace ofr_ID (offer\<lparr>ofr_CurrentSupply := ofr_CurrentSupply offer + 1\<rparr>) (db_offerings d),
         db_jobs := js\<rparr>)"

lemma gave_back_supply:
  assumes "db_ok d" "gave_back ch status d d'" "lookup ChannelTable d i' = Some ch" "is_open ch"
    and "status = ChannelClosedCoop \<or> status = ChannelClosedUncoop"
    and "\<And>f. f \<in> set (db_offerings d) \<Longrightarrow> ofr_Supply f < 65535"
  shows "supply_moves Give (ch_Offering ch) d d'"
proof -
  let ?ch = "ch\<lparr>ch_ChannelStatus := status\<rparr>"
  let ?P = "\<lambda>i c. ch_Offering c = i \<and> is_open c"
  from assms(2) obtain offer js where look: "lookup OfferingTable d (ch_Offering ch) = Some offer"
    and sup: "ofr_CurrentSupply offer + 1 \<le> ofr_Supply offer"
    and d': "d' = d\<lparr>db_channels := replace ch_ID ?ch (db_channels d),
         db_offerings := replace ofr_ID (offer\<lparr>ofr_CurrentSupply := ofr_CurrentSupply offer + 1\<rparr>) (db_offerings d),
         db_jobs := js\<rparr>"
    unfolding gave_back_def by blast
  from look have offer: "offer \<in> set (db_offerings d)" "ofr_ID offer = ch_Offering ch"
    by (auto simp: lookup_def dest: find_Some_in)
  from assms(3) have ch: "ch \<in> set (db_channels d)" by (auto simp: lookup_def dest: find_Some_in)
  have "distinct (map ch_ID (db_channels d))" using assms(1) by (simp add: db_ok_def table_ok_def)
  note replaced = filter_replace [OF this ch]
  have taken: "length (filter (?P i) (db_channels d)) = length (filter (?P i) (db_channels d')) + of_bool (i = ch_Offering ch)" for i
    using replaced [of ?ch "?P i"] assms(4,5) by (auto simp: d' is_open_def)
  have "ofr_CurrentSupply offer + 1 \<noteq> 0"
  proof
    assume "ofr_CurrentSupply offer + 1 = 0"
    then have "ofr_CurrentSupply offer = 65535" by (metis add_eq_0_iff minus_one_u16 minus_minus)
    moreover have "ofr_CurrentSupply offer \<le> ofr_Supply offer"
      using assms(1) offer(1) by (auto simp: db_ok_def table_ok_def OfferingTable_def list_all_iff)
    ultimately show False using assms(6) [OF offer(1)] by (simp add: word_le_nat_alt word_less_nat_alt)
  qed
  then have "unat (ofr_CurrentSupply offer + 1) = Suc (unat (ofr_CurrentSupply offer))"
    by (metis add.commute unatSuc)
  moreover have "lookup OfferingTable d' i = (if i = ch_Offering ch
      then Some (offer\<lparr>ofr_CurrentSupply := ofr_CurrentSupply offer + 1\<rparr>) else lookup OfferingTable d i)" for i
    using lookup_replace_offering [OF offer(1), of "offer\<lparr>ofr_CurrentSupply := ofr_CurrentSupply offer + 1\<rparr>" i] offer(2)
    by (simp add: d' lookup_def)
  ultimately show ?thesis
    using look taken by (simp add: supply_moves_def supply_of_def)
qed

lemma incrementCurrentSupply_run:
  assumes "incrementCurrentSupply q pk w = (Inr u, w')"
  shows "\<exists>offer. lookup OfferingTable (w_db w) pk = Some offer \<and> ofr_CurrentSupply offer + 1 \<le> ofr_Supply offer
    \<and> view q w' = (view q w)\<lparr>db_offerings :=
        replace ofr_ID (offer\<lparr>ofr_CurrentSupply := ofr_CurrentSupply offer + 1\<rparr>) (db_offerings (view q w))\<rparr>"
proof -
  from assms obtain offer v where off: "offering pk w = (Inr offer, v)"
    and upd: "update_row OfferingTable q (offer\<lparr>ofr_CurrentSupply := ofr_CurrentSupply offer + 1\<rparr>) v = (Inr u, w')"
    unfolding incrementCurrentSupply_def updateRecord_def by (auto simp: run)
  have "view q v = view q w" using same_view_view [OF keeps_view [OF same_view.keeps_selectors(4) off]] .
  moreover have "lookup OfferingTable (w_db w) pk = Some offer"
    using off by (auto simp: offering_def FindByPrimaryKeyTo_def run lookup_def)
  moreover have "ofr_CurrentSupply offer + 1 \<le> ofr_Supply offer"
    using upd by (auto simp: update_row_run row_ok_def OfferingTable_def)
  ultimately show ?thesis using OfferingTable.update_view(1) [OF upd] by simp
qed

lemma updateBalancesOf_run:
  assumes "updateBalancesOf wk q addr w = (Inr u, w')"
  shows "\<exists>j. view q w' = (view q w)\<lparr>db_jobs := db_jobs (view q w) @ [j]\<rparr>"
proof -
  from assms obtain acc v where acc: "account addr w = (Inr acc, v)"
    and add: "addJob wk q JobAccountUpdateBalances JobAccount (acc_ID acc) v = (Inr u, w')"
    unfolding updateBalancesOf_def by (auto simp: run)
  have "view q v = view q w" using same_view_view [OF keeps_view [OF same_view.keeps_selectors(8) acc]] .
  with addJob_run [OF add] show ?thesis by auto
qed

lemma relatedChannel_run:
  assumes "relatedChannel job ty w = (Inr ch, v)"
  shows "lookup ChannelTable (w_db w) (job_RelatedID job) = Some ch" "same_view w v" "job_Type job = ty"
proof -
  show "lookup ChannelTable (w_db w) (job_RelatedID job) = Some ch" "job_Type job = ty"
    using assms by (auto simp: relatedChannel_def related_def FindByPrimaryKeyTo_def isJobInvalid_def run lookup_def
        split: if_splits)
  show "same_view w v" using keeps_view [OF same_view.keeps_related(2) assms] .
qed

lemma terminateService_run:
  assumes "WorkerAgent.terminateService wk ch agent w = (r, w')"
  shows "(w_db w')\<lparr>db_jobs := []\<rparr> = (w_db w)\<lparr>db_jobs := []\<rparr>"
  using assms keeps_TerminateChannel [THEN stepsD(1), OF TrueI, of "wk_queue wk" "ch_ID ch" JobTask agent w]
  by (cases r) (auto simp: WorkerAgent.terminateService_def run same_but_jobs_def split: if_splits)

lemma db_but_jobs:
  assumes "(d' :: db)\<lparr>db_jobs := []\<rparr> = d\<lparr>db_jobs := []\<rparr>"
  shows "d' = d\<lparr>db_jobs := db_jobs d'\<rparr>"
  using assms by (cases d; cases d') simp

lemma cooperative_close_run:
  assumes "AgentAfterCooperativeClose wk job w = (Inr u, w')"
  shows "\<exists>ch. lookup ChannelTable (w_db w) (job_RelatedID job) = Some ch
    \<and> gave_back ch ChannelClosedCoop (w_db w) (w_db w')"
proof -
  from assms obtain ch w1 where ch: "relatedChannel job JobAgentAfterCooperativeClose w = (Inr ch, w1)"
    and tx: "in_tx (thenC (updateRecord Tx ChannelTable (ch\<lparr>ch_ChannelStatus := ChannelClosedCoop\<rparr>))
      (thenC (incrementCurrentSupply Tx (ch_Offering ch)) (updateBalancesOf wk Tx (ch_Agent ch)))) w1 = (Inr u, w')"
    unfolding AgentAfterCooperativeClose_def by (auto simp: bindC_run_Inr)
  have w1: "w_db w1 = w_db w" using relatedChannel_run(2) [OF ch] by (simp add: same_view_def)
  from tx obtain bs v where body: "thenC (updateRecord Tx ChannelTable (ch\<lparr>ch_ChannelStatus := ChannelClosedCoop\<rparr>))
      (thenC (incrementCurrentSupply Tx (ch_Offering ch)) (updateBalancesOf wk Tx (ch_Agent ch)))
      (w1\<lparr>w_faults := bs, w_tx := Some (w_db w1)\<rparr>) = (Inr u, v)" and v: "w_db w' = view Tx v"
    by (rule in_tx_success)
  define w2 where "w2 = w1\<lparr>w_faults := bs, w_tx := Some (w_db w1)\<rparr>"
  from body obtain w3 w4 where
    upd: "update_row ChannelTable Tx (ch\<lparr>ch_ChannelStatus := ChannelClosedCoop\<rparr>) w2 = (Inr (), w3)"
    and inc: "incrementCurrentSupply Tx (ch_Offering ch) w3 = (Inr (), w4)"
    and bal: "updateBalancesOf wk Tx (ch_Agent ch) w4 = (Inr u, v)"
    unfolding w2_def [symmetric] updateRecord_def by (auto simp: thenC_run_Inr on_err_run_Inr)
  have "w_db w3 = w_db w" using upd w1 by (auto simp: update_row_run w2_def dest!: db_call_state)
  moreover have "view Tx w3 = (w_db w)\<lparr>db_channels :=
      replace ch_ID (ch\<lparr>ch_ChannelStatus := ChannelClosedCoop\<rparr>) (db_channels (w_db w))\<rparr>"
    using ChannelTable.update_view(1) [OF upd] w1 by (simp add: w2_def)
  ultimately show ?thesis
    using relatedChannel_run(1) [OF ch] incrementCurrentSupply_run [OF inc] updateBalancesOf_run [OF bal] v
    by (auto simp: gave_back_def)
qed

lemma uncooperative_close_run:
  assumes "AgentAfterUncooperativeClose wk job w = (Inr u, w')"
  shows "\<exists>ch. lookup ChannelTable (w_db w) (job_RelatedID job) = Some ch
    \<and> gave_back ch ChannelClosedUncoop (w_db w) (w_db w')"
proof -
  from assms obtain ch w1 w2 w3 w4 where ch: "relatedChannel job JobAgentAfterUncooperativeClose w = (Inr ch, w1)"
    and stop: "WorkerAgent.terminateService wk ch True w1 = (Inr (), w2)"
    and upd: "update_row ChannelTable Conn (ch\<lparr>ch_ChannelStatus := ChannelClosedUncoop\<rparr>) w2 = (Inr (), w3)"
    and inc: "incrementCurrentSupply Conn (ch_Offering ch) w3 = (Inr (), w4)"
    and bal: "updateBalancesOf wk Conn (ch_Agent ch) w4 = (Inr u, w')"
    unfolding AgentAfterUncooperativeClose_def updateRecord_def by (auto simp: bindC_run_Inr thenC_run_Inr on_err_run_Inr)
  have "w_db w1 = w_db w" using relatedChannel_run(2) [OF ch] by (simp add: same_view_def)
  with db_but_jobs [OF terminateService_run [OF stop]] obtain js where w2: "w_db w2 = (w_db w)\<lparr>db_jobs := js\<rparr>" by metis
  have w3: "w_db w3 = (w_db w)\<lparr>db_channels :=
      replace ch_ID (ch\<lparr>ch_ChannelStatus := ChannelClosedUncoop\<rparr>) (db_channels (w_db w)), db_jobs := js\<rparr>"
    using ChannelTable.update_view(1) [OF upd] by (simp add: w2)
  from incrementCurrentSupply_run [OF inc] obtain offer where
    offer: "lookup OfferingTable (w_db w) (ch_Offering ch) = Some offer" "ofr_CurrentSupply offer + 1 \<le> ofr_Supply offer"
    "w_db w4 = (w_db w3)\<lparr>db_offerings :=
        replace ofr_ID (offer\<lparr>ofr_CurrentSupply := ofr_CurrentSupply offer + 1\<rparr>) (db_offerings (w_db w))\<rparr>"
    by (auto simp: lookup_def w3)
  from updateBalancesOf_run [OF bal] obtain j where "w_db w' = (w_db w4)\<lparr>db_jobs := db_jobs (w_db w4) @ [j]\<rparr>" by auto
  with offer(3) w3 have "w_db w' = (w_db w)\<lparr>
      db_channels := replace ch_ID (ch\<lparr>ch_ChannelStatus := ChannelClosedUncoop\<rparr>) (db_channels (w_db w)),
      db_offerings := replace ofr_ID (offer\<lparr>ofr_CurrentSupply := ofr_CurrentSupply offer + 1\<rparr>) (db_offerings (w_db w)),
      db_jobs := js @ [j]\<rparr>" by simp
  with offer(1,2) relatedChannel_run(1) [OF ch] show ?thesis unfolding gave_back_def by blast
qed

text \<open>The handlers of the agent that open and close channels, what they do and when they may be run.\<close>

definition supply_handler :: "'k Worker \<Rightarrow> Job \<Rightarrow> (Job \<Rightarrow> ('z, unit) dbcmd) \<Rightarrow> supply_action \<Rightarrow> db \<Rightarrow> bool" where
  "supply_handler wk job h a d \<longleftrightarrow> h = AgentAfterChannelCreate wk \<and> a = Take
     \<or> (h = AgentAfterCooperativeClose wk \<or> h = AgentAfterUncooperativeClose wk) \<and> a = Give
       \<and> (\<exists>ch. lookup ChannelTable d (job_RelatedID job) = Some ch \<and> is_open ch)"

text \<open>C1: what the agent does with the supply of its offerings refines the abstract accounting: opening a
  channel takes one free place of one offering, closing an open channel, in either way, gives one place
  back, and no other offering changes; so places are neither lost nor made, and a channel is never
  opened when no place is free. Supplies below the largest number of 16 bits are assumed, beyond which
  the numbers wrap.\<close>

theorem supply_refined:
  assumes "db_ok (w_db w)" and "\<And>f. f \<in> set (db_offerings (w_db w)) \<Longrightarrow> ofr_Supply f < 65535"
    and "supply_handler wk job h a (w_db w)" and "h job w = (Inr (), w')"
  shows "\<exists>k. supply_moves a k (w_db w) (w_db w')"
  using assms(3) unfolding supply_handler_def
proof (elim disjE conjE exE)
  assume "h = AgentAfterChannelCreate wk" and a: "a = Take"
  with assms(4) obtain l where "opened wk job l (w_db w) (w_db w')" using channel_create_opened by blast
  from opened_supply [OF assms(1) this assms(2)] a show ?thesis by simp
next
  fix ch assume h: "h = AgentAfterCooperativeClose wk" and a: "a = Give"
    and ch: "lookup ChannelTable (w_db w) (job_RelatedID job) = Some ch" "is_open ch"
  from cooperative_close_run [OF assms(4) [unfolded h]] ch(1) have "gave_back ch ChannelClosedCoop (w_db w) (w_db w')" by auto
  from gave_back_supply [OF assms(1) this ch _ assms(2)] a show ?thesis by auto
next
  fix ch assume h: "h = AgentAfterUncooperativeClose wk" and a: "a = Give"
    and ch: "lookup ChannelTable (w_db w) (job_RelatedID job) = Some ch" "is_open ch"
  from uncooperative_close_run [OF assms(4) [unfolded h]] ch(1) have "gave_back ch ChannelClosedUncoop (w_db w) (w_db w')" by auto
  from gave_back_supply [OF assms(1) this ch _ assms(2)] a show ?thesis by auto
qed

section \<open>A close that fails is not run again\<close>

definition canceled :: "string \<Rightarrow> 'z world_scheme \<Rightarrow> bool" where
  "canceled i w \<longleftrightarrow> map_option job_Status (lookup JobTable (w_db w) i) = Some JobCanceled"

interpretation canceled: db_effect "preserving (canceled i)"
  by unfold_locales (auto simp: preserving_def canceled_def)

lemma canceled_update:
  assumes "\<And>rs d. db_jobs (t_put T rs d) = db_jobs d"
  shows "keeps (preserving (canceled i)) (update_row T Conn r :: ('z, unit) dbcmd)"
proof (rule stepsI, intro conjI allI impI TrueI)
  fix w w' :: "'z world_scheme" and res assume run: "update_row T Conn r w = (res, w')"
  have "db_jobs (w_db w') = db_jobs (w_db w)"
    using run assms by (cases res) (auto simp: update_row_run db_call_ok dest!: failed_op db_call_state)
  then show "preserving (canceled i) w w'" by (simp add: preserving_def canceled_def lookup_def)
qed

lemma canceled_Add: "keeps (preserving (canceled i)) (Add conf Conn j :: ('z, Job) dbcmd)"
proof (rule stepsI, intro conjI allI impI TrueI)
  fix w w' :: "'z world_scheme" and res assume run: "Add conf Conn j w = (res, w')"
  show "preserving (canceled i) w w'"
  proof (cases res)
    case (Inl e)
    with run queue.add_fails have "w_db w' = w_db w" by fastforce
    then show ?thesis by (simp add: preserving_def canceled_def)
  next
    case (Inr j')
    with run queue.add_view queue.add_job have "w_db w' = (w_db w)\<lparr>db_jobs := db_jobs (w_db w) @ [j']\<rparr>"
      "\<not> exists_row job_ID (db_jobs (w_db w)) (job_ID j')" by fastforce+
    then show ?thesis
      by (auto simp: preserving_def canceled_def lookup_JobTable find_append_new exists_row_def list_ex_iff
          dest: find_Some_in)
  qed
qed

lemma canceled_rest:
  "keeps (preserving (canceled i)) (thenC (updateRecord Conn ChannelTable ch')
     (thenC (incrementCurrentSupply Conn pk) (updateBalancesOf wk Conn a)))"
proof -
  have t: "db_jobs (t_put OfferingTable rs d) = db_jobs d" "db_jobs (t_put ChannelTable cs d) = db_jobs d" for rs cs d
    by simp_all
  show ?thesis
    unfolding incrementCurrentSupply_def updateBalancesOf_def updateRecord_def addJob_def AddSimple_def AddWithData_def
      AddWithDataAndDelay_def
    by (intro canceled.keeps_reading canceled_update canceled_Add t)
qed

lemma find_append: "find P xs = Some x \<Longrightarrow> find P (xs @ ys) = Some x"
  by (induction xs) auto

lemma terminate_cancels:
  assumes "WorkerAgent.terminateService wk ch agent w = (Inr u, w')" "ch_ServiceStatus ch \<noteq> ServiceTerminated"
    and job: "lookup JobTable (w_db w) i = Some job" "job_Status job = JobActive" "job_RelatedID job = ch_ID ch"
  shows "canceled i w'"
proof -
  from assms(1,2) obtain jid where "TerminateChannel (Add (wk_queue wk)) (ch_ID ch) JobTask agent w = (Inr jid, w')"
    by (auto simp: WorkerAgent.terminateService_def run)
  then obtain j where jobs: "db_jobs (w_db w') = cancel_active (ch_ID ch) (db_jobs (w_db w)) @ [j]"
    unfolding TerminateChannel_def Let_def by (elim queue.alter_succeeds) simp
  have "find (\<lambda>r. job_ID r = i) (cancel_active (ch_ID ch) (db_jobs (w_db w))) = Some (job\<lparr>job_Status := JobCanceled\<rparr>)"
    using job unfolding cancel_active_def by (subst find_map_if) (auto simp: lookup_JobTable)
  then have "find (\<lambda>r. job_ID r = i) (db_jobs (w_db w')) = Some (job\<lparr>job_Status := JobCanceled\<rparr>)"
    unfolding jobs by (rule find_append)
  then show ?thesis by (simp add: canceled_def lookup_JobTable)
qed

lemma uncooperative_close_cancels:
  assumes run: "AgentAfterUncooperativeClose wk job w = (r, w')"
    and "lookup ChannelTable (w_db w) (job_RelatedID job) = Some ch" "ch_ServiceStatus ch \<noteq> ServiceTerminated"
    and "lookup JobTable (w_db w) i = Some job" "job_Status job = JobActive"
    and "db_channels (w_db w') \<noteq> db_channels (w_db w)"
  shows "canceled i w'"
proof -
  obtain x w1 where x: "relatedChannel job JobAgentAfterUncooperativeClose w = (x, w1)"
    by (cases "relatedChannel job JobAgentAfterUncooperativeClose w")
  from keeps_view_db [OF same_view.keeps_related(2) x] have w1: "w_db w1 = w_db w" .
  from run x w1 assms(6) obtain ch' where "x = Inr ch'" unfolding AgentAfterUncooperativeClose_def
    by (cases x) (auto simp: bindC_def)
  with relatedChannel_run(1) x assms(2) have xc: "x = Inr ch" by fastforce
  have id: "ch_ID ch = job_RelatedID job" using assms(2) by (auto simp: lookup_def dest: find_Some_in)
  obtain y w2 where y: "WorkerAgent.terminateService wk ch True w1 = (y, w2)"
    by (cases "WorkerAgent.terminateService wk ch True w1")
  show ?thesis
  proof (cases y)
    case (Inl e)
    with run x y xc have "w' = w2" unfolding AgentAfterUncooperativeClose_def by (auto simp: bindC_def thenC_def)
    moreover have "db_channels (w_db w2) = db_channels (w_db w1)"
      using arg_cong [OF terminateService_run [OF y], of db_channels] by simp
    ultimately show ?thesis using assms(6) w1 by simp
  next
    case (Inr z)
    then have "canceled i w2" using terminate_cancels [OF y [unfolded Inr] assms(3)] assms(4,5) w1 id by simp
    moreover from run x y xc Inr have "thenC (updateRecord Conn ChannelTable (ch\<lparr>ch_ChannelStatus := ChannelClosedUncoop\<rparr>))
        (thenC (incrementCurrentSupply Conn (ch_Offering ch)) (updateBalancesOf wk Conn (ch_Agent ch))) w2 = (r, w')"
      unfolding AgentAfterUncooperativeClose_def by (simp add: bindC_def thenC_def)
    then have "preserving (canceled i) w2 w'" by (rule stepsD(1) [OF canceled_rest TrueI])
    ultimately show ?thesis by (simp add: preserving_def)
  qed
qed

text \<open>C29: the handler of an uncooperative close of a channel whose service is not terminated yet terminates the
  service first, which cancels every active job of the channel, its own among them. So once a run of it on
  such a channel has touched the channel it is never run again, not even when it failed half-way: the job
  is stored as done, failed or cancelled, and the place in the supply of the offering may never be given
  back. (Where the service was terminated before, nothing cancels the job, and one that fails is run again
  as any other.)\<close>

theorem begun_close_not_retried:
  assumes "lookup JobTable (w_db w) i = Some job" "job_Type job = JobAgentAfterUncooperativeClose"
    and "job_Status job = JobActive" "job_NotBefore job \<le> w_now w"
    and "lookup ChannelTable (w_db w) (job_RelatedID job) = Some ch" "ch_ServiceStatus ch \<noteq> ServiceTerminated"
    and "processWorker_step conf (HandlersMap undefined_rate order keys worker) i w = (Next, w')"
    and "db_channels (w_db w') \<noteq> db_channels (w_db w)"
  shows "\<exists>j. lookup JobTable (w_db w') i = Some j \<and> job_Status j \<in> {JobDone, JobFailed, JobCanceled}"
proof -
  obtain x w1 where x: "find_pk JobTable Conn i w = (x, w1)" by (cases "find_pk JobTable Conn i w")
  then obtain job' where "x = Inr job'" using assms(7) by (cases x) (auto simp: processWorker_step_def)
  with x assms(1) have pk: "find_pk JobTable Conn i w = (Inr job, w1)" and id: "job_ID job = i"
    by (auto simp: find_pk_run lookup_JobTable dest: find_Some_in)
  have "same_view w w1" using keeps_view [OF same_view.keeps_reads(1) pk] .
  then have w1: "w_db w1 = w_db w" "w_now w1 = w_now w" by (simp_all add: same_view_def)
  let ?h = "by_job (AgentAfterUncooperativeClose worker)"
  have h: "HandlersMap undefined_rate order keys worker (job_Type job) = Some ?h" by (simp add: HandlersMap_def assms(2))
  obtain r w2 where r: "AgentAfterUncooperativeClose worker job w1 = (r, w2)" by (cases "AgentAfterUncooperativeClose worker job w1")
  then obtain res where run: "?h job w1 = ((res, job), w2)" by (cases r) (auto simp: by_job_def)
  note status = run_status [OF pk assms(3) _ h run id assms(3) assms(7) refl]
  have "db_channels (w_db w2) \<noteq> db_channels (w_db w)"
  proof -
    have "(w_db w')\<lparr>db_jobs := []\<rparr> = (w_db w2)\<lparr>db_jobs := []\<rparr>" using status assms(4) w1 by simp
    from arg_cong [OF this, of db_channels] assms(8) show ?thesis by simp
  qed
  from uncooperative_close_cancels [OF r _ assms(6) _ assms(3)] this assms(1,5) w1 have "canceled i w2" by simp
  with status assms(4) w1 show ?thesis by (auto simp: canceled_def split: if_splits)
qed

section \<open>Concrete instances\<close>

definition sample_template :: Template where
  "sample_template = \<lparr>tpl_ID = ''t1'', tpl_Hash = ''0a'', tpl_Raw = [], tpl_Kind = TemplateOffer\<rparr>"

definition created_log :: JobEthLog where
  "created_log = \<lparr>elog_Block = 9, elog_Data = [], elog_Topics = [7, 170, 204, 3], elog_TxHash = ''0f''\<rparr>"

definition create_job :: Job where
  "create_job = (sample_job ''j5'' JobAgentAfterChannelCreate JobChannel JobActive 4)\<lparr>job_RelatedID := ''c9'',
     job_Data := Some (enc_JobData (Some created_log))\<rparr>"

definition close_job :: Job where
  "close_job = (sample_job ''j6'' JobAgentAfterUncooperativeClose JobChannel JobActive 4)\<lparr>job_RelatedID := ''c1''\<rparr>"

text \<open>An agent's database with an offering that has one open channel and two free places.\<close>

definition agent_db :: db where
  "agent_db = sample_db\<lparr>db_templates := [sample_template], db_products := [sample_product],
     db_offerings := [hashed_offering], db_jobs := [create_job, close_job]\<rparr>"

lemma sample_create: "fst (AgentAfterChannelCreate sample_worker create_job (worker_world agent_db)) = Inr ()"
  by code_simp

lemma agent_db_ok: "db_ok agent_db"
  by code_simp

text \<open>The database fails when the supply of the offering is to be updated.\<close>

definition faulty_world :: wworld where
  "faulty_world = (worker_world agent_db)\<lparr>w_faults := replicate 11 False @ [True]\<rparr>"

definition faulty_close :: "worker_next \<times> wworld" where
  "faulty_close = processWorker_step NewConfig (HandlersMap 0 (\<lambda>_. []) (\<lambda>_. []) sample_worker) ''j6'' faulty_world"

lemma faulty_close_run:
  "fst faulty_close = Next" "map ch_ChannelStatus (db_channels (w_db (snd faulty_close))) = [ChannelClosedUncoop]"
  "map ofr_CurrentSupply (db_offerings (w_db (snd faulty_close))) = [2]"
  by code_simp+

section \<open>Witnesses\<close>

theorem AgentAfterChannelCreate_atomic_witness:
  "\<exists>w' l. AgentAfterChannelCreate sample_worker create_job (worker_world agent_db) = (Inr (), w')
    \<and> dec_JobData (job_Data create_job) = (Some l, True) \<and> opened sample_worker create_job l agent_db (w_db w')"
proof -
  obtain w' where run: "AgentAfterChannelCreate sample_worker create_job (worker_world agent_db) = (Inr (), w')"
    using sample_create by (metis prod.collapse)
  from AgentAfterChannelCreate_atomic [OF run] run show ?thesis by (auto simp: worker_world_def)
qed

theorem supply_refined_witness:
  "\<exists>k. supply_moves Take k agent_db
    (w_db (snd (AgentAfterChannelCreate sample_worker create_job (worker_world agent_db))))"
proof -
  obtain w' where run: "AgentAfterChannelCreate sample_worker create_job (worker_world agent_db) = (Inr (), w')"
    using sample_create by (metis prod.collapse)
  have d: "w_db (worker_world agent_db) = agent_db" by (simp add: worker_world_def)
  have "\<forall>f \<in> set (db_offerings agent_db). ofr_Supply f < 65535" by code_simp
  then show ?thesis
    using supply_refined [where h = "AgentAfterChannelCreate sample_worker" and wk = sample_worker and a = Take, OF _ _ _ run]
      agent_db_ok by (simp add: d run supply_handler_def)
qed

theorem begun_close_not_retried_witness:
  "(\<exists>j. lookup JobTable (w_db (snd faulty_close)) ''j6'' = Some j \<and> job_Status j \<in> {JobDone, JobFailed, JobCanceled})
    \<and> map ofr_CurrentSupply (db_offerings (w_db (snd faulty_close))) = [2]"
proof (rule conjI [OF _ faulty_close_run(3)], rule begun_close_not_retried)
  show "processWorker_step NewConfig (HandlersMap 0 (\<lambda>_. []) (\<lambda>_. []) sample_worker) ''j6'' faulty_world = (Next, snd faulty_close)"
    using faulty_close_run(1) unfolding faulty_close_def by (metis prod.collapse)
  show "lookup ChannelTable (w_db faulty_world) (job_RelatedID close_job) = Some (hd (db_channels agent_db))"
    "ch_ServiceStatus (hd (db_channels agent_db)) \<noteq> ServiceTerminated"
    "job_Type close_job = JobAgentAfterUncooperativeClose" "job_Status close_job = JobActive"
    "lookup JobTable (w_db faulty_world) ''j6'' = Some close_job" "job_NotBefore close_job \<le> w_now faulty_world"
    by code_simp+
  have "map ch_ChannelStatus (db_channels (w_db faulty_world)) = [ChannelActive]" by code_simp
  then show "db_channels (w_db (snd faulty_close)) \<noteq> db_channels (w_db faulty_world)"
    using faulty_close_run(2) by auto
qed

end
