(* ===== verification/Publication.thy ===== *)
theory Publication
  imports WorkerLaws
begin

text \<open>
  The way of an offering from the agent that publishes it to a client that takes it up: what the agent
  signs and hashes (\<open>setOfferingHash\<close>), the contract registers and the SOMC server serves, the
  client's handler (\<open>clientRetrieveAndSaveOffering\<close>) stores with the same terms.
\<close>

section \<open>An offering travels from the agent to a client\<close>

text \<open>What an offering promises: every field of its message but the identifier.\<close>

definition same_terms :: "Offering \<Rightarrow> Offering \<Rightarrow> bool" where
  "same_terms f g \<longleftrightarrow> ofr_IPType f = ofr_IPType g \<and> ofr_Country f = ofr_Country g \<and> ofr_Supply f = ofr_Supply g
     \<and> ofr_UnitName f = ofr_UnitName g \<and> ofr_UnitType f = ofr_UnitType g \<and> ofr_BillingType f = ofr_BillingType g
     \<and> ofr_SetupPrice f = ofr_SetupPrice g \<and> ofr_UnitPrice f = ofr_UnitPrice g \<and> ofr_MinUnits f = ofr_MinUnits g
     \<and> ofr_MaxUnit f = ofr_MaxUnit g \<and> ofr_BillingInterval f = ofr_BillingInterval g
     \<and> ofr_MaxBillingUnitLag f = ofr_MaxBillingUnitLag g \<and> ofr_MaxSuspendTime f = ofr_MaxSuspendTime g
     \<and> ofr_MaxInactiveTimeSec f = ofr_MaxInactiveTimeSec g \<and> ofr_FreeUnits f = ofr_FreeUnits g
     \<and> ofr_AdditionalParams f = ofr_AdditionalParams g"

text \<open>The format reads what it has written; the contract knows the offering with its deposit and supply.\<close>

definition reads_back :: "'m format \<Rightarrow> 'm \<Rightarrow> bool" where
  "reads_back fm m \<longleftrightarrow> (\<forall>b. fm_marshal fm m = Some b \<longrightarrow> fm_unmarshal fm b = Some m)"

definition registered :: "Backend \<Rightarrow> hash \<Rightarrow> Offering \<Rightarrow> bool" where
  "registered eth h f \<longleftrightarrow> (case bk_PSCGetOfferingInfo eth h of None \<Rightarrow> False
     | Some info \<Rightarrow> oi_Active info \<and> oi_MinDeposit info = ComputePrice f (ofr_MinUnits f) \<and> oi_MaxSupply info = ofr_Supply f)"

text \<open>What the client must have to take the offering up: the template with that hash, under which the
  message is valid, a product made for it, and no offering with that identifier or hash. A database
  keeps only rows that pass its checks; the ones of the offering itself the agent's have passed.\<close>

definition can_take :: "'k Worker \<Rightarrow> db \<Rightarrow> Job \<Rightarrow> OfferMsg \<Rightarrow> Offering \<Rightarrow> u16 \<Rightarrow> u64 \<Rightarrow> bool" where
  "can_take wk d job msg f cs block \<longleftrightarrow>
     (case find (\<lambda>t. tpl_Hash t = om_TemplateHash msg) (db_templates d) of None \<Rightarrow> False
      | Some tpl \<Rightarrow> ValidMsg (wk_offer_format wk) (tpl_Raw tpl) msg
         \<and> (case find (\<lambda>p. prd_OfferTplID p = Some (tpl_ID tpl) \<and> \<not> prd_IsServer p) (db_products d) of None \<Rightarrow> False
            | Some p \<Rightarrow> length (prd_Name p) \<le> 64))
     \<and> \<not> exists_row ofr_ID (db_offerings d) (job_RelatedID job) \<and> \<not> exists_row ofr_Hash (db_offerings d) (ofr_Hash f)
     \<and> t_check OfferingTable f \<and> cs \<le> ofr_Supply f \<and> 0 < block \<and> is_bigint block"

lemma find_none: "\<not> exists_row kf rs k \<Longrightarrow> find (\<lambda>r. kf r = k) rs = None"
  by (auto simp: exists_row_def list_ex_iff find_None_iff)

lemma find_exists: "find P rs = Some r \<Longrightarrow> exists_row kf rs (kf r)"
  by (auto simp: exists_row_def list_ex_iff dest: find_Some_in)

text \<open>What the client makes of the message: an offering with the terms, the hash and the bytes of the agent's.\<close>

lemma filled:
  assumes packed: "setOfferingHash (wk_crypto wk) (wk_offer_format wk) (Some k) f tpl agent = Inr f'"
    and keys: "ToBytes (acc_PublicKey agent) = Some pub" "signs_for (wk_crypto wk) k pub"
    and fm: "reads_back (wk_offer_format wk) (OfferingMessage agent tpl f)"
    and raw: "ToBytes (ofr_RawMsg f') = Some raw"
    and chain: "registered (wk_eth wk) h f'" "ofr_Hash f' = HexFromBytes (hash_bytes h)"
    and w: "w_faults w = []" "can_take wk (w_db w) job (OfferingMessage agent tpl f) f' cs block"
  shows "\<exists>g. fillOfferingFromMsg wk raw block a (HexFromBytes (hash_bytes h)) (job_RelatedID job) ty d w = (Inr g, w)
    \<and> same_terms f' g \<and> ofr_Hash g = ofr_Hash f' \<and> ofr_ID g = job_RelatedID job \<and> ofr_RawMsg g = ofr_RawMsg f'
    \<and> ofr_Agent g = a \<and> ofr_BlockNumberUpdated g = block \<and> length (ofr_ServiceName g) \<le> 64
    \<and> exists_row tpl_ID (db_templates (w_db w)) (ofr_Template g) \<and> exists_row prd_ID (db_products (w_db w)) (ofr_Product g)"
proof -
  let ?cr = "wk_crypto wk" and ?fm = "wk_offer_format wk" and ?msg = "OfferingMessage agent tpl f"
  from packed obtain msgBytes where m: "fm_marshal ?fm ?msg = Some msgBytes" "PackWithSignature ?cr msgBytes k = Inr raw"
    and f': "f' = f\<lparr>ofr_RawMsg := FromBytes raw, ofr_Hash := HexFromBytes (hash_bytes (BytesToHash (cr_kec ?cr raw)))\<rparr>"
    using raw by (auto simp: setOfferingHash_def split: option.splits sum.splits if_splits)
  from PackWithSignature_run [OF m(2) keys(2)] obtain sig where
    sig: "UnpackSignature raw = Inr (msgBytes, sig)" "VerifySignature ?cr pub (cr_kec ?cr msgBytes) sig" by blast
  have h: "BytesToHash (cr_kec ?cr raw) = h" using chain(2) f' by simp
  from chain(1) obtain info where info: "bk_PSCGetOfferingInfo (wk_eth wk) h = Some info" "oi_Active info"
    by (auto simp: registered_def split: option.splits)
  have un: "fm_unmarshal ?fm msgBytes = Some ?msg" using fm m(1) by (simp add: reads_back_def)
  from w(2) obtain t p where t: "find (\<lambda>t. tpl_Hash t = om_TemplateHash ?msg) (db_templates (w_db w)) = Some t"
    "ValidMsg ?fm (tpl_Raw t) ?msg"
    and p: "find (\<lambda>p. prd_OfferTplID p = Some (tpl_ID t) \<and> \<not> prd_IsServer p) (db_products (w_db w)) = Some p"
    "length (prd_Name p) \<le> 64"
    by (auto simp: can_take_def split: option.splits)
  have "find (\<lambda>g. ofr_Hash g = HexFromBytes (hash_bytes h)) (db_offerings (w_db w)) = None"
    using w(2) chain(2) by (simp add: can_take_def find_none)
  then show ?thesis
    using info un sig keys(1) t p w(1) h find_exists [OF t(1), of tpl_ID] find_exists [OF p(1), of prd_ID]
    by (simp add: fillOfferingFromMsg_def offeringByHashString_def templateByHash_def FindOneTo_def ok_run cmd_operator_defs
        OfferingTable_def TemplateTable_def ProductTable_def of_sum_def of_option_def view_def same_terms_def f' OfferingMessage_def)
qed


text \<open>C11: an offering makes the way from its agent to a client unharmed. When the agent has signed and hashed
  it, the contract has registered it as it is, and a client that is able to take it fetches its message
  from the agent, the client stores one more offering, under the identifier of its job, with the hash,
  the message and all terms of the agent's, and with the supply the log tells.\<close>

theorem published_offering_accepted:
  assumes "setOfferingHash (wk_crypto wk) (wk_offer_format wk) (Some k) f tpl agent = Inr f'"
    and "ToBytes (acc_PublicKey agent) = Some pub" "signs_for (wk_crypto wk) k pub"
    and "reads_back (wk_offer_format wk) (OfferingMessage agent tpl f)"
    and "registered (wk_eth wk) h f'" "ofr_Hash f' = HexFromBytes (hash_bytes h)"
    and "wk_somc wk ty d = Inr client" "so_Offering client (ofr_Hash f') = Some (ofr_RawMsg f')"
    and "w_faults w = []" "can_take wk (w_db w) job (OfferingMessage agent tpl f) f' cs block"
  shows "\<exists>g w'. clientRetrieveAndSaveOffering wk job block ty d addr h cs w = (Inr job, w')
    \<and> w_db w' = (w_db w)\<lparr>db_offerings := db_offerings (w_db w) @ [g]\<rparr> \<and> same_terms f' g
    \<and> ofr_ID g = job_RelatedID job \<and> ofr_Hash g = ofr_Hash f' \<and> ofr_RawMsg g = ofr_RawMsg f' \<and> ofr_CurrentSupply g = cs"
proof -
  from assms(1) obtain raw where raw: "ToBytes (ofr_RawMsg f') = Some raw"
    by (auto simp: setOfferingHash_def split: option.splits sum.splits if_splits)
  from filled [OF assms(1-4) raw assms(5,6,9,10)] obtain g where
    g: "fillOfferingFromMsg wk raw block (HexFromBytes (address_bytes addr)) (HexFromBytes (hash_bytes h)) (job_RelatedID job) ty d w = (Inr g, w)"
    and same: "same_terms f' g" "ofr_Hash g = ofr_Hash f'" "ofr_ID g = job_RelatedID job" "ofr_RawMsg g = ofr_RawMsg f'"
    "ofr_Agent g = HexFromBytes (address_bytes addr)" "ofr_BlockNumberUpdated g = block" "length (ofr_ServiceName g) \<le> 64"
    and refs: "exists_row tpl_ID (db_templates (w_db w)) (ofr_Template g)" "exists_row prd_ID (db_products (w_db w)) (ofr_Product g)"
    by blast
  from assms(5) obtain info where info: "bk_PSCGetOfferingInfo (wk_eth wk) h = Some info"
    "oi_MinDeposit info = ComputePrice f' (ofr_MinUnits f')" "oi_MaxSupply info = ofr_Supply f'"
    by (auto simp: registered_def split: option.splits)
  let ?g = "g\<lparr>ofr_Supply := ofr_Supply f', ofr_CurrentSupply := cs\<rparr>"
  have price: "ComputePrice g (ofr_MinUnits g) = ComputePrice f' (ofr_MinUnits f')"
    using same(1) by (simp add: same_terms_def ComputePrice_def)
  have "t_check OfferingTable f'" "cs \<le> ofr_Supply f'" "0 < block \<and> is_bigint block"
    and new: "\<not> exists_row ofr_ID (db_offerings (w_db w)) (job_RelatedID job)" "\<not> exists_row ofr_Hash (db_offerings (w_db w)) (ofr_Hash f')"
    using assms(10) by (simp_all add: can_take_def)
  then have "t_check OfferingTable ?g"
    using same by (cases "ofr_MaxUnit g") (simp_all add: OfferingTable_def same_terms_def HexFromBytes_def)
  with new same refs have row: "\<not> exists_row ofr_ID (db_offerings (w_db w)) (ofr_ID ?g)" "row_ok OfferingTable (w_db w) ?g"
    by (simp_all add: row_ok_def OfferingTable_def unique_in_def exists_row_def list_ex_iff list_all_iff)
  let ?w = "write_db Conn (\<lambda>d. d\<lparr>db_offerings := db_offerings d @ [?g]\<rparr>) w"
  have "clientRetrieveAndSaveOffering wk job block ty d addr h cs w = (Inr job, ?w)"
    using assms(6-9) raw g info price row
    by (simp add: clientRetrieveAndSaveOffering_def fetchOffering_def cmd_operator_defs Insert_def ok_run view_def)
  with same show ?thesis by (intro exI [of _ ?g] exI [of _ ?w]) (simp add: same_terms_def write_db_def)
qed


section \<open>Concrete instances\<close>

text \<open>An offering that has been published, and a client that has its template and a product for it.\<close>

definition published_message :: OfferMsg where
  "published_message = OfferingMessage (sample_account ''a1'' ''aa'') sample_template sample_offering"

definition market_format :: "OfferMsg format" where
  "market_format = \<lparr>fm_marshal = (\<lambda>_. Some [1, 2]), fm_unmarshal = (\<lambda>_. Some published_message), fm_valid = (\<lambda>_ _. True)\<rparr>"

definition published :: Offering where
  "published = projr (setOfferingHash toy_crypto market_format (Some ()) sample_offering sample_template (sample_account ''a1'' ''aa''))"

definition market_client :: SomcClient where
  "market_client = \<lparr>so_Offering = (\<lambda>_. Some (ofr_RawMsg published)), so_Endpoint = (\<lambda>_. None)\<rparr>"

definition market_worker :: "unit Worker" where
  "market_worker = sample_worker\<lparr>wk_offer_format := market_format, wk_somc := (\<lambda>_ _. Inr market_client)\<rparr>"

definition client_db :: db where
  "client_db = empty_db\<lparr>db_templates := [sample_template],
     db_products := [sample_product\<lparr>prd_OfferTplID := Some ''t1'', prd_IsServer := False\<rparr>]\<rparr>"

definition publish_job :: Job where
  "publish_job = (sample_job ''j7'' JobClientAfterOfferingMsgBCPublish JobOffering JobActive 4)\<lparr>job_RelatedID := ''o9''\<rparr>"

definition published_hash :: hash where
  "published_hash = fst (HexToHash (ofr_Hash published))"

theorem published_offering_accepted_witness:
  "\<exists>g w'. clientRetrieveAndSaveOffering market_worker publish_job 7 1 [] 170 published_hash 2 (worker_world client_db) = (Inr publish_job, w')
    \<and> db_offerings (w_db w') = [g] \<and> same_terms published g \<and> ofr_Hash g = ofr_Hash published"
proof -
  have "setOfferingHash toy_crypto market_format (Some ()) sample_offering sample_template (sample_account ''a1'' ''aa'') = Inr published"
    unfolding published_def by code_simp
  then have a: "setOfferingHash (wk_crypto market_worker) (wk_offer_format market_worker) (Some ()) sample_offering
      sample_template (sample_account ''a1'' ''aa'') = Inr published"
    by (simp add: market_worker_def sample_worker_def)
  have k: "ToBytes (acc_PublicKey (sample_account ''a1'' ''aa'')) = Some []" by code_simp
  have s: "signs_for (wk_crypto market_worker) () []" by (simp add: market_worker_def sample_worker_def toy_signs)
  have r: "reads_back (wk_offer_format market_worker) (OfferingMessage (sample_account ''a1'' ''aa'') sample_template sample_offering)"
    by (simp add: reads_back_def market_worker_def market_format_def published_message_def)
  have c: "registered (wk_eth market_worker) published_hash published" "ofr_Hash published = HexFromBytes (hash_bytes published_hash)"
    by code_simp+
  have m: "wk_somc market_worker 1 [] = Inr market_client" "so_Offering market_client (ofr_Hash published) = Some (ofr_RawMsg published)"
    by (simp_all add: market_worker_def market_client_def)
  have w: "w_faults (worker_world client_db) = []" "w_db (worker_world client_db) = client_db" "db_offerings client_db = []"
    by (simp_all add: worker_world_def client_db_def empty_db_def)
  have t: "can_take market_worker client_db publish_job
      (OfferingMessage (sample_account ''a1'' ''aa'') sample_template sample_offering) published 2 7"
    by code_simp
  from published_offering_accepted [OF a k s r c m w(1), unfolded w(2), OF t] show ?thesis by (fastforce simp: w)
qed

end
