(* ===== verification/Looper.thy ===== *)
theory Looper
  imports Effects
begin

text \<open>
  The loop that queues recurrent jobs and its only client, the automatic pop-up of offerings
  (\<open>src/proc/looper\<close>). The ticker is a number of ticks; the node and the packing of a contract call
  are parameters. The loop never doubles a job, and offerings are popped up all or none.
\<close>

section \<open>The loop\<close>

text \<open>A job is queued unless an active one of its type is about the same object. An error ends the tick.\<close>

primrec tick :: "Config \<Rightarrow> Job list \<Rightarrow> ('z, unit) dbcmd" where
  "tick conf [] = ret ()"
| "tick conf (j # js) =
     handleC (select_all JobTable Conn (\<lambda>r. job_RelatedID r = job_RelatedID j \<and> job_Type r = job_Type j \<and> job_Status r = JobActive))
       (\<lambda>_. ret ())
       (\<lambda>res. if 0 < length res then tick conf js
          else handleC (Add conf Conn j) (\<lambda>_. ret ()) (\<lambda>_. tick conf js))"

primrec Loop :: "Config \<Rightarrow> ('z, Job list) dbcmd \<Rightarrow> nat \<Rightarrow> ('z, unit) dbcmd" where
  "Loop conf f 0 = ret ()"
| "Loop conf f (Suc n) = thenC (handleC f (\<lambda>_. ret ()) (tick conf)) (Loop conf f n)"

section \<open>Automatic pop-up\<close>

definition BlockTime :: u64 where
  "BlockTime = 15000000000"

text \<open>The last block and the period are taken as 64-bit numbers, and so is the delay in nanoseconds.\<close>

definition calcDelayToOfferingPopUp :: "Backend \<Rightarrow> hash \<Rightarrow> u64 \<Rightarrow> int \<Rightarrow> duration option" where
  "calcDelayToOfferingPopUp eth offeringHash popUpPeriod lastBlock =
     (case bk_PSCGetOfferingInfo eth offeringHash of None \<Rightarrow> None
      | Some info \<Rightarrow>
        let popUpBlock = ucast (oi_UpdateBlock info) + popUpPeriod; last = (word_of_int lastBlock :: u64)
        in Some (if last < popUpBlock then go_duration (popUpBlock - last) BlockTime else 0))"

definition calcPriceToOfferingPopUp :: "bytes option \<Rightarrow> (bytes \<Rightarrow> u64 option) \<Rightarrow> int \<Rightarrow> int option" where
  "calcPriceToOfferingPopUp packed estimateGas gasPrice =
     (case packed of None \<Rightarrow> None
      | Some input \<Rightarrow> (case estimateGas input of None \<Rightarrow> None | Some gas \<Rightarrow> Some (uint gas * gasPrice)))"

definition agentHaveEnoughMoney :: "Backend \<Rightarrow> address \<Rightarrow> int \<Rightarrow> bool" where
  "agentHaveEnoughMoney eth agent price =
     (case bk_EthBalanceAt eth agent of None \<Rightarrow> False | Some balance \<Rightarrow> \<not> balance < price)"

definition jobOfferingPopUpData :: "int \<Rightarrow> json" where
  "jobOfferingPopUpData gasPrice = enc_PublishData (word_of_int gasPrice)"

definition to_pop_up :: "db \<Rightarrow> Offering \<Rightarrow> bool" where
  "to_pop_up d f \<longleftrightarrow> (ofr_Status f = OfferRegistered \<or> ofr_Status f = OfferPoppedUp)
     \<and> list_ex (\<lambda>a. acc_EthAddr a = ofr_Agent f \<and> acc_InUse a) (db_accounts d) \<and> ofr_AutoPopUp f = Some True"

definition findOfferingsToPopUp :: "('z, Offering list) dbcmd" where
  "findOfferingsToPopUp = handleC (query Conn (\<lambda>d. filter (to_pop_up d) (db_offerings d))) (\<lambda>_. ret []) ret"

definition popUpJob :: "Backend \<Rightarrow> u64 \<Rightarrow> int \<Rightarrow> int \<Rightarrow> time \<Rightarrow> Offering \<Rightarrow> Job option" where
  "popUpJob eth period gasPrice lastBlock t f = (case HexToHash (ofr_Hash f) of (h, ok) \<Rightarrow>
     if \<not> ok then None else (case calcDelayToOfferingPopUp eth h period lastBlock of None \<Rightarrow> None
       | Some delay \<Rightarrow> Some (new_job JobAgentPreOfferingPopUp JobOffering (ofr_ID f) JobUser
           (Some (jobOfferingPopUpData gasPrice)) (t + delay))))"

text \<open>What is made of the offerings found: no job at all when the node fails, an offering is malformed or
  the agent cannot pay for all. The one agent there is assumed to be is that of the first offering.\<close>

definition popUpJobs :: "Backend \<Rightarrow> bytes option \<Rightarrow> (bytes \<Rightarrow> u64 option) \<Rightarrow> u64 \<Rightarrow> time \<Rightarrow> Offering list \<Rightarrow> Job list option" where
  "popUpJobs eth packed estimateGas period t offerings =
     (case bk_SuggestGasPrice eth of None \<Rightarrow> None
      | Some gasPrice \<Rightarrow>
     (case calcPriceToOfferingPopUp packed estimateGas gasPrice of None \<Rightarrow> None
      | Some popupPrice \<Rightarrow>
     (case HexToAddress (ofr_Agent (hd offerings)) of (agentAddr, ok) \<Rightarrow> if \<not> ok then None
      else if \<not> agentHaveEnoughMoney eth agentAddr (popupPrice * int (length offerings)) then None
      else (case bk_LatestBlockNumber eth of None \<Rightarrow> None
      | Some lastBlock \<Rightarrow> those (map (popUpJob eth period gasPrice lastBlock t) offerings)))))"

definition autoOfferingPopUp :: "Backend \<Rightarrow> bytes option \<Rightarrow> (bytes \<Rightarrow> u64 option) \<Rightarrow> u64 \<Rightarrow> ('z, Job list) dbcmd" where
  "autoOfferingPopUp eth packed estimateGas period =
     bindC findOfferingsToPopUp (\<lambda>offerings.
       if length offerings = 0 then ret []
       else bindC now (\<lambda>t. ret (case popUpJobs eth packed estimateGas period t offerings of None \<Rightarrow> [] | Some js \<Rightarrow> js)))"

definition AutoOfferingPopUp :: "Backend \<Rightarrow> bytes option \<Rightarrow> (bytes \<Rightarrow> u64 option) \<Rightarrow> u64 \<Rightarrow> ('z, Job list) dbcmd" where
  "AutoOfferingPopUp eth packed estimateGas period =
     bindC (handleC (ReadBoolSetting Conn SettingOfferingAutoPopUp) (\<lambda>_. ret False) ret) (\<lambda>do.
       if do then autoOfferingPopUp eth packed estimateGas period else ret [])"

section \<open>One active job per offering\<close>

definition once_active :: "job_type \<Rightarrow> 'z world_scheme \<Rightarrow> bool" where
  "once_active ty w \<longleftrightarrow> distinct (map job_RelatedID (filter (\<lambda>j. job_Type j = ty \<and> job_Status j = JobActive) (db_jobs (w_db w))))"

lemma once_active_db: "w_db w' = w_db w \<Longrightarrow> once_active ty w' = once_active ty w"
  by (simp add: once_active_def)

interpretation once_active: effect_order "preserving (once_active ty)"
  by unfold_locales (auto simp: preserving_def)

lemma Add_once_active:
  assumes "Add conf Conn j w = (r, w')" "once_active ty w"
    and "\<not> list_ex (\<lambda>r. job_RelatedID r = job_RelatedID j \<and> job_Type r = job_Type j \<and> job_Status r = JobActive) (db_jobs (w_db w))"
  shows "once_active ty w'"
proof (cases r)
  case (Inl e)
  with assms(1) queue.add_fails have "w_db w' = w_db w" by fastforce
  with assms(2) show ?thesis by (simp add: once_active_def)
next
  case (Inr j')
  with assms(1) queue.add_view queue.add_job have "w_db w' = (w_db w)\<lparr>db_jobs := db_jobs (w_db w) @ [j']\<rparr>"
    "job_Type j' = job_Type j" "job_RelatedID j' = job_RelatedID j" by fastforce+
  with assms(2,3) show ?thesis by (auto simp: once_active_def list_ex_iff)
qed

lemma tick_once_active: "tick conf js w = (r, w') \<Longrightarrow> once_active ty w \<Longrightarrow> once_active ty w'"
proof (induction js arbitrary: w)
  case Nil
  then show ?case by (simp add: run)
next
  case (Cons j js)
  let ?P = "\<lambda>r. job_RelatedID r = job_RelatedID j \<and> job_Type r = job_Type j \<and> job_Status r = JobActive"
  obtain x u where x: "select_all JobTable Conn ?P w = (x, u)" by (cases "select_all JobTable Conn ?P w")
  from select_all_reads [OF x] have u: "w_db u = w_db w" by (simp add: same_view_def)
  then have inv: "once_active ty u" using Cons.prems(2) once_active_db by blast
  show ?case
  proof (cases x)
    case (Inl e)
    with x Cons.prems(1) inv show ?thesis by (simp add: handleC_def ret_def)
  next
    case (Inr res)
    then have res: "res = filter ?P (db_jobs (w_db w))" using x by (auto simp: run JobTable_def)
    show ?thesis
    proof (cases "res = []")
      case False
      with Inr x Cons.prems(1) have "tick conf js u = (r, w')" by (simp add: handleC_def)
      from Cons.IH [OF this inv] show ?thesis .
    next
      case True
      obtain y v where y: "Add conf Conn j u = (y, v)" by (cases "Add conf Conn j u")
      from True res u have "\<not> list_ex ?P (db_jobs (w_db u))" by (auto simp: filter_empty_conv list_ex_iff)
      from Add_once_active [OF y inv this] have v: "once_active ty v" .
      from True Inr x y Cons.prems(1) have "w' = v \<or> tick conf js v = (r, w')"
        by (cases y) (simp_all add: handleC_def ret_def)
      with v Cons.IH [OF _ v] show ?thesis by blast
    qed
  qed
qed

lemma popup_reads: "keeps same_view (AutoOfferingPopUp eth packed estimateGas period)"
  unfolding AutoOfferingPopUp_def autoOfferingPopUp_def findOfferingsToPopUp_def ReadBoolSetting_def ReadSetting_def
    FindByPrimaryKeyTo_def
  by (intro same_view.keeps_reading)

text \<open>C40: however often the loop runs, and whatever fails, it never makes a second active job about the same
  object: if no two active jobs of a type are about the same offering before, none are after.\<close>

theorem looper_never_doubles:
  assumes "Loop conf (AutoOfferingPopUp eth packed estimateGas period) n w = (r, w')" "once_active ty w"
  shows "once_active ty w'"
  using assms
proof (induction n arbitrary: w)
  case 0
  then show ?case by (simp add: run)
next
  case (Suc n)
  let ?f = "AutoOfferingPopUp eth packed estimateGas period"
  obtain x u where x: "?f w = (x, u)" by (cases "?f w")
  from keeps_view_db [OF popup_reads x] Suc.prems(2) have u: "once_active ty u" using once_active_db by blast
  obtain y v where y: "handleC ?f (\<lambda>_. ret ()) (tick conf) w = (y, v)" by (cases "handleC ?f (\<lambda>_. ret ()) (tick conf) w")
  with x u tick_once_active [of conf _ u y v ty] have v: "once_active ty v" by (cases x) (auto simp: handleC_def ret_def)
  from Suc.prems(1) y have "w' = v \<or> Loop conf ?f n v = (r, w')" by (cases y) (simp_all add: thenC_def bindC_def)
  with v Suc.IH [OF _ v] show ?case by blast
qed


section \<open>All offerings or none\<close>

text \<open>The block from which an offering may be popped up, seen from the last one.\<close>

definition blocks_to_wait :: "Backend \<Rightarrow> u64 \<Rightarrow> int \<Rightarrow> Offering \<Rightarrow> int" where
  "blocks_to_wait eth period lastBlock f = (case bk_PSCGetOfferingInfo eth (fst (HexToHash (ofr_Hash f))) of None \<Rightarrow> 0
     | Some info \<Rightarrow> max 0 (uint (oi_UpdateBlock info) + uint period - lastBlock))"

lemma those_Some: "those xs = Some ys \<longleftrightarrow> xs = map Some ys"
  by (induction xs arbitrary: ys) (auto split: option.splits)

lemma sint_small: "uint (x :: u64) < 2 ^ 63 \<Longrightarrow> sint x = uint x"
  using int_word_sint [of "uint x", where 'a = 64] by simp

lemma block_duration:
  assumes "uint n < 2 ^ 29"
  shows "go_duration n BlockTime = 15000000000 * uint n"
proof -
  have "uint n * 15000000000 < 2 ^ 63" using assms by simp
  then have "uint (n * BlockTime) = uint n * 15000000000" by (simp add: uint_word_ariths BlockTime_def)
  with \<open>uint n * 15000000000 < 2 ^ 63\<close> show ?thesis by (simp add: go_duration_def sint_small)
qed

lemma delay_of_blocks:
  assumes "bk_PSCGetOfferingInfo eth h = Some info" "uint (oi_UpdateBlock info) \<le> head" "head < 2 ^ 64" "uint period < 2 ^ 29"
  shows "calcDelayToOfferingPopUp eth h period head = Some (15000000000 * max 0 (uint (oi_UpdateBlock info) + uint period - head))"
proof -
  let ?b = "ucast (oi_UpdateBlock info) + period :: u64" and ?l = "word_of_int head :: u64"
  have pos: "0 \<le> head" using assms(2) uint_ge_0 [of "oi_UpdateBlock info"] by linarith
  have u: "uint (oi_UpdateBlock info) < 2 ^ 32" using uint_bounded [of "oi_UpdateBlock info"] by simp
  then have b: "uint ?b = uint (oi_UpdateBlock info) + uint period"
    using assms(4) by (simp add: uint_word_ariths unsigned_ucast_eq take_bit_eq_mod)
  have l: "uint ?l = head" using pos assms(3) by (simp add: unsigned_of_int take_bit_int_eq_self)
  show ?thesis
  proof (cases "?l < ?b")
    case True
    then have lt: "head < uint ?b" by (simp add: word_less_def l)
    have "uint (?b - ?l) = uint ?b - head" using True by (simp add: uint_sub_if' word_less_def l)
    then have "go_duration (?b - ?l) BlockTime = 15000000000 * (uint ?b - head)"
      using block_duration [of "?b - ?l"] b assms(2,4) by simp
    then show ?thesis using True lt assms(1) by (simp add: calcDelayToOfferingPopUp_def Let_def b)
  next
    case False
    then have "uint ?b \<le> head" by (simp add: word_less_def l)
    with False assms(1) show ?thesis by (simp add: calcDelayToOfferingPopUp_def Let_def b)
  qed
qed

text \<open>The automatic pop-up queues all offerings of the agent that may be popped up or none. When it makes
  jobs, there is one for each of these offerings, in order, the balance of the agent of the first covers the
  price of all, and each job waits the time that the blocks still to come before its offering may be popped
  up take.\<close>

theorem popup_all_or_none:
  assumes "autoOfferingPopUp eth packed estimateGas period w = (Inr js, w')" "js \<noteq> []"
    and "bk_LatestBlockNumber eth = Some head" "head < 2 ^ 64" "uint period < 2 ^ 29"
    and "\<And>h info. bk_PSCGetOfferingInfo eth h = Some info \<Longrightarrow> uint (oi_UpdateBlock info) \<le> head"
  shows "map job_RelatedID js = map ofr_ID (filter (to_pop_up (w_db w)) (db_offerings (w_db w)))
    \<and> map job_NotBefore js = map (\<lambda>f. w_now w + 15000000000 * blocks_to_wait eth period head f)
        (filter (to_pop_up (w_db w)) (db_offerings (w_db w)))
    \<and> (\<exists>gasPrice input gas balance. bk_SuggestGasPrice eth = Some gasPrice \<and> packed = Some input
        \<and> estimateGas input = Some gas \<and> bk_EthBalanceAt eth (fst (HexToAddress (ofr_Agent (hd (filter (to_pop_up (w_db w)) (db_offerings (w_db w))))))) = Some balance
        \<and> uint gas * gasPrice * int (length js) \<le> balance)"
proof -
  let ?fs = "filter (to_pop_up (w_db w)) (db_offerings (w_db w))"
  have reads: "w_db u = w_db w \<and> w_now u = w_now w" if "query Conn g w = (x, u)" for g :: "db \<Rightarrow> Offering list" and x u
    using keeps_view [OF same_view.keeps_reads(4) that] by (simp add: same_view_def)
  from assms(1,2) obtain u where js: "popUpJobs eth packed estimateGas period (w_now w) ?fs = Some js" "?fs \<noteq> []"
    by (auto simp: autoOfferingPopUp_def findOfferingsToPopUp_def run handleC_run query_run split: if_splits option.splits
        dest!: reads db_call_state)
  from js(1) assms(3) obtain gasPrice input gas a ok where
    node: "bk_SuggestGasPrice eth = Some gasPrice" "packed = Some input" "estimateGas input = Some gas"
      "HexToAddress (ofr_Agent (hd ?fs)) = (a, ok)" "agentHaveEnoughMoney eth a (uint gas * gasPrice * int (length ?fs))"
    and those: "those (map (popUpJob eth period gasPrice head (w_now w)) ?fs) = Some js"
    by (auto simp: popUpJobs_def calcPriceToOfferingPopUp_def split: option.splits prod.splits if_splits)
  have one: "job_RelatedID j = ofr_ID f \<and> job_NotBefore j = w_now w + 15000000000 * blocks_to_wait eth period head f"
    if "popUpJob eth period gasPrice head (w_now w) f = Some j" for f j
  proof -
    obtain h ok' where h: "HexToHash (ofr_Hash f) = (h, ok')" by fastforce
    with that obtain info where "bk_PSCGetOfferingInfo eth h = Some info"
      by (auto simp: popUpJob_def calcDelayToOfferingPopUp_def split: option.splits if_splits)
    with delay_of_blocks [OF this assms(6) [OF this] assms(4,5)] that h show ?thesis
      by (auto simp: popUpJob_def new_job_def blocks_to_wait_def split: if_splits)
  qed
  have map: "map (popUpJob eth period gasPrice head (w_now w)) ?fs = map Some js" using those by (simp add: those_Some)
  have len: "length js = length ?fs" using arg_cong [OF map, of length] by simp
  have each: "popUpJob eth period gasPrice head (w_now w) (?fs ! i) = Some (js ! i)" if "i < length ?fs" for i
    using arg_cong [OF map, of "\<lambda>l. l ! i"] that len by simp
  have "map job_RelatedID js = map ofr_ID ?fs"
    "map job_NotBefore js = map (\<lambda>f. w_now w + 15000000000 * blocks_to_wait eth period head f) ?fs"
    by (rule nth_equalityI; use one [OF each] len in simp)+
  moreover have "\<exists>balance. bk_EthBalanceAt eth (fst (HexToAddress (ofr_Agent (hd ?fs)))) = Some balance
      \<and> uint gas * gasPrice * int (length js) \<le> balance"
    using node(4,5) len by (auto simp: agentHaveEnoughMoney_def split: option.splits)
  ultimately show ?thesis using node(1-3) by blast
qed


section \<open>Concrete instances\<close>

definition popup_offering :: Offering where
  "popup_offering = sample_offering\<lparr>ofr_Hash := HexFromBytes (hash_bytes 3), ofr_AutoPopUp := Some True\<rparr>"

definition popup_endpoint :: Endpoint where
  "popup_endpoint = \<lparr>ep_ID = ''e1'', ep_Template = ''t2'', ep_Channel = ''c1'', ep_Hash = ''0b'', ep_RawMsg = ''bXNn'',
     ep_PaymentReceiverAddress = None, ep_ServiceEndpointAddress = None, ep_Username = None, ep_Password = None,
     ep_AdditionalParams = [], ep_CountryStatus = None\<rparr>"

definition popup_db :: db where
  "popup_db = sample_db\<lparr>db_settings := [\<lparr>set_Key = SettingOfferingAutoPopUp, set_Value = ''true'', set_Permissions = 2,
       set_Description = None, set_Name = ''popup''\<rparr>],
     db_products := [sample_product], db_offerings := [popup_offering], db_endpoints := [popup_endpoint]\<rparr>"

definition popup_loop :: "(wworld, go_error, unit) cmd" where
  "popup_loop = Loop NewConfig (AutoOfferingPopUp sample_backend (Some [1]) (\<lambda>_. Some 1000) 98) 2"

lemma popup_loop_jobs:
  "map (\<lambda>j. (job_Type j, job_RelatedID j)) (db_jobs (w_db (snd (popup_loop (worker_world popup_db)))))
     = [(JobClientEndpointGet, ''c1''), (JobAgentPreOfferingPopUp, ''o1'')]"
  by code_simp

theorem looper_never_doubles_witness:
  "once_active JobAgentPreOfferingPopUp (snd (popup_loop (worker_world popup_db)))
    \<and> map (\<lambda>j. (job_Type j, job_RelatedID j)) (db_jobs (w_db (snd (popup_loop (worker_world popup_db)))))
       = [(JobClientEndpointGet, ''c1''), (JobAgentPreOfferingPopUp, ''o1'')]"
proof (rule conjI [OF _ popup_loop_jobs])
  have "once_active JobAgentPreOfferingPopUp (worker_world popup_db)"
    unfolding once_active_def by code_simp
  from looper_never_doubles [OF surjective_pairing this]
  show "once_active JobAgentPreOfferingPopUp (snd (popup_loop (worker_world popup_db)))" unfolding popup_loop_def .
qed

lemma popup_jobs_made:
  "map (\<lambda>j. (job_RelatedID j, job_NotBefore j))
     (projr (fst (autoOfferingPopUp sample_backend (Some [1]) (\<lambda>_. Some 1000) 98 (worker_world popup_db))))
     = [(''o1'', 5000000000000 + 45000000000)]"
  "\<not> isl (fst (autoOfferingPopUp sample_backend (Some [1]) (\<lambda>_. Some 1000) 98 (worker_world popup_db)))"
  by code_simp+

theorem popup_all_or_none_witness:
  "\<exists>js w'. autoOfferingPopUp sample_backend (Some [1]) (\<lambda>_. Some 1000) 98 (worker_world popup_db) = (Inr js, w')
    \<and> length js = 1 \<and> map job_NotBefore js = map (\<lambda>f. 5000000000000 + 15000000000 * blocks_to_wait sample_backend 98 100 f)
        (filter (to_pop_up popup_db) (db_offerings popup_db))"
proof -
  obtain js w' where js: "autoOfferingPopUp sample_backend (Some [1]) (\<lambda>_. Some 1000) 98 (worker_world popup_db) = (Inr js, w')"
    using popup_jobs_made(2) by (metis isl_def prod.collapse sum.exhaust_sel)
  then have len: "length js = 1" using arg_cong [OF popup_jobs_made(1), of length] by simp
  have w: "w_db (worker_world popup_db) = popup_db" "w_now (worker_world popup_db) = 5000000000000" by (simp_all add: worker_world_def)
  have node: "bk_LatestBlockNumber sample_backend = Some 100"
    "\<And>h info. bk_PSCGetOfferingInfo sample_backend h = Some info \<Longrightarrow> uint (oi_UpdateBlock info) \<le> 100"
    by (auto simp: sample_backend_def)
  have small: "js \<noteq> []" "(100 :: int) < 2 ^ 64" "uint (98 :: u64) < 2 ^ 29" using len by auto
  have "map job_NotBefore js = map (\<lambda>f. 5000000000000 + 15000000000 * blocks_to_wait sample_backend 98 100 f)
      (filter (to_pop_up popup_db) (db_offerings popup_db))"
    using popup_all_or_none [OF js small(1) node(1) small(2,3)] node(2) by (simp add: w)
  with js len show ?thesis by blast
qed

end
