(* ===== verification/Upkeep.thy ===== *)
theory Upkeep
  imports Looper
begin

text \<open>
  The recovery of service states when the controller starts (\<open>src/data/recover.go\<close>) and the server
  that hands out the messages of offerings and endpoints (\<open>src/agent/somcsrv\<close>): recovery brings every
  service to rest, and an endpoint is handed out to who knows the key of its channel only.
\<close>

section \<open>Recovery\<close>

definition sold :: "db \<Rightarrow> Channel \<Rightarrow> bool" where
  "sold d ch \<longleftrightarrow> list_ex (\<lambda>f. ch_Offering ch = ofr_ID f \<and> exists_row prd_ID (db_products d) (ofr_Product f)) (db_offerings d)"

definition recover_to :: "svc_status \<Rightarrow> (svc_status \<Rightarrow> bool) \<Rightarrow> ('z, unit) dbcmd" where
  "recover_to s P = bindC (getC (view Conn)) (\<lambda>d.
     bindC (exec_update ChannelTable Conn (\<lambda>ch. sold d ch \<and> P (ch_ServiceStatus ch)) (\<lambda>ch. ch\<lparr>ch_ServiceStatus := s\<rparr>))
       (\<lambda>_. ret ()))"

definition recoverServiceStatuses :: "('z, unit) dbcmd" where
  "recoverServiceStatuses =
     thenC (recover_to ServiceSuspended (\<lambda>s. s = ServiceActivating \<or> s = ServiceActive \<or> s = ServiceSuspending))
       (recover_to ServiceTerminated (\<lambda>s. s = ServiceTerminating))"

definition Recover :: "('z, unit) dbcmd" where
  "Recover = recoverServiceStatuses"

section \<open>The message server\<close>

definition findOneTo :: "somcsrv_error \<Rightarrow> 'r table \<Rightarrow> ('r \<Rightarrow> string) \<Rightarrow> string \<Rightarrow> ('z, 'r) dbcmd" where
  "findOneTo notFound T column val =
     on_err (\<lambda>e. Somcsrv (if e = NoRows then notFound else somcsrv_ErrInternal)) (select_one T Conn (\<lambda>r. column r = val))"

definition offeringByHash_srv :: "HexString \<Rightarrow> ('z, Offering) dbcmd" where
  "offeringByHash_srv h = findOneTo somcsrv_ErrOfferingNotFound OfferingTable ofr_Hash h"

definition offeringByID :: "string \<Rightarrow> ('z, Offering) dbcmd" where
  "offeringByID i = findOneTo somcsrv_ErrOfferingNotFound OfferingTable ofr_ID i"

definition endpointByChannelID :: "string \<Rightarrow> ('z, Endpoint) dbcmd" where
  "endpointByChannelID i = findOneTo somcsrv_ErrEndpointNotFound EndpointTable ep_Channel i"

definition Offering_srv :: "HexString \<Rightarrow> ('z, Base64String) dbcmd" where
  "Offering_srv h = bindC (offeringByHash_srv h) (\<lambda>f. ret (ofr_RawMsg f))"

definition channelKey_srv :: "(bytes \<Rightarrow> bytes) \<Rightarrow> Channel \<Rightarrow> ('z, Base64String) dbcmd" where
  "channelKey_srv kec ch = bindC (offeringByID (ch_Offering ch)) (\<lambda>f.
     bindC (of_option (Somcsrv somcsrv_ErrInternal) (ChannelKey kec (ch_Client ch) (ch_Agent ch) (ch_Block ch) (ofr_Hash f)))
       (\<lambda>keyBytes. ret (FromBytes keyBytes)))"

primrec search_key :: "(bytes \<Rightarrow> bytes) \<Rightarrow> Base64String \<Rightarrow> Channel list \<Rightarrow> ('z, Base64String) dbcmd" where
  "search_key kec k [] = fail (Somcsrv somcsrv_ErrChannelNotFound)"
| "search_key kec k (ch # chs) =
     bindC (on_err (\<lambda>_. Somcsrv somcsrv_ErrInternal) (channelKey_srv kec ch)) (\<lambda>channelKey.
       if channelKey = k then bindC (endpointByChannelID (ch_ID ch)) (\<lambda>e. ret (ep_RawMsg e))
       else search_key kec k chs)"

definition Endpoint_srv :: "(bytes \<Rightarrow> bytes) \<Rightarrow> Base64String \<Rightarrow> ('z, Base64String) dbcmd" where
  "Endpoint_srv kec k =
     bindC (on_err (\<lambda>_. Somcsrv somcsrv_ErrInternal) (select_all ChannelTable Conn (\<lambda>_. True))) (search_key kec k)"


section \<open>What recovery leaves\<close>

definition recovered :: "svc_status \<Rightarrow> svc_status" where
  "recovered s = (if s = ServiceActivating \<or> s = ServiceActive \<or> s = ServiceSuspending then ServiceSuspended
     else if s = ServiceTerminating then ServiceTerminated else s)"

lemma recover_to_run:
  assumes "recover_to s P w = (Inr u, w')" and all: "\<And>ch. ch \<in> set (db_channels (w_db w)) \<Longrightarrow> sold (w_db w) ch"
  shows "w_db w' = (w_db w)\<lparr>db_channels := map (\<lambda>ch. if P (ch_ServiceStatus ch) then ch\<lparr>ch_ServiceStatus := s\<rparr> else ch)
      (db_channels (w_db w))\<rparr>"
proof -
  let ?d = "w_db w"
  from assms(1) obtain n where "exec_update ChannelTable Conn (\<lambda>ch. sold ?d ch \<and> P (ch_ServiceStatus ch))
      (\<lambda>ch. ch\<lparr>ch_ServiceStatus := s\<rparr>) w = (Inr n, w')"
    by (auto simp: recover_to_def run)
  from ChannelTable.exec_update_view(1) [OF this] have "w_db w' = ?d\<lparr>db_channels :=
      map (\<lambda>ch. if sold ?d ch \<and> P (ch_ServiceStatus ch) then ch\<lparr>ch_ServiceStatus := s\<rparr> else ch) (db_channels ?d)\<rparr>"
    by (simp add: ChannelTable_def)
  moreover have "map (\<lambda>ch. if sold ?d ch \<and> P (ch_ServiceStatus ch) then ch\<lparr>ch_ServiceStatus := s\<rparr> else ch) (db_channels ?d)
      = map (\<lambda>ch. if P (ch_ServiceStatus ch) then ch\<lparr>ch_ServiceStatus := s\<rparr> else ch) (db_channels ?d)"
    using all by (intro map_cong) auto
  ultimately show ?thesis by simp
qed

text \<open>C39: recovery brings every service to rest. When it succeeds on a sound database, where
  the offering and the product of each channel exist, what was activating,
  active or suspending is suspended and what was terminating is terminated, nothing else has changed,
  and every service is pending, suspended or terminated.\<close>

theorem recovery_settles:
  assumes "db_ok (w_db w)" and refs: "\<And>ch. ch \<in> set (db_channels (w_db w)) \<Longrightarrow> sold (w_db w) ch"
    and "Recover w = (Inr (), w')"
  shows "w_db w' = (w_db w)\<lparr>db_channels := map (\<lambda>ch. ch\<lparr>ch_ServiceStatus := recovered (ch_ServiceStatus ch)\<rparr>)
      (db_channels (w_db w))\<rparr>
    \<and> (\<forall>ch \<in> set (db_channels (w_db w')). ch_ServiceStatus ch \<in> {ServicePending, ServiceSuspended, ServiceTerminated})"
proof -
  let ?d = "w_db w"
  let ?P = "\<lambda>s. s = ServiceActivating \<or> s = ServiceActive \<or> s = ServiceSuspending"
  let ?f = "\<lambda>ch. if ?P (ch_ServiceStatus ch) then ch\<lparr>ch_ServiceStatus := ServiceSuspended\<rparr> else ch"
  from assms(3) obtain u where u: "recover_to ServiceSuspended ?P w = (Inr (), u)"
    "recover_to ServiceTerminated (\<lambda>s. s = ServiceTerminating) u = (Inr (), w')"
    by (auto simp: Recover_def recoverServiceStatuses_def run)
  from recover_to_run [OF u(1) refs] have d: "w_db u = ?d\<lparr>db_channels := map ?f (db_channels ?d)\<rparr>" .
  have "sold (w_db u) ch" if "ch \<in> set (db_channels (w_db u))" for ch
  proof -
    from that d obtain c where "c \<in> set (db_channels ?d)" "ch = ?f c" by auto
    with refs d show ?thesis by (auto simp: sold_def)
  qed
  from recover_to_run [OF u(2) this] d have d': "w_db w' = ?d\<lparr>db_channels := map (\<lambda>ch.
      if ch_ServiceStatus ch = ServiceTerminating then ch\<lparr>ch_ServiceStatus := ServiceTerminated\<rparr> else ch)
        (map ?f (db_channels ?d))\<rparr>" by simp
  have settle: "(\<lambda>ch. if ch_ServiceStatus ch = ServiceTerminating then ch\<lparr>ch_ServiceStatus := ServiceTerminated\<rparr> else ch) \<circ> ?f
      = (\<lambda>ch. ch\<lparr>ch_ServiceStatus := recovered (ch_ServiceStatus ch)\<rparr>)"
    by (auto simp: recovered_def fun_eq_iff)
  have w': "w_db w' = ?d\<lparr>db_channels := map (\<lambda>ch. ch\<lparr>ch_ServiceStatus := recovered (ch_ServiceStatus ch)\<rparr>)
      (db_channels ?d)\<rparr>" unfolding d' map_map settle ..
  have "recovered (ch_ServiceStatus ch) \<in> {ServicePending, ServiceSuspended, ServiceTerminated}" if "ch \<in> set (db_channels ?d)" for ch
    using assms(1) that by (cases "ch_ServiceStatus ch")
      (auto simp: recovered_def db_ok_def table_ok_def list_all_iff ChannelTable_def)
  with w' show ?thesis by auto
qed

section \<open>Whose endpoint is handed out\<close>

definition key_preimage :: "HexString \<Rightarrow> HexString \<Rightarrow> u32 \<Rightarrow> HexString \<Rightarrow> bytes option" where
  "key_preimage client agent block h = ChannelKey id client agent block h"

lemma ChannelKey_preimage: "ChannelKey kec client agent block h = map_option kec (key_preimage client agent block h)"
  by (auto simp: key_preimage_def ChannelKey_def split: prod.splits option.splits)

lemma key_preimage_inject:
  assumes "key_preimage c a b h = Some p" "key_preimage c' a' b' h' = Some p"
  shows "fst (HexToAddress c) = fst (HexToAddress c') \<and> fst (HexToAddress a) = fst (HexToAddress a') \<and> b = b'"
  using assms unfolding key_preimage_def ChannelKey_def
  by (auto simp: channel_preimage_inject split: prod.splits option.splits if_splits)

lemma search_key_run:
  assumes "search_key kec k chs w = (Inr m, w')"
  shows "\<exists>ch f b e. ch \<in> set chs \<and> f \<in> set (db_offerings (w_db w))
    \<and> ChannelKey kec (ch_Client ch) (ch_Agent ch) (ch_Block ch) (ofr_Hash f) = Some b \<and> k = FromBytes b
    \<and> e \<in> set (db_endpoints (w_db w)) \<and> ep_Channel e = ch_ID ch \<and> ep_RawMsg e = m"
  using assms
proof (induction chs arbitrary: w)
  case Nil
  then show ?case by (simp add: run)
next
  case (Cons ch chs)
  from Cons.prems obtain ck u where ck: "channelKey_srv kec ch w = (Inr ck, u)"
    and rest: "(if ck = k then bindC (endpointByChannelID (ch_ID ch)) (\<lambda>e. ret (ep_RawMsg e)) else search_key kec k chs) u = (Inr m, w')"
    by (auto simp: run)
  have "keeps same_view (channelKey_srv kec ch)"
    unfolding channelKey_srv_def offeringByID_def findOneTo_def by (intro same_view.keeps_reading)
  from keeps_view_db [OF this ck] have u: "w_db u = w_db w" .
  from ck obtain f b where f: "f \<in> set (db_offerings (w_db w))"
    "ChannelKey kec (ch_Client ch) (ch_Agent ch) (ch_Block ch) (ofr_Hash f) = Some b" "ck = FromBytes b"
    by (auto simp: channelKey_srv_def offeringByID_def findOneTo_def run OfferingTable_def dest!: find_Some_in)
  show ?case
  proof (cases "ck = k")
    case True
    with rest obtain e where "e \<in> set (db_endpoints (w_db u))" "ep_Channel e = ch_ID ch" "ep_RawMsg e = m"
      by (auto simp: endpointByChannelID_def findOneTo_def run EndpointTable_def dest!: find_Some_in)
    with f True u show ?thesis by auto
  next
    case False
    with rest have "search_key kec k chs u = (Inr m, w')" by simp
    from Cons.IH [OF this] u show ?thesis by (metis list.set_intros(2))
  qed
qed

text \<open>C22: the server hands an endpoint out only to who knows the key of its channel: what is answered to the
  key of a client's channel is the message of an endpoint of a channel of that client with that agent,
  opened in that block, unless the hashes of two keys collide.\<close>

theorem endpoint_for_its_client:
  assumes "Endpoint_srv kec (FromBytes (kec p)) w = (Inr m, w')" "key_preimage client agent block h = Some p"
    and "\<And>ch f q. ch \<in> set (db_channels (w_db w)) \<Longrightarrow> f \<in> set (db_offerings (w_db w))
      \<Longrightarrow> key_preimage (ch_Client ch) (ch_Agent ch) (ch_Block ch) (ofr_Hash f) = Some q \<Longrightarrow> kec q = kec p \<Longrightarrow> q = p"
  shows "\<exists>ch \<in> set (db_channels (w_db w)). \<exists>e \<in> set (db_endpoints (w_db w)). ep_Channel e = ch_ID ch \<and> ep_RawMsg e = m
    \<and> fst (HexToAddress (ch_Client ch)) = fst (HexToAddress client)
    \<and> fst (HexToAddress (ch_Agent ch)) = fst (HexToAddress agent) \<and> ch_Block ch = block"
proof -
  from assms(1) obtain u where all: "select_all ChannelTable Conn (\<lambda>_. True) w = (Inr (db_channels (w_db w)), u)"
    and search: "search_key kec (FromBytes (kec p)) (db_channels (w_db w)) u = (Inr m, w')"
    by (auto simp: Endpoint_srv_def run ChannelTable_def)
  have "w_db u = w_db w" using select_all_reads [OF all] by (simp add: same_view_def)
  with search_key_run [OF search] obtain ch f b e where ch: "ch \<in> set (db_channels (w_db w))" "f \<in> set (db_offerings (w_db w))"
    "ChannelKey kec (ch_Client ch) (ch_Agent ch) (ch_Block ch) (ofr_Hash f) = Some b" "kec p = b"
    "e \<in> set (db_endpoints (w_db w))" "ep_Channel e = ch_ID ch" "ep_RawMsg e = m" by auto
  then obtain q where "key_preimage (ch_Client ch) (ch_Agent ch) (ch_Block ch) (ofr_Hash f) = Some q" "kec q = b"
    by (auto simp: ChannelKey_preimage)
  with assms(3) ch have "key_preimage (ch_Client ch) (ch_Agent ch) (ch_Block ch) (ofr_Hash f) = Some p" by metis
  from key_preimage_inject [OF this assms(2)] ch show ?thesis by blast
qed


section \<open>Concrete instances\<close>

lemma popup_recovers: "isl (fst (Recover (worker_world popup_db))) = False" "db_ok popup_db" "list_all (sold popup_db) (db_channels popup_db)"
  by code_simp+

theorem recovery_settles_witness:
  "map ch_ServiceStatus (db_channels popup_db) = [ServiceActive]
    \<and> map ch_ServiceStatus (db_channels (w_db (snd (Recover (worker_world popup_db))))) = [ServiceSuspended]"
proof -
  have w: "w_db (worker_world popup_db) = popup_db" by (simp add: worker_world_def)
  obtain w' where run: "Recover (worker_world popup_db) = (Inr (), w')"
    using popup_recovers(1) by (metis isl_def old.unit.exhaust prod.collapse sum.exhaust_sel)
  have "db_ok (w_db (worker_world popup_db))"
    "\<And>ch. ch \<in> set (db_channels (w_db (worker_world popup_db))) \<Longrightarrow> sold (w_db (worker_world popup_db)) ch"
    using popup_recovers(2,3) by (simp_all add: w list_all_iff)
  then have "map ch_ServiceStatus (db_channels (w_db w')) = map recovered (map ch_ServiceStatus (db_channels popup_db))"
    using recovery_settles [OF _ _ run] by (simp add: w o_def)
  moreover have "map ch_ServiceStatus (db_channels popup_db) = [ServiceActive]" by code_simp
  ultimately show ?thesis using run by (simp add: recovered_def)
qed

definition popup_key :: bytes where
  "popup_key = the (key_preimage ''cc'' ''aa'' 9 (ofr_Hash popup_offering))"

theorem endpoint_for_its_client_witness:
  "fst (Endpoint_srv id (FromBytes popup_key) (worker_world popup_db)) = Inr ''bXNn''
    \<and> (\<exists>ch \<in> set (db_channels popup_db). fst (HexToAddress (ch_Client ch)) = fst (HexToAddress ''cc''))"
proof -
  have w: "w_db (worker_world popup_db) = popup_db" "w_faults (worker_world popup_db) = []" by (simp_all add: worker_world_def)
  have key: "key_preimage ''cc'' ''aa'' 9 (ofr_Hash popup_offering) = Some popup_key" unfolding popup_key_def by code_simp
  have "fst (Endpoint_srv id (FromBytes popup_key) (worker_world popup_db)) = Inr ''bXNn''" by code_simp
  then obtain w' where run: "Endpoint_srv id (FromBytes popup_key) (worker_world popup_db) = (Inr ''bXNn'', w')"
    by (metis prod.collapse)
  then have "Endpoint_srv id (FromBytes (id popup_key)) (worker_world popup_db) = (Inr ''bXNn'', w')" by simp
  from endpoint_for_its_client [OF this key] have "\<exists>ch \<in> set (db_channels popup_db). fst (HexToAddress (ch_Client ch)) = fst (HexToAddress ''cc'')"
    by (auto simp: w)
  with run show ?thesis by simp
qed

end
