(* ===== verification/UiBase.thy ===== *)
theory UiBase
  imports Effects
begin

text \<open>
  The interface of the user, package \<open>src/ui\<close>, what its calls share: the handler with its
  collaborators (\<open>handler.go\<close>), the access token (\<open>token.go\<close>), the wrappers of the database calls
  (\<open>db.go\<close>, \<open>misc.go\<close>), the password and the keys it protects (\<open>auth.go\<close>, and \<open>account.go\<close> and
  \<open>pwd_storage.go\<close> of \<open>src/data\<close>). The token, the password and the decrypted keys are kept in
  memory: they are part of the world, and so is the source of random bytes. The key store, the
  primitives, the gas price, the SOMC transport, the resolver and the table of contracts, which the
  program only reads here, are parameters: the fields of the handler.
\<close>

section \<open>The handler\<close>

record 'k Ui =
  ui_queue :: Config
  ui_isAgent :: bool
  ui_crypto :: "'k Crypto"
  ui_pubKey :: "'k \<Rightarrow> bytes"
  ui_generate :: "bytes \<Rightarrow> 'k option"
  ui_toECDSA :: "bytes \<Rightarrow> 'k option"
  ui_encryptKey :: "'k \<Rightarrow> string \<Rightarrow> bytes option"
  ui_decryptKey :: "bytes \<Rightarrow> string \<Rightarrow> 'k option"
  ui_bcrypt :: "bytes \<Rightarrow> bytes option"
  ui_compare :: "bytes \<Rightarrow> bytes \<Rightarrow> bool"
  ui_gasPrice :: "int option"
  ui_ping :: "u8 \<Rightarrow> Base64String \<Rightarrow> bool option"
  ui_offer_format :: "OfferMsg format"
  ui_isIP :: "string \<Rightarrow> bool"
  ui_isHost :: "string \<Rightarrow> bool"
  ui_isObject :: "string \<Rightarrow> bool"
  ui_contract :: "string \<Rightarrow> string option"

record 'k uworld = qworld +
  u_token :: string
  u_password :: string
  u_keys :: "HexString \<rightharpoonup> 'k"
  u_random :: "nat \<Rightarrow> bytes option"
  u_randoms :: nat

type_synonym ('k, 'z, 'a) uicmd = "(('k, 'z) uworld_scheme, go_error, 'a) cmd"

abbreviation "uierr e \<equiv> (\<lambda>_. Ui e)"

section \<open>Randomness and tokens\<close>

definition random_bytes :: "('k, 'z, bytes) uicmd" where
  "random_bytes w = (case u_random w (u_randoms w) of None \<Rightarrow> Inl (Text ''rand'') | Some b \<Rightarrow> Inr b,
     w\<lparr>u_randoms := Suc (u_randoms w)\<rparr>)"

definition Check :: "string \<Rightarrow> ('k, 'z) uworld_scheme \<Rightarrow> bool" where
  "Check s w \<longleftrightarrow> s = u_token w"

definition Make :: "('k, 'z, string) uicmd" where
  "Make = bindC random_bytes (\<lambda>b. thenC (modC (\<lambda>w. w\<lparr>u_token := FromBytes b\<rparr>)) (getC u_token))"

text \<open>The guard every call starts with.\<close>

definition authorized :: "string \<Rightarrow> ('k, 'z, 'a) uicmd \<Rightarrow> ('k, 'z, 'a) uicmd" where
  "authorized tkn m = bindC (getC (Check tkn)) (\<lambda>ok. thenC (guardC ok (Ui ui_ErrAccessDenied)) m)"

section \<open>Database calls\<close>

definition db_error :: "ui_error \<Rightarrow> go_error \<Rightarrow> go_error" where
  "db_error notFound e = Ui (if e = NoRows then notFound else ui_ErrInternal)"

definition findByPrimaryKey :: "ui_error \<Rightarrow> 'r table \<Rightarrow> string \<Rightarrow> ('z, 'r) dbcmd" where
  "findByPrimaryKey notFound T i = on_err (db_error notFound) (find_pk T Conn i)"

definition findByColumn :: "ui_error \<Rightarrow> 'r table \<Rightarrow> ('r \<Rightarrow> string) \<Rightarrow> string \<Rightarrow> ('z, 'r) dbcmd" where
  "findByColumn notFound T column arg = on_err (db_error notFound) (select_one T Conn (\<lambda>r. column r = arg))"

definition findAllFrom :: "'r table \<Rightarrow> ('r \<Rightarrow> string) \<Rightarrow> string \<Rightarrow> ('z, 'r list) dbcmd" where
  "findAllFrom T column arg = on_err (uierr ui_ErrInternal) (select_all T Conn (\<lambda>r. column r = arg))"

text \<open>A tail of a \<open>SELECT\<close> is a condition that may look at the whole database, an order and a page.\<close>

definition selectAllFrom :: "'r table \<Rightarrow> (db \<Rightarrow> 'r \<Rightarrow> bool) \<Rightarrow> ('r list \<Rightarrow> 'r list) \<Rightarrow> ('z, 'r list) dbcmd" where
  "selectAllFrom T cond order = on_err (uierr ui_ErrInternal)
     (query Conn (\<lambda>d. order (filter (cond d) (t_rows T d))))"

definition numberOfObjects :: "'r table \<Rightarrow> (db \<Rightarrow> 'r \<Rightarrow> bool) \<Rightarrow> ('z, nat) dbcmd" where
  "numberOfObjects T cond = on_err (uierr ui_ErrInternal)
     (query Conn (\<lambda>d. length (filter (cond d) (t_rows T d))))"

definition offsetLimit :: "u64 \<Rightarrow> u64 \<Rightarrow> 'r list \<Rightarrow> 'r list" where
  "offsetLimit offset limit rs =
     (let rest = drop (unat offset) rs in if limit \<noteq> 0 then take (unat limit) rest else rest)"

text \<open>\<open>ORDER BY c DESC\<close>; rows with equal columns stay in the order they were inserted in.\<close>

definition order_desc :: "('r \<Rightarrow> 'c::linorder) \<Rightarrow> 'r list \<Rightarrow> 'r list" where
  "order_desc column rs = rev (sort_key column (rev rs))"

definition beginTX :: "('z, unit) dbcmd" where
  "beginTX = on_err (uierr ui_ErrInternal) begin_tx"

definition commitTX :: "('z, unit) dbcmd" where
  "commitTX = on_err (uierr ui_ErrInternal) commit_tx"

definition insert_ui :: "querier \<Rightarrow> 'r table \<Rightarrow> 'r list \<Rightarrow> ('z, unit) dbcmd" where
  "insert_ui q T items = eachC (\<lambda>item. on_err (uierr ui_ErrInternal) (insert_row T q item)) items"

definition update_ui :: "querier \<Rightarrow> 'r table \<Rightarrow> 'r list \<Rightarrow> ('z, unit) dbcmd" where
  "update_ui q T items = eachC (\<lambda>item. on_err (uierr ui_ErrInternal) (update_row T q item)) items"

text \<open>A transaction whose rollback is deferred.\<close>

definition deferred_tx :: "('z, unit) dbcmd \<Rightarrow> ('z, unit) dbcmd" where
  "deferred_tx f = thenC beginTX (handleC f (\<lambda>e. thenC rollback_tx (fail e)) (\<lambda>_. commitTX))"

section \<open>Offerings, prices and settings\<close>

definition own_address :: "db \<Rightarrow> HexString \<Rightarrow> bool" where
  "own_address d a \<longleftrightarrow> exists_row acc_EthAddr (db_accounts d) a"

definition activeOfferingCondition :: "db \<Rightarrow> Offering \<Rightarrow> bool" where
  "activeOfferingCondition d f \<longleftrightarrow> (ofr_Status f = OfferRegistered \<or> ofr_Status f = OfferPoppedUp)
     \<and> \<not> ofr_IsLocal f \<and> 0 < ofr_CurrentSupply f \<and> \<not> own_address d (ofr_Agent f)"

definition findActiveOfferingByID :: "string \<Rightarrow> ('z, Offering) dbcmd" where
  "findActiveOfferingByID i = on_err (db_error ui_ErrOfferingNotFound)
     (bindC (query Conn (\<lambda>d. find (\<lambda>f. ofr_ID f = i \<and> activeOfferingCondition d f) (db_offerings d))) (of_option NoRows))"

text \<open>The price is cut to 64 bits. The error of the node is returned as it is.\<close>

definition suggestedGasPrice :: "'k Ui \<Rightarrow> ('s, go_error, u64) cmd" where
  "suggestedGasPrice ui = bindC (of_option (Text ''gas price'') (ui_gasPrice ui)) (\<lambda>price. ret (word_of_int price))"

definition jobPublishData :: "'k Ui \<Rightarrow> u64 \<Rightarrow> ('s, go_error, json) cmd" where
  "jobPublishData ui gasPrice =
     (if gasPrice = 0 then bindC (suggestedGasPrice ui) (\<lambda>def. ret (enc_PublishData def))
      else ret (enc_PublishData gasPrice))"

definition findSetting :: "string \<Rightarrow> ('z, Setting) dbcmd" where
  "findSetting k = findByColumn ui_ErrMinConfirmationsNotFound SettingTable set_Key k"

definition findSettingsUint64 :: "string \<Rightarrow> ('z, u64) dbcmd" where
  "findSettingsUint64 k = bindC (findSetting k) (\<lambda>setting.
     bindC (of_option (Ui ui_ErrInternal) (parse_uint 64 (set_Value setting))) (\<lambda>n. ret (word_of_nat n)))"

definition minConfirmations :: "('z, u64) dbcmd" where
  "minConfirmations = findSettingsUint64 SettingMinConfirmations"

text \<open>Errors of a package are passed on, all others hidden.\<close>

definition catchError :: "go_error \<Rightarrow> go_error" where
  "catchError e = (case e of Job _ \<Rightarrow> e | Ui _ \<Rightarrow> e | Sess _ \<Rightarrow> e | Abill _ \<Rightarrow> e | Cbill _ \<Rightarrow> e | Somc _ \<Rightarrow> e
     | Bc _ \<Rightarrow> e | Msg _ \<Rightarrow> e | Ept _ \<Rightarrow> e | Somcsrv _ \<Rightarrow> e | Worker _ \<Rightarrow> e | _ \<Rightarrow> Ui ui_ErrInternal)"

section \<open>Keys\<close>

definition EncryptedKey :: "'k Ui \<Rightarrow> 'k \<Rightarrow> string \<Rightarrow> Base64String option" where
  "EncryptedKey ui pkey auth = map_option FromBytes (ui_encryptKey ui pkey auth)"

definition ToPrivateKey :: "'k Ui \<Rightarrow> Base64String \<Rightarrow> string \<Rightarrow> 'k option" where
  "ToPrivateKey ui keyB64 auth = (case ToBytes keyB64 of None \<Rightarrow> None | Some keyjson \<Rightarrow> ui_decryptKey ui keyjson auth)"

definition getKey :: "'k Ui \<Rightarrow> Account \<Rightarrow> string \<Rightarrow> ('k, 'z, 'k) uicmd" where
  "getKey ui acc password =
     bindC (getC (\<lambda>w. u_keys w (acc_EthAddr acc))) (\<lambda>cached. case cached of
       Some v \<Rightarrow> ret v
     | None \<Rightarrow> bindC (of_option (Text ''key'') (ToPrivateKey ui (acc_PrivateKey acc) password)) (\<lambda>v.
         thenC (modC (\<lambda>w. w\<lparr>u_keys := (u_keys w)(acc_EthAddr acc \<mapsto> v)\<rparr>)) (ret v)))"

definition GetKey :: "'k Ui \<Rightarrow> Account \<Rightarrow> ('k, 'z, 'k) uicmd" where
  "GetKey ui acc = bindC (getC u_password) (getKey ui acc)"

definition SetPwd :: "string \<Rightarrow> ('k, 'z, unit) uicmd" where
  "SetPwd pwd = modC (\<lambda>w. w\<lparr>u_password := pwd\<rparr>)"

section \<open>The password\<close>

definition checkPassword :: "'k Ui \<Rightarrow> string \<Rightarrow> ('k, 'z, unit) uicmd" where
  "checkPassword ui password =
     bindC (on_err (uierr ui_ErrInternal) (ReadSetting Conn SettingPasswordHash)) (\<lambda>h.
     bindC (on_err (uierr ui_ErrInternal) (ReadSetting Conn SettingPasswordSalt)) (\<lambda>salt.
     thenC (guardC (ValidatePassword (ui_compare ui) h password salt) (Ui ui_ErrAccessDenied))
       (SetPwd password)))"

definition validatePasswordNotSet :: "('z, unit) dbcmd" where
  "validatePasswordNotSet =
     bindC (on_err (uierr ui_ErrInternal) (query Conn (\<lambda>d.
         length (filter (\<lambda>s. set_Key s = SettingPasswordSalt \<or> set_Key s = SettingPasswordHash) (db_settings d))))) (\<lambda>count.
       guardC (\<not> 0 < count) (Ui ui_ErrPasswordExists))"

definition hashedPassword :: "'k Ui \<Rightarrow> string \<Rightarrow> string \<Rightarrow> ('s, go_error, Base64String) cmd" where
  "hashedPassword ui password salt = of_option (Ui ui_ErrInternal) (HashPassword (ui_bcrypt ui) password salt)"

definition saltSetting :: "string \<Rightarrow> Setting" where
  "saltSetting salt = \<lparr>set_Key = SettingPasswordSalt, set_Value = salt, set_Permissions = 0,
     set_Description = None, set_Name = ''Salt''\<rparr>"

definition passwordHashSetting :: "Base64String \<Rightarrow> Setting" where
  "passwordHashSetting h = \<lparr>set_Key = SettingPasswordHash, set_Value = h, set_Permissions = 0,
     set_Description = None, set_Name = ''Password''\<rparr>"

definition SetPassword :: "'k Ui \<Rightarrow> string \<Rightarrow> ('k, 'z, unit) uicmd" where
  "SetPassword ui password =
     thenC (guardC (password \<noteq> []) (Ui ui_ErrEmptyPassword))
    (thenC validatePasswordNotSet
    (bindC new_uuid (\<lambda>salt.
     bindC (hashedPassword ui password salt) (\<lambda>hashed.
       deferred_tx (insert_ui Tx SettingTable [saltSetting salt, passwordHashSetting hashed])))))"

definition updatePrivateKey :: "'k Ui \<Rightarrow> string \<Rightarrow> Account \<Rightarrow> ('k, 'z, unit) uicmd" where
  "updatePrivateKey ui new acc =
     bindC (on_err (uierr ui_ErrInternal) (GetKey ui acc)) (\<lambda>k.
     bindC (of_option (Ui ui_ErrInternal) (EncryptedKey ui k new)) (\<lambda>enc.
       update_ui Tx AccountTable [acc\<lparr>acc_PrivateKey := enc\<rparr>]))"

definition updatePrivateKeys :: "'k Ui \<Rightarrow> string \<Rightarrow> ('k, 'z, unit) uicmd" where
  "updatePrivateKeys ui new =
     bindC (on_err (uierr ui_ErrInternal) (select_all AccountTable Tx (\<lambda>_. True))) (eachC (updatePrivateKey ui new))"

definition UpdatePassword :: "'k Ui \<Rightarrow> string \<Rightarrow> string \<Rightarrow> ('k, 'z, unit) uicmd" where
  "UpdatePassword ui current new =
     thenC (checkPassword ui current)
    (thenC (guardC (new \<noteq> []) (Ui ui_ErrEmptyPassword))
    (bindC new_uuid (\<lambda>salt.
     bindC (hashedPassword ui new salt) (\<lambda>hashed.
     thenC (deferred_tx (thenC (updatePrivateKeys ui new)
         (update_ui Tx SettingTable [saltSetting salt, passwordHashSetting hashed])))
       (ignoreC Make)))))"

definition GetToken :: "'k Ui \<Rightarrow> string \<Rightarrow> ('k, 'z, string) uicmd" where
  "GetToken ui password =
     thenC (checkPassword ui password) (on_err (uierr ui_ErrInternal) Make)"

end
