(* ===== verification/UiOffering.thy ===== *)
theory UiOffering
  imports UiBase
begin

text \<open>
  The calls of the user about offerings (\<open>src/ui/offering.go\<close>): a client lists, filters and pings the
  offerings of others and accepts one, an agent makes its own and changes their status. Conditions
  that the code writes as SQL are functions of the database and the row.
\<close>

section \<open>Accepting an offering\<close>

definition PublishOffering :: string where "PublishOffering = ''publish''"
definition PopupOffering :: string where "PopupOffering = ''popup''"
definition DeactivateOffering :: string where "DeactivateOffering = ''deactivate''"

definition OfferingChangeActions :: "string \<rightharpoonup> job_type" where
  "OfferingChangeActions action =
     (if action = PublishOffering then Some JobAgentPreOfferingMsgBCPublish
      else if action = PopupOffering then Some JobAgentPreOfferingPopUp
      else if action = DeactivateOffering then Some JobAgentPreOfferingDelete else None)"

definition computeDeposit :: "Offering \<Rightarrow> u64 \<Rightarrow> u64" where
  "computeDeposit offr configuredMinDeposit =
     (let price = ComputePrice offr (ofr_MinUnits offr);
          minDep = (if price < configuredMinDeposit then configuredMinDeposit else price)
      in case ofr_MaxUnit offr of
           None \<Rightarrow> minDep
         | Some m \<Rightarrow> let maxDep = ComputePrice offr m in if maxDep < minDep then maxDep else minDep)"

definition pingOffering :: "'k Ui \<Rightarrow> Offering \<Rightarrow> ('s, go_error, unit) cmd" where
  "pingOffering ui offr =
     (case ui_ping ui (ofr_SOMCType offr) (ofr_SOMCData offr) of
        None \<Rightarrow> fail (Ui ui_ErrSOMCIsNotAvailable)
      | Some pong \<Rightarrow> guardC pong (Ui ui_ErrSOMCIsNotAvailable))"

definition enc_ChannelCreateData :: "ClientPreChannelCreateData \<Rightarrow> json" where
  "enc_ChannelCreateData d = JObj [(''account'', JStr (pcc_Account d)), (''offering'', JStr (pcc_Offering d)),
     (''gasPrice'', enc_u64 (pcc_GasPrice d)), (''deposit'', enc_u64 (pcc_Deposit d))]"

text \<open>A setting that cannot be read counts as zero.\<close>

definition AcceptOffering ::
  "'k Ui \<Rightarrow> string \<Rightarrow> HexString \<Rightarrow> string \<Rightarrow> u64 \<Rightarrow> u64 \<Rightarrow> ('k, 'z, string) uicmd" where
  "AcceptOffering ui tkn addr i deposit gasPrice = authorized tkn
     (bindC (findByColumn ui_ErrAccountNotFound AccountTable acc_EthAddr addr) (\<lambda>acc.
      bindC (findActiveOfferingByID i) (\<lambda>offer.
      bindC (handleC (GetUint64Setting SettingClientMinDeposit) (\<lambda>_. ret 0) ret) (\<lambda>depositSetting.
      let minDeposit = computeDeposit offer depositSetting in
      thenC (guardC (deposit = 0 \<or> \<not> deposit < minDeposit) (Ui ui_ErrDepositTooSmall))
     (thenC (pingOffering ui offer)
     (bindC new_uuid (\<lambda>rid.
      thenC (on_err (uierr ui_ErrInternal) (AddWithData (ui_queue ui) Conn JobClientPreChannelCreate JobChannel rid JobUser
          (enc_ChannelCreateData \<lparr>pcc_Account = acc_ID acc, pcc_Offering = i, pcc_GasPrice = gasPrice,
             pcc_Deposit = (if deposit = 0 then minDeposit else deposit)\<rparr>)))
        (ret rid))))))))"

definition ChangeOfferingStatus :: "'k Ui \<Rightarrow> string \<Rightarrow> string \<Rightarrow> string \<Rightarrow> u64 \<Rightarrow> ('k, 'z, unit) uicmd" where
  "ChangeOfferingStatus ui tkn i action gasPrice = authorized tkn
     (bindC (of_option (Ui ui_ErrBadOfferingStatusAction) (OfferingChangeActions action)) (\<lambda>jobType.
      bindC (findByPrimaryKey ui_ErrOfferingNotFound OfferingTable i) (\<lambda>_.
        on_err (uierr ui_ErrInternal) (AddWithData (ui_queue ui) Conn jobType JobOffering i JobUser
          (enc_PublishData gasPrice)))))"

section \<open>Listing offerings\<close>

text \<open>The driver takes no argument, and the database no page, beyond the signed range.\<close>

definition selectPage ::
  "'r table \<Rightarrow> (db \<Rightarrow> 'r \<Rightarrow> bool) \<Rightarrow> ('r list \<Rightarrow> 'r list) \<Rightarrow> u64 \<Rightarrow> u64 \<Rightarrow> ('z, 'r list) dbcmd" where
  "selectPage T cond order offset limit =
     thenC (guardC (is_bigint offset \<and> is_bigint limit) (Ui ui_ErrInternal))
       (selectAllFrom T cond (\<lambda>rs. offsetLimit offset limit (order rs)))"

definition getClientOfferingsConditions ::
  "HexString \<Rightarrow> u64 \<Rightarrow> u64 \<Rightarrow> string list \<Rightarrow> string list \<Rightarrow> db \<Rightarrow> Offering \<Rightarrow> bool" where
  "getClientOfferingsConditions agent minUnitPrice maxUnitPrice country ipTypes d f \<longleftrightarrow>
     (agent \<noteq> [] \<longrightarrow> ofr_Agent f = agent)
     \<and> (0 < minUnitPrice \<longrightarrow> minUnitPrice \<le> ofr_UnitPrice f)
     \<and> (0 < maxUnitPrice \<longrightarrow> ofr_UnitPrice f \<le> maxUnitPrice)
     \<and> (country \<noteq> [] \<longrightarrow> ofr_Country f \<in> set country)
     \<and> (ipTypes \<noteq> [] \<longrightarrow> ofr_IPType f \<in> set ipTypes)
     \<and> activeOfferingCondition d f"

definition offering_rating :: "Offering \<Rightarrow> ('z, Offering \<times> u64) dbcmd" where
  "offering_rating f = handleC (find_pk RatingTable Conn (ofr_Agent f))
     (\<lambda>e. if e = NoRows then ret (f, 0) else fail (Ui ui_ErrInternal))
     (\<lambda>r. ret (f, rt_Val r))"

definition GetClientOfferings ::
  "string \<Rightarrow> HexString \<Rightarrow> u64 \<Rightarrow> u64 \<Rightarrow> string list \<Rightarrow> string list \<Rightarrow> u64 \<Rightarrow> u64
     \<Rightarrow> ('k, 'z, (Offering \<times> u64) list \<times> nat) uicmd" where
  "GetClientOfferings tkn agent minUnitPrice maxUnitPrice countries ipTypes offset limit = authorized tkn
     (thenC (guardC (\<not> (minUnitPrice \<noteq> 0 \<and> maxUnitPrice \<noteq> 0 \<and> maxUnitPrice < minUnitPrice)) (Ui ui_ErrBadUnitPriceRange))
     (thenC (guardC (is_bigint minUnitPrice \<and> is_bigint maxUnitPrice) (Ui ui_ErrInternal))
     (let cond = getClientOfferingsConditions agent minUnitPrice maxUnitPrice countries ipTypes in
      bindC (numberOfObjects OfferingTable cond) (\<lambda>count.
      bindC (selectPage OfferingTable cond (order_desc ofr_BlockNumberUpdated) offset limit) (\<lambda>result.
      bindC (mapC offering_rating result) (\<lambda>items. ret (items, count)))))))"

definition getAgentOfferingsConditions :: "string \<Rightarrow> offer_status list \<Rightarrow> db \<Rightarrow> Offering \<Rightarrow> bool" where
  "getAgentOfferingsConditions product statuses d f \<longleftrightarrow>
     (product \<noteq> [] \<longrightarrow> ofr_Product f = product) \<and> (statuses \<noteq> [] \<longrightarrow> ofr_Status f \<in> set statuses)
     \<and> list_ex (\<lambda>a. acc_EthAddr a = ofr_Agent f \<and> acc_InUse a) (db_accounts d)"

definition GetAgentOfferings ::
  "string \<Rightarrow> string \<Rightarrow> offer_status list \<Rightarrow> u64 \<Rightarrow> u64 \<Rightarrow> ('k, 'z, Offering list \<times> nat) uicmd" where
  "GetAgentOfferings tkn product statuses offset limit = authorized tkn
     (let cond = getAgentOfferingsConditions product statuses in
      bindC (numberOfObjects OfferingTable cond) (\<lambda>count.
      bindC (selectPage OfferingTable cond (order_desc ofr_BlockNumberUpdated) offset limit) (\<lambda>result. ret (result, count))))"

section \<open>Making an offering\<close>

definition setHash :: "'k Ui \<Rightarrow> Offering \<Rightarrow> Template \<Rightarrow> Account \<Rightarrow> ('k, 'z, Offering) uicmd" where
  "setHash ui offr template agent =
     (if fm_marshal (ui_offer_format ui) (OfferingMessage agent template offr) = None then fail (Ui ui_ErrInternal)
      else bindC (on_err (uierr ui_ErrInternal) (GetKey ui agent)) (\<lambda>agentKey.
        of_sum (setOfferingHash (ui_crypto ui) (ui_offer_format ui) (Some agentKey) offr template agent)))"

text \<open>The agent is looked up by the identifier of its account, and the billing type is overridden, as the
  comments in the code say.\<close>

definition fillOffering :: "'k Ui \<Rightarrow> Offering \<Rightarrow> ('k, 'z, Offering) uicmd" where
  "fillOffering ui offr =
     bindC (findByPrimaryKey ui_ErrAccountNotFound AccountTable (ofr_Agent offr)) (\<lambda>agent.
     bindC (findByPrimaryKey ui_ErrTemplateNotFound TemplateTable (ofr_Template offr)) (\<lambda>template.
     bindC new_uuid (\<lambda>i.
       setHash ui (offr\<lparr>ofr_ID := i, ofr_Status := OfferEmpty, ofr_Agent := acc_EthAddr agent,
         ofr_BlockNumberUpdated := 1, ofr_CurrentSupply := ofr_Supply offr,
         ofr_BillingType := BillingPostpaid\<rparr>) template agent)))"

definition prepareOffering :: "'k Ui \<Rightarrow> Offering \<Rightarrow> ('k, 'z, Offering) uicmd" where
  "prepareOffering ui offr =
     thenC (guardC (ofr_UnitType offr = UnitScalar \<or> ofr_UnitType offr = UnitSeconds) (Ui ui_ErrBadUnitType))
    (thenC (guardC (ofr_BillingType offr = BillingPrepaid \<or> ofr_BillingType offr = BillingPostpaid) (Ui ui_ErrBillingType))
       (fillOffering ui offr))"

definition UpdateOffering :: "string \<Rightarrow> Offering \<Rightarrow> ('k, 'z, unit) uicmd" where
  "UpdateOffering tkn offr = authorized tkn
     (bindC (findByPrimaryKey ui_ErrOfferingNotFound OfferingTable (ofr_ID offr)) (\<lambda>_.
        update_ui Conn OfferingTable [offr]))"

definition CreateOffering :: "'k Ui \<Rightarrow> string \<Rightarrow> Offering \<Rightarrow> ('k, 'z, string) uicmd" where
  "CreateOffering ui tkn offr = authorized tkn
     (bindC (prepareOffering ui offr) (\<lambda>filled.
      thenC (insert_ui Conn OfferingTable [filled]) (ret (ofr_ID filled))))"

section \<open>Filters and pings\<close>

definition offeringCountriesCondition :: "db \<Rightarrow> Offering \<Rightarrow> bool" where
  "offeringCountriesCondition d f \<longleftrightarrow> activeOfferingCondition d f \<and> ofr_Country f \<noteq> []"

definition offeringCountries :: "('z, string list) dbcmd" where
  "offeringCountries = on_err (uierr ui_ErrInternal) (query Conn (\<lambda>d.
     let cs = map ofr_Country (filter (offeringCountriesCondition d) (db_offerings d))
     in order_desc (\<lambda>c. length (filter (\<lambda>x. x = c) cs)) (remdups cs)))"

definition offeringsMinMaxPrice :: "('z, u64 \<times> u64) dbcmd" where
  "offeringsMinMaxPrice = on_err (uierr ui_ErrInternal) (query Conn (\<lambda>d.
     let ps = map ofr_UnitPrice (filter (offeringCountriesCondition d) (db_offerings d))
     in if ps = [] then (0, 0) else (Min (set ps), Max (set ps))))"

definition maxRating :: "('z, u64) dbcmd" where
  "maxRating = query Conn (\<lambda>d. let vs = map rt_Val (db_ratings d) in if vs = [] then 0 else Max (set vs))"

definition GetClientOfferingsFilterParams :: "string \<Rightarrow> ('k, 'z, string list \<times> u64 \<times> u64 \<times> u64) uicmd" where
  "GetClientOfferingsFilterParams tkn = authorized tkn
     (bindC offeringCountries (\<lambda>countries.
      bindC offeringsMinMaxPrice (\<lambda>(lo, hi).
      bindC maxRating (\<lambda>r. ret (countries, lo, hi, r)))))"

text \<open>Each offering is pinged by a goroutine of its own; here one after the other.\<close>

definition pingOne :: "'k Ui \<Rightarrow> time \<Rightarrow> string \<Rightarrow> ('z, string \<times> bool) dbcmd" where
  "pingOne ui t i =
     bindC (findActiveOfferingByID i) (\<lambda>offr.
     handleC (pingOffering ui offr)
       (\<lambda>_. ret (ofr_ID offr, False))
       (\<lambda>_. thenC (ignoreC (update_ui Conn OfferingTable [offr\<lparr>ofr_SOMCSuccessPing := Some t\<rparr>]))
          (ret (ofr_ID offr, True))))"

definition PingOfferings :: "'k Ui \<Rightarrow> string \<Rightarrow> string list \<Rightarrow> ('k, 'z, (string \<times> bool) list) uicmd" where
  "PingOfferings ui tkn ids = authorized tkn (bindC now (\<lambda>t. mapC (pingOne ui t) ids))"

end
