(* ===== verification/UiChannel.thy ===== *)
theory UiChannel
  imports UiOffering
begin

text \<open>
  The calls of the user about channels, sessions, endpoints, transactions, jobs and single objects
  (\<open>channel.go\<close>, \<open>session.go\<close>, \<open>endpoint.go\<close>, \<open>eth_tx.go\<close>, \<open>jobs.go\<close>, \<open>object.go\<close>, \<open>subscribe.go\<close> of
  \<open>src/ui\<close>). Addresses are returned as such, not as checksummed text, and an object as the row it
  is, not as its JSON text.
\<close>

section \<open>Changing a channel\<close>

definition clientChannelsCondition :: "db \<Rightarrow> Channel \<Rightarrow> bool" where
  "clientChannelsCondition d ch \<longleftrightarrow> \<not> own_address d (ch_Agent ch)"

definition agentChannelsCondition :: "db \<Rightarrow> Channel \<Rightarrow> bool" where
  "agentChannelsCondition d ch \<longleftrightarrow> own_address d (ch_Agent ch)"

definition topUpChannelJobData :: "'k Ui \<Rightarrow> u64 \<Rightarrow> u64 \<Rightarrow> ('s, go_error, json) cmd" where
  "topUpChannelJobData ui deposit gasPrice =
     bindC (if gasPrice = 0 then suggestedGasPrice ui else ret gasPrice) (\<lambda>g.
       ret (enc_DepositData \<lparr>dep_GasPrice = g, dep_Deposit = deposit\<rparr>))"

text \<open>The errors of the node and of the queue are returned as they are.\<close>

definition TopUpChannel :: "'k Ui \<Rightarrow> string \<Rightarrow> string \<Rightarrow> u64 \<Rightarrow> u64 \<Rightarrow> ('k, 'z, unit) uicmd" where
  "TopUpChannel ui tkn i deposit gasPrice = authorized tkn
     (bindC (findByPrimaryKey ui_ErrChannelNotFound ChannelTable i) (\<lambda>ch.
      bindC (topUpChannelJobData ui deposit gasPrice) (\<lambda>jobData.
        AddWithData (ui_queue ui) Conn JobClientPreChannelTopUp JobChannel (ch_ID ch) JobUser jobData)))"

definition createPreUncooperativeCloseRequest :: "'k Ui \<Rightarrow> string \<Rightarrow> ('z, unit) dbcmd" where
  "createPreUncooperativeCloseRequest ui i =
     bindC (jobPublishData ui 0) (\<lambda>jobData.
       AddWithData (ui_queue ui) Conn JobClientPreUncooperativeCloseRequest JobChannel i JobUser jobData)"

definition ChannelTerminateAction :: string where "ChannelTerminateAction = ''terminate''"
definition ChannelPauseAction :: string where "ChannelPauseAction = ''pause''"
definition ChannelResumeAction :: string where "ChannelResumeAction = ''resume''"
definition ChannelCloseAction :: string where "ChannelCloseAction = ''close''"

definition ChangeChannelStatus :: "'k Ui \<Rightarrow> string \<Rightarrow> string \<Rightarrow> string \<Rightarrow> ('k, 'z, unit) uicmd" where
  "ChangeChannelStatus ui tkn i action = authorized tkn
     (bindC (selectAllFrom ChannelTable (\<lambda>d ch. ch_ID ch = i \<and> (ui_isAgent ui \<or> clientChannelsCondition d ch)) id) (\<lambda>items.
      thenC (guardC (length items = 1) (Ui ui_ErrChannelNotFound))
        (let add = Add (ui_queue ui);
             run = (\<lambda>op. bindC (on_err (uierr ui_ErrInternal) (op add i JobUser (ui_isAgent ui))) (\<lambda>_. ret ()))
         in if action = ChannelPauseAction then run SuspendChannel
            else if action = ChannelResumeAction then run ActivateChannel
            else if action = ChannelTerminateAction then run TerminateChannel
            else if action = ChannelCloseAction
            then if ui_isAgent ui then fail (Ui ui_ErrNotAllowedForAgent)
                 else on_err (uierr ui_ErrInternal) (createPreUncooperativeCloseRequest ui i)
            else fail (Ui ui_ErrBadAction))))"

section \<open>Listing channels\<close>

definition getChannelsConditions :: "chan_status list \<Rightarrow> svc_status list \<Rightarrow> Channel \<Rightarrow> bool" where
  "getChannelsConditions channelStatuses serviceStatuses ch \<longleftrightarrow>
     (channelStatuses \<noteq> [] \<longrightarrow> ch_ChannelStatus ch \<in> set channelStatuses)
     \<and> (serviceStatuses \<noteq> [] \<longrightarrow> ch_ServiceStatus ch \<in> set serviceStatuses)"

definition getChannels ::
  "chan_status list \<Rightarrow> svc_status list \<Rightarrow> (db \<Rightarrow> Channel \<Rightarrow> bool) \<Rightarrow> u64 \<Rightarrow> u64
     \<Rightarrow> ('z, Channel list \<times> nat) dbcmd" where
  "getChannels channelStatus serviceStatus specCondition offset limit =
     (let cond = (\<lambda>d ch. getChannelsConditions channelStatus serviceStatus ch \<and> specCondition d ch) in
      bindC (numberOfObjects ChannelTable cond) (\<lambda>count.
      bindC (selectPage ChannelTable cond id offset limit) (\<lambda>result. ret (result, count))))"

definition GetAgentChannels ::
  "string \<Rightarrow> chan_status list \<Rightarrow> svc_status list \<Rightarrow> u64 \<Rightarrow> u64 \<Rightarrow> ('k, 'z, Channel list \<times> nat) uicmd" where
  "GetAgentChannels tkn channelStatus serviceStatus offset limit = authorized tkn
     (getChannels channelStatus serviceStatus agentChannelsCondition offset limit)"

record Usage =
  us_Current :: u64
  us_MaxUsage :: u64
  us_UnitName :: string
  us_UnitType :: unit_type
  us_Cost :: u64

text \<open>One row of the query: a division by zero, a missing offering and a value that is not a 64-bit
  unsigned number are errors.\<close>

definition usage_row :: "db \<Rightarrow> Channel \<Rightarrow> (string \<times> Usage) option" where
  "usage_row d ch = (case find (\<lambda>f. ofr_ID f = ch_Offering ch) (db_offerings d) of None \<Rightarrow> None
     | Some f \<Rightarrow>
       let sessions = filter (\<lambda>s. ses_Channel s = ch_ID ch) (db_sessions d);
           totalSeconds = sum_list (map (\<lambda>s. uint (ses_SecondsConsumed s)) sessions);
           totalUnits = sum_list (map (\<lambda>s. uint (ses_UnitsUsed s)) sessions);
           units = (if ofr_UnitType f = UnitSeconds then totalSeconds else totalUnits);
           left = uint (ch_TotalDeposit ch) - uint (ofr_SetupPrice f)
       in if ofr_UnitPrice f = 0 \<or> trunc_div left (uint (ofr_UnitPrice f)) < 0 \<or> 2 ^ 64 \<le> totalSeconds \<or> 2 ^ 64 \<le> totalUnits
          then None
          else Some (ch_ID ch, \<lparr>us_Current = word_of_int units,
            us_MaxUsage = word_of_int (trunc_div left (uint (ofr_UnitPrice f))), us_UnitName = ofr_UnitName f,
            us_UnitType = ofr_UnitType f, us_Cost = word_of_int units * ofr_UnitPrice f\<rparr>))"

definition queryChannelsUsages :: "string list \<Rightarrow> ('z, (string \<times> Usage) list) dbcmd" where
  "queryChannelsUsages ids =
     bindC (query Conn (\<lambda>d. those (map (usage_row d) (filter (\<lambda>ch. ch_ID ch \<in> set ids) (db_channels d)))))
       (of_option DBFail)"

definition getChannelsUsages :: "string list \<Rightarrow> ('z, (string \<times> Usage) list) dbcmd" where
  "getChannelsUsages ids = (if ids = [] then ret []
     else on_err (uierr ui_ErrInternal) (queryChannelsUsages ids))"

definition GetChannelsUsage :: "string \<Rightarrow> string list \<Rightarrow> ('k, 'z, (string \<times> Usage) list) uicmd" where
  "GetChannelsUsage tkn ids = authorized tkn (getChannelsUsages ids)"

text \<open>The same for one channel, in the arithmetic of the program: sums and the deposit wrap around, and a
  price of zero panics. The cost has the setup price, the one above has not.\<close>

definition newUsage :: "Channel \<Rightarrow> Offering \<Rightarrow> Session list \<Rightarrow> go_error + Usage" where
  "newUsage ch f sessions =
     (let total = (case ofr_UnitType f of UnitScalar \<Rightarrow> sum_list (map ses_UnitsUsed sessions)
            | UnitSeconds \<Rightarrow> sum_list (map ses_SecondsConsumed sessions) | UnitOther _ \<Rightarrow> 0)
      in if ofr_UnitPrice f = 0 then Inl Panic
         else Inr \<lparr>us_Current = total, us_MaxUsage = (ch_TotalDeposit ch - ofr_SetupPrice f) div ofr_UnitPrice f,
            us_UnitName = ofr_UnitName f, us_UnitType = ofr_UnitType f,
            us_Cost = ofr_SetupPrice f + total * ofr_UnitPrice f\<rparr>)"

record chanStatusBlock =
  cs_ServiceStatus :: svc_status
  cs_ChannelStatus :: chan_status
  cs_LastChanged :: "time option"
  cs_MaxInactiveTime :: u64

definition createChanStatusBlock :: "Channel \<Rightarrow> Offering \<Rightarrow> chanStatusBlock" where
  "createChanStatusBlock ch f = \<lparr>cs_ServiceStatus = ch_ServiceStatus ch, cs_ChannelStatus = ch_ChannelStatus ch,
     cs_LastChanged = ch_ServiceChangedTime ch, cs_MaxInactiveTime = ofr_MaxInactiveTimeSec f\<rparr>"

record jobBlock =
  jb_ID :: string
  jb_Type :: job_type
  jb_Status :: job_status
  jb_CreatedAt :: time

definition createJobBlock :: "Job \<Rightarrow> jobBlock" where
  "createJobBlock j = \<lparr>jb_ID = job_ID j, jb_Type = job_Type j, jb_Status = job_Status j, jb_CreatedAt = job_CreatedAt j\<rparr>"

record ClientChannelInfo =
  ci_ID :: string
  ci_Agent :: address
  ci_Client :: address
  ci_Offering :: string
  ci_OfferingHash :: HexString
  ci_TotalDeposit :: u64
  ci_ChStat :: chanStatusBlock
  ci_Job :: jobBlock
  ci_Usage :: Usage

text \<open>The last finished job of an object.\<close>

definition finished_job :: "string \<Rightarrow> Job \<Rightarrow> bool" where
  "finished_job i j \<longleftrightarrow> job_RelatedID j = i \<and> (job_Status j = JobFailed \<or> job_Status j = JobDone)"

definition last_finished :: "string \<Rightarrow> db \<Rightarrow> Job option" where
  "last_finished i d = (let js = filter (finished_job i) (db_jobs d)
     in find (\<lambda>j. list_all (\<lambda>k. job_CreatedAt k \<le> job_CreatedAt j) js) js)"

definition getChannelSessions :: "string \<Rightarrow> ('z, Session list) dbcmd" where
  "getChannelSessions i = findAllFrom SessionTable ses_Channel i"

definition createClientChannelResult :: "Channel \<Rightarrow> ('z, ClientChannelInfo) dbcmd" where
  "createClientChannelResult ch =
     bindC (findByPrimaryKey ui_ErrOfferingNotFound OfferingTable (ch_Offering ch)) (\<lambda>f.
     bindC (on_err (db_error ui_ErrJobNotFound) (bindC (query Conn (last_finished (ch_ID ch))) (of_option NoRows))) (\<lambda>job.
     bindC (getChannelSessions (ch_ID ch)) (\<lambda>sessions.
     case HexToAddress (ch_Agent ch) of (agent, ok1) \<Rightarrow>
       thenC (guardC ok1 (Text ''address''))
      (case HexToAddress (ch_Client ch) of (client, ok2) \<Rightarrow>
       thenC (guardC ok2 (Text ''address''))
      (bindC (of_sum (newUsage ch f sessions)) (\<lambda>u.
         ret \<lparr>ci_ID = ch_ID ch, ci_Agent = agent, ci_Client = client, ci_Offering = ch_Offering ch,
           ci_OfferingHash = ofr_Hash f, ci_TotalDeposit = ch_TotalDeposit ch, ci_ChStat = createChanStatusBlock ch f,
           ci_Job = createJobBlock job, ci_Usage = u\<rparr>))))))"

definition GetClientChannels ::
  "string \<Rightarrow> chan_status list \<Rightarrow> svc_status list \<Rightarrow> u64 \<Rightarrow> u64 \<Rightarrow> ('k, 'z, ClientChannelInfo list \<times> nat) uicmd" where
  "GetClientChannels tkn channelStatus serviceStatus offset limit = authorized tkn
     (bindC (getChannels channelStatus serviceStatus clientChannelsCondition offset limit) (\<lambda>(chs, total).
      bindC (mapC createClientChannelResult chs) (\<lambda>items. ret (items, total))))"

section \<open>Sessions, endpoints, transactions\<close>

definition getSessionsConditions :: "string \<Rightarrow> Session \<Rightarrow> bool" where
  "getSessionsConditions i s \<longleftrightarrow> (i \<noteq> [] \<longrightarrow> ses_Channel s = i)"

definition GetSessions :: "string \<Rightarrow> string \<Rightarrow> ('k, 'z, Session list) uicmd" where
  "GetSessions tkn i = authorized tkn (selectAllFrom SessionTable (\<lambda>_. getSessionsConditions i) id)"

definition getEndpointsConditions :: "string \<Rightarrow> string \<Rightarrow> Endpoint \<Rightarrow> bool" where
  "getEndpointsConditions i template e \<longleftrightarrow> (i \<noteq> [] \<longrightarrow> ep_Channel e = i) \<and> (template \<noteq> [] \<longrightarrow> ep_Template e = template)"

definition GetEndpoints :: "string \<Rightarrow> string \<Rightarrow> string \<Rightarrow> ('k, 'z, Endpoint list) uicmd" where
  "GetEndpoints tkn i template = authorized tkn
     (selectAllFrom EndpointTable (\<lambda>_. getEndpointsConditions i template) id)"

definition related_type_of :: "string \<rightharpoonup> related_type" where
  "related_type_of s = (if s = ''offering'' then Some JobOffering else if s = ''channel'' then Some JobChannel
     else if s = ''endpoint'' then Some JobEndpoint else if s = ''account'' then Some JobAccount
     else if s = ''transaction'' then Some JobTransaction else None)"

definition AccountAggregatedType :: string where
  "AccountAggregatedType = ''accountAggregated''"

text \<open>The database refuses a type that is not one of the enumeration.\<close>

definition GetEthTransactions :: "string \<Rightarrow> string \<Rightarrow> string \<Rightarrow> u64 \<Rightarrow> u64 \<Rightarrow> ('k, 'z, EthTx list \<times> nat) uicmd" where
  "GetEthTransactions tkn relType relID offset limit = authorized tkn
     (bindC (if relType = AccountAggregatedType
        then bindC (findByPrimaryKey ui_ErrAccountNotFound AccountTable relID) (\<lambda>acc.
          ret (\<lambda>t. tx_AddrFrom t = acc_EthAddr acc))
        else if relType \<noteq> [] then bindC (of_option (Ui ui_ErrInternal) (related_type_of relType)) (\<lambda>ty.
          ret (\<lambda>t. tx_RelatedType t = ty \<and> (relID \<noteq> [] \<longrightarrow> tx_RelatedID t = relID)))
        else ret (\<lambda>t. relID \<noteq> [] \<longrightarrow> tx_RelatedID t = relID)) (\<lambda>cond.
      bindC (numberOfObjects EthTxTable (\<lambda>_. cond)) (\<lambda>count.
      bindC (selectPage EthTxTable (\<lambda>_. cond) (order_desc tx_Issued) offset limit) (\<lambda>txs. ret (txs, count)))))"

text \<open>The token is not looked at.\<close>

definition IncreaseTxGasPrice :: "'k Ui \<Rightarrow> string \<Rightarrow> string \<Rightarrow> u64 \<Rightarrow> ('k, 'z, unit) uicmd" where
  "IncreaseTxGasPrice ui tkn i gasPrice =
     thenC (guardC (i \<noteq> []) (Ui ui_ErrAccessDenied))
    (bindC (on_err (uierr ui_ErrTxNotFound) (find_pk EthTxTable Conn i)) (\<lambda>ethTx.
     thenC (guardC (\<not> gasPrice \<le> tx_GasPrice ethTx) (Ui ui_ErrTxIsUnderpriced))
       (AddWithData (ui_queue ui) Conn JobIncreaseTxGasPrice JobTransaction i JobUser (enc_PublishData gasPrice))))"

section \<open>Jobs\<close>

definition getJobsConditions :: "string \<Rightarrow> time option \<Rightarrow> time option \<Rightarrow> job_status list \<Rightarrow> Job \<Rightarrow> bool" where
  "getJobsConditions jtype dfrom dto statuses j \<longleftrightarrow> (statuses \<noteq> [] \<longrightarrow> job_Status j \<in> set statuses)
     \<and> (jtype \<noteq> [] \<longrightarrow> job_type_string (job_Type j) = jtype)
     \<and> (case dfrom of None \<Rightarrow> True | Some t \<Rightarrow> t \<le> job_CreatedAt j)
     \<and> (case dto of None \<Rightarrow> True | Some t \<Rightarrow> job_CreatedAt j < t)"

definition GetJobs ::
  "string \<Rightarrow> string \<Rightarrow> time option \<Rightarrow> time option \<Rightarrow> job_status list \<Rightarrow> u64 \<Rightarrow> u64 \<Rightarrow> ('k, 'z, Job list \<times> nat) uicmd" where
  "GetJobs tkn jtype dfrom dto statuses offset limit = authorized tkn
     (let cond = (\<lambda>_. getJobsConditions jtype dfrom dto statuses) in
      bindC (numberOfObjects JobTable cond) (\<lambda>count.
      bindC (selectPage JobTable cond (order_desc job_CreatedAt) offset limit) (\<lambda>jobs. ret (jobs, count))))"

definition ReactivateJob :: "string \<Rightarrow> string \<Rightarrow> ('k, 'z, unit) uicmd" where
  "ReactivateJob tkn i = authorized tkn
     (thenC (guardC (i \<noteq> []) (Ui ui_ErrJobNotFound))
     (bindC (findByPrimaryKey ui_ErrJobNotFound JobTable i) (\<lambda>j.
      thenC (guardC (job_Status j \<noteq> JobDone) (Ui ui_ErrSuccessJobNonReactivatable))
     (thenC (guardC (job_Status j \<noteq> JobActive) (Ui ui_ErrAlreadyActiveJob))
       (on_err (uierr ui_ErrInternal) (save_row JobTable Conn (j\<lparr>job_Status := JobActive, job_TryCount := 0\<rparr>)))))))"

end
