(* ===== verification/UiAccount.thy ===== *)
theory UiAccount
  imports UiBase
begin

text \<open>
  The calls of the user about accounts, settings, products and templates (\<open>account.go\<close>, \<open>setting.go\<close>,
  \<open>gui.go\<close>, \<open>product.go\<close>, \<open>template.go\<close> of \<open>src/ui\<close>). A map that the user sends is the list of its
  entries in the order the code happens to visit them.
\<close>

section \<open>Accounts\<close>

record AccountParams =
  ap_Name :: string
  ap_IsDefault :: bool
  ap_InUse :: bool

definition prefilledAccount :: "AccountParams option \<Rightarrow> Account" where
  "prefilledAccount p =
     (let acc = \<lparr>acc_ID = [], acc_EthAddr = [], acc_PublicKey = [], acc_PrivateKey = [], acc_IsDefault = False,
        acc_InUse = False, acc_Name = [], acc_PTCBalance = 0, acc_PSCBalance = 0, acc_EthBalance = [],
        acc_LastBalanceCheck = None\<rparr>
      in case p of None \<Rightarrow> acc
         | Some ps \<Rightarrow> acc\<lparr>acc_Name := ap_Name ps, acc_IsDefault := ap_IsDefault ps, acc_InUse := ap_InUse ps\<rparr>)"

definition ExportPrivateKey :: "string \<Rightarrow> string \<Rightarrow> ('k, 'z, bytes) uicmd" where
  "ExportPrivateKey tkn i = authorized tkn
     (bindC (findByPrimaryKey ui_ErrAccountNotFound AccountTable i) (\<lambda>acc.
        of_option (Ui ui_ErrInternal) (ToBytes (acc_PrivateKey acc))))"

definition GetAccounts :: "string \<Rightarrow> ('k, 'z, Account list) uicmd" where
  "GetAccounts tkn = authorized tkn (selectAllFrom AccountTable (\<lambda>_ _. True) id)"

definition hexPrivateKeyToECDSA :: "'k Ui \<Rightarrow> HexString \<Rightarrow> ('s, go_error, 'k) cmd" where
  "hexPrivateKeyToECDSA ui privateKey = (case HexToBytes privateKey of (pkBytes, ok) \<Rightarrow>
     thenC (guardC ok (Ui ui_ErrFailedToDecodePrivateKey))
       (of_option (Ui ui_ErrInternal) (ui_toECDSA ui pkBytes)))"

definition jsonPrivateKeyToECDSA :: "'k Ui \<Rightarrow> bytes \<Rightarrow> string \<Rightarrow> ('s, go_error, 'k) cmd" where
  "jsonPrivateKeyToECDSA ui jsonBlob password =
     of_option (Ui ui_ErrFailedToDecryptPKey) (ui_decryptKey ui jsonBlob password)"

text \<open>Whatever error the key comes with, the user is told of an internal one.\<close>

definition fillAndSaveAccount ::
  "'k Ui \<Rightarrow> Account \<Rightarrow> ('k, 'z, 'k) uicmd \<Rightarrow> bool \<Rightarrow> ('k, 'z, string) uicmd" where
  "fillAndSaveAccount ui acc makeECDSA refresh =
     bindC new_uuid (\<lambda>i.
     bindC (on_err (uierr ui_ErrInternal) makeECDSA) (\<lambda>pk.
     bindC (getC u_password) (\<lambda>pwd.
     bindC (of_option (Ui ui_ErrInternal) (EncryptedKey ui pk pwd)) (\<lambda>enc.
     thenC (insert_ui Conn AccountTable
        [acc\<lparr>acc_ID := i, acc_PrivateKey := enc, acc_PublicKey := FromBytes (ui_pubKey ui pk),
           acc_EthAddr := HexFromBytes (address_bytes (cr_address (ui_crypto ui) pk)),
           acc_PTCBalance := 0, acc_PSCBalance := 0, acc_EthBalance := FromBytes [0]\<rparr>])
    (thenC (whenC refresh (on_err (uierr ui_ErrInternal)
        (AddSimple (ui_queue ui) Conn JobAccountUpdateBalances JobAccount i JobUser)))
       (ret i))))))"

definition GenerateAccount :: "'k Ui \<Rightarrow> string \<Rightarrow> AccountParams option \<Rightarrow> ('k, 'z, string) uicmd" where
  "GenerateAccount ui tkn params = authorized tkn
     (fillAndSaveAccount ui (prefilledAccount params)
        (bindC random_bytes (\<lambda>b. of_option (Text ''generate'') (ui_generate ui b))) False)"

definition ImportAccountFromHex :: "'k Ui \<Rightarrow> string \<Rightarrow> AccountParams \<Rightarrow> HexString \<Rightarrow> ('k, 'z, string) uicmd" where
  "ImportAccountFromHex ui tkn params privateKeyHex = authorized tkn
     (fillAndSaveAccount ui (prefilledAccount (Some params)) (hexPrivateKeyToECDSA ui privateKeyHex) True)"

definition ImportAccountFromJSON ::
  "'k Ui \<Rightarrow> string \<Rightarrow> AccountParams option \<Rightarrow> bytes \<Rightarrow> string \<Rightarrow> ('k, 'z, string) uicmd" where
  "ImportAccountFromJSON ui tkn params jsonBlob jsonKeyStorePassword = authorized tkn
     (fillAndSaveAccount ui (prefilledAccount params) (jsonPrivateKeyToECDSA ui jsonBlob jsonKeyStorePassword) True)"

definition ContractPTC :: string where
  "ContractPTC = ''ptc''"

definition ContractPSC :: string where
  "ContractPSC = ''psc''"

definition TransferTokens :: "'k Ui \<Rightarrow> string \<Rightarrow> string \<Rightarrow> string \<Rightarrow> u64 \<Rightarrow> u64 \<Rightarrow> ('k, 'z, unit) uicmd" where
  "TransferTokens ui tkn i destination amount gasPrice = authorized tkn
     (thenC (guardC (amount \<noteq> 0) (Ui ui_ErrTokenAmountTooSmall))
     (thenC (guardC (destination = ContractPSC \<or> destination = ContractPTC) (Ui ui_ErrBadDestination))
     (bindC (findByPrimaryKey ui_ErrAccountNotFound AccountTable i) (\<lambda>_.
        on_err (uierr ui_ErrInternal) (AddWithData (ui_queue ui) Conn
          (if destination = ContractPTC then JobPreAccountReturnBalance else JobPreAccountAddBalanceApprove)
          JobAccount i JobUser (enc_BalanceData \<lparr>bal_GasPrice = gasPrice, bal_Amount = amount\<rparr>))))))"

definition UpdateBalance :: "'k Ui \<Rightarrow> string \<Rightarrow> string \<Rightarrow> ('k, 'z, unit) uicmd" where
  "UpdateBalance ui tkn i = authorized tkn
     (bindC (findByPrimaryKey ui_ErrAccountNotFound AccountTable i) (\<lambda>_.
        on_err (uierr ui_ErrInternal) (AddSimple (ui_queue ui) Conn JobAccountUpdateBalances JobAccount i JobUser)))"

definition UpdateAccount :: "string \<Rightarrow> string \<Rightarrow> string \<Rightarrow> bool \<Rightarrow> bool \<Rightarrow> ('k, 'z, unit) uicmd" where
  "UpdateAccount tkn i name isDefault inUse = authorized tkn
     (bindC (findByPrimaryKey ui_ErrAccountNotFound AccountTable i) (\<lambda>found.
      let acc = found\<lparr>acc_Name := (if name \<noteq> [] then name else acc_Name found), acc_IsDefault := isDefault,
                 acc_InUse := inUse\<rparr>
      in if isDefault
         then on_err (uierr ui_ErrInternal) (in_tx
           (thenC (bindC (exec_update AccountTable Tx (\<lambda>_. True) (\<lambda>a. a\<lparr>acc_IsDefault := False\<rparr>)) (\<lambda>_. ret ()))
             (update_ui Tx AccountTable [acc])))
         else update_ui Conn AccountTable [acc]))"

definition SuggestGasPrice :: "'k Ui \<Rightarrow> string \<Rightarrow> ('k, 'z, u64) uicmd" where
  "SuggestGasPrice ui tkn = authorized tkn (suggestedGasPrice ui)"

section \<open>Settings\<close>

definition AccessDenied :: int where "AccessDenied = 0"
definition ReadOnly :: int where "ReadOnly = 1"
definition ReadWrite :: int where "ReadWrite = 2"

record SettingUI =
  sui_Value :: string
  sui_Permissions :: string

definition PermissionsToString :: "int \<Rightarrow> string" where
  "PermissionsToString p = (if p = ReadOnly then ''readOnly'' else if p = ReadWrite then ''readWrite'' else [])"

definition GetSettings :: "string \<Rightarrow> ('k, 'z, (string \<times> SettingUI) list) uicmd" where
  "GetSettings tkn = authorized tkn
     (bindC (selectAllFrom SettingTable (\<lambda>_ s. 0 < set_Permissions s) id) (\<lambda>settings.
        ret (map (\<lambda>s. (set_Key s, \<lparr>sui_Value = set_Value s,
          sui_Permissions = PermissionsToString (set_Permissions s)\<rparr>)) settings)))"

definition validateSetting :: "string \<Rightarrow> string \<Rightarrow> ('s, go_error, unit) cmd" where
  "validateSetting k v = ret ()"

definition updateSetting :: "string \<times> string \<Rightarrow> ('z, unit) dbcmd" where
  "updateSetting item = (case item of (k, v) \<Rightarrow>
     bindC (on_err (uierr ui_ErrInternal) (find_pk SettingTable Tx k)) (\<lambda>fromDB.
       whenC (set_Permissions fromDB = ReadWrite)
         (on_err (uierr ui_ErrInternal) (update_row SettingTable Tx (fromDB\<lparr>set_Value := v\<rparr>)))))"

definition UpdateSettings :: "string \<Rightarrow> (string \<times> string) list \<Rightarrow> ('k, 'z, unit) uicmd" where
  "UpdateSettings tkn items = authorized tkn (on_err catchError (in_tx
     (thenC (eachC (\<lambda>(k, v). validateSetting k v) items) (eachC updateSetting items))))"

text \<open>The settings of the graphical interface are one document.\<close>

definition GetGUISettings :: "'k Ui \<Rightarrow> string \<Rightarrow> ('k, 'z, string) uicmd" where
  "GetGUISettings ui tkn = authorized tkn
     (bindC (on_err (uierr ui_ErrInternal) (ReadSetting Conn SettingGUI)) (\<lambda>s.
        thenC (guardC (ui_isObject ui s) (Ui ui_ErrInternal)) (ret s)))"

definition SetGUISettings :: "string \<Rightarrow> string \<Rightarrow> ('k, 'z, unit) uicmd" where
  "SetGUISettings tkn d = authorized tkn
     (bindC (on_err (uierr ui_ErrInternal) (exec_update SettingTable Conn (\<lambda>s. set_Key s = SettingGUI)
        (\<lambda>s. s\<lparr>set_Value := d\<rparr>))) (\<lambda>_. ret ()))"

section \<open>Products and templates\<close>

definition isValidSEAddress :: "'k Ui \<Rightarrow> string \<Rightarrow> bool" where
  "isValidSEAddress ui address = (if ui_isIP ui address \<or> ui_isHost ui address then True else False)"

definition valid_endpoint :: "'k Ui \<Rightarrow> Product \<Rightarrow> bool" where
  "valid_endpoint ui product \<longleftrightarrow>
     (case prd_ServiceEndpointAddress product of None \<Rightarrow> True | Some a \<Rightarrow> isValidSEAddress ui a)"

definition CreateProduct :: "'k Ui \<Rightarrow> string \<Rightarrow> Product \<Rightarrow> ('k, 'z, string) uicmd" where
  "CreateProduct ui tkn product = authorized tkn
     (thenC (guardC (valid_endpoint ui product) (Ui ui_ErrBadServiceEndpointAddress))
     (bindC new_uuid (\<lambda>i. thenC (insert_ui Conn ProductTable [product\<lparr>prd_ID := i\<rparr>]) (ret i))))"

definition UpdateProduct :: "'k Ui \<Rightarrow> string \<Rightarrow> Product \<Rightarrow> ('k, 'z, unit) uicmd" where
  "UpdateProduct ui tkn product = authorized tkn
     (bindC (findByPrimaryKey ui_ErrProductNotFound ProductTable (prd_ID product)) (\<lambda>oldProduct.
      thenC (guardC (valid_endpoint ui product) (Ui ui_ErrBadServiceEndpointAddress))
        (update_ui Conn ProductTable
          [product\<lparr>prd_Salt := (if prd_Salt product = 0 then prd_Salt oldProduct else prd_Salt product),
             prd_Password := (if prd_Password product = [] then prd_Password oldProduct else prd_Password product)\<rparr>])))"

definition GetProducts :: "string \<Rightarrow> ('k, 'z, Product list) uicmd" where
  "GetProducts tkn = authorized tkn
     (on_err (uierr ui_ErrInternal) (select_all ProductTable Conn prd_IsServer))"

text \<open>The column of the kind is an enumeration, so asking for another kind is an error.\<close>

definition GetTemplates :: "string \<Rightarrow> tpl_kind option \<Rightarrow> ('k, 'z, Template list) uicmd" where
  "GetTemplates tkn tplType = authorized tkn (case tplType of
     None \<Rightarrow> selectAllFrom TemplateTable (\<lambda>_ _. True) id
   | Some (TemplateOther _) \<Rightarrow> fail (Ui ui_ErrInternal)
   | Some kind \<Rightarrow> selectAllFrom TemplateTable (\<lambda>_ t. tpl_Kind t = kind) id)"

definition checkTemplate :: "'k Ui \<Rightarrow> Template \<Rightarrow> ('s, go_error, unit) cmd" where
  "checkTemplate ui template =
     thenC (guardC (tpl_Kind template = TemplateOffer \<or> tpl_Kind template = TemplateAccess) (Ui ui_ErrInvalidTemplateType))
       (guardC (ui_isObject ui (tpl_Raw template)) (Ui ui_ErrMalformedTemplate))"

definition insertObject :: "'r table \<Rightarrow> 'r \<Rightarrow> ('z, unit) dbcmd" where
  "insertObject T object = on_err (uierr ui_ErrInternal) (insert_row T Conn object)"

definition CreateTemplate :: "'k Ui \<Rightarrow> string \<Rightarrow> Template \<Rightarrow> ('k, 'z, string) uicmd" where
  "CreateTemplate ui tkn template = authorized tkn
     (thenC (checkTemplate ui template)
     (bindC new_uuid (\<lambda>i.
      thenC (insertObject TemplateTable (template\<lparr>tpl_ID := i,
          tpl_Hash := HexFromBytes (cr_kec (ui_crypto ui) (map of_char (tpl_Raw template)))\<rparr>))
        (ret i))))"

end
