(* ===== verification/UiObject.thy ===== *)
theory UiObject
  imports UiChannel UiAccount
begin

text \<open>
  Single objects (\<open>src/ui/object.go\<close>) and the subscription to their changes (\<open>src/ui/subscribe.go\<close>).
  An object is returned as the row it is, not as its JSON text; of a contract only the text is known.
\<close>

section \<open>Objects\<close>

datatype (plugins only: code size) ui_object =
    OAccount Account | OUser User | OTemplate Template | OProduct Product | OOffering Offering | OChannel Channel
  | OSession Session | OEndpoint Endpoint | OJob Job | OEthTx EthTx | OContract string | ONoTx

definition by_pk :: "'r table \<Rightarrow> ('r \<Rightarrow> ui_object) \<Rightarrow> string \<Rightarrow> ('z, ui_object) dbcmd" where
  "by_pk T obj i = bindC (find_pk T Conn i) (\<lambda>r. ret (obj r))"

definition by_hash :: "'r table \<Rightarrow> ('r \<Rightarrow> string) \<Rightarrow> ('r \<Rightarrow> ui_object) \<Rightarrow> string \<Rightarrow> ('z, ui_object) dbcmd" where
  "by_hash T column obj h = bindC (select_one T Conn (\<lambda>r. column r = h)) (\<lambda>r. ret (obj r))"

definition objectTypes :: "'k Ui \<Rightarrow> string \<Rightarrow> (string \<Rightarrow> ('z, ui_object) dbcmd) option" where
  "objectTypes ui ty =
     (if ty = ''account'' then Some (by_pk AccountTable OAccount)
      else if ty = ''user'' then Some (by_pk UserTable OUser)
      else if ty = ''template'' then Some (by_pk TemplateTable OTemplate)
      else if ty = ''product'' then Some (by_pk ProductTable OProduct)
      else if ty = ''offering'' then Some (by_pk OfferingTable OOffering)
      else if ty = ''channel'' then Some (by_pk ChannelTable OChannel)
      else if ty = ''session'' then Some (by_pk SessionTable OSession)
      else if ty = ''contract'' then Some (\<lambda>i. thenC (db_call Conn)
        (bindC (of_option NoRows (ui_contract ui i)) (\<lambda>c. ret (OContract c))))
      else if ty = ''endpoint'' then Some (by_pk EndpointTable OEndpoint)
      else if ty = ''job'' then Some (by_pk JobTable OJob)
      else if ty = ''ethTx'' then Some (by_pk EthTxTable OEthTx)
      else None)"

definition objectWithHashTypes :: "string \<Rightarrow> (string \<Rightarrow> ('z, ui_object) dbcmd) option" where
  "objectWithHashTypes ty =
     (if ty = ''template'' then Some (by_hash TemplateTable tpl_Hash OTemplate)
      else if ty = ''offering'' then Some (by_hash OfferingTable ofr_Hash OOffering)
      else if ty = ''endpoint'' then Some (by_hash EndpointTable ep_Hash OEndpoint)
      else if ty = ''ethTx'' then Some (by_hash EthTxTable tx_Hash OEthTx)
      else None)"

definition GetObject :: "'k Ui \<Rightarrow> string \<Rightarrow> string \<Rightarrow> string \<Rightarrow> ('k, 'z, ui_object) uicmd" where
  "GetObject ui tkn objectType i = authorized tkn
     (bindC (of_option (Ui ui_ErrBadObjectType) (objectTypes ui objectType)) (\<lambda>get.
        on_err (uierr ui_ErrObjectNotFound) (get i)))"

definition GetObjectByHash :: "string \<Rightarrow> string \<Rightarrow> string \<Rightarrow> ('k, 'z, ui_object) uicmd" where
  "GetObjectByHash tkn objectType h = authorized tkn
     (bindC (of_option (Ui ui_ErrBadObjectType) (objectWithHashTypes objectType)) (\<lambda>get.
        on_err (uierr ui_ErrObjectNotFound) (get h)))"

section \<open>Subscriptions\<close>

record ObjectChangeResult =
  oc_Object :: "ui_object option"
  oc_Job :: Job
  oc_Error :: "go_error option"

text \<open>The record a job is about. When it is not found there is none, but for the transaction of a job,
  which is an empty one then.\<close>

definition getRecordFuncs :: "related_type \<Rightarrow> Job \<Rightarrow> ('z, ui_object option) dbcmd" where
  "getRecordFuncs ty j =
     (let some = (\<lambda>get missing. handleC get (\<lambda>_. ret missing) (\<lambda>x. ret (Some x))) in
      case ty of
        JobOffering \<Rightarrow> some (by_pk OfferingTable OOffering (job_RelatedID j)) None
      | JobChannel \<Rightarrow> some (by_pk ChannelTable OChannel (job_RelatedID j)) None
      | JobEndpoint \<Rightarrow> some (by_pk EndpointTable OEndpoint (job_RelatedID j)) None
      | JobAccount \<Rightarrow> some (by_pk AccountTable OAccount (job_RelatedID j)) None
      | JobTransaction \<Rightarrow> some (bindC (select_one EthTxTable Conn (\<lambda>t. tx_JobID t = Some (job_ID j))) (\<lambda>t. ret (OEthTx t)))
          (Some ONoTx))"

definition object_change :: "related_type \<Rightarrow> Job \<Rightarrow> go_error option \<Rightarrow> ('z, ObjectChangeResult) dbcmd" where
  "object_change ty j result = bindC (getRecordFuncs ty j) (\<lambda>obj.
     ret \<lparr>oc_Object = obj, oc_Job = j, oc_Error = result\<rparr>)"

text \<open>The identifier of the subscription is drawn by the RPC server. What is subscribed is returned.\<close>

definition ObjectChange :: "string \<Rightarrow> string \<Rightarrow> string list \<Rightarrow> string \<Rightarrow> ('k, 'z, related_type) uicmd" where
  "ObjectChange tkn objectType objectIDs sid = authorized tkn
     (bindC (of_option (Ui ui_ErrBadObjectType) (related_type_of objectType)) (\<lambda>ty w.
        case Subscribe objectIDs sid (q_subs w) of
          (None, m) \<Rightarrow> (Inr ty, w\<lparr>q_subs := m\<rparr>)
        | (Some _, m) \<Rightarrow> (Inl (Ui ui_ErrInternal), w\<lparr>q_subs := m\<rparr>)))"

definition end_subscription :: "string list \<Rightarrow> string \<Rightarrow> ('k, 'z, unit) uicmd" where
  "end_subscription objectIDs sid = modC (\<lambda>w. w\<lparr>q_subs := snd (Unsubscribe objectIDs sid (q_subs w))\<rparr>)"

end
