(* ===== verification/UiReport.thy ===== *)
theory UiReport
  imports UiObject
begin

text \<open>
  Figures the user asks for (\<open>income.go\<close>, \<open>usage.go\<close>, \<open>eth_log.go\<close> of \<open>src/ui\<close>): what the channels
  of an offering or a product have earned and used, and the last block known. The database adds without
  bound; what does not fit 63 bits is an error of the driver, and a sum over nothing is \<open>NULL\<close>,
  which reads as zero.
\<close>

section \<open>Income and usage\<close>

definition uintFromQuery :: "string \<Rightarrow> (db \<Rightarrow> int) \<Rightarrow> ('k, 'z, u64) uicmd" where
  "uintFromQuery tkn figure = authorized tkn
     (bindC (on_err (uierr ui_ErrInternal) (query Conn figure)) (\<lambda>n.
      thenC (guardC (n < 2 ^ 63) (Ui ui_ErrInternal)) (ret (word_of_int n))))"

definition channels_of :: "db \<Rightarrow> string \<Rightarrow> Channel list" where
  "channels_of d i = filter (\<lambda>ch. ch_Offering ch = i) (db_channels d)"

definition offerings_of :: "db \<Rightarrow> string \<Rightarrow> Offering list" where
  "offerings_of d i = filter (\<lambda>f. ofr_Product f = i) (db_offerings d)"

definition income :: "Channel list \<Rightarrow> int" where
  "income chs = sum_list (map (\<lambda>ch. uint (ch_ReceiptBalance ch)) chs)"

definition units_of :: "db \<Rightarrow> Channel list \<Rightarrow> int" where
  "units_of d chs = sum_list (map (\<lambda>ch. sum_list (map (\<lambda>s. uint (ses_UnitsUsed s))
     (filter (\<lambda>s. ses_Channel s = ch_ID ch) (db_sessions d)))) chs)"

definition GetOfferingIncome :: "string \<Rightarrow> string \<Rightarrow> ('k, 'z, u64) uicmd" where
  "GetOfferingIncome tkn offeringID = uintFromQuery tkn (\<lambda>d. income (channels_of d offeringID))"

definition GetProductIncome :: "string \<Rightarrow> string \<Rightarrow> ('k, 'z, u64) uicmd" where
  "GetProductIncome tkn productID = uintFromQuery tkn
     (\<lambda>d. sum_list (map (\<lambda>f. income (channels_of d (ofr_ID f))) (offerings_of d productID)))"

definition GetTotalIncome :: "string \<Rightarrow> ('k, 'z, u64) uicmd" where
  "GetTotalIncome tkn = uintFromQuery tkn (\<lambda>d. income (db_channels d))"

definition GetOfferingUsage :: "string \<Rightarrow> string \<Rightarrow> ('k, 'z, u64) uicmd" where
  "GetOfferingUsage tkn offeringID = uintFromQuery tkn (\<lambda>d. units_of d (channels_of d offeringID))"

definition GetProductUsage :: "string \<Rightarrow> string \<Rightarrow> ('k, 'z, u64) uicmd" where
  "GetProductUsage tkn productID = uintFromQuery tkn
     (\<lambda>d. sum_list (map (\<lambda>f. units_of d (channels_of d (ofr_ID f))) (offerings_of d productID)))"

text \<open>The income of a product is that of its offerings, and all offerings together earn the total when no channel
  has lost its offering.\<close>

lemma income_append [simp]: "income (xs @ ys) = income xs + income ys"
  by (simp add: income_def)

lemma income_partition: "income chs = income (filter P chs) + income (filter (\<lambda>ch. \<not> P ch) chs)"
  by (induction chs) (simp_all add: income_def)

lemma total_income:
  assumes "distinct ids" "\<forall>ch \<in> set (db_channels d). ch_Offering ch \<in> set ids"
  shows "sum_list (map (\<lambda>i. income (channels_of d i)) ids) = income (db_channels d)"
proof -
  have "sum_list (map (\<lambda>i. income (filter (\<lambda>ch. ch_Offering ch = i) chs)) ids) = income chs"
    if "\<forall>ch \<in> set chs. ch_Offering ch \<in> set ids" for chs
    using that assms(1)
  proof (induction ids arbitrary: chs)
    case (Cons i ids)
    let ?rest = "filter (\<lambda>ch. ch_Offering ch \<noteq> i) chs"
    have "filter (\<lambda>ch. ch_Offering ch = k) ?rest = filter (\<lambda>ch. ch_Offering ch = k) chs" if "k \<in> set ids" for k
      using that Cons.prems(2) by (auto intro!: filter_cong)
    then have "sum_list (map (\<lambda>k. income (filter (\<lambda>ch. ch_Offering ch = k) chs)) ids)
        = sum_list (map (\<lambda>k. income (filter (\<lambda>ch. ch_Offering ch = k) ?rest)) ids)"
      by (intro arg_cong [where f = sum_list] map_cong) simp_all
    also have "\<dots> = income ?rest" using Cons.prems by (intro Cons.IH) auto
    finally show ?case using income_partition [of chs "\<lambda>ch. ch_Offering ch = i"] by simp
  qed (simp add: income_def)
  with assms(2) show ?thesis by (simp add: channels_of_def)
qed

section \<open>The last block\<close>

text \<open>The cast of a text to \<open>bigint\<close>; the outer \<open>None\<close> is the error, the inner one \<open>NULL\<close>.\<close>

definition in_bigint :: "int \<Rightarrow> bool" where
  "in_bigint n \<longleftrightarrow> - (2 ^ 63) \<le> n \<and> n < 2 ^ 63"

definition text_bigint :: "string \<Rightarrow> int option" where
  "text_bigint s = (let (sign, ds) = (case trim_space s of [] \<Rightarrow> (1, []) | c # cs \<Rightarrow>
        if c = CHR ''-'' then (- 1, cs) else if c = CHR ''+'' then (1, cs) else (1, c # cs)) in
     case parse_uint 64 ds of None \<Rightarrow> None
     | Some n \<Rightarrow> if in_bigint (sign * int n) then Some (sign * int n) else None)"

definition json_bigint :: "json option \<Rightarrow> int option option" where
  "json_bigint j = (case j of None \<Rightarrow> Some None | Some JNull \<Rightarrow> Some None
     | Some (JNum n) \<Rightarrow> if in_bigint n then Some (Some n) else None
     | Some (JStr s) \<Rightarrow> map_option Some (text_bigint s) | _ \<Rightarrow> None)"

definition log_blocks :: "db \<Rightarrow> int option list option" where
  "log_blocks d = those (map (\<lambda>j. json_bigint (sql_get ''block'' (sql_get ''ethereumLog'' (job_Data j)))) (db_jobs d))"

definition max_block :: "int option list \<Rightarrow> int" where
  "max_block bs = (case [b. Some b \<leftarrow> bs] of [] \<Rightarrow> 0 | n # ns \<Rightarrow> foldl max n ns)"

definition GetLastBlockNumber :: "string \<Rightarrow> ('k, 'z, u64) uicmd" where
  "GetLastBlockNumber tkn = authorized tkn
     (bindC minConfirmations (\<lambda>n.
      bindC (on_err (uierr ui_ErrInternal) (bindC (query Conn log_blocks) (of_option DBFail))) (\<lambda>bs.
        ret (word_of_int (max_block bs) + n))))"

end
