(* ===== verification/UiLogs.thy ===== *)
theory UiLogs
  imports UiBase
begin

text \<open>
  The search in the log (\<open>logs.go\<close> of \<open>src/ui\<close>) and the role (\<open>userrole.go\<close>): the SQL text and its
  arguments, as the code builds them from the filters of the caller. What the database answers to a
  text and its arguments is a parameter, since the program never writes the table itself. The lemmas
  show that the text depends on the shape of the request alone, but for a search for a single word,
  which is spliced into it.
\<close>

section \<open>Texts\<close>

definition Placeholder :: "nat \<Rightarrow> string" where
  "Placeholder n = ''$'' @ decimal n"

definition Placeholders :: "nat \<Rightarrow> nat \<Rightarrow> string list" where
  "Placeholders start n = map Placeholder [start..<start + n]"

fun Join :: "string list \<Rightarrow> string \<Rightarrow> string" where
  "Join [] sep = []"
| "Join [x] sep = x"
| "Join (x # y # xs) sep = x @ sep @ Join (y # xs) sep"

fun Split :: "string \<Rightarrow> char \<Rightarrow> string list" where
  "Split [] sep = [[]]"
| "Split (c # cs) sep = (if c = sep then [] # Split cs sep else (case Split cs sep of w # ws \<Rightarrow> (c # w) # ws | [] \<Rightarrow> [[c]]))"

definition join_conditions :: "string \<Rightarrow> string \<Rightarrow> string \<Rightarrow> string" where
  "join_conditions conditions operator condition =
     (if conditions = [] then condition else conditions @ '' '' @ operator @ '' '' @ condition)"

section \<open>Conditions\<close>

record getLogsArgs =
  lga_level :: "string list"
  lga_dateFrom :: string
  lga_dateTo :: string
  lga_searchText :: string

text \<open>The conditions so far, their arguments, and the number of the next placeholder.\<close>

type_synonym building = "string \<times> string list \<times> nat"

definition level_part :: "string list \<Rightarrow> building \<Rightarrow> building" where
  "level_part levels = (\<lambda>(conditions, arguments, count). if levels = [] then (conditions, arguments, count)
     else (join_conditions conditions ''AND'' (''level in ('' @ Join (Placeholders count (length levels)) '','' @ '')''),
       arguments @ levels, count + length levels))"

definition date_part :: "string \<Rightarrow> string \<Rightarrow> building \<Rightarrow> building" where
  "date_part comparison date = (\<lambda>(conditions, arguments, count). if date = [] then (conditions, arguments, count)
     else (join_conditions conditions ''AND'' (''time '' @ comparison @ '' '' @ Placeholder count), arguments @ [date], count + 1))"

definition quote :: string where
  "quote = [CHR 0x27]"

definition contextSearchSQL :: "string \<Rightarrow> string" where
  "contextSearchSQL word = ''to_tsvector('' @ quote @ ''english'' @ quote @ '', context) @@ to_tsquery('' @ quote @ word @ '':*'' @ quote @ '')''"

definition search_part :: "string \<Rightarrow> building \<Rightarrow> building" where
  "search_part searchText = (\<lambda>(conditions, arguments, count). if searchText = [] then (conditions, arguments, count)
     else let like = ''message like '' @ Placeholder count;
       condition = (if length (Split searchText (CHR '' '')) = 1 then ''('' @ contextSearchSQL searchText @ '' OR '' @ like @ '')'' else like)
     in (join_conditions conditions ''AND'' condition, arguments @ [''%'' @ searchText @ ''%''], count + 1))"

definition built_conditions :: "getLogsArgs \<Rightarrow> building" where
  "built_conditions args = search_part (lga_searchText args) (date_part ''<'' (lga_dateTo args)
     (date_part ''>='' (lga_dateFrom args) (level_part (lga_level args) ([], [], 1))))"

definition getLogsConditions :: "getLogsArgs \<Rightarrow> string \<times> string list" where
  "getLogsConditions args = (case built_conditions args of (conditions, arguments, _) \<Rightarrow> (''WHERE '' @ conditions, arguments))"

section \<open>Calls\<close>

record LogEvent =
  lev_Time :: nat
  lev_Level :: string
  lev_Message :: string
  lev_Context :: string
  lev_Stack :: "string option"

record GetLogsResult =
  glr_Items :: "LogEvent list"
  glr_TotalItems :: int

text \<open>The answers of the database; \<open>None\<close> is an error.\<close>

record log_table =
  log_count :: "string \<Rightarrow> string list \<Rightarrow> int option"
  log_select :: "string \<Rightarrow> string list \<Rightarrow> LogEvent list option"

definition getTotalLogEvents :: "log_table \<Rightarrow> string \<Rightarrow> string list \<Rightarrow> ('k, 'z, int) uicmd" where
  "getTotalLogEvents lt conditions arguments = on_err (uierr ui_ErrInternal)
     (of_option DBFail (log_count lt (''SELECT COUNT(*) FROM log_events '' @ conditions) arguments))"

definition log_tail :: "string \<Rightarrow> u64 \<Rightarrow> u64 \<Rightarrow> string" where
  "log_tail conditions offset limit = conditions @ '' ORDER BY time DESC ''
     @ (if limit \<noteq> 0 then '' LIMIT '' @ decimal (unat limit) @ '' '' else []) @ '' OFFSET '' @ decimal (unat offset)"

definition getLogs :: "log_table \<Rightarrow> string \<Rightarrow> string list \<Rightarrow> u64 \<Rightarrow> u64 \<Rightarrow> ('k, 'z, LogEvent list) uicmd" where
  "getLogs lt conditions arguments offset limit = on_err (uierr ui_ErrInternal)
     (of_option DBFail (log_select lt (log_tail conditions offset limit) arguments))"

definition GetLogs :: "log_table \<Rightarrow> string \<Rightarrow> string list \<Rightarrow> string \<Rightarrow> string \<Rightarrow> string \<Rightarrow> u64 \<Rightarrow> u64 \<Rightarrow> ('k, 'z, GetLogsResult) uicmd" where
  "GetLogs lt tkn levels searchText dateFrom dateTo offset limit = authorized tkn
     (case getLogsConditions \<lparr>lga_level = levels, lga_dateFrom = dateFrom, lga_dateTo = dateTo, lga_searchText = searchText\<rparr> of
        (conditions, arguments) \<Rightarrow>
          bindC (getTotalLogEvents lt conditions arguments) (\<lambda>totalItems.
          bindC (getLogs lt conditions arguments offset limit) (\<lambda>result.
            ret \<lparr>glr_Items = result, glr_TotalItems = totalItems\<rparr>)))"

definition GetUserRole :: "string \<Rightarrow> ('k, 'z, string) uicmd" where
  "GetUserRole userRole = ret userRole"

section \<open>What the text depends on\<close>

text \<open>The placeholders and the arguments go together: the next number is one above the arguments.\<close>

definition numbered :: "building \<Rightarrow> bool" where
  "numbered = (\<lambda>(conditions, arguments, count). count = length arguments + 1)"

lemma parts_numbered:
  "numbered b \<Longrightarrow> numbered (level_part levels b)" "numbered b \<Longrightarrow> numbered (date_part cmp date b)"
  "numbered b \<Longrightarrow> numbered (search_part txt b)"
  by (auto simp: numbered_def level_part_def date_part_def search_part_def Let_def split: prod.splits)

lemma built_numbered: "numbered (built_conditions args)"
  unfolding built_conditions_def by (intro parts_numbered) (simp add: numbered_def)

definition many_words :: "string \<Rightarrow> bool" where
  "many_words txt \<longleftrightarrow> length (Split txt (CHR '' '')) \<noteq> 1"

definition same_shape :: "getLogsArgs \<Rightarrow> getLogsArgs \<Rightarrow> bool" where
  "same_shape a b \<longleftrightarrow> length (lga_level a) = length (lga_level b) \<and> (lga_dateFrom a = [] \<longleftrightarrow> lga_dateFrom b = [])
     \<and> (lga_dateTo a = [] \<longleftrightarrow> lga_dateTo b = [])
     \<and> (lga_searchText a = [] \<and> lga_searchText b = [] \<or> many_words (lga_searchText a) \<and> many_words (lga_searchText b))"

definition same_text :: "building \<Rightarrow> building \<Rightarrow> bool" where
  "same_text b c \<longleftrightarrow> fst b = fst c \<and> snd (snd b) = snd (snd c)"

lemma parts_same_text:
  "same_text b c \<Longrightarrow> length ls = length ms \<Longrightarrow> same_text (level_part ls b) (level_part ms c)"
  "same_text b c \<Longrightarrow> (d = [] \<longleftrightarrow> e = []) \<Longrightarrow> same_text (date_part cmp d b) (date_part cmp e c)"
  "same_text b c \<Longrightarrow> s = [] \<and> t = [] \<or> many_words s \<and> many_words t \<Longrightarrow> same_text (search_part s b) (search_part t c)"
  by (auto simp: same_text_def level_part_def date_part_def search_part_def many_words_def Let_def split: prod.splits)

text \<open>Dates, levels and longer texts reach the database as arguments only.\<close>

theorem conditions_by_shape:
  assumes "same_shape a b"
  shows "fst (getLogsConditions a) = fst (getLogsConditions b)"
proof -
  have "same_text (built_conditions a) (built_conditions b)"
    unfolding built_conditions_def using assms by (intro parts_same_text) (simp_all add: same_shape_def same_text_def)
  then show ?thesis by (auto simp: getLogsConditions_def same_text_def split: prod.splits)
qed

text \<open>A single word is not an argument: it is a part of the text, whatever it holds.\<close>

theorem single_word_spliced:
  assumes "length (Split word (CHR '' '')) = 1" "word \<noteq> []"
  shows "fst (getLogsConditions \<lparr>lga_level = [], lga_dateFrom = [], lga_dateTo = [], lga_searchText = word\<rparr>)
    = ''WHERE ('' @ contextSearchSQL word @ '' OR message like '' @ Placeholder 1 @ '')''"
  using assms by (simp add: getLogsConditions_def built_conditions_def level_part_def date_part_def search_part_def
      join_conditions_def Let_def)

text \<open>A request without a filter leaves a bare \<open>WHERE\<close>.\<close>

theorem no_filter_bare_where:
  "getLogsConditions \<lparr>lga_level = [], lga_dateFrom = [], lga_dateTo = [], lga_searchText = []\<rparr> = (''WHERE '', [])"
  by (simp add: getLogsConditions_def built_conditions_def level_part_def date_part_def search_part_def)

text \<open>Nothing in the world changes, with or without the token.\<close>

theorem GetLogs_reads_only: "snd (GetLogs lt tkn levels txt dfrom dto skip n w) = w"
  by (simp add: GetLogs_def getTotalLogEvents_def getLogs_def authorized_def bindC_def thenC_def getC_def guardC_def on_err_def
      of_option_def ret_def fail_def split: prod.split sum.split option.split)

end
