(* ===== verification/UiService.thy ===== *)
theory UiService
  imports UiReport UiLogs
begin

text \<open>
  The calls of the user taken together: requests, how they are served, and what holds of all of them.
  A call with a wrong token does nothing, with one exception; and no call, however it fails, writes what
  the trade itself keeps: channels, sessions, endpoints, transactions, closings and ratings.
\<close>

section \<open>Requests\<close>

text \<open>One constructor per method that the RPC server of the user interface publishes and that takes a token.\<close>

datatype (plugins only: code size) request =
    RExportPrivateKey string | RGetAccounts | RGenerateAccount "AccountParams option"
  | RImportAccountFromHex AccountParams HexString | RImportAccountFromJSON "AccountParams option" bytes string
  | RTransferTokens string string u64 u64 | RUpdateBalance string | RUpdateAccount string string bool bool
  | RSuggestGasPrice | RGetSettings | RUpdateSettings "(string \<times> string) list" | RGetGUISettings | RSetGUISettings string
  | RCreateProduct Product | RUpdateProduct Product | RGetProducts | RGetTemplates "tpl_kind option"
  | RCreateTemplate Template | RAcceptOffering HexString string u64 u64 | RChangeOfferingStatus string string u64
  | RGetClientOfferings HexString u64 u64 "string list" "string list" u64 u64
  | RGetAgentOfferings string "offer_status list" u64 u64 | RUpdateOffering Offering | RCreateOffering Offering
  | RGetClientOfferingsFilterParams | RPingOfferings "string list" | RTopUpChannel string u64 u64
  | RChangeChannelStatus string string | RGetAgentChannels "chan_status list" "svc_status list" u64 u64
  | RGetChannelsUsage "string list" | RGetClientChannels "chan_status list" "svc_status list" u64 u64
  | RGetSessions string | RGetEndpoints string string | RGetEthTransactions string string u64 u64
  | RIncreaseTxGasPrice string u64 | RGetJobs string "time option" "time option" "job_status list" u64 u64
  | RReactivateJob string | RGetObject string string | RGetObjectByHash string string
  | RObjectChange string "string list" string | RGetOfferingIncome string | RGetProductIncome string | RGetTotalIncome
  | RGetOfferingUsage string | RGetProductUsage string | RGetLastBlockNumber
  | RGetLogs "string list" string string string u64 u64

definition voidC :: "('s, 'e, 'a) cmd \<Rightarrow> ('s, 'e, unit) cmd" where
  "voidC m = bindC m (\<lambda>_. ret ())"

definition serve :: "'k Ui \<Rightarrow> log_table \<Rightarrow> string \<Rightarrow> request \<Rightarrow> ('k, 'z, unit) uicmd" where
  "serve ui lt tkn r = (case r of
     RExportPrivateKey i \<Rightarrow> voidC (ExportPrivateKey tkn i)
   | RGetAccounts \<Rightarrow> voidC (GetAccounts tkn)
   | RGenerateAccount p \<Rightarrow> voidC (GenerateAccount ui tkn p)
   | RImportAccountFromHex p h \<Rightarrow> voidC (ImportAccountFromHex ui tkn p h)
   | RImportAccountFromJSON p b s \<Rightarrow> voidC (ImportAccountFromJSON ui tkn p b s)
   | RTransferTokens i d a g \<Rightarrow> TransferTokens ui tkn i d a g
   | RUpdateBalance i \<Rightarrow> UpdateBalance ui tkn i
   | RUpdateAccount i s d u \<Rightarrow> UpdateAccount tkn i s d u
   | RSuggestGasPrice \<Rightarrow> voidC (SuggestGasPrice ui tkn)
   | RGetSettings \<Rightarrow> voidC (GetSettings tkn)
   | RUpdateSettings items \<Rightarrow> UpdateSettings tkn items
   | RGetGUISettings \<Rightarrow> voidC (GetGUISettings ui tkn)
   | RSetGUISettings d \<Rightarrow> SetGUISettings tkn d
   | RCreateProduct p \<Rightarrow> voidC (CreateProduct ui tkn p)
   | RUpdateProduct p \<Rightarrow> UpdateProduct ui tkn p
   | RGetProducts \<Rightarrow> voidC (GetProducts tkn)
   | RGetTemplates k \<Rightarrow> voidC (GetTemplates tkn k)
   | RCreateTemplate t \<Rightarrow> voidC (CreateTemplate ui tkn t)
   | RAcceptOffering a i d g \<Rightarrow> voidC (AcceptOffering ui tkn a i d g)
   | RChangeOfferingStatus i a g \<Rightarrow> ChangeOfferingStatus ui tkn i a g
   | RGetClientOfferings a lo hi cs ts off n \<Rightarrow> voidC (GetClientOfferings tkn a lo hi cs ts off n)
   | RGetAgentOfferings p ss off n \<Rightarrow> voidC (GetAgentOfferings tkn p ss off n)
   | RUpdateOffering f \<Rightarrow> UpdateOffering tkn f
   | RCreateOffering f \<Rightarrow> voidC (CreateOffering ui tkn f)
   | RGetClientOfferingsFilterParams \<Rightarrow> voidC (GetClientOfferingsFilterParams tkn)
   | RPingOfferings ids \<Rightarrow> voidC (PingOfferings ui tkn ids)
   | RTopUpChannel i d g \<Rightarrow> TopUpChannel ui tkn i d g
   | RChangeChannelStatus i a \<Rightarrow> ChangeChannelStatus ui tkn i a
   | RGetAgentChannels cs ss off n \<Rightarrow> voidC (GetAgentChannels tkn cs ss off n)
   | RGetChannelsUsage ids \<Rightarrow> voidC (GetChannelsUsage tkn ids)
   | RGetClientChannels cs ss off n \<Rightarrow> voidC (GetClientChannels tkn cs ss off n)
   | RGetSessions i \<Rightarrow> voidC (GetSessions tkn i)
   | RGetEndpoints i t \<Rightarrow> voidC (GetEndpoints tkn i t)
   | RGetEthTransactions t i off n \<Rightarrow> voidC (GetEthTransactions tkn t i off n)
   | RIncreaseTxGasPrice i g \<Rightarrow> IncreaseTxGasPrice ui tkn i g
   | RGetJobs t lo hi ss off n \<Rightarrow> voidC (GetJobs tkn t lo hi ss off n)
   | RReactivateJob i \<Rightarrow> ReactivateJob tkn i
   | RGetObject t i \<Rightarrow> voidC (GetObject ui tkn t i)
   | RGetObjectByHash t h \<Rightarrow> voidC (GetObjectByHash tkn t h)
   | RObjectChange t ids sid \<Rightarrow> voidC (ObjectChange tkn t ids sid)
   | RGetOfferingIncome i \<Rightarrow> voidC (GetOfferingIncome tkn i)
   | RGetProductIncome i \<Rightarrow> voidC (GetProductIncome tkn i)
   | RGetTotalIncome \<Rightarrow> voidC (GetTotalIncome tkn)
   | RGetOfferingUsage i \<Rightarrow> voidC (GetOfferingUsage tkn i)
   | RGetProductUsage i \<Rightarrow> voidC (GetProductUsage tkn i)
   | RGetLastBlockNumber \<Rightarrow> voidC (GetLastBlockNumber tkn)
   | RGetLogs ls txt dfrom dto off n \<Rightarrow> voidC (GetLogs lt tkn ls txt dfrom dto off n))"

text \<open>A session: requests with their tokens and the calls about the password, which take none, one after the
  other; a call that fails does not end it.\<close>

datatype (plugins only: code size) call =
    Request string request | CSetPassword string | CUpdatePassword string string | CGetToken string

definition answer :: "'k Ui \<Rightarrow> log_table \<Rightarrow> call \<Rightarrow> ('k, 'z, unit) uicmd" where
  "answer ui lt c = (case c of Request tkn r \<Rightarrow> serve ui lt tkn r | CSetPassword pwd \<Rightarrow> SetPassword ui pwd
     | CUpdatePassword cur new \<Rightarrow> UpdatePassword ui cur new | CGetToken pwd \<Rightarrow> voidC (GetToken ui pwd))"

primrec session :: "'k Ui \<Rightarrow> log_table \<Rightarrow> call list \<Rightarrow> ('k, 'z, unit) uicmd" where
  "session ui lt [] = ret ()"
| "session ui lt (c # cs) = thenC (ignoreC (answer ui lt c)) (session ui lt cs)"

section \<open>The token\<close>

lemma authorized_denied: "\<not> Check tkn w \<Longrightarrow> authorized tkn m w = (Inl (Ui ui_ErrAccessDenied), w)"
  by (simp add: authorized_def cmd_operator_defs)

lemma authorized_granted: "Check tkn w \<Longrightarrow> authorized tkn m w = m w"
  by (simp add: authorized_def cmd_operator_defs)

lemmas guarded_calls =
  ExportPrivateKey_def GetAccounts_def GenerateAccount_def ImportAccountFromHex_def ImportAccountFromJSON_def
  TransferTokens_def UpdateBalance_def UpdateAccount_def SuggestGasPrice_def GetSettings_def UpdateSettings_def
  GetGUISettings_def SetGUISettings_def CreateProduct_def UpdateProduct_def GetProducts_def GetTemplates_def
  CreateTemplate_def AcceptOffering_def ChangeOfferingStatus_def GetClientOfferings_def GetAgentOfferings_def
  UpdateOffering_def CreateOffering_def GetClientOfferingsFilterParams_def PingOfferings_def TopUpChannel_def
  ChangeChannelStatus_def GetAgentChannels_def GetChannelsUsage_def GetClientChannels_def GetSessions_def
  GetEndpoints_def GetEthTransactions_def GetJobs_def ReactivateJob_def GetObject_def GetObjectByHash_def
  ObjectChange_def GetOfferingIncome_def GetProductIncome_def GetTotalIncome_def GetOfferingUsage_def GetProductUsage_def
  uintFromQuery_def GetLastBlockNumber_def GetLogs_def

definition raises_gas_price :: "request \<Rightarrow> bool" where
  "raises_gas_price r \<longleftrightarrow> (case r of RIncreaseTxGasPrice _ _ \<Rightarrow> True | _ \<Rightarrow> False)"

lemma denied: "\<not> Check tkn w \<Longrightarrow> \<not> raises_gas_price r \<Longrightarrow> serve ui lt tkn r w = (Inl (Ui ui_ErrAccessDenied), w)"
  by (cases r) (simp_all add: serve_def raises_gas_price_def voidC_def bindC_def guarded_calls authorized_denied)

text \<open>Raising the price of a transaction does not look at the token: whoever sends the request has it done.\<close>

lemma raising_ignores_token: "serve ui lt tkn (RIncreaseTxGasPrice i g) = serve ui lt tkn' (RIncreaseTxGasPrice i g)"
  by (simp add: serve_def IncreaseTxGasPrice_def)

text \<open>C8: a call of the user with a token that is not the current one is denied and changes nothing, but for
  the call that raises the gas price of a transaction: that one is answered alike whatever the token.\<close>

theorem calls_need_token:
  assumes "\<not> Check tkn w" "serve ui lt tkn r w = (x, w')"
  shows "x = Inl (Ui ui_ErrAccessDenied) \<and> w' = w
    \<or> raises_gas_price r \<and> (\<forall>tkn'. serve ui lt tkn' r w = (x, w'))"
proof (cases "raises_gas_price r")
  case True
  then obtain i g where "r = RIncreaseTxGasPrice i g" by (cases r) (simp_all add: raises_gas_price_def)
  with assms(2) raising_ignores_token True show ?thesis by metis
next
  case False
  from denied [OF assms(1) False] assms(2) show ?thesis by simp
qed

section \<open>What requests leave alone\<close>

text \<open>An effect that does not see what the interface keeps in memory nor what the user may write.\<close>

locale ui_effect = tx_effect R R1 R2 obs
  for R R1 R2 :: "('k, 'z) uworld_scheme \<Rightarrow> ('k, 'z) uworld_scheme \<Rightarrow> bool" and obs :: "db \<Rightarrow> 'o" +
  assumes memory: "R w (w\<lparr>u_randoms := n\<rparr>)" "R w (w\<lparr>u_token := t\<rparr>)" "R w (w\<lparr>u_password := p\<rparr>)" "R w (w\<lparr>u_keys := ks\<rparr>)"
      "R w (w\<lparr>q_subs := m\<rparr>)"
    and memory_tx: "R1 w (w\<lparr>u_keys := ks\<rparr>)"
    and free_tables: "obs (d\<lparr>db_settings := ss\<rparr>) = obs d" "obs (d\<lparr>db_accounts := as\<rparr>) = obs d"
      "obs (d\<lparr>db_products := ps\<rparr>) = obs d" "obs (d\<lparr>db_templates := ts\<rparr>) = obs d" "obs (d\<lparr>db_offerings := fs\<rparr>) = obs d"
begin

lemma ui_tables:
  "writes_freely obs SettingTable" "writes_freely obs AccountTable" "writes_freely obs ProductTable"
  "writes_freely obs TemplateTable" "writes_freely obs OfferingTable"
  by (simp_all add: writes_freely_def all_db_tables)
    (simp_all add: SettingTable_def AccountTable_def ProductTable_def TemplateTable_def OfferingTable_def free_tables)

lemma keeps_db_wrappers:
  "keeps R (findByPrimaryKey e T i)" "keeps R (findByColumn e T (c :: 'r \<Rightarrow> string) a)" "keeps R (findAllFrom T (c :: 'r \<Rightarrow> string) a)"
  "keeps R (selectAllFrom T cond order)" "keeps R (numberOfObjects T cond)" "keeps R (selectPage T cond order off n)"
  "keeps R (findActiveOfferingByID i)" "keeps R (suggestedGasPrice ui)" "keeps R (jobPublishData ui g)" "keeps R (ReadSetting q k)"
  unfolding findByPrimaryKey_def findByColumn_def findAllFrom_def selectAllFrom_def numberOfObjects_def selectPage_def
    findActiveOfferingByID_def suggestedGasPrice_def jobPublishData_def ReadSetting_def
  by (intro conn.keeps_reading)+

lemma keeps_ui_writes:
  "writes_freely obs T \<Longrightarrow> keeps R (insert_ui Conn T rs)" "writes_freely obs T \<Longrightarrow> keeps R (update_ui Conn T rs)"
  "writes_freely obs T \<Longrightarrow> keeps R1 (insert_ui Tx T rs)" "writes_freely obs T \<Longrightarrow> keeps R1 (update_ui Tx T rs)"
  "writes_freely obs T \<Longrightarrow> keeps R (insertObject T r)"
  unfolding insert_ui_def update_ui_def insertObject_def
  by (auto intro!: conn.keeps_eachC tx.keeps_eachC conn.steps_on_err tx.steps_on_err conn.keeps_insert tx.keeps_insert
      conn.keeps_update tx.keeps_update)

lemma keeps_queueing:
  "keeps R (AddWithData conf Conn ty rt i by d)" "keeps R (AddSimple conf Conn ty rt i by)"
  unfolding AddSimple_def AddWithData_def AddWithDataAndDelay_def by (intro conn.keeps_basic conn.keeps_Add)+

lemma keeps_random: "keeps R random_bytes"
  unfolding steps_def random_bytes_def by (simp add: memory)

lemma keeps_service_operations:
  "keeps R (SuspendChannel (Add conf) i by agent)" "keeps R (ActivateChannel (Add conf) i by agent)"
  "keeps R (TerminateChannel (Add conf) i by agent)"
  unfolding SuspendChannel_def ActivateChannel_def TerminateChannel_def alterServiceStatus_def Let_def
  by (rule keeps_in_tx, intro tx.keeps_basic tx.keeps_reads keeps_cancelling tx.keeps_Add)+

lemmas keeps_calls = conn.keeps_reading conn.keeps_writing ui_tables conn.jobs_free keeps_db_wrappers keeps_ui_writes keeps_queueing keeps_random
  keeps_service_operations

lemma keeps_authorized: "keeps R m \<Longrightarrow> keeps R (authorized tkn m)"
  unfolding authorized_def by (intro conn.keeps_basic)

lemma keeps_account_calls:
  "keeps R (ExportPrivateKey tkn i)" "keeps R (GetAccounts tkn)" "keeps R (TransferTokens ui tkn i d a g)"
  "keeps R (UpdateBalance ui tkn i)" "keeps R (SuggestGasPrice ui tkn)" "keeps R (GenerateAccount ui tkn ps)"
  "keeps R (ImportAccountFromHex ui tkn p h)" "keeps R (ImportAccountFromJSON ui tkn ps b s)"
  unfolding ExportPrivateKey_def GetAccounts_def TransferTokens_def UpdateBalance_def SuggestGasPrice_def GenerateAccount_def
    ImportAccountFromHex_def ImportAccountFromJSON_def fillAndSaveAccount_def hexPrivateKeyToECDSA_def jsonPrivateKeyToECDSA_def
  by (rule keeps_authorized, intro keeps_calls)+

lemma keeps_tx_calls: "keeps R (UpdateAccount tkn i n d u)" "keeps R (UpdateSettings tkn items)"
proof -
  have "keeps R1 (thenC (bindC (exec_update AccountTable Tx (\<lambda>_. True) (\<lambda>a. a\<lparr>acc_IsDefault := False\<rparr>)) (\<lambda>_. ret ()))
      (update_ui Tx AccountTable [acc]))" for acc
    by (intro tx.keeps_basic tx.keeps_exec_update keeps_ui_writes ui_tables) (auto simp: AccountTable_def unique_in_def)
  then show "keeps R (UpdateAccount tkn i n d u)"
    unfolding UpdateAccount_def Let_def by (intro keeps_authorized keeps_calls keeps_in_tx)
  have "keeps R1 (thenC (eachC (\<lambda>(k, v). validateSetting k v) items) (eachC updateSetting items))"
    unfolding validateSetting_def updateSetting_def by (intro tx.keeps_basic tx.keeps_update ui_tables)
  then show "keeps R (UpdateSettings tkn items)"
    unfolding UpdateSettings_def by (intro keeps_authorized keeps_calls keeps_in_tx)
qed

lemma keeps_setting_calls:
  "keeps R (GetSettings tkn)" "keeps R (GetGUISettings ui tkn)" "keeps R (SetGUISettings tkn d)"
  "keeps R (CreateProduct ui tkn p)" "keeps R (UpdateProduct ui tkn p)" "keeps R (GetProducts tkn)" "keeps R (GetTemplates tkn k)"
  "keeps R (CreateTemplate ui tkn t)"
proof -
  have "keeps R (exec_update SettingTable Conn (\<lambda>s. set_Key s = SettingGUI) (\<lambda>s. s\<lparr>set_Value := d\<rparr>))"
    by (rule conn.keeps_exec_update [OF ui_tables(1)]) (simp add: SettingTable_def)
  then show "keeps R (SetGUISettings tkn d)" unfolding SetGUISettings_def by (intro keeps_authorized keeps_calls)
  show "keeps R (GetTemplates tkn k)"
    unfolding GetTemplates_def by (rule keeps_authorized) (auto split: option.split tpl_kind.split intro!: keeps_calls)
  show "keeps R (GetSettings tkn)" "keeps R (GetGUISettings ui tkn)" "keeps R (CreateProduct ui tkn p)"
    "keeps R (UpdateProduct ui tkn p)" "keeps R (GetProducts tkn)" "keeps R (CreateTemplate ui tkn t)"
    unfolding GetSettings_def GetGUISettings_def CreateProduct_def UpdateProduct_def GetProducts_def CreateTemplate_def
      checkTemplate_def
    by (rule keeps_authorized, intro keeps_calls)+
qed

lemma keeps_GetKey: "keeps R (GetKey ui acc)" "keeps R1 (GetKey ui acc)"
  unfolding GetKey_def getKey_def
  by (intro conn.keeps_basic conn.keeps_modC tx.keeps_basic tx.keeps_modC memory memory_tx)+

lemma keeps_offering_calls:
  "keeps R (AcceptOffering ui tkn a i d g)" "keeps R (ChangeOfferingStatus ui tkn i act g)"
  "keeps R (GetClientOfferings tkn a lo hi cs ts off n)" "keeps R (GetAgentOfferings tkn pr ss off n)"
  "keeps R (UpdateOffering tkn f)" "keeps R (CreateOffering ui tkn f)" "keeps R (GetClientOfferingsFilterParams tkn)"
  "keeps R (PingOfferings ui tkn ids)"
  unfolding AcceptOffering_def ChangeOfferingStatus_def GetClientOfferings_def GetAgentOfferings_def UpdateOffering_def
    CreateOffering_def GetClientOfferingsFilterParams_def PingOfferings_def pingOffering_def offering_rating_def
    prepareOffering_def fillOffering_def setHash_def offeringCountries_def offeringsMinMaxPrice_def maxRating_def pingOne_def
  by (rule keeps_authorized, intro keeps_calls keeps_GetKey)+

lemma keeps_channel_calls:
  "keeps R (TopUpChannel ui tkn i d g)" "keeps R (ChangeChannelStatus ui tkn i act)" "keeps R (GetAgentChannels tkn cs ss off n)"
  "keeps R (GetChannelsUsage tkn ids)" "keeps R (GetClientChannels tkn cs ss off n)" "keeps R (GetSessions tkn i)"
  "keeps R (GetEndpoints tkn i tm)" "keeps R (GetEthTransactions tkn ty i off n)" "keeps R (GetJobs tkn jt from' to' js off n)"
  "keeps R (ReactivateJob tkn i)"
  unfolding TopUpChannel_def ChangeChannelStatus_def GetAgentChannels_def GetChannelsUsage_def GetClientChannels_def
    GetSessions_def GetEndpoints_def GetEthTransactions_def GetJobs_def ReactivateJob_def topUpChannelJobData_def
    createPreUncooperativeCloseRequest_def getChannels_def getChannelsUsages_def queryChannelsUsages_def
    createClientChannelResult_def getChannelSessions_def
  by (rule keeps_authorized, intro keeps_calls)+

lemma keeps_object_calls:
  "keeps R (GetObject ui tkn ty i)" "keeps R (GetObjectByHash tkn ty h)" "keeps R (ObjectChange tkn ty ids sid)"
  "keeps R (IncreaseTxGasPrice ui tkn i g)"
proof -
  have got: "keeps R (on_err e (get i))" if "objectTypes ui ty = Some get" for get e
    using that by (auto simp: objectTypes_def by_pk_def split: if_splits intro!: keeps_calls conn.keeps_db_call)
  then show "keeps R (GetObject ui tkn ty i)"
    unfolding GetObject_def
    by (intro keeps_authorized conn.steps_bindC [where Q = "\<lambda>get _. objectTypes ui ty = Some get"])
      (auto simp: steps_def of_option_def fail_def ret_def conn.refl split: option.split)
  have "keeps R (on_err e (get h))" if "objectWithHashTypes ty = Some get" for get e
    using that by (auto simp: objectWithHashTypes_def by_hash_def split: if_splits intro!: keeps_calls)
  then show "keeps R (GetObjectByHash tkn ty h)"
    unfolding GetObjectByHash_def
    by (intro keeps_authorized conn.steps_bindC [where Q = "\<lambda>get _. objectWithHashTypes ty = Some get"])
      (auto simp: steps_def of_option_def fail_def ret_def conn.refl split: option.split)
  have "R w (snd (case Subscribe ids sid (q_subs w) of (None, m) \<Rightarrow> (Inr rt, w\<lparr>q_subs := m\<rparr>)
      | (Some _, m) \<Rightarrow> (Inl (Ui ui_ErrInternal), w\<lparr>q_subs := m\<rparr>)))" for w and rt :: related_type
    by (simp add: memory split: prod.split option.split)
  then show "keeps R (ObjectChange tkn ty ids sid)"
    unfolding ObjectChange_def by (intro keeps_authorized conn.keeps_bindC conn.keeps_rules) (simp add: steps_def)
  show "keeps R (IncreaseTxGasPrice ui tkn i g)"
    unfolding IncreaseTxGasPrice_def by (intro keeps_calls)
qed

lemma keeps_report_calls:
  "keeps R (GetOfferingIncome tkn i)" "keeps R (GetProductIncome tkn i)" "keeps R (GetTotalIncome tkn)"
  "keeps R (GetOfferingUsage tkn i)" "keeps R (GetProductUsage tkn i)" "keeps R (GetLastBlockNumber tkn)"
  unfolding GetOfferingIncome_def GetProductIncome_def GetTotalIncome_def GetOfferingUsage_def GetProductUsage_def
    uintFromQuery_def GetLastBlockNumber_def minConfirmations_def findSettingsUint64_def findSetting_def
  by (rule keeps_authorized, intro keeps_calls)+

lemma keeps_GetLogs: "keeps R (GetLogs lt tkn ls txt dfrom dto off n)"
  by (simp add: steps_def GetLogs_reads_only conn.refl)

lemma keeps_void: "keeps R m \<Longrightarrow> keeps R (voidC m)"
  unfolding voidC_def by (intro conn.keeps_basic)

lemma keeps_serve: "keeps R (serve ui lt tkn r)"
  by (cases r) (simp_all add: serve_def keeps_void keeps_account_calls keeps_tx_calls keeps_setting_calls keeps_offering_calls
      keeps_channel_calls keeps_object_calls keeps_report_calls keeps_GetLogs)

lemma keeps_deferred_tx: "keeps R1 f \<Longrightarrow> keeps R (deferred_tx f)"
  unfolding deferred_tx_def beginTX_def commitTX_def
  by (intro keeps_begin(2) disjI1 tx.keeps_basic keeps_closing)

lemma keeps_checkPassword: "keeps R (checkPassword ui pwd)"
  unfolding checkPassword_def SetPwd_def by (intro keeps_calls conn.keeps_modC memory)

lemma keeps_Make: "keeps R Make"
  unfolding Make_def by (intro keeps_calls conn.keeps_modC memory)

lemma keeps_updatePrivateKeys: "keeps R1 (updatePrivateKeys ui new)"
  unfolding updatePrivateKeys_def updatePrivateKey_def
  by (intro tx.keeps_basic keeps_GetKey keeps_ui_writes ui_tables)

lemma keeps_password_calls: "keeps R (SetPassword ui pwd)" "keeps R (UpdatePassword ui cur new)" "keeps R (GetToken ui pwd)"
proof -
  note parts = keeps_calls keeps_deferred_tx keeps_checkPassword keeps_Make keeps_updatePrivateKeys
  show "keeps R (SetPassword ui pwd)" unfolding SetPassword_def validatePasswordNotSet_def hashedPassword_def by (intro parts)
  have "keeps R1 (thenC (updatePrivateKeys ui new) (update_ui Tx SettingTable ss))" for ss
    by (intro tx.keeps_basic parts)
  then show "keeps R (UpdatePassword ui cur new)" unfolding UpdatePassword_def hashedPassword_def by (intro parts)
  show "keeps R (GetToken ui pwd)" unfolding GetToken_def by (intro parts)
qed

lemma keeps_answer: "keeps R (answer ui lt c)"
  by (cases c) (simp_all add: answer_def keeps_void keeps_serve keeps_password_calls)

lemma keeps_session: "keeps R (session ui lt cs)"
  by (induction cs) (simp_all add: conn.keeps_rules conn.keeps_thenC conn.keeps_ignoreC keeps_answer)

end

text \<open>The part of the database that the trade itself keeps.\<close>

definition trade_part ::
  "db \<Rightarrow> User list \<times> Channel list \<times> Session list \<times> Endpoint list \<times> EthTx list \<times> Closing list \<times> Rating list" where
  "trade_part d = (db_users d, db_channels d, db_sessions d, db_endpoints d, db_ethtxs d, db_closings d, db_ratings d)"

interpretation ui_frame: ui_effect "preserving (sound trade_part p)" "preserving (sound_tx trade_part p)"
  "preserving (sound_past trade_part p)" trade_part
  by (rule ui_effect.intro [OF sound_tx_effect], simp add: trade_part_def, unfold_locales)
    (simp_all add: preserving_def sound_defs trade_part_def)

text \<open>C18: requests act on the trade through jobs only: after any sequence of requests of the user and of calls about
  the password, with whatever tokens, and however the database, the node and the key store fail, the
  channels with their receipts and statuses, the clients, the sessions, the endpoints, the transactions,
  the closings and the ratings are as they were.\<close>

theorem requests_leave_trade_alone:
  assumes "session ui lt cs w = (x, w')" "db_ok (w_db w)"
  shows "db_channels (w_db w') = db_channels (w_db w) \<and> db_users (w_db w') = db_users (w_db w)
    \<and> db_sessions (w_db w') = db_sessions (w_db w) \<and> db_endpoints (w_db w') = db_endpoints (w_db w)
    \<and> db_ethtxs (w_db w') = db_ethtxs (w_db w) \<and> db_closings (w_db w') = db_closings (w_db w)
    \<and> db_ratings (w_db w') = db_ratings (w_db w)"
proof -
  have "trade_part (w_db w') = trade_part (w_db w)"
    using stepsD(1) [OF ui_frame.keeps_session TrueI assms(1), of "trade_part (w_db w)"] assms(2)
    by (simp add: preserving_def sound_def)
  then show ?thesis by (simp add: trade_part_def)
qed

end
