(* ===== verification/UiLaws.thy ===== *)
theory UiLaws
  imports UiService
begin

text \<open>
  What single calls of the user promise: the password is changed for all keys or not at all, there is
  one default account once one has been chosen, and the job an accepted offering is bought with reads
  what the user was shown.
\<close>

section \<open>Changing the password\<close>

lemma deferred_tx_error: "keeps same_db f \<Longrightarrow> deferred_tx f w = (Inl e, w') \<Longrightarrow> w_db w' = w_db w"
  unfolding deferred_tx_def beginTX_def commitTX_def by (rule manual_tx_error)

lemma deferred_tx_success:
  assumes "deferred_tx f w = (Inr x, w')"
  obtains bs v where "f (w\<lparr>w_faults := bs, w_tx := Some (w_db w)\<rparr>) = (Inr (), v)" "w_db w' = view Tx v"
  using manual_tx_success [OF assms [unfolded deferred_tx_def beginTX_def commitTX_def]] .

text \<open>Every account's key opens with a password and is the key of its address; a key in memory is too.\<close>

definition opens_with :: "'k Ui \<Rightarrow> string \<Rightarrow> (HexString \<Rightarrow> 'k) \<Rightarrow> db \<Rightarrow> bool" where
  "opens_with ui pwd kf d \<longleftrightarrow> list_all (\<lambda>a. ToPrivateKey ui (acc_PrivateKey a) pwd = Some (kf (acc_EthAddr a))) (db_accounts d)"

definition cache_right :: "(HexString \<Rightarrow> 'k) \<Rightarrow> ('k, 'z) uworld_scheme \<Rightarrow> bool" where
  "cache_right kf w \<longleftrightarrow> (\<forall>a k. u_keys w a = Some k \<longrightarrow> k = kf a)"

text \<open>A password lets the user in.\<close>

definition login :: "'k Ui \<Rightarrow> string \<Rightarrow> db \<Rightarrow> bool" where
  "login ui pwd d \<longleftrightarrow> (case (lookup SettingTable d SettingPasswordHash, lookup SettingTable d SettingPasswordSalt) of
     (Some h, Some salt) \<Rightarrow> ValidatePassword (ui_compare ui) (set_Value h) pwd (set_Value salt) | _ \<Rightarrow> False)"

text \<open>The key store opens what it has sealed with the same password, and a hash matches what it was made of.\<close>

definition key_store :: "'k Ui \<Rightarrow> bool" where
  "key_store ui \<longleftrightarrow> (\<forall>k pwd b. ui_encryptKey ui k pwd = Some b \<longrightarrow> ui_decryptKey ui b pwd = Some k)
     \<and> (\<forall>b h. ui_bcrypt ui b = Some h \<longrightarrow> ui_compare ui h b)"

lemma EncryptedKey_opens: "key_store ui \<Longrightarrow> EncryptedKey ui k pwd = Some e \<Longrightarrow> ToPrivateKey ui e pwd = Some k"
  by (auto simp: key_store_def EncryptedKey_def ToPrivateKey_def)

lemma HashPassword_valid:
  "key_store ui \<Longrightarrow> HashPassword (ui_bcrypt ui) pwd salt = Some h \<Longrightarrow> ValidatePassword (ui_compare ui) h pwd salt"
  by (auto simp: key_store_def HashPassword_def ValidatePassword_def)

lemma foldl_replace:
  assumes "distinct (map kf (xs @ ys))" and "\<And>x. kf (g x) = kf x"
  shows "foldl (\<lambda>rs a. replace kf (g a) rs) (map g xs @ ys) ys = map g (xs @ ys)"
  using assms(1)
proof (induction ys arbitrary: xs)
  case (Cons y ys)
  have "replace kf (g y) (map g xs @ y # ys) = map g (xs @ [y]) @ ys"
    using Cons.prems by (auto simp: replace_def assms(2) image_iff intro!: map_idI)
  with Cons.IH [of "xs @ [y]"] Cons.prems show ?case by simp
qed simp

lemma GetKey_right:
  assumes "GetKey ui acc w = (Inr k, w')" "cache_right kf w" "ToPrivateKey ui (acc_PrivateKey acc) (u_password w) = Some (kf (acc_EthAddr acc))"
  shows "k = kf (acc_EthAddr acc) \<and> cache_right kf w' \<and> u_password w' = u_password w \<and> w_db w' = w_db w \<and> w_tx w' = w_tx w"
  using assms by (auto simp: GetKey_def getKey_def run cache_right_def split: option.splits if_splits)

definition reencrypted :: "'k Ui \<Rightarrow> string \<Rightarrow> (HexString \<Rightarrow> 'k) \<Rightarrow> Account \<Rightarrow> Account" where
  "reencrypted ui new kf a = a\<lparr>acc_PrivateKey := the (EncryptedKey ui (kf (acc_EthAddr a)) new)\<rparr>"

lemma updatePrivateKey_run:
  assumes "updatePrivateKey ui new a w = (Inr u, w')" "w_tx w = Some d" "cache_right kf w"
    and "ToPrivateKey ui (acc_PrivateKey a) (u_password w) = Some (kf (acc_EthAddr a))"
  shows "EncryptedKey ui (kf (acc_EthAddr a)) new \<noteq> None \<and> cache_right kf w' \<and> u_password w' = u_password w
    \<and> w_tx w' = Some (d\<lparr>db_accounts := replace acc_ID (reencrypted ui new kf a) (db_accounts d)\<rparr>)"
proof -
  from assms(1) obtain k t enc where k: "GetKey ui a w = (Inr k, t)" and enc: "EncryptedKey ui k new = Some enc"
    and upd: "update_row AccountTable Tx (a\<lparr>acc_PrivateKey := enc\<rparr>) t = (Inr (), w')"
    by (auto simp: updatePrivateKey_def update_ui_def run)
  note right = GetKey_right [OF k assms(3,4)]
  from upd obtain v where v: "db_call Tx t = (Inr (), v)"
    "w' = write_db Tx (\<lambda>d. t_put AccountTable (replace (t_key AccountTable) (a\<lparr>acc_PrivateKey := enc\<rparr>) (t_rows AccountTable d)) d) v"
    by (auto simp: update_row_run)
  from v(1) obtain bs where "v = t\<lparr>w_faults := bs\<rparr>" using db_call_state by blast
  with v(2) right enc assms(2) show ?thesis
    by (auto simp: write_db_def AccountTable_def reencrypted_def cache_right_def)
qed

lemma updatePrivateKeys_run:
  assumes "eachC (updatePrivateKey ui new) as w = (Inr u, w')" "w_tx w = Some d" "cache_right kf w"
    and "\<forall>a \<in> set as. ToPrivateKey ui (acc_PrivateKey a) (u_password w) = Some (kf (acc_EthAddr a))"
  shows "(\<forall>a \<in> set as. EncryptedKey ui (kf (acc_EthAddr a)) new \<noteq> None)
    \<and> w_tx w' = Some (d\<lparr>db_accounts := foldl (\<lambda>rs a. replace acc_ID (reencrypted ui new kf a) rs) (db_accounts d) as\<rparr>)"
  using assms
proof (induction as arbitrary: w d)
  case Nil
  then show ?case by (simp add: run)
next
  case (Cons a as)
  from Cons.prems(1) obtain t where t: "updatePrivateKey ui new a w = (Inr (), t)" "eachC (updatePrivateKey ui new) as t = (Inr u, w')"
    by (auto simp: run)
  from updatePrivateKey_run [OF t(1) Cons.prems(2,3)] Cons.prems(4) have a: "EncryptedKey ui (kf (acc_EthAddr a)) new \<noteq> None"
    "cache_right kf t" "u_password t = u_password w"
    "w_tx t = Some (d\<lparr>db_accounts := replace acc_ID (reencrypted ui new kf a) (db_accounts d)\<rparr>)" by auto
  from Cons.IH [OF t(2) a(4,2)] Cons.prems(4) a show ?case by simp
qed


text \<open>What a change of the password leaves: the accounts but for their sealed keys, and all other tables.\<close>

definition same_but_keys :: "db \<Rightarrow> db \<Rightarrow> bool" where
  "same_but_keys d d' \<longleftrightarrow> d'\<lparr>db_accounts := db_accounts d, db_settings := db_settings d\<rparr> = d
     \<and> map (acc_PrivateKey_update (\<lambda>_. [])) (db_accounts d') = map (acc_PrivateKey_update (\<lambda>_. [])) (db_accounts d)"

lemma keeps_password_tx:
  "keeps same_db (thenC (updatePrivateKeys ui new) (update_ui Tx SettingTable ss) :: ('k, 'z, unit) uicmd)"
proof -
  have mem: "keeps same_db (modC (\<lambda>w. w\<lparr>u_keys := (u_keys w)(a \<mapsto> k)\<rparr>) :: ('k, 'z, unit) uicmd)" for a k
    by (rule same_db.keeps_modC) (simp add: same_db_def)
  show ?thesis
    unfolding updatePrivateKeys_def updatePrivateKey_def update_ui_def GetKey_def getKey_def
    by (intro same_db.keeps_reading same_db_tx.keeps_update all_tables_free mem)
qed

lemma password_tx_run:
  assumes "thenC (updatePrivateKeys ui new) (update_ui Tx SettingTable [saltSetting salt, passwordHashSetting h]) w = (Inr (), w')"
    and tx: "w_tx w = Some d" and "cache_right kf w" "opens_with ui (u_password w) kf d" "distinct (map acc_ID (db_accounts d))"
    and store: "key_store ui"
  shows "opens_with ui new kf (view Tx w') \<and> same_but_keys d (view Tx w')
    \<and> lookup SettingTable (view Tx w') SettingPasswordHash = Some (passwordHashSetting h)
    \<and> lookup SettingTable (view Tx w') SettingPasswordSalt = Some (saltSetting salt)"
proof -
  let ?re = "reencrypted ui new kf"
  from assms(1) obtain as u v x where all: "select_all AccountTable Tx (\<lambda>_. True) w = (Inr as, u)"
    and keys: "eachC (updatePrivateKey ui new) as u = (Inr (), v)"
    and salt: "update_row SettingTable Tx (saltSetting salt) v = (Inr (), x)"
    and pwh: "update_row SettingTable Tx (passwordHashSetting h) x = (Inr (), w')"
    by (auto simp: updatePrivateKeys_def update_ui_def run)
  from all tx have as: "as = db_accounts d" by (auto simp: run AccountTable_def)
  from all obtain bs where u: "u = w\<lparr>w_faults := bs\<rparr>" by (auto simp: run dest!: db_call_state)
  from updatePrivateKeys_run [OF keys, of d kf] assms(3,4) tx have sealed: "\<forall>a \<in> set as. EncryptedKey ui (kf (acc_EthAddr a)) new \<noteq> None"
    and v: "w_tx v = Some (d\<lparr>db_accounts := foldl (\<lambda>rs a. replace acc_ID (?re a) rs) (db_accounts d) as\<rparr>)"
    by (auto simp: u as opens_with_def list_all_iff cache_right_def)
  have "foldl (\<lambda>rs a. replace acc_ID (?re a) rs) (db_accounts d) as = map ?re (db_accounts d)"
    using foldl_replace [of acc_ID "[]" "db_accounts d" ?re] assms(5) by (simp add: as reencrypted_def)
  with v have v: "view Tx v = d\<lparr>db_accounts := map ?re (db_accounts d)\<rparr>" by simp
  from SettingTable.update_view(1) [OF salt] v have x: "view Tx x = d\<lparr>db_accounts := map ?re (db_accounts d),
      db_settings := replace set_Key (saltSetting salt) (db_settings d)\<rparr>" by (simp add: SettingTable_def)
  from SettingTable.update_view(1) [OF pwh] x have w': "view Tx w' = d\<lparr>db_accounts := map ?re (db_accounts d),
      db_settings := replace set_Key (passwordHashSetting h) (replace set_Key (saltSetting salt) (db_settings d))\<rparr>"
    by (simp add: SettingTable_def)
  have "opens_with ui new kf (view Tx w')"
    using sealed EncryptedKey_opens [OF store] by (auto simp: w' opens_with_def list_all_iff as reencrypted_def)
  moreover have "same_but_keys d (view Tx w')" by (simp add: w' same_but_keys_def reencrypted_def)
  moreover have "lookup SettingTable (view Tx w') SettingPasswordHash = Some (passwordHashSetting h)"
    "lookup SettingTable (view Tx w') SettingPasswordSalt = Some (saltSetting salt)"
    using SettingTable.lookup_update [OF pwh] SettingTable.lookup_update [OF salt]
    by (simp_all add: SettingTable_def saltSetting_def passwordHashSetting_def setting_keys)
  ultimately show ?thesis by blast
qed

lemma checkPassword_run:
  assumes "checkPassword ui pwd w = (x, u)"
  shows "w_db u = w_db w \<and> u_keys u = u_keys w \<and> (x = Inr () \<longrightarrow> u_password u = pwd)"
  using assms
  by (cases x) (auto simp: checkPassword_def SetPwd_def ReadSetting_def FindByPrimaryKeyTo_def find_pk_def rows_def run
      dest!: db_call_state)

lemma Make_db: "Make t = (q, w') \<Longrightarrow> w_db w' = w_db t"
  by (auto simp: Make_def random_bytes_def cmd_operator_defs split: option.splits)

text \<open>C6: the password is changed for everything or for nothing. When changing it succeeds, the new password lets
  the user in and opens the key of every account, each to the same key as before, and nothing else in
  the database has changed; when it fails the database is as it was.\<close>

theorem password_change_atomic:
  assumes "UpdatePassword ui current new w = (r, w')" "db_ok (w_db w)" "key_store ui"
    and "opens_with ui current kf (w_db w)" "cache_right kf w"
  shows "case r of Inl _ \<Rightarrow> w_db w' = w_db w
    | Inr _ \<Rightarrow> login ui new (w_db w') \<and> opens_with ui new kf (w_db w') \<and> same_but_keys (w_db w) (w_db w')"
proof (cases r)
  case (Inl e)
  have hashed: "w_db v = w_db u" if "hashedPassword ui new s u = (x, v)" for s u x and v :: "('k, 'z) uworld_scheme"
    using that by (cases x) (auto simp: hashedPassword_def run)
  from assms(1) Inl have "w_db w' = w_db w"
    by (auto simp: UpdatePassword_def run dest!: checkPassword_run hashed deferred_tx_error [OF keeps_password_tx])
  with Inl show ?thesis by simp
next
  case (Inr x)
  with assms(1) obtain u where u: "checkPassword ui current w = (Inr (), u)"
    and rest: "bindC new_uuid (\<lambda>salt. bindC (hashedPassword ui new salt) (\<lambda>hashed. thenC (deferred_tx (thenC (updatePrivateKeys ui new)
        (update_ui Tx SettingTable [saltSetting salt, passwordHashSetting hashed]))) (ignoreC Make))) u = (Inr x, w')"
    by (auto simp: UpdatePassword_def run)
  obtain salt v where salt: "new_uuid u = (Inr salt, v)" and v: "w_db v = w_db u" "u_keys v = u_keys u" "u_password v = u_password u"
    by (simp add: run)
  from rest salt obtain h where h: "HashPassword (ui_bcrypt ui) new salt = Some h"
    and changed: "thenC (deferred_tx (thenC (updatePrivateKeys ui new)
        (update_ui Tx SettingTable [saltSetting salt, passwordHashSetting h]))) (ignoreC Make) v = (Inr x, w')"
    by (auto simp: bindC_run_Inr hashedPassword_def of_option_def ret_def fail_def split: option.splits)
  from changed obtain t where tx: "deferred_tx (thenC (updatePrivateKeys ui new)
        (update_ui Tx SettingTable [saltSetting salt, passwordHashSetting h])) v = (Inr (), t)"
    and make: "ignoreC Make t = (Inr () :: go_error + unit, w')"
    unfolding thenC_run_Inr by auto
  note u = checkPassword_run [OF u]
  have w': "w_db w' = w_db t"
    using make by (auto simp: run dest!: Make_db)
  from tx obtain bs z where z: "thenC (updatePrivateKeys ui new) (update_ui Tx SettingTable [saltSetting salt, passwordHashSetting h])
      (v\<lparr>w_faults := bs, w_tx := Some (w_db v)\<rparr>) = (Inr (), z)" and t: "w_db t = view Tx z"
    by (rule deferred_tx_success)
  have "distinct (map acc_ID (db_accounts (w_db w)))" using assms(2) by (simp add: db_ok_def table_ok_def AccountTable_def)
  with password_tx_run [OF z, of "w_db v" kf] assms(3-5) u v have "opens_with ui new kf (w_db w')" "same_but_keys (w_db w) (w_db w')"
    "lookup SettingTable (w_db w') SettingPasswordHash = Some (passwordHashSetting h)"
    "lookup SettingTable (w_db w') SettingPasswordSalt = Some (saltSetting salt)"
    by (auto simp: w' t cache_right_def)
  moreover from this have "login ui new (w_db w')"
    using HashPassword_valid [OF assms(3) h] by (simp add: login_def passwordHashSetting_def saltSetting_def)
  ultimately show ?thesis using Inr by simp
qed

section \<open>The default account\<close>

lemma only_default:
  assumes "distinct (map acc_ID as)" "a \<in> set as" "acc_IsDefault b" "acc_ID b = acc_ID a" "acc_EthAddr b = acc_EthAddr a"
  shows "filter acc_IsDefault (replace acc_ID b (map (acc_IsDefault_update (\<lambda>_. False)) as)) = [b]"
    and "map acc_EthAddr (replace acc_ID b (map (acc_IsDefault_update (\<lambda>_. False)) as)) = map acc_EthAddr as"
proof -
  obtain xs ys where as: "as = xs @ a # ys" using assms(2) by (auto simp: in_set_conv_decomp)
  have others: "replace acc_ID b (map (acc_IsDefault_update (\<lambda>_. False)) zs) = map (acc_IsDefault_update (\<lambda>_. False)) zs"
    if "acc_ID a \<notin> acc_ID ` set zs" for zs
    using that by (auto simp: replace_def assms(4) image_iff intro!: map_idI)
  have "acc_ID a \<notin> acc_ID ` set xs" "acc_ID a \<notin> acc_ID ` set ys" using assms(1) by (auto simp: as)
  then have "replace acc_ID b (map (acc_IsDefault_update (\<lambda>_. False)) as) =
      map (acc_IsDefault_update (\<lambda>_. False)) xs @ b # map (acc_IsDefault_update (\<lambda>_. False)) ys"
    using others [of xs] others [of ys] by (simp add: as replace_def assms(4))
  then show "filter acc_IsDefault (replace acc_ID b (map (acc_IsDefault_update (\<lambda>_. False)) as)) = [b]"
    "map acc_EthAddr (replace acc_ID b (map (acc_IsDefault_update (\<lambda>_. False)) as)) = map acc_EthAddr as"
    by (simp_all add: as assms(3,5) filter_map o_def)
qed

text \<open>When the user makes an account the default one it is the only one: of the accounts there were, in their
  order, exactly that one is marked. Nothing but accounts changes.\<close>

theorem one_default_account:
  assumes "UpdateAccount tkn i n True u w = (Inr x, w')" "db_ok (w_db w)"
  shows "map acc_ID (filter acc_IsDefault (db_accounts (w_db w'))) = [i]
    \<and> map acc_EthAddr (db_accounts (w_db w')) = map acc_EthAddr (db_accounts (w_db w))
    \<and> (w_db w')\<lparr>db_accounts := db_accounts (w_db w)\<rparr> = w_db w"
proof -
  let ?off = "acc_IsDefault_update (\<lambda>_. False)"
  define new where "new f = (f :: Account)\<lparr>acc_Name := (if n \<noteq> [] then n else acc_Name f), acc_IsDefault := True, acc_InUse := u\<rparr>" for f
  from assms(1) obtain found v where found: "find_pk AccountTable Conn i w = (Inr found, v)"
    and tx: "in_tx (thenC (bindC (exec_update AccountTable Tx (\<lambda>_. True) ?off) (\<lambda>_. ret ()))
      (update_ui Tx AccountTable [new found])) v = (Inr (), w')"
    by (cases "Check tkn w") (auto simp: UpdateAccount_def authorized_denied authorized_granted findByPrimaryKey_def run Let_def new_def)
  from found have v: "w_db v = w_db w" and member: "found \<in> set (db_accounts (w_db w))" and i: "acc_ID found = i"
    by (auto simp: find_pk_run AccountTable_def dest!: db_call_state find_Some_in)
  from tx obtain bs m y z where y: "exec_update AccountTable Tx (\<lambda>_. True) ?off (v\<lparr>w_faults := bs, w_tx := Some (w_db v)\<rparr>) = (Inr m, y)"
    and z: "update_row AccountTable Tx (new found) y = (Inr (), z)" and w': "w_db w' = view Tx z"
    by (rule in_tx_success) (auto simp: update_ui_def run)
  from AccountTable.exec_update_view [OF y] AccountTable.update_view(1) [OF z]
  have "w_db w' = (w_db w)\<lparr>db_accounts := replace acc_ID (new found) (map ?off (db_accounts (w_db w)))\<rparr>"
    by (simp add: w' v AccountTable_def)
  moreover have "distinct (map acc_ID (db_accounts (w_db w)))" using assms(2) by (simp add: db_ok_def table_ok_def AccountTable_def)
  ultimately show ?thesis
    using only_default [OF _ member, of "new found"] by (simp add: new_def i)
qed

section \<open>Accepting an offering\<close>

lemma dec_enc_ChannelCreateData: "dec_ChannelCreateData (Some (enc_ChannelCreateData d)) = (d, True)"
  by (simp add: dec_ChannelCreateData_def enc_ChannelCreateData_def dec_struct_def same_name_def lower_char_def)

lemma computeDeposit_covers:
  "m \<le> computeDeposit f m \<and> ComputePrice f (ofr_MinUnits f) \<le> computeDeposit f m
    \<or> (\<exists>u. ofr_MaxUnit f = Some u \<and> ComputePrice f u \<le> computeDeposit f m)"
  by (auto simp: computeDeposit_def Let_def split: option.split)

text \<open>The least deposit that the user has configured; there is none if the setting is missing or no number.\<close>

definition configured_deposit :: "db \<Rightarrow> u64" where
  "configured_deposit d = (case lookup SettingTable d ''client.min.deposit'' of None \<Rightarrow> 0
     | Some s \<Rightarrow> (case parse_uint 64 (set_Value s) of None \<Rightarrow> 0 | Some n \<Rightarrow> word_of_nat n))"

lemma configured_read:
  assumes "handleC (GetUint64Setting SettingClientMinDeposit) (\<lambda>_. ret 0) ret w = (Inr m :: go_error + u64, w')" "w_faults w = []"
  shows "m = configured_deposit (w_db w)"
  using assms by (auto simp: GetUint64Setting_def SettingClientMinDeposit_def configured_deposit_def lookup_def find_pk_ok
      cmd_operator_defs SettingTable_def split: option.splits)

lemma found_no_faults:
  "findByColumn e T c a w = (Inr acc, u) \<Longrightarrow> w_faults w = [] \<Longrightarrow> w_faults u = []"
  "findActiveOfferingByID i w = (Inr offer, u) \<Longrightarrow> w_faults w = [] \<Longrightarrow> w_faults u = []"
  by (auto simp: findByColumn_def findActiveOfferingByID_def run)

text \<open>What the client's worker reads of the job that buys an offering.\<close>

definition ordered :: "Job \<Rightarrow> ClientPreChannelCreateData \<Rightarrow> bool" where
  "ordered j d \<longleftrightarrow> job_Type j = JobClientPreChannelCreate \<and> job_RelatedType j = JobChannel \<and> job_Status j = JobActive
     \<and> job_CreatedBy j = JobUser \<and> dec_ChannelCreateData (job_Data j) = (d, True)"

text \<open>C23: accepting an offering adds one job and changes nothing else. The offering is one the client may buy: it is
  active, has supply and is not the client's own, and its agent answers. What the worker reads of the job
  is the account of the address given, that offering, the gas price and a deposit: the one given, if one
  was. It is not below the setting \<open>client.min.deposit\<close> (which counts as 0 when the database fails, or
  the setting is missing or no number) and not below the price of the minimum of units; or else the
  offering has a maximum of units and it is not below the price of those, which may be less.\<close>

theorem accepted_offering:
  assumes "AcceptOffering ui tkn addr i deposit gasPrice w = (Inr rid, w')"
  shows "\<exists>acc offer j d m. acc \<in> set (db_accounts (w_db w)) \<and> acc_EthAddr acc = addr
    \<and> offer \<in> set (db_offerings (w_db w)) \<and> ofr_ID offer = i \<and> activeOfferingCondition (w_db w) offer
    \<and> ui_ping ui (ofr_SOMCType offer) (ofr_SOMCData offer) = Some True
    \<and> w_db w' = (w_db w)\<lparr>db_jobs := db_jobs (w_db w) @ [j]\<rparr> \<and> job_RelatedID j = rid \<and> ordered j d
    \<and> pcc_Account d = acc_ID acc \<and> pcc_Offering d = i \<and> pcc_GasPrice d = gasPrice
    \<and> (w_faults w = [] \<longrightarrow> m = configured_deposit (w_db w))
    \<and> pcc_Deposit d = (if deposit = 0 then computeDeposit offer m else deposit)
    \<and> (m \<le> pcc_Deposit d \<and> ComputePrice offer (ofr_MinUnits offer) \<le> pcc_Deposit d
      \<or> (\<exists>u. ofr_MaxUnit offer = Some u \<and> ComputePrice offer u \<le> pcc_Deposit d))"
proof -
  from assms obtain acc u offer v m x where acc: "findByColumn ui_ErrAccountNotFound AccountTable acc_EthAddr addr w = (Inr acc, u)"
    and off: "findActiveOfferingByID i u = (Inr offer, v)"
    and m: "handleC (GetUint64Setting SettingClientMinDeposit) (\<lambda>_. ret 0) ret v = (Inr m :: go_error + u64, x)"
    and rest: "thenC (guardC (deposit = 0 \<or> \<not> deposit < computeDeposit offer m) (Ui ui_ErrDepositTooSmall))
      (thenC (pingOffering ui offer) (bindC new_uuid (\<lambda>rid. thenC (on_err (uierr ui_ErrInternal)
        (AddWithData (ui_queue ui) Conn JobClientPreChannelCreate JobChannel rid JobUser
          (enc_ChannelCreateData \<lparr>pcc_Account = acc_ID acc, pcc_Offering = i, pcc_GasPrice = gasPrice,
             pcc_Deposit = (if deposit = 0 then computeDeposit offer m else deposit)\<rparr>))) (ret rid)))) x = (Inr rid, w')"
    by (cases "Check tkn w") (auto simp: AcceptOffering_def authorized_denied authorized_granted bindC_run_Inr Let_def)
  have configured: "w_faults w = [] \<longrightarrow> m = configured_deposit (w_db v)"
    using configured_read [OF m] found_no_faults(1) [OF acc] found_no_faults(2) [OF off] by blast
  from acc have acc: "acc \<in> set (db_accounts (w_db w))" "acc_EthAddr acc = addr" and u: "w_db u = w_db w"
    by (auto simp: findByColumn_def run AccountTable_def dest!: db_call_state find_Some_in)
  from off have offer: "offer \<in> set (db_offerings (w_db u))" "ofr_ID offer = i" "activeOfferingCondition (w_db u) offer"
    and v: "w_db v = w_db u"
    by (auto simp: findActiveOfferingByID_def run dest!: db_call_state find_Some_in)
  have x: "w_db x = w_db v"
    using m by (rule keeps_view_db [rotated]) (unfold GetUint64Setting_def, intro same_view.keeps_reading)
  from rest obtain y z where ok: "deposit = 0 \<or> \<not> deposit < computeDeposit offer m"
    and ping: "ui_ping ui (ofr_SOMCType offer) (ofr_SOMCData offer) = Some True"
    and y: "new_uuid x = (Inr rid, y)" and add: "AddWithData (ui_queue ui) Conn JobClientPreChannelCreate JobChannel rid JobUser
          (enc_ChannelCreateData \<lparr>pcc_Account = acc_ID acc, pcc_Offering = i, pcc_GasPrice = gasPrice,
             pcc_Deposit = (if deposit = 0 then computeDeposit offer m else deposit)\<rparr>) y = (Inr (), w')"
    by (cases "ui_ping ui (ofr_SOMCType offer) (ofr_SOMCData offer)")
      (auto simp: run pingOffering_def guardC_def ret_def fail_def split: if_splits)
  from y have y: "view Conn y = w_db w" by (auto simp: new_uuid_run x v u)
  from add obtain j where j: "view Conn w' = (view Conn y)\<lparr>db_jobs := db_jobs (view Conn y) @ [j]\<rparr>"
    "job_Type j = JobClientPreChannelCreate \<and> job_RelatedType j = JobChannel \<and> job_RelatedID j = rid
      \<and> job_Status j = JobActive \<and> job_CreatedBy j = JobUser \<and> job_Data j = Some (enc_ChannelCreateData
         \<lparr>pcc_Account = acc_ID acc, pcc_Offering = i, pcc_GasPrice = gasPrice,
          pcc_Deposit = (if deposit = 0 then computeDeposit offer m else deposit)\<rparr>)"
    unfolding AddWithData_def AddWithDataAndDelay_def
    by (fastforce simp: run new_job_def dest: queue.add_view queue.add_job)
  show ?thesis
    using acc offer ping ok j y configured computeDeposit_covers [of m offer] u v
    by (intro exI [of _ acc] exI [of _ offer] exI [of _ j] exI [of _ m] exI [of _ "\<lparr>pcc_Account = acc_ID acc, pcc_Offering = i,
          pcc_GasPrice = gasPrice, pcc_Deposit = (if deposit = 0 then computeDeposit offer m else deposit)\<rparr>"])
      (auto simp: ordered_def dec_enc_ChannelCreateData intro: order_trans)
qed

section \<open>Concrete instances\<close>

text \<open>A client with one account whose key is sealed by the password, which is what the toy key store makes of a key.\<close>

definition sample_ui :: "unit Ui" where
  "sample_ui = \<lparr>ui_queue = NewConfig, ui_isAgent = False, ui_crypto = toy_crypto, ui_pubKey = (\<lambda>_. [4]),
     ui_generate = (\<lambda>_. Some ()), ui_toECDSA = (\<lambda>_. Some ()), ui_encryptKey = (\<lambda>_ pwd. Some (map of_char pwd)),
     ui_decryptKey = (\<lambda>b pwd. if b = map of_char pwd then Some () else None), ui_bcrypt = (\<lambda>b. Some b),
     ui_compare = (\<lambda>h b. h = b), ui_gasPrice = Some 7, ui_ping = (\<lambda>_ _. Some True),
     ui_offer_format = \<lparr>fm_marshal = (\<lambda>_. None), fm_unmarshal = (\<lambda>_. None), fm_valid = (\<lambda>_ _. True)\<rparr>,
     ui_isIP = (\<lambda>_. True), ui_isHost = (\<lambda>_. True), ui_isObject = (\<lambda>_. True), ui_contract = (\<lambda>_. None)\<rparr>"

definition sample_logs :: log_table where
  "sample_logs = \<lparr>log_count = (\<lambda>_ _. Some 0), log_select = (\<lambda>_ _. Some [])\<rparr>"

definition sealed_by :: "string \<Rightarrow> Account \<Rightarrow> Account" where
  "sealed_by pwd a = a\<lparr>acc_PrivateKey := FromBytes (map of_char pwd)\<rparr>"

definition ui_db :: db where
  "ui_db = sample_db\<lparr>db_accounts := [sealed_by ''old'' (sample_account ''a1'' ''aa''), sealed_by ''old'' (sample_account ''a2'' ''cc'')],
     db_offerings := [sample_offering\<lparr>ofr_IsLocal := False, ofr_Agent := ''bb'', ofr_MaxUnit := None\<rparr>],
     db_settings := [saltSetting ''salt'', passwordHashSetting (FromBytes (map of_char (''old'' @ ''salt'')))]\<rparr>"

definition ui_world :: "unit uworld" where
  "ui_world = \<lparr>w_db = ui_db, w_tx = None, w_faults = [], w_now = 5000000000000, w_uuid = (\<lambda>n. ''u'' @ decimal n), w_uuids = 0,
     q_subs = Map.empty, q_notified = [], u_token = ''token'', u_password = [], u_keys = Map.empty,
     u_random = (\<lambda>n. Some [1, 2, of_nat n]), u_randoms = 0\<rparr>"

lemma ui_world_simps [simp]: "w_db ui_world = ui_db" "u_token ui_world = ''token''" "u_keys ui_world = Map.empty"
  by (simp_all add: ui_world_def)

lemma ui_db_ok: "db_ok ui_db"
  by code_simp

theorem calls_need_token_witness:
  "serve sample_ui sample_logs ''guess'' (RUpdateAccount ''a2'' ''mine'' True True) ui_world = (Inl (Ui ui_ErrAccessDenied), ui_world)"
proof -
  have "\<not> Check ''guess'' ui_world" by (simp add: Check_def)
  from calls_need_token [OF this surjective_pairing, of sample_ui sample_logs "RUpdateAccount ''a2'' ''mine'' True True"]
  show ?thesis by (auto simp: raises_gas_price_def prod_eq_iff)
qed

text \<open>A client logs in, with a wrong password first, makes another account the default one and buys an offering.\<close>

definition sample_calls :: "call list" where
  "sample_calls = [CGetToken ''wrong'', CGetToken ''old'', Request (FromBytes [1, 2, 0]) (RUpdateAccount ''a2'' ''mine'' True True),
     Request (FromBytes [1, 2, 0]) (RAcceptOffering ''aa'' ''o1'' 0 7), CUpdatePassword ''old'' ''new'']"

lemma sample_calls_run:
  "(let d = w_db (snd (session sample_ui sample_logs sample_calls ui_world))
    in (map acc_IsDefault (db_accounts d), map job_Type (db_jobs d), login sample_ui ''new'' d))
   = ([False, True], [JobClientEndpointGet, JobClientPreChannelCreate], True)"
  by code_simp

theorem requests_leave_trade_alone_witness:
  "let d = w_db (snd (session sample_ui sample_logs sample_calls ui_world))
   in db_channels d = db_channels ui_db \<and> db_sessions d = db_sessions ui_db \<and> length (db_jobs d) = 2"
proof -
  have "db_ok (w_db ui_world)" using ui_db_ok by simp
  from requests_leave_trade_alone [OF surjective_pairing this, of sample_ui sample_logs sample_calls] sample_calls_run
  show ?thesis by (auto simp: Let_def dest: arg_cong [where f = length])
qed

lemma sample_ui_key_store: "key_store sample_ui"
  by (simp add: key_store_def sample_ui_def)

lemma sample_ui_opens: "opens_with sample_ui ''old'' (\<lambda>_. ()) ui_db"
  by code_simp

lemma sample_password_changed: "fst (UpdatePassword sample_ui ''old'' ''new'' ui_world) = Inr ()"
  by code_simp

theorem password_change_atomic_witness:
  "\<exists>w'. UpdatePassword sample_ui ''old'' ''new'' ui_world = (Inr (), w') \<and> login sample_ui ''new'' (w_db w')
    \<and> opens_with sample_ui ''new'' (\<lambda>_. ()) (w_db w') \<and> same_but_keys ui_db (w_db w')"
proof -
  obtain w' where w': "UpdatePassword sample_ui ''old'' ''new'' ui_world = (Inr (), w')"
    using sample_password_changed by (metis prod.collapse)
  have "db_ok (w_db ui_world)" "opens_with sample_ui ''old'' (\<lambda>_. ()) (w_db ui_world)" "cache_right (\<lambda>_. ()) ui_world"
    using ui_db_ok sample_ui_opens by (simp_all add: cache_right_def)
  from password_change_atomic [OF w' this(1) sample_ui_key_store this(2,3)] w' show ?thesis by simp
qed

lemma sample_default_set: "fst (UpdateAccount ''token'' ''a2'' [] True True ui_world) = Inr ()"
  by code_simp

theorem one_default_account_witness:
  "map acc_ID (filter acc_IsDefault (db_accounts ui_db)) = [''a1'', ''a2'']
    \<and> map acc_ID (filter acc_IsDefault (db_accounts (w_db (snd (UpdateAccount ''token'' ''a2'' [] True True ui_world))))) = [''a2'']"
proof -
  obtain w' where w': "UpdateAccount ''token'' ''a2'' [] True True ui_world = (Inr (), w')"
    using sample_default_set by (metis prod.collapse)
  have "db_ok (w_db ui_world)" using ui_db_ok by simp
  moreover have "map acc_ID (filter acc_IsDefault (db_accounts ui_db)) = [''a1'', ''a2'']" by code_simp
  ultimately show ?thesis using one_default_account [OF w'] w' by simp
qed

text \<open>The client has configured a least deposit of 5000.\<close>

definition careful_world :: "unit uworld" where
  "careful_world = ui_world\<lparr>w_db := ui_db\<lparr>db_settings := \<lparr>set_Key = SettingClientMinDeposit, set_Value = ''5000'', set_Permissions = ReadWrite,
     set_Description = None, set_Name = ''least''\<rparr> # db_settings ui_db\<rparr>\<rparr>"

lemma sample_offer_accepted:
  "fst (AcceptOffering sample_ui ''token'' ''aa'' ''o1'' 0 7 careful_world) = Inr ''u0'' \<and> configured_deposit (w_db careful_world) = 5000"
  by code_simp

theorem accepted_offering_witness:
  "\<exists>w' j d. AcceptOffering sample_ui ''token'' ''aa'' ''o1'' 0 7 careful_world = (Inr ''u0'', w') \<and> j \<in> set (db_jobs (w_db w'))
    \<and> job_RelatedID j = ''u0'' \<and> ordered j d \<and> pcc_Offering d = ''o1'' \<and> pcc_GasPrice d = 7 \<and> 5000 \<le> pcc_Deposit d"
proof -
  obtain w' where w': "AcceptOffering sample_ui ''token'' ''aa'' ''o1'' 0 7 careful_world = (Inr ''u0'', w')"
    using sample_offer_accepted by (metis prod.collapse)
  have "w_faults careful_world = []" "db_offerings (w_db careful_world) = db_offerings ui_db"
    by (simp_all add: careful_world_def ui_world_def)
  then show ?thesis using accepted_offering [OF w'] w' sample_offer_accepted by (fastforce simp: ui_db_def)
qed

end
