(* ===== verification/QueueRun.thy ===== *)
theory QueueRun
  imports JobQueue
begin

text \<open>
  The goroutines of the job queue (\<open>Process\<close>, \<open>Close\<close>, \<open>processMain\<close> and \<open>processWorker\<close> of
  \<open>src/job/queue.go\<close>) as processes that interleave: the routine that runs \<open>Process\<close>, its workers
  and the callers of \<open>Close\<close>. They share a mutex, the channel \<open>exit\<close>, in which workers that fail
  and callers of \<open>Close\<close> leave tokens, the channel \<open>exited\<close>, and each worker's channel of jobs.
  What a query returns and how a job ends is left open: both are part of the action, and
  \<open>processWorker_step\<close> says which ends there are. The monitor of the client (\<open>Run\<close> and
  \<open>Close\<close> of \<open>src/client/bill/monitor.go\<close>) is the same system without workers.
\<close>

section \<open>The processes\<close>

text \<open>The places a routine can be at. A worker that has left its result is done.\<close>

datatype (plugins only: code size) main_pc =
    MStart | MSpawn | MCheck | MQuery | MRows "(string \<times> string) list" | MSend nat string "(string \<times> string) list"
  | MClose nat | MJoin nat | MSignal | MLock | MReturned

datatype (plugins only: code size) worker_pc =
    WNot | WReceive | WRun string | WExit go_error | WDrain go_error | WResult "go_error option" | WDone "go_error option"

datatype (plugins only: code size) closer_pc = CIdle | CLock | CTest | CSend | CWait | CDone bool

text \<open>Capacities of the channels and numbers of routines.\<close>

record system =
  sy_workers :: nat
  sy_exit :: nat
  sy_buf :: nat
  sy_closers :: nat

text \<open>\<open>runtime.NumCPU\<close> is an argument.\<close>

definition queue_system :: "Config \<Rightarrow> nat \<Rightarrow> nat \<Rightarrow> system" where
  "queue_system conf cpus closers = (let num = (if Workers conf = 0 then cpus else unat (Workers conf)) in
     \<lparr>sy_workers = num, sy_exit = num, sy_buf = unat (WorkerBufLen conf), sy_closers = closers\<rparr>)"

definition monitor_system :: "nat \<Rightarrow> system" where
  "monitor_system closers = \<lparr>sy_workers = 0, sy_exit = 1, sy_buf = 0, sy_closers = closers\<rparr>"

text \<open>A channel that has not been made is \<open>None\<close>; otherwise it is the number of tokens in it.\<close>

record running =
  run_mutex :: "nat option"
  run_exit :: "nat option"
  run_exited :: nat
  run_main :: main_pc
  run_error :: "go_error option"
  run_worker :: "nat \<Rightarrow> worker_pc"
  run_jobs :: "nat \<Rightarrow> string list"
  run_closer :: "nat \<Rightarrow> closer_pc"

definition initial_run :: running where
  "initial_run = \<lparr>run_mutex = None, run_exit = None, run_exited = 0, run_main = MStart, run_error = None,
     run_worker = (\<lambda>_. WNot), run_jobs = (\<lambda>_. []), run_closer = (\<lambda>_. CIdle)\<rparr>"

definition jobs_closed :: "main_pc \<Rightarrow> nat \<Rightarrow> bool" where
  "jobs_closed m i \<longleftrightarrow> (case m of MClose k \<Rightarrow> i < k | MJoin _ \<Rightarrow> True | MSignal \<Rightarrow> True | MLock \<Rightarrow> True | MReturned \<Rightarrow> True
     | _ \<Rightarrow> False)"

section \<open>Steps\<close>

text \<open>\<open>checkExit\<close> takes a token if there is one.\<close>

definition check_exit :: "running \<Rightarrow> running \<Rightarrow> running" where
  "check_exit s cont = (case run_exit s of
     Some (Suc t) \<Rightarrow> s\<lparr>run_exit := Some t, run_main := MClose 0, run_error := Some (Job job_ErrQueueClosed)\<rparr>
   | _ \<Rightarrow> cont)"

definition join_error :: "go_error option \<Rightarrow> go_error option \<Rightarrow> go_error option" where
  "join_error werr err = (if werr \<noteq> None \<and> err = Some (Job job_ErrQueueClosed) then werr else err)"

definition main_step :: "system \<Rightarrow> running \<Rightarrow> running option" where
  "main_step sy s = (case run_main s of
     MStart \<Rightarrow> if run_mutex s = None \<and> run_exit s = None
       then Some (s\<lparr>run_exit := Some 0, run_exited := 0, run_main := MSpawn\<rparr>) else None
   | MSpawn \<Rightarrow> Some (s\<lparr>run_worker := (\<lambda>i. if i < sy_workers sy then WReceive else run_worker s i),
       run_jobs := (\<lambda>_. []), run_main := MCheck\<rparr>)
   | MCheck \<Rightarrow> Some (check_exit s (s\<lparr>run_main := MQuery\<rparr>))
   | MQuery \<Rightarrow> None
   | MRows [] \<Rightarrow> Some (s\<lparr>run_main := MCheck\<rparr>)
   | MRows ((job, related) # rs) \<Rightarrow>
       Some (check_exit s (s\<lparr>run_main := MSend (uuidWorker (sy_workers sy) related) job rs\<rparr>))
   | MSend i job rs \<Rightarrow> if length (run_jobs s i) < sy_buf sy
       then Some (s\<lparr>run_jobs := (run_jobs s)(i := run_jobs s i @ [job]), run_main := MRows rs\<rparr>) else None
   | MClose k \<Rightarrow> Some (s\<lparr>run_main := (if k < sy_workers sy then MClose (Suc k) else MJoin 0)\<rparr>)
   | MJoin k \<Rightarrow> if k < sy_workers sy
       then (case run_worker s k of
          WDone werr \<Rightarrow> Some (s\<lparr>run_error := join_error werr (run_error s), run_main := MJoin (Suc k)\<rparr>) | _ \<Rightarrow> None)
       else Some (s\<lparr>run_main := MSignal\<rparr>)
   | MSignal \<Rightarrow> if run_exited s < 1 then Some (s\<lparr>run_exited := Suc (run_exited s), run_main := MLock\<rparr>) else None
   | MLock \<Rightarrow> if run_mutex s = None then Some (s\<lparr>run_exit := None, run_main := MReturned\<rparr>) else None
   | MReturned \<Rightarrow> None)"

text \<open>The query returns rows or fails; reading them may fail too.\<close>

definition rows_step :: "system \<Rightarrow> (string \<times> string) list \<Rightarrow> running \<Rightarrow> running option" where
  "rows_step sy rs s = (if run_main s = MQuery \<and> (sy_workers sy = 0 \<longrightarrow> rs = []) then Some (s\<lparr>run_main := MRows rs\<rparr>) else None)"

definition fail_step :: "running \<Rightarrow> running option" where
  "fail_step s = (case run_main s of
     MQuery \<Rightarrow> Some (s\<lparr>run_main := MClose 0, run_error := Some (Job job_ErrInternal)\<rparr>)
   | MRows _ \<Rightarrow> Some (s\<lparr>run_main := MClose 0, run_error := Some (Job job_ErrInternal)\<rparr>)
   | _ \<Rightarrow> None)"

definition set_worker :: "nat \<Rightarrow> worker_pc \<Rightarrow> running \<Rightarrow> running" where
  "set_worker i pc s = s\<lparr>run_worker := (run_worker s)(i := pc)\<rparr>"

text \<open>A worker that fails leaves a token and takes a job out of its channel, in case \<open>processMain\<close> waits there.\<close>

definition worker_step :: "system \<Rightarrow> nat \<Rightarrow> running \<Rightarrow> running option" where
  "worker_step sy i s = (if \<not> i < sy_workers sy then None else case run_worker s i of
     WReceive \<Rightarrow> (case run_jobs s i of
        j # js \<Rightarrow> Some (set_worker i (WRun j) (s\<lparr>run_jobs := (run_jobs s)(i := js)\<rparr>))
      | [] \<Rightarrow> if jobs_closed (run_main s) i then Some (set_worker i (WResult None) s) else None)
   | WExit e \<Rightarrow> (case run_exit s of
        Some t \<Rightarrow> if t < sy_exit sy then Some (set_worker i (WDrain e) (s\<lparr>run_exit := Some (Suc t)\<rparr>)) else None
      | None \<Rightarrow> None)
   | WDrain e \<Rightarrow> Some (set_worker i (WResult (Some e)) (s\<lparr>run_jobs := (run_jobs s)(i := tl (run_jobs s i))\<rparr>))
   | WResult r \<Rightarrow> Some (set_worker i (WDone r) s)
   | _ \<Rightarrow> None)"

definition outcome_step :: "system \<Rightarrow> nat \<Rightarrow> worker_next \<Rightarrow> running \<Rightarrow> running option" where
  "outcome_step sy i out s = (if \<not> i < sy_workers sy then None else case run_worker s i of
     WRun _ \<Rightarrow> Some (set_worker i (case out of Next \<Rightarrow> WReceive | Stop (Some e) \<Rightarrow> WExit e | Stop None \<Rightarrow> WResult None) s)
   | _ \<Rightarrow> None)"

text \<open>On a channel without a buffer a job is handed over when both sides are there.\<close>

definition handover_step :: "system \<Rightarrow> nat \<Rightarrow> running \<Rightarrow> running option" where
  "handover_step sy i s = (case run_main s of
     MSend k job rs \<Rightarrow> if sy_buf sy = 0 \<and> k = i \<and> i < sy_workers sy then (case run_worker s i of
          WReceive \<Rightarrow> Some (set_worker i (WRun job) (s\<lparr>run_main := MRows rs\<rparr>))
        | WDrain e \<Rightarrow> Some (set_worker i (WResult (Some e)) (s\<lparr>run_main := MRows rs\<rparr>))
        | _ \<Rightarrow> None) else None
   | _ \<Rightarrow> None)"

definition set_closer :: "nat \<Rightarrow> closer_pc \<Rightarrow> running \<Rightarrow> running" where
  "set_closer k pc s = s\<lparr>run_closer := (run_closer s)(k := pc)\<rparr>"

text \<open>The end of \<open>Close\<close> is marked with whether it has asked for an exit.\<close>

definition closer_step :: "system \<Rightarrow> nat \<Rightarrow> running \<Rightarrow> running option" where
  "closer_step sy k s = (if \<not> k < sy_closers sy then None else case run_closer s k of
     CLock \<Rightarrow> if run_mutex s = None then Some (set_closer k CTest (s\<lparr>run_mutex := Some k\<rparr>)) else None
   | CTest \<Rightarrow> if run_exit s = None then Some (set_closer k (CDone False) (s\<lparr>run_mutex := None\<rparr>))
       else Some (set_closer k CSend s)
   | CSend \<Rightarrow> (case run_exit s of
        Some t \<Rightarrow> if t < sy_exit sy then Some (set_closer k CWait (s\<lparr>run_exit := Some (Suc t)\<rparr>)) else None
      | None \<Rightarrow> None)
   | CWait \<Rightarrow> if 0 < run_exited s
       then Some (set_closer k (CDone True) (s\<lparr>run_exited := run_exited s - 1, run_mutex := None\<rparr>)) else None
   | _ \<Rightarrow> None)"

definition call_step :: "system \<Rightarrow> nat \<Rightarrow> running \<Rightarrow> running option" where
  "call_step sy k s = (if k < sy_closers sy \<and> run_closer s k = CIdle then Some (set_closer k CLock s) else None)"

datatype (plugins only: code size) action =
    Main | Rows "(string \<times> string) list" | QueryFails | Worker nat | Outcome nat worker_next | Handover nat | Closer nat | Call nat

definition act :: "system \<Rightarrow> action \<Rightarrow> running \<Rightarrow> running option" where
  "act sy a s = (case a of Main \<Rightarrow> main_step sy s | Rows rs \<Rightarrow> rows_step sy rs s | QueryFails \<Rightarrow> fail_step s
     | Worker i \<Rightarrow> worker_step sy i s | Outcome i out \<Rightarrow> outcome_step sy i out s | Handover i \<Rightarrow> handover_step sy i s
     | Closer k \<Rightarrow> closer_step sy k s | Call k \<Rightarrow> call_step sy k s)"

fun exec :: "system \<Rightarrow> action list \<Rightarrow> running \<Rightarrow> running option" where
  "exec sy [] s = Some s"
| "exec sy (a # as) s = (case act sy a s of None \<Rightarrow> None | Some t \<Rightarrow> exec sy as t)"

text \<open>Everyone who was called has come back; and nothing can happen but another call.\<close>

definition all_returned :: "system \<Rightarrow> running \<Rightarrow> bool" where
  "all_returned sy s \<longleftrightarrow> run_main s = MReturned \<and> list_all (\<lambda>k. run_closer s k \<in> {CIdle, CDone False, CDone True}) [0..<sy_closers sy]"

definition stuck :: "system \<Rightarrow> running \<Rightarrow> bool" where
  "stuck sy s \<longleftrightarrow> (\<forall>a. (\<forall>k. a \<noteq> Call k) \<longrightarrow> act sy a s = None)"

text \<open>The behaviours looked at: which workers may fail, and no worker ends without an error.\<close>

definition allowed :: "nat set \<Rightarrow> action \<Rightarrow> bool" where
  "allowed F a \<longleftrightarrow> (case a of Outcome i (Stop (Some _)) \<Rightarrow> i \<in> F | Outcome i (Stop None) \<Rightarrow> False | _ \<Rightarrow> True)"

inductive reached :: "system \<Rightarrow> nat set \<Rightarrow> running \<Rightarrow> bool" for sy F where
  start: "reached sy F initial_run"
| step: "reached sy F s \<Longrightarrow> allowed F a \<Longrightarrow> act sy a s = Some t \<Longrightarrow> reached sy F t"

end
