(* ===== verification/Shutdown.thy ===== *)
theory Shutdown
  imports QueueRun
begin

text \<open>
  What holds of every state the job queue's goroutines reach, as long as the tokens of the workers
  that may fail and of the callers of \<open>Close\<close> fit the channel \<open>exit\<close>: whoever left a token is
  counted, workers only end when their channel is closed or a token tells \<open>Process\<close>, and the mutex
  is held by the caller of \<open>Close\<close> that waits.
\<close>

section \<open>Tokens\<close>

definition failing :: "worker_pc \<Rightarrow> bool" where
  "failing pc \<longleftrightarrow> (case pc of WExit _ \<Rightarrow> True | WDrain _ \<Rightarrow> True | WResult r \<Rightarrow> r \<noteq> None | WDone r \<Rightarrow> r \<noteq> None | _ \<Rightarrow> False)"

definition signalled :: "worker_pc \<Rightarrow> bool" where
  "signalled pc \<longleftrightarrow> failing pc \<and> (\<forall>e. pc \<noteq> WExit e)"

definition ended :: "worker_pc \<Rightarrow> bool" where
  "ended pc \<longleftrightarrow> (case pc of WResult _ \<Rightarrow> True | WDone _ \<Rightarrow> True | _ \<Rightarrow> False)"

definition asked :: "closer_pc \<Rightarrow> bool" where
  "asked pc \<longleftrightarrow> pc = CWait \<or> pc = CDone True"

definition tokens :: "system \<Rightarrow> (nat \<Rightarrow> worker_pc) \<Rightarrow> (nat \<Rightarrow> closer_pc) \<Rightarrow> nat" where
  "tokens sy ws cs = card {i. i < sy_workers sy \<and> signalled (ws i)} + card {k. k < sy_closers sy \<and> asked (cs k)}"

lemma card_upd:
  "card {i. i < (n :: nat) \<and> P ((f(j := x)) i)} + (if j < n \<and> P (f j) then 1 else 0) = card {i. i < n \<and> P (f i)} + (if j < n \<and> P x then 1 else 0)"
proof -
  have rest: "card {i. i < n \<and> P (g i)} = card {i. i < n \<and> i \<noteq> j \<and> P (g i)} + (if j < n \<and> P (g j) then 1 else 0)" for g
  proof (cases "j < n \<and> P (g j)")
    case True
    then have eq: "{i. i < n \<and> P (g i)} = insert j {i. i < n \<and> i \<noteq> j \<and> P (g i)}" by auto
    have "finite {i. i < n \<and> i \<noteq> j \<and> P (g i)}" by (rule finite_subset [of _ "{..<n}"]) auto
    from card_insert_disjoint [OF this] have "card (insert j {i. i < n \<and> i \<noteq> j \<and> P (g i)}) = Suc (card {i. i < n \<and> i \<noteq> j \<and> P (g i)})"
      by simp
    with True eq show ?thesis by presburger
  next
    case False
    then have "{i. i < n \<and> P (g i)} = {i. i < n \<and> i \<noteq> j \<and> P (g i)}" by auto
    with False show ?thesis by simp
  qed
  have "{i. i < n \<and> i \<noteq> j \<and> P ((f(j := x)) i)} = {i. i < n \<and> i \<noteq> j \<and> P (f i)}" by auto
  with rest [of f] rest [of "f(j := x)"] show ?thesis by simp
qed

lemma tokens_worker:
  "i < sy_workers sy \<Longrightarrow> tokens sy (ws(i := pc)) cs + (if signalled (ws i) then 1 else 0) = tokens sy ws cs + (if signalled pc then 1 else 0)"
  using card_upd [of "sy_workers sy" signalled ws i pc] by (simp add: tokens_def)

lemma tokens_closer:
  "k < sy_closers sy \<Longrightarrow> tokens sy ws (cs(k := pc)) + (if asked (cs k) then 1 else 0) = tokens sy ws cs + (if asked pc then 1 else 0)"
  using card_upd [of "sy_closers sy" asked cs k pc] by (simp add: tokens_def)

text \<open>The tokens fit: the workers that may fail and the callers of \<open>Close\<close> are not more than \<open>exit\<close> holds.\<close>

definition fits :: "system \<Rightarrow> nat set \<Rightarrow> bool" where
  "fits sy F \<longleftrightarrow> finite F \<and> card F + sy_closers sy \<le> sy_exit sy \<and> sy_closers sy \<le> 1 \<and> (sy_workers sy = 0 \<or> 0 < sy_buf sy)"

section \<open>The invariant\<close>

definition looping :: "main_pc \<Rightarrow> bool" where
  "looping m \<longleftrightarrow> (case m of MSpawn \<Rightarrow> True | MCheck \<Rightarrow> True | MQuery \<Rightarrow> True | MRows _ \<Rightarrow> True | MSend _ _ _ \<Rightarrow> True | _ \<Rightarrow> False)"

definition exit_ok :: "system \<Rightarrow> running \<Rightarrow> bool" where
  "exit_ok sy s \<longleftrightarrow> (run_exit s = None \<longleftrightarrow> run_main s = MStart \<or> run_main s = MReturned)
     \<and> (\<forall>t. run_exit s = Some t \<longrightarrow> t \<le> tokens sy (run_worker s) (run_closer s))
     \<and> (\<forall>t. run_exit s = Some t \<longrightarrow> looping (run_main s) \<longrightarrow> t = tokens sy (run_worker s) (run_closer s))
     \<and> (run_main s = MStart \<longrightarrow> tokens sy (run_worker s) (run_closer s) = 0)"

definition workers_ok :: "system \<Rightarrow> nat set \<Rightarrow> running \<Rightarrow> bool" where
  "workers_ok sy F s \<longleftrightarrow>
     (if run_main s = MStart \<or> run_main s = MSpawn then (\<forall>i. run_worker s i = WNot) else (\<forall>i < sy_workers sy. run_worker s i \<noteq> WNot))
     \<and> (\<forall>i < sy_workers sy. failing (run_worker s i) \<longrightarrow> i \<in> F)
     \<and> (\<forall>i < sy_workers sy. ended (run_worker s i) \<longrightarrow> \<not> failing (run_worker s i) \<longrightarrow> jobs_closed (run_main s) i)
     \<and> (\<forall>i < sy_workers sy. length (run_jobs s i) \<le> sy_buf sy)"

definition sending_ok :: "system \<Rightarrow> running \<Rightarrow> bool" where
  "sending_ok sy s \<longleftrightarrow> (case run_main s of
     MSend i _ _ \<Rightarrow> i < sy_workers sy \<and> (ended (run_worker s i) \<longrightarrow> length (run_jobs s i) < sy_buf sy)
   | MRows rs \<Rightarrow> sy_workers sy = 0 \<longrightarrow> rs = [] | _ \<Rightarrow> True)"

definition closers_ok :: "system \<Rightarrow> running \<Rightarrow> bool" where
  "closers_ok sy s \<longleftrightarrow>
     (\<forall>k < sy_closers sy. run_mutex s = Some k \<longleftrightarrow> run_closer s k = CTest \<or> run_closer s k = CSend \<or> run_closer s k = CWait)
     \<and> (\<forall>k. run_mutex s = Some k \<longrightarrow> k < sy_closers sy)
     \<and> (\<forall>k < sy_closers sy. run_closer s k = CSend \<or> run_closer s k = CWait \<longrightarrow> run_exit s \<noteq> None)
     \<and> (run_main s \<noteq> MLock \<longrightarrow> run_main s \<noteq> MReturned \<longrightarrow> run_exited s = 0)
     \<and> (\<forall>k < sy_closers sy. run_main s = MLock \<longrightarrow> run_closer s k \<noteq> CDone True \<longrightarrow> run_exited s = 1)"

definition run_ok :: "system \<Rightarrow> nat set \<Rightarrow> running \<Rightarrow> bool" where
  "run_ok sy F s \<longleftrightarrow> exit_ok sy s \<and> workers_ok sy F s \<and> sending_ok sy s \<and> closers_ok sy s"

lemmas run_ok_defs = run_ok_def exit_ok_def workers_ok_def sending_ok_def closers_ok_def

lemma initial_run_ok: "run_ok sy F initial_run"
  by (auto simp: run_ok_defs initial_run_def tokens_def signalled_def failing_def asked_def ended_def)

lemma uuidWorker_less: "0 < n \<Longrightarrow> uuidWorker n r < n"
  by (simp add: uuidWorker_def)

lemma no_tokens_none_ended:
  "tokens sy ws cs = 0 \<Longrightarrow> i < sy_workers sy \<Longrightarrow> ended (ws i) \<Longrightarrow> \<not> failing (ws i)"
proof (rule notI)
  assume a: "tokens sy ws cs = 0" "i < sy_workers sy" "ended (ws i)" "failing (ws i)"
  then have "signalled (ws i)" by (auto simp: signalled_def ended_def)
  with a(1,2) show False by (auto simp: tokens_def)
qed

lemma check_exit_cases:
  obtains (exit) t where "run_exit s = Some (Suc t)"
      "check_exit s cont = s\<lparr>run_exit := Some t, run_main := MClose 0, run_error := Some (Job job_ErrQueueClosed)\<rparr>"
  | (go) "check_exit s cont = cont" "run_exit s = None \<or> run_exit s = Some 0"
  by (cases "run_exit s"; cases "the (run_exit s)") (auto simp: check_exit_def)

text \<open>What a step of \<open>Process\<close> changes once the workers run.\<close>

lemma main_moves:
  assumes "run_ok sy F s" "run_main s \<notin> {MStart, MSpawn, MLock, MReturned}" "m \<notin> {MStart, MSpawn, MLock, MReturned}"
    and "looping m \<longrightarrow> looping (run_main s) \<and> ex = run_exit s"
    and "ex = run_exit s \<or> (\<exists>x. run_exit s = Some (Suc x) \<and> ex = Some x)"
    and "\<forall>i < sy_workers sy. jobs_closed (run_main s) i \<longrightarrow> jobs_closed m i"
    and "case m of MSend i _ _ \<Rightarrow> i < sy_workers sy \<and> (ended (run_worker s i) \<longrightarrow> length (run_jobs s i) < sy_buf sy)
       | MRows rs \<Rightarrow> sy_workers sy = 0 \<longrightarrow> rs = [] | _ \<Rightarrow> True"
  shows "run_ok sy F (s\<lparr>run_exit := ex, run_main := m, run_error := e\<rparr>)"
proof -
  let ?t = "s\<lparr>run_exit := ex, run_main := m, run_error := e\<rparr>"
  from assms(1) have ok: "exit_ok sy s" "workers_ok sy F s" "sending_ok sy s" "closers_ok sy s" by (simp_all add: run_ok_def)
  have "exit_ok sy ?t" using ok(1) assms(2-5) by (auto simp: exit_ok_def)
  moreover have "workers_ok sy F ?t" using ok(2) assms(2,3,6) by (auto simp: workers_ok_def)
  moreover have "sending_ok sy ?t" using assms(7) by (simp add: sending_ok_def split: main_pc.splits)
  moreover have "closers_ok sy ?t" using ok(4) assms(2,3,5) by (auto simp: closers_ok_def)
  ultimately show ?thesis by (simp add: run_ok_def)
qed

lemma started_keeps:
  assumes "run_ok sy F s" "main_step sy s = Some t" "run_main s \<in> {MStart, MSpawn, MSignal, MLock, MReturned}"
  shows "run_ok sy F t"
proof -
  from assms(1) have ok: "exit_ok sy s" "workers_ok sy F s" "sending_ok sy s" "closers_ok sy s" by (simp_all add: run_ok_def)
  from assms(3) consider "run_main s = MStart" | "run_main s = MSpawn" | "run_main s = MSignal" | "run_main s = MLock" | "run_main s = MReturned"
    by blast
  then show ?thesis
  proof cases
    case 1
    with assms(2) have t: "t = s\<lparr>run_exit := Some 0, run_exited := 0, run_main := MSpawn\<rparr>" "run_mutex s = None" "run_exit s = None"
      by (auto simp: main_step_def split: if_splits)
    have "exit_ok sy t" "workers_ok sy F t" "sending_ok sy t" "closers_ok sy t"
      using ok 1 by (auto simp: t exit_ok_def workers_ok_def sending_ok_def closers_ok_def jobs_closed_def)
    then show ?thesis by (simp add: run_ok_def)
  next
    case 2
    let ?ws = "\<lambda>i. if i < sy_workers sy then WReceive else run_worker s i"
    from 2 assms(2) have t: "t = s\<lparr>run_worker := ?ws, run_jobs := (\<lambda>_. []), run_main := MCheck\<rparr>" by (simp add: main_step_def)
    have not: "run_worker s i = WNot" for i using ok(2) 2 by (simp add: workers_ok_def)
    have "tokens sy ?ws (run_closer s) = tokens sy (run_worker s) (run_closer s)"
      by (simp add: tokens_def not signalled_def failing_def)
    then have "exit_ok sy t" using ok(1) 2 by (simp add: t exit_ok_def looping_def)
    moreover have "workers_ok sy F t" "sending_ok sy t" "closers_ok sy t"
      using ok 2 by (auto simp: t workers_ok_def sending_ok_def closers_ok_def failing_def ended_def)
    ultimately show ?thesis by (simp add: run_ok_def)
  next
    case 3
    with assms(2) have t: "t = s\<lparr>run_exited := Suc (run_exited s), run_main := MLock\<rparr>" by (auto simp: main_step_def split: if_splits)
    have "exit_ok sy t" "workers_ok sy F t" "sending_ok sy t" "closers_ok sy t"
      using ok 3 by (auto simp: t exit_ok_def workers_ok_def sending_ok_def closers_ok_def jobs_closed_def looping_def)
    then show ?thesis by (simp add: run_ok_def)
  next
    case 4
    with assms(2) have t: "t = s\<lparr>run_exit := None, run_main := MReturned\<rparr>" "run_mutex s = None" by (auto simp: main_step_def split: if_splits)
    have "exit_ok sy t" "workers_ok sy F t" "sending_ok sy t" "closers_ok sy t"
      using ok 4 t(2) by (auto simp: t(1) exit_ok_def workers_ok_def sending_ok_def closers_ok_def jobs_closed_def looping_def)
    then show ?thesis by (simp add: run_ok_def)
  next
    case 5
    with assms(2) show ?thesis by (simp add: main_step_def)
  qed
qed

lemma check_keeps:
  assumes "run_ok sy F s" "looping (run_main s)" "run_main s \<noteq> MSpawn" "looping m" "m \<noteq> MSpawn"
    and "\<not> (\<exists>x. run_exit s = Some (Suc x)) \<Longrightarrow> case m of
       MSend i _ _ \<Rightarrow> i < sy_workers sy \<and> (ended (run_worker s i) \<longrightarrow> length (run_jobs s i) < sy_buf sy)
       | MRows rs \<Rightarrow> sy_workers sy = 0 \<longrightarrow> rs = [] | _ \<Rightarrow> True"
  shows "run_ok sy F (check_exit s (s\<lparr>run_main := m\<rparr>))"
proof (cases rule: check_exit_cases [of s "s\<lparr>run_main := m\<rparr>"])
  case (exit x)
  have "run_ok sy F (s\<lparr>run_exit := Some x, run_main := MClose 0, run_error := Some (Job job_ErrQueueClosed)\<rparr>)"
    using assms(2,3) exit by (intro main_moves [OF assms(1)]) (auto simp: looping_def jobs_closed_def split: main_pc.splits)
  with exit show ?thesis by simp
next
  case go
  have not_closed: "\<not> jobs_closed (run_main s) i" for i using assms(2) by (auto simp: jobs_closed_def looping_def split: main_pc.splits)
  have "run_ok sy F (s\<lparr>run_exit := run_exit s, run_main := m, run_error := run_error s\<rparr>)"
    using assms(2-5) assms(6) go not_closed by (intro main_moves [OF assms(1)]) (auto simp: looping_def)
  with go show ?thesis by simp
qed

lemma main_keeps:
  assumes "run_ok sy F s" "main_step sy s = Some t"
  shows "run_ok sy F t"
proof (cases "run_main s \<in> {MStart, MSpawn, MSignal, MLock, MReturned}")
  case True
  with assms show ?thesis by (rule started_keeps)
next
  case False
  let ?move = "\<lambda>m e. s\<lparr>run_exit := run_exit s, run_main := m, run_error := e\<rparr>"
  note moves = main_moves [OF assms(1), of _ "run_exit s"]
  from assms(1) have ok: "sending_ok sy s" by (simp add: run_ok_def)
  show ?thesis
  proof (cases "run_main s")
    case MCheck
    with assms check_keeps [OF assms(1), of MQuery] show ?thesis by (simp add: main_step_def looping_def)
  next
    case (MRows rs)
    show ?thesis
    proof (cases rs)
      case Nil
      with MRows assms(2) have "t = s\<lparr>run_main := MCheck\<rparr>" by (simp add: main_step_def)
      then have t: "t = ?move MCheck (run_error s)" by simp
      show ?thesis unfolding t using MRows by (intro moves) (auto simp: looping_def jobs_closed_def)
    next
      case (Cons r rs')
      obtain j rel where r: "r = (j, rel)" by (cases r)
      let ?i = "uuidWorker (sy_workers sy) rel"
      have i: "?i < sy_workers sy" using ok MRows Cons uuidWorker_less by (auto simp: sending_ok_def)
      have "\<not> (\<exists>x. run_exit s = Some (Suc x)) \<Longrightarrow> tokens sy (run_worker s) (run_closer s) = 0"
        using assms(1) MRows by (cases "run_exit s"; cases "the (run_exit s)") (auto simp: run_ok_def exit_ok_def looping_def)
      then have none: "\<not> (\<exists>x. run_exit s = Some (Suc x)) \<Longrightarrow> \<not> ended (run_worker s ?i)"
        using no_tokens_none_ended i assms(1) MRows by (auto simp: run_ok_def workers_ok_def jobs_closed_def)
      have "t = check_exit s (s\<lparr>run_main := MSend ?i j rs'\<rparr>)" using assms(2) MRows Cons r by (simp add: main_step_def)
      with check_keeps [OF assms(1), of "MSend ?i j rs'"] MRows i none show ?thesis by (simp add: looping_def)
    qed
  next
    case (MSend i j rs)
    with assms(2) have t: "t = s\<lparr>run_jobs := (run_jobs s)(i := run_jobs s i @ [j]), run_main := MRows rs\<rparr>"
      and room: "length (run_jobs s i) < sy_buf sy" by (auto simp: main_step_def split: if_splits)
    have "run_ok sy F (?move (MRows rs) (run_error s))"
      using MSend ok by (intro moves) (auto simp: looping_def jobs_closed_def sending_ok_def)
    with room show ?thesis by (auto simp: t run_ok_def exit_ok_def workers_ok_def sending_ok_def closers_ok_def)
  next
    case (MClose k)
    with assms(2) have "t = s\<lparr>run_main := (if k < sy_workers sy then MClose (Suc k) else MJoin 0)\<rparr>" by (simp add: main_step_def)
    then have t: "t = ?move (if k < sy_workers sy then MClose (Suc k) else MJoin 0) (run_error s)" by simp
    show ?thesis unfolding t using MClose by (intro moves) (auto simp: looping_def jobs_closed_def)
  next
    case (MJoin k)
    then have "t = s\<lparr>run_main := MSignal\<rparr> \<or> (\<exists>werr. t = s\<lparr>run_error := join_error werr (run_error s), run_main := MJoin (Suc k)\<rparr>)"
      using assms(2) by (auto simp: main_step_def split: if_splits worker_pc.splits)
    then have "\<exists>m e. t = ?move m e \<and> (m = MSignal \<or> m = MJoin (Suc k))"
    proof
      assume "t = s\<lparr>run_main := MSignal\<rparr>"
      then have "t = ?move MSignal (run_error s)" by simp
      then show ?thesis by blast
    next
      assume "\<exists>werr. t = s\<lparr>run_error := join_error werr (run_error s), run_main := MJoin (Suc k)\<rparr>"
      then obtain werr where "t = s\<lparr>run_error := join_error werr (run_error s), run_main := MJoin (Suc k)\<rparr>" ..
      then have "t = ?move (MJoin (Suc k)) (join_error werr (run_error s))" by simp
      then show ?thesis by blast
    qed
    then obtain m e where t: "t = ?move m e" "m = MSignal \<or> m = MJoin (Suc k)" by blast
    show ?thesis unfolding t(1) using MJoin t(2) by (intro moves) (auto simp: looping_def jobs_closed_def)
  qed (use False assms(2) in \<open>auto simp: main_step_def\<close>)
qed

lemma query_keeps:
  assumes "run_ok sy F s" "rows_step sy rs s = Some t \<or> fail_step s = Some t"
  shows "run_ok sy F t"
  using assms(2)
proof
  assume "rows_step sy rs s = Some t"
  with assms(1) show ?thesis by (auto simp: rows_step_def run_ok_defs looping_def jobs_closed_def split: if_splits)
next
  assume "fail_step s = Some t"
  then have "t = s\<lparr>run_main := MClose 0, run_error := Some (Job job_ErrInternal)\<rparr>" "run_main s = MQuery \<or> (\<exists>rs. run_main s = MRows rs)"
    by (auto simp: fail_step_def split: main_pc.splits)
  with assms(1) show ?thesis by (auto simp: run_ok_defs looping_def jobs_closed_def)
qed

text \<open>What a step of one worker changes.\<close>

lemma worker_moves:
  assumes "run_ok sy F s" "i < sy_workers sy" "run_worker s i \<noteq> WNot" "pc \<noteq> WNot" "failing pc \<longrightarrow> i \<in> F"
    and "ended pc \<and> \<not> failing pc \<longrightarrow> jobs_closed (run_main s) i" "length js \<le> sy_buf sy"
    and "case run_main s of MSend k _ _ \<Rightarrow> k = i \<longrightarrow> ended pc \<longrightarrow> length js < sy_buf sy | _ \<Rightarrow> True"
    and "(signalled pc \<longleftrightarrow> signalled (run_worker s i)) \<and> ex = run_exit s
      \<or> signalled pc \<and> \<not> signalled (run_worker s i) \<and> (\<exists>x. run_exit s = Some x \<and> ex = Some (Suc x))"
  shows "run_ok sy F (s\<lparr>run_worker := (run_worker s)(i := pc), run_jobs := (run_jobs s)(i := js), run_exit := ex\<rparr>)"
proof -
  have going: "run_main s \<noteq> MStart" "run_main s \<noteq> MSpawn" using assms(1,3) by (auto simp: run_ok_defs split: if_splits)
  let ?t = "s\<lparr>run_worker := (run_worker s)(i := pc), run_jobs := (run_jobs s)(i := js), run_exit := ex\<rparr>"
  let ?m = "run_main s"
  from assms(1) have ok: "exit_ok sy s" "workers_ok sy F s" "sending_ok sy s" "closers_ok sy s" by (simp_all add: run_ok_def)
  have none: "ex = None \<longleftrightarrow> run_exit s = None" using assms(9) by auto
  have "exit_ok sy ?t"
    using ok(1) assms(9) going tokens_worker [OF assms(2), of "run_worker s" pc "run_closer s"]
    by (auto simp: exit_ok_def)
  moreover have "workers_ok sy F ?t"
    using ok(2) assms(4-7) going by (simp add: workers_ok_def)
  moreover have "sending_ok sy ?t"
    using ok(3) assms(8) by (auto simp: sending_ok_def split: main_pc.splits)
  moreover have "closers_ok sy ?t"
    using ok(4) none by (simp add: closers_ok_def)
  ultimately show ?thesis by (simp add: run_ok_def)
qed

lemma jobs_same: "s\<lparr>run_worker := ws, run_jobs := (run_jobs s)(i := run_jobs s i), run_exit := run_exit s\<rparr> = s\<lparr>run_worker := ws\<rparr>"
  by simp

lemma outcome_keeps:
  assumes "run_ok sy F s" "outcome_step sy i out s = Some t" "allowed F (Outcome i out)"
  shows "run_ok sy F t"
proof -
  from assms(2) obtain job where i: "i < sy_workers sy" and job: "run_worker s i = WRun job"
    and t: "t = set_worker i (case out of Next \<Rightarrow> WReceive | Stop (Some e) \<Rightarrow> WExit e | Stop None \<Rightarrow> WResult None) s"
    by (auto simp: outcome_step_def split: if_splits worker_pc.splits)
  obtain pc where pc: "t = set_worker i pc s" "pc = WReceive \<or> (\<exists>e. pc = WExit e \<and> i \<in> F)"
    using t assms(3) by (auto simp: allowed_def split: worker_next.splits option.splits)
  have "run_ok sy F (s\<lparr>run_worker := (run_worker s)(i := pc), run_jobs := (run_jobs s)(i := run_jobs s i), run_exit := run_exit s\<rparr>)"
    using assms(1) i job pc(2)
    by (intro worker_moves) (auto simp: failing_def ended_def signalled_def workers_ok_def run_ok_def split: main_pc.splits)
  then show ?thesis by (simp add: pc(1) set_worker_def jobs_same)
qed

lemma worker_keeps:
  assumes "run_ok sy F s" "worker_step sy i s = Some t" "0 < sy_buf sy"
  shows "run_ok sy F t"
proof -
  have i: "i < sy_workers sy" using assms(2) by (auto simp: worker_step_def split: if_splits)
  have ok: "failing (run_worker s i) \<longrightarrow> i \<in> F" "ended (run_worker s i) \<and> \<not> failing (run_worker s i) \<longrightarrow> jobs_closed (run_main s) i"
    "length (run_jobs s i) \<le> sy_buf sy" using assms(1) i by (simp_all add: run_ok_def workers_ok_def)
  have send: "case run_main s of MSend k _ _ \<Rightarrow> k = i \<longrightarrow> ended (run_worker s i) \<longrightarrow> length (run_jobs s i) < sy_buf sy | _ \<Rightarrow> True"
    using assms(1) by (auto simp: run_ok_def sending_ok_def split: main_pc.split)
  let ?move = "\<lambda>pc js ex. s\<lparr>run_worker := (run_worker s)(i := pc), run_jobs := (run_jobs s)(i := js), run_exit := ex\<rparr>"
  note moves = worker_moves [OF assms(1) i]
  note kinds = failing_def ended_def signalled_def
  show ?thesis
  proof (cases "run_worker s i")
    case WReceive
    show ?thesis
    proof (cases "run_jobs s i")
      case Nil
      with assms(2) WReceive i have "t = set_worker i (WResult None) s" and closed: "jobs_closed (run_main s) i"
        by (auto simp: worker_step_def split: if_splits)
      then have t: "t = ?move (WResult None) (run_jobs s i) (run_exit s)" by (simp add: set_worker_def)
      from closed have "\<And>k j rs. run_main s \<noteq> MSend k j rs" by (auto simp: jobs_closed_def)
      then show ?thesis unfolding t using WReceive ok closed
        by (intro moves) (auto simp: kinds split: main_pc.split)
    next
      case (Cons j js)
      with assms(2) WReceive i have "t = set_worker i (WRun j) (s\<lparr>run_jobs := (run_jobs s)(i := js)\<rparr>)" by (simp add: worker_step_def)
      then have t: "t = ?move (WRun j) js (run_exit s)" by (simp add: set_worker_def)
      show ?thesis unfolding t using WReceive ok Cons by (intro moves) (auto simp: kinds split: main_pc.split)
    qed
  next
    case (WExit e)
    with assms(2) i obtain x where x: "run_exit s = Some x" "t = set_worker i (WDrain e) (s\<lparr>run_exit := Some (Suc x)\<rparr>)"
      by (auto simp: worker_step_def split: option.splits if_splits)
    from x(2) have t: "t = ?move (WDrain e) (run_jobs s i) (Some (Suc x))" by (simp add: set_worker_def)
    show ?thesis unfolding t using WExit ok x by (intro moves) (auto simp: kinds split: main_pc.split)
  next
    case (WDrain e)
    with assms(2) i have "t = set_worker i (WResult (Some e)) (s\<lparr>run_jobs := (run_jobs s)(i := tl (run_jobs s i))\<rparr>)"
      by (simp add: worker_step_def)
    then have t: "t = ?move (WResult (Some e)) (tl (run_jobs s i)) (run_exit s)" by (simp add: set_worker_def)
    have "length (tl (run_jobs s i)) < sy_buf sy" using ok(3) assms(3) by (cases "run_jobs s i") simp_all
    then show ?thesis unfolding t using WDrain ok by (intro moves) (auto simp: kinds split: main_pc.split)
  next
    case (WResult r)
    with assms(2) i have "t = set_worker i (WDone r) s" by (simp add: worker_step_def)
    then have t: "t = ?move (WDone r) (run_jobs s i) (run_exit s)" by (simp add: set_worker_def)
    show ?thesis unfolding t using WResult ok send by (intro moves) (auto simp: kinds split: main_pc.splits)
  qed (use assms(2) i in \<open>auto simp: worker_step_def\<close>)
qed

lemma closer_moves:
  assumes "run_ok sy F s" "k < sy_closers sy" "sy_closers sy \<le> 1"
    and "mx = (if pc = CTest \<or> pc = CSend \<or> pc = CWait then Some k else None)"
    and "pc = CSend \<or> pc = CWait \<longrightarrow> run_exit s \<noteq> None"
    and "run_mutex s = None \<or> run_mutex s = Some k"
    and "if asked pc \<and> \<not> asked (run_closer s k) then \<exists>x. run_exit s = Some x \<and> ex = Some (Suc x)
      else (asked pc \<longleftrightarrow> asked (run_closer s k)) \<and> ex = run_exit s"
    and "if pc = CDone True then run_main s = MLock \<or> run_main s = MReturned else exd = run_exited s \<and> run_closer s k \<noteq> CDone True"
  shows "run_ok sy F (s\<lparr>run_closer := (run_closer s)(k := pc), run_mutex := mx, run_exit := ex, run_exited := exd\<rparr>)"
proof -
  have k: "k = 0" "sy_closers sy = 1" using assms(2,3) by auto
  from assms(1) have ok: "exit_ok sy s" "workers_ok sy F s" "sending_ok sy s" "closers_ok sy s" by (simp_all add: run_ok_def)
  let ?t = "s\<lparr>run_closer := (run_closer s)(k := pc), run_mutex := mx, run_exit := ex, run_exited := exd\<rparr>"
  have "exit_ok sy ?t"
    using ok(1) assms(7) tokens_closer [OF assms(2), of "run_worker s" "run_closer s" pc]
    by (auto simp: exit_ok_def split: if_splits)
  moreover have "workers_ok sy F ?t" using ok(2) by (simp add: workers_ok_def)
  moreover have "sending_ok sy ?t" using ok(3) by (simp add: sending_ok_def split: main_pc.splits)
  moreover have "closers_ok sy ?t"
    using ok(4) assms(4,5,7,8) k by (auto simp: closers_ok_def split: if_splits)
  ultimately show ?thesis by (simp add: run_ok_def)
qed

lemma closer_keeps:
  assumes "run_ok sy F s" "closer_step sy k s = Some t \<or> call_step sy k s = Some t" "sy_closers sy \<le> 1"
  shows "run_ok sy F t"
proof -
  let ?move = "\<lambda>pc mx ex exd. s\<lparr>run_closer := (run_closer s)(k := pc), run_mutex := mx, run_exit := ex, run_exited := exd\<rparr>"
  have k: "k < sy_closers sy" using assms(2) by (auto simp: closer_step_def call_step_def split: if_splits)
  from assms(1) have "closers_ok sy s" by (simp add: run_ok_def)
  with k have held: "run_mutex s = Some k \<longleftrightarrow> run_closer s k = CTest \<or> run_closer s k = CSend \<or> run_closer s k = CWait"
      "run_mutex s = None \<or> run_mutex s = Some k"
    and waits: "run_closer s k = CSend \<or> run_closer s k = CWait \<longrightarrow> run_exit s \<noteq> None"
    and left: "run_main s \<noteq> MLock \<longrightarrow> run_main s \<noteq> MReturned \<longrightarrow> run_exited s = 0"
    using assms(3) by (auto simp: closers_ok_def)
  note moves = closer_moves [OF assms(1) k assms(3)]
  show ?thesis
  proof (cases "run_closer s k")
    case CIdle
    with assms(2) have "t = set_closer k CLock s" by (auto simp: closer_step_def call_step_def split: if_splits)
    then have t: "t = ?move CLock (run_mutex s) (run_exit s) (run_exited s)" by (simp add: set_closer_def)
    show ?thesis unfolding t using CIdle held by (intro moves) (auto simp: asked_def)
  next
    case CLock
    with assms(2) k have "run_mutex s = None" "t = set_closer k CTest (s\<lparr>run_mutex := Some k\<rparr>)"
      by (auto simp: closer_step_def call_step_def split: if_splits)
    then have t: "t = ?move CTest (Some k) (run_exit s) (run_exited s)" by (simp add: set_closer_def)
    show ?thesis unfolding t using CLock held by (intro moves) (auto simp: asked_def)
  next
    case CTest
    with assms(2) k consider "run_exit s = None" "t = set_closer k (CDone False) (s\<lparr>run_mutex := None\<rparr>)"
      | "run_exit s \<noteq> None" "t = set_closer k CSend s"
      by (auto simp: closer_step_def call_step_def split: if_splits)
    then show ?thesis
    proof cases
      case 1
      then have t: "t = ?move (CDone False) None (run_exit s) (run_exited s)" by (simp add: set_closer_def)
      show ?thesis unfolding t using CTest held by (intro moves) (auto simp: asked_def)
    next
      case 2
      then have t: "t = ?move CSend (run_mutex s) (run_exit s) (run_exited s)" by (simp add: set_closer_def)
      show ?thesis unfolding t using CTest held 2 by (intro moves) (auto simp: asked_def)
    qed
  next
    case CSend
    with assms(2) k obtain x where x: "run_exit s = Some x" "t = set_closer k CWait (s\<lparr>run_exit := Some (Suc x)\<rparr>)"
      by (auto simp: closer_step_def call_step_def split: if_splits option.splits)
    from x(2) have t: "t = ?move CWait (run_mutex s) (Some (Suc x)) (run_exited s)" by (simp add: set_closer_def)
    show ?thesis unfolding t using CSend held x(1) by (intro moves) (auto simp: asked_def)
  next
    case CWait
    with assms(2) k have pos: "0 < run_exited s" and "t = set_closer k (CDone True) (s\<lparr>run_exited := run_exited s - 1, run_mutex := None\<rparr>)"
      by (auto simp: closer_step_def call_step_def split: if_splits)
    then have t: "t = ?move (CDone True) None (run_exit s) (run_exited s - 1)" by (simp add: set_closer_def)
    show ?thesis unfolding t using CWait held left pos by (intro moves) (auto simp: asked_def)
  next
    case (CDone r)
    with assms(2) show ?thesis by (auto simp: closer_step_def call_step_def split: if_splits)
  qed
qed

lemma handover_none:
  assumes "fits sy F"
  shows "handover_step sy i s = None"
proof -
  have "\<not> (sy_buf sy = 0 \<and> i < sy_workers sy)" using assms by (auto simp: fits_def)
  then show ?thesis by (auto simp: handover_step_def split: main_pc.split)
qed

lemma act_keeps:
  assumes "run_ok sy F s" "act sy a s = Some t" "allowed F a" "fits sy F"
  shows "run_ok sy F t"
proof (cases a)
  case (Worker i)
  with assms(2) have w: "worker_step sy i s = Some t" by (simp add: act_def)
  then have "i < sy_workers sy" by (simp add: worker_step_def split: if_splits)
  with assms(4) have "0 < sy_buf sy" by (auto simp: fits_def)
  with worker_keeps [OF assms(1) w] show ?thesis .
next
  case (Outcome i out)
  with assms show ?thesis using outcome_keeps by (simp add: act_def)
next
  case (Handover i)
  with assms(2) handover_none [OF assms(4)] show ?thesis by (simp add: act_def)
next
  case (Closer k)
  with assms(2) have "closer_step sy k s = Some t \<or> call_step sy k s = Some t" by (simp add: act_def)
  from closer_keeps [OF assms(1) this] assms(4) show ?thesis by (simp add: fits_def)
next
  case (Call k)
  with assms(2) have "closer_step sy k s = Some t \<or> call_step sy k s = Some t" by (simp add: act_def)
  from closer_keeps [OF assms(1) this] assms(4) show ?thesis by (simp add: fits_def)
qed (use assms(2) main_keeps [OF assms(1)] query_keeps [OF assms(1)] in \<open>auto simp: act_def\<close>)

lemma reached_ok: "reached sy F s \<Longrightarrow> fits sy F \<Longrightarrow> run_ok sy F s"
  by (induction rule: reached.induct) (auto intro: initial_run_ok act_keeps)

end
