(* ===== verification/ShutdownLaws.thy ===== *)
theory ShutdownLaws
  imports Shutdown
begin

text \<open>
  When the job queue stops, and when it cannot. As long as the tokens fit the channel \<open>exit\<close>, a
  queue that has been asked to stop stops within a bound that its state gives, and every call returns.
  Where they do not fit, where two callers of \<open>Close\<close> meet, or where a worker ends without an
  error, there are runs in which it hangs.
\<close>

section \<open>Progress\<close>

lemma signalled_fails: "signalled pc \<Longrightarrow> failing pc"
  by (simp add: signalled_def)

lemma signalled_within:
  assumes "run_ok sy F s" "fits sy F"
  shows "{i. i < sy_workers sy \<and> signalled (run_worker s i)} \<subseteq> F"
  using assms signalled_fails by (auto simp: run_ok_def workers_ok_def)

lemma room_for_worker:
  assumes "run_ok sy F s" "fits sy F" "i < sy_workers sy" "run_worker s i = WExit e" "run_exit s = Some x"
  shows "x < sy_exit sy"
proof -
  have F: "finite F" "i \<in> F" using assms by (auto simp: fits_def run_ok_def workers_ok_def failing_def)
  have "{i. i < sy_workers sy \<and> signalled (run_worker s i)} \<subset> F"
    using signalled_within [OF assms(1,2)] F(2) assms(4) by (auto simp: signalled_def)
  from psubset_card_mono [OF F(1) this] have "card {i. i < sy_workers sy \<and> signalled (run_worker s i)} < card F" .
  moreover have "card {k. k < sy_closers sy \<and> asked (run_closer s k)} \<le> sy_closers sy"
    using card_mono [of "{..<sy_closers sy}" "{k. k < sy_closers sy \<and> asked (run_closer s k)}"] by auto
  moreover have "x \<le> tokens sy (run_worker s) (run_closer s)" using assms(1,5) by (simp add: run_ok_def exit_ok_def)
  ultimately show ?thesis using assms(2) by (simp add: fits_def tokens_def)
qed

lemma room_for_closer:
  assumes "run_ok sy F s" "fits sy F" "k < sy_closers sy" "run_closer s k = CSend" "run_exit s = Some x"
  shows "x < sy_exit sy"
proof -
  have "{k. k < sy_closers sy \<and> asked (run_closer s k)} \<subseteq> {..<sy_closers sy}" by blast
  moreover have "k \<notin> {k. k < sy_closers sy \<and> asked (run_closer s k)}" using assms(4) by (simp add: asked_def)
  moreover have "k \<in> {..<sy_closers sy}" using assms(3) by simp
  ultimately have "{k. k < sy_closers sy \<and> asked (run_closer s k)} \<subset> {..<sy_closers sy}" by blast
  from psubset_card_mono [OF _ this] have "card {k. k < sy_closers sy \<and> asked (run_closer s k)} < sy_closers sy" by simp
  moreover have "card {i. i < sy_workers sy \<and> signalled (run_worker s i)} \<le> card F"
    using card_mono [OF _ signalled_within [OF assms(1,2)]] assms(2) by (simp add: fits_def)
  moreover have "x \<le> tokens sy (run_worker s) (run_closer s)" using assms(1,5) by (simp add: run_ok_def exit_ok_def)
  ultimately show ?thesis using assms(2) by (simp add: fits_def tokens_def)
qed

lemma not_ended_not_done: "\<not> ended pc \<Longrightarrow> pc \<noteq> WDone r"
  by (auto simp: ended_def)

definition moves_on :: "system \<Rightarrow> nat set \<Rightarrow> running \<Rightarrow> bool" where
  "moves_on sy F s \<longleftrightarrow> (\<exists>a t. allowed F a \<and> (\<forall>k. a \<noteq> Call k) \<and> act sy a s = Some t)"

lemma moves_onI: "act sy a s = Some t \<Longrightarrow> allowed F a \<Longrightarrow> (\<And>k. a \<noteq> Call k) \<Longrightarrow> moves_on sy F s"
  by (auto simp: moves_on_def)

lemma main_moves_on: "main_step sy s = Some t \<Longrightarrow> moves_on sy F s"
  by (rule moves_onI [of _ Main]) (simp_all add: act_def allowed_def)

lemma worker_moves_on: "worker_step sy i s = Some t \<Longrightarrow> moves_on sy F s"
  by (rule moves_onI [of _ "Worker i"]) (simp_all add: act_def allowed_def)

lemma closer_moves_on: "closer_step sy k s = Some t \<Longrightarrow> moves_on sy F s"
  by (rule moves_onI [of _ "Closer k"]) (simp_all add: act_def allowed_def)

lemma worker_progress:
  assumes "run_ok sy F s" "fits sy F" "i < sy_workers sy" "run_exit s = Some x" "run_worker s i \<noteq> WNot"
    and "\<And>r. run_worker s i \<noteq> WDone r" "run_jobs s i \<noteq> [] \<or> jobs_closed (run_main s) i \<or> run_worker s i \<noteq> WReceive"
  shows "moves_on sy F s"
proof (cases "run_worker s i")
  case WReceive
  with assms(3,7) show ?thesis
    by (cases "run_jobs s i") (auto simp: worker_step_def intro: worker_moves_on [of _ i])
next
  case (WRun j)
  with assms(3) show ?thesis
    by (auto simp: act_def outcome_step_def allowed_def intro: moves_onI [of _ "Outcome i Next"])
next
  case (WExit e)
  with assms(3,4) room_for_worker [OF assms(1-3)] show ?thesis
    by (auto simp: worker_step_def intro: worker_moves_on [of _ i])
qed (use assms(3,5,6) in \<open>auto simp: worker_step_def intro: worker_moves_on [of _ i]\<close>)

lemma closer_progress:
  assumes "run_ok sy F s" "fits sy F" "run_mutex s = Some k" "run_closer s k = CWait \<longrightarrow> 0 < run_exited s"
  shows "moves_on sy F s"
proof -
  from assms(1) have "closers_ok sy s" by (simp add: run_ok_def)
  with assms(3) have k: "k < sy_closers sy" and pc: "run_closer s k = CTest \<or> run_closer s k = CSend \<or> run_closer s k = CWait"
    and ex: "run_closer s k = CSend \<longrightarrow> run_exit s \<noteq> None" by (auto simp: closers_ok_def)
  from pc consider "run_closer s k = CTest" | "run_closer s k = CSend" | "run_closer s k = CWait" by blast
  then show ?thesis
  proof cases
    case 1
    with k show ?thesis by (cases "run_exit s = None") (auto simp: closer_step_def intro: closer_moves_on [of _ k])
  next
    case 2
    with ex obtain x where "run_exit s = Some x" by blast
    with 2 k room_for_closer [OF assms(1,2) k] show ?thesis
      by (auto simp: closer_step_def intro: closer_moves_on [of _ k])
  next
    case 3
    with k assms(4) show ?thesis by (auto simp: closer_step_def intro: closer_moves_on [of _ k])
  qed
qed

lemma send_progress:
  assumes ok: "run_ok sy F s" and "fits sy F" "run_main s = MSend i j rs"
  shows "moves_on sy F s"
proof (cases "length (run_jobs s i) < sy_buf sy")
  case True
  with assms(3) show ?thesis by (auto simp: main_step_def intro: main_moves_on)
next
  case False
  from ok have parts: "exit_ok sy s" "workers_ok sy F s" "sending_ok sy s" by (simp_all add: run_ok_def)
  from False assms(3) parts(3) have i: "i < sy_workers sy" and "\<not> ended (run_worker s i)" by (auto simp: sending_ok_def)
  moreover have "run_jobs s i \<noteq> []" using False i assms(2) by (auto simp: fits_def)
  moreover have "run_worker s i \<noteq> WNot" "\<exists>x. run_exit s = Some x"
    using parts(1,2) assms(3) i by (auto simp: workers_ok_def exit_ok_def)
  ultimately show ?thesis using worker_progress [OF assms(1,2) i] not_ended_not_done by blast
qed

lemma join_progress:
  assumes ok: "run_ok sy F s" and "fits sy F" "run_main s = MJoin k"
  shows "moves_on sy F s"
proof (cases "k < sy_workers sy \<and> (\<forall>r. run_worker s k \<noteq> WDone r)")
  case True
  moreover have "run_worker s k \<noteq> WNot" "\<exists>x. run_exit s = Some x"
    using ok assms(3) True by (auto simp: run_ok_def workers_ok_def exit_ok_def)
  ultimately show ?thesis using worker_progress [OF assms(1,2), of k] assms(3) by (auto simp: jobs_closed_def)
next
  case False
  with assms(3) show ?thesis by (cases "k < sy_workers sy") (auto simp: main_step_def intro: main_moves_on)
qed

text \<open>After \<open>Process\<close> has returned nobody waits for it.\<close>

lemma returned_progress:
  assumes ok: "run_ok sy F s" and "run_main s = MReturned" "\<not> moves_on sy F s"
    and mutex: "\<And>k. run_mutex s = Some k \<Longrightarrow> run_closer s k = CWait"
  shows "all_returned sy s"
proof -
  from ok have parts: "exit_ok sy s" "closers_ok sy s" by (simp_all add: run_ok_def)
  have "run_exit s = None" using parts(1) assms(2) by (simp add: exit_ok_def)
  with parts(2) have wait: "\<And>k. k < sy_closers sy \<Longrightarrow> run_closer s k \<noteq> CWait \<and> run_closer s k \<noteq> CSend"
    by (auto simp: closers_ok_def)
  have free: "run_mutex s = None"
    using mutex wait parts(2) by (cases "run_mutex s") (auto simp: closers_ok_def)
  with parts(2) have "run_closer s k \<noteq> CTest" if "k < sy_closers sy" for k using that by (auto simp: closers_ok_def)
  moreover have "run_closer s k \<noteq> CLock" if "k < sy_closers sy" for k
    using that free assms(3) closer_moves_on [of sy k s] by (auto simp: closer_step_def)
  ultimately have "run_closer s k \<in> {CIdle, CDone False, CDone True}" if "k < sy_closers sy" for k
    using that wait [OF that] by (cases "run_closer s k") auto
  with assms(2) show ?thesis by (simp add: all_returned_def list_all_iff)
qed

text \<open>Somebody can always go on until everyone has come back.\<close>

lemma progress:
  assumes ok: "run_ok sy F s" and "fits sy F"
  shows "all_returned sy s \<or> moves_on sy F s"
proof -
  from ok have parts: "exit_ok sy s" "closers_ok sy s" by (simp_all add: run_ok_def)
  have mutex: "moves_on sy F s" if "run_mutex s = Some k" "run_closer s k = CWait \<longrightarrow> 0 < run_exited s" for k
    using closer_progress [OF assms that] .
  show ?thesis
  proof (cases "run_main s")
    case MStart
    show ?thesis
    proof (cases "run_mutex s")
      case None
      with MStart parts(1) show ?thesis by (auto simp: exit_ok_def main_step_def intro: main_moves_on)
    next
      case (Some k)
      with MStart parts have "run_closer s k \<noteq> CWait" by (auto simp: exit_ok_def closers_ok_def)
      with Some mutex show ?thesis by blast
    qed
  next
    case MQuery
    then show ?thesis by (auto simp: act_def fail_step_def allowed_def intro: moves_onI [of _ QueryFails])
  next
    case (MRows rs)
    then show ?thesis by (cases rs) (auto simp: main_step_def intro: main_moves_on)
  next
    case (MSend i j rs)
    with send_progress [OF assms] show ?thesis by blast
  next
    case (MJoin k)
    with join_progress [OF assms] show ?thesis by blast
  next
    case MSignal
    with parts(2) show ?thesis by (auto simp: closers_ok_def main_step_def intro: main_moves_on)
  next
    case MLock
    then have "run_mutex s = Some k \<Longrightarrow> run_closer s k = CWait \<longrightarrow> 0 < run_exited s" for k
      using parts(2) by (auto simp: closers_ok_def)
    with MLock mutex show ?thesis by (cases "run_mutex s") (auto simp: main_step_def intro: main_moves_on)
  next
    case MReturned
    with returned_progress [OF ok] mutex show ?thesis by blast
  qed (auto simp: main_step_def intro: main_moves_on)
qed

section \<open>The bound\<close>

definition main_rank :: "nat \<Rightarrow> main_pc \<Rightarrow> nat" where
  "main_rank n m = (case m of MStart \<Rightarrow> 2 * n + 12 | MSpawn \<Rightarrow> 2 * n + 11 | MSend _ _ _ \<Rightarrow> 2 * n + 10 | MQuery \<Rightarrow> 2 * n + 7
     | MRows _ \<Rightarrow> 2 * n + 6 | MCheck \<Rightarrow> 2 * n + 5 | MClose k \<Rightarrow> 4 + n + (n - k) | MJoin k \<Rightarrow> 3 + (n - k)
     | MSignal \<Rightarrow> 2 | MLock \<Rightarrow> 1 | MReturned \<Rightarrow> 0)"

definition worker_rank :: "worker_pc \<Rightarrow> nat" where
  "worker_rank pc = (case pc of WRun _ \<Rightarrow> 4 | WNot \<Rightarrow> 3 | WExit _ \<Rightarrow> 3 | WReceive \<Rightarrow> 2 | WDrain _ \<Rightarrow> 2 | WResult _ \<Rightarrow> 1 | WDone _ \<Rightarrow> 0)"

definition closer_rank :: "closer_pc \<Rightarrow> nat" where
  "closer_rank pc = (case pc of CIdle \<Rightarrow> 5 | CLock \<Rightarrow> 4 | CTest \<Rightarrow> 3 | CSend \<Rightarrow> 2 | CWait \<Rightarrow> 1 | CDone _ \<Rightarrow> 0)"

text \<open>The steps there can be until the queue has stopped.\<close>

definition stop_bound :: "system \<Rightarrow> running \<Rightarrow> nat" where
  "stop_bound sy s = main_rank (sy_workers sy) (run_main s)
     + (\<Sum>i < sy_workers sy. worker_rank (run_worker s i) + 3 * length (run_jobs s i)) + (\<Sum>k < sy_closers sy. closer_rank (run_closer s k))"

text \<open>A routine that has come past its loop, or will at its next look at \<open>exit\<close>.\<close>

definition closing :: "running \<Rightarrow> bool" where
  "closing s \<longleftrightarrow> (\<exists>x. run_exit s = Some (Suc x)) \<or> \<not> (looping (run_main s) \<or> run_main s = MStart)"

lemma sum_moved:
  fixes f g :: "nat \<Rightarrow> nat"
  assumes "i < n" "\<And>j. j \<noteq> i \<Longrightarrow> g j = f j"
  shows "(\<Sum>j<n. g j) + f i = (\<Sum>j<n. f j) + g i"
proof -
  have "(\<Sum>j<n. h j) = h i + (\<Sum>j\<in>{..<n} - {i}. h j)" for h :: "nat \<Rightarrow> nat" using assms(1) by (simp add: sum.remove)
  moreover have "(\<Sum>j\<in>{..<n} - {i}. g j) = (\<Sum>j\<in>{..<n} - {i}. f j)" by (rule sum.cong) (simp_all add: assms(2))
  ultimately show ?thesis by (metis add.assoc add.commute)
qed

lemma worker_drops:
  assumes "i < sy_workers sy" "worker_rank pc + 3 * length js < worker_rank (run_worker s i) + 3 * length (run_jobs s i)"
    and "run_worker t = (run_worker s)(i := pc)" "run_jobs t = (run_jobs s)(i := js)" "run_main t = run_main s" "run_closer t = run_closer s"
  shows "stop_bound sy t < stop_bound sy s"
  using sum_moved [of i "sy_workers sy" "\<lambda>j. worker_rank (run_worker t j) + 3 * length (run_jobs t j)"
      "\<lambda>j. worker_rank (run_worker s j) + 3 * length (run_jobs s j)"] assms
  by (simp add: stop_bound_def)

lemma closer_drops:
  assumes "k < sy_closers sy" "closer_rank pc < closer_rank (run_closer s k)" "run_closer t = (run_closer s)(k := pc)"
    and "run_worker t = run_worker s" "run_jobs t = run_jobs s" "run_main t = run_main s"
  shows "stop_bound sy t < stop_bound sy s"
  using sum_moved [of k "sy_closers sy" "\<lambda>j. closer_rank (run_closer t j)" "\<lambda>j. closer_rank (run_closer s j)"] assms
  by (simp add: stop_bound_def)

lemma main_drops:
  assumes "main_rank (sy_workers sy) (run_main t) < main_rank (sy_workers sy) (run_main s)"
    and "run_worker t = run_worker s" "run_jobs t = run_jobs s" "run_closer t = run_closer s"
  shows "stop_bound sy t < stop_bound sy s"
  using assms by (simp add: stop_bound_def)

lemma worker_step_drops:
  assumes "worker_step sy i s = Some t"
  shows "stop_bound sy t < stop_bound sy s"
proof -
  from assms have i: "i < sy_workers sy" by (simp add: worker_step_def split: if_splits)
  show ?thesis
  proof (cases "run_worker s i")
    case WReceive
    show ?thesis
    proof (cases "run_jobs s i")
      case Nil
      with WReceive assms i show ?thesis
        by (auto simp: worker_step_def set_worker_def worker_rank_def split: if_splits
            intro!: worker_drops [OF i, of "WResult None" "run_jobs s i"])
    next
      case (Cons j js)
      with WReceive assms i show ?thesis
        by (auto simp: worker_step_def set_worker_def worker_rank_def intro!: worker_drops [OF i, of "WRun j" js])
    qed
  next
    case (WExit e)
    with assms i show ?thesis
      by (auto simp: worker_step_def set_worker_def worker_rank_def split: if_splits option.splits
          intro!: worker_drops [OF i, of "WDrain e" "run_jobs s i"])
  next
    case (WDrain e)
    with assms i show ?thesis
      by (auto simp: worker_step_def set_worker_def worker_rank_def intro!: worker_drops [OF i, of "WResult (Some e)" "tl (run_jobs s i)"])
  next
    case (WResult r)
    with assms i show ?thesis
      by (auto simp: worker_step_def set_worker_def worker_rank_def intro!: worker_drops [OF i, of "WDone r" "run_jobs s i"])
  qed (use assms i in \<open>simp_all add: worker_step_def\<close>)
qed

lemma outcome_step_drops:
  assumes "outcome_step sy i out s = Some t"
  shows "stop_bound sy t < stop_bound sy s"
proof -
  from assms obtain job pc where i: "i < sy_workers sy" and s: "run_worker s i = WRun job" and t: "t = set_worker i pc s"
    and pc: "pc = (case out of Next \<Rightarrow> WReceive | Stop (Some e) \<Rightarrow> WExit e | Stop None \<Rightarrow> WResult None)"
    by (auto simp: outcome_step_def split: if_splits worker_pc.splits)
  have "worker_rank pc < worker_rank (run_worker s i)" by (simp add: s pc worker_rank_def split: worker_next.split option.split)
  then show ?thesis by (intro worker_drops [OF i, of pc "run_jobs s i"]) (simp_all add: t set_worker_def)
qed

lemma closer_step_drops:
  assumes "closer_step sy k s = Some t \<or> call_step sy k s = Some t"
  shows "stop_bound sy t < stop_bound sy s"
proof -
  from assms have k: "k < sy_closers sy" by (auto simp: closer_step_def call_step_def split: if_splits)
  have "\<exists>pc. run_closer t = (run_closer s)(k := pc) \<and> closer_rank pc < closer_rank (run_closer s k)
      \<and> run_worker t = run_worker s \<and> run_jobs t = run_jobs s \<and> run_main t = run_main s"
    using assms
    by (auto simp: closer_step_def call_step_def set_closer_def closer_rank_def split: if_splits closer_pc.splits option.splits)
  then obtain pc where "run_closer t = (run_closer s)(k := pc)" "closer_rank pc < closer_rank (run_closer s k)"
      "run_worker t = run_worker s" "run_jobs t = run_jobs s" "run_main t = run_main s" by blast
  then show ?thesis by (intro closer_drops [OF k])
qed

lemma closing_started: "run_ok sy F s \<Longrightarrow> closing s \<Longrightarrow> run_main s \<noteq> MStart"
  by (auto simp: run_ok_def exit_ok_def closing_def)

lemma spawn_drops:
  assumes "run_ok sy F s" "run_main s = MSpawn" "main_step sy s = Some t"
  shows "stop_bound sy t < stop_bound sy s"
proof -
  let ?ws = "\<lambda>i. if i < sy_workers sy then WReceive else run_worker s i"
  have t: "t = s\<lparr>run_worker := ?ws, run_jobs := (\<lambda>_. []), run_main := MCheck\<rparr>" using assms(2,3) by (simp add: main_step_def)
  have not: "run_worker s i = WNot" for i using assms(1,2) by (simp add: run_ok_def workers_ok_def)
  have "(\<Sum>i < sy_workers sy. worker_rank (?ws i) + 3 * length ([] :: string list))
      \<le> (\<Sum>i < sy_workers sy. worker_rank (run_worker s i) + 3 * length (run_jobs s i))"
    by (rule sum_mono) (simp add: not worker_rank_def)
  with assms(2) show ?thesis by (simp add: t stop_bound_def main_rank_def)
qed

lemma send_drops:
  assumes "run_ok sy F s" "run_main s = MSend i j rs" "main_step sy s = Some t"
  shows "stop_bound sy t < stop_bound sy s"
proof -
  have t: "t = s\<lparr>run_jobs := (run_jobs s)(i := run_jobs s i @ [j]), run_main := MRows rs\<rparr>"
    using assms(2,3) by (simp add: main_step_def split: if_splits)
  have i: "i < sy_workers sy" using assms(1,2) by (simp add: run_ok_def sending_ok_def)
  have "(\<Sum>k < sy_workers sy. worker_rank (run_worker s k) + 3 * length (run_jobs t k))
      = (\<Sum>k < sy_workers sy. worker_rank (run_worker s k) + 3 * length (run_jobs s k)) + 3"
    using sum_moved [OF i, of "\<lambda>k. worker_rank (run_worker s k) + 3 * length (run_jobs t k)"
        "\<lambda>k. worker_rank (run_worker s k) + 3 * length (run_jobs s k)"] by (simp add: t)
  with assms(2) show ?thesis by (simp add: t stop_bound_def main_rank_def)
qed

lemma closing_check:
  assumes "run_ok sy F s" "closing s" "looping (run_main s)"
  shows "\<exists>x. check_exit s cont = s\<lparr>run_exit := Some x, run_main := MClose 0, run_error := Some (Job job_ErrQueueClosed)\<rparr>"
  using assms(2,3) by (auto simp: closing_def check_exit_def)

lemma join_cases:
  assumes "run_main s = MJoin k" "main_step sy s = Some t"
  shows "run_worker t = run_worker s \<and> run_jobs t = run_jobs s \<and> run_closer t = run_closer s \<and> run_exit t = run_exit s
    \<and> (run_main t = MSignal \<or> k < sy_workers sy \<and> run_main t = MJoin (Suc k))"
  using assms by (auto simp: main_step_def split: if_splits worker_pc.splits)

lemma main_step_drops:
  assumes "run_ok sy F s" "closing s" "main_step sy s = Some t"
  shows "stop_bound sy t < stop_bound sy s"
proof (cases "run_main s")
  case MStart
  with closing_started [OF assms(1,2)] show ?thesis by simp
next
  case MSpawn
  with spawn_drops [OF assms(1) _ assms(3)] show ?thesis by simp
next
  case MCheck
  with closing_check [OF assms(1,2)] obtain x
    where "check_exit s (s\<lparr>run_main := MQuery\<rparr>) = s\<lparr>run_exit := Some x, run_main := MClose 0, run_error := Some (Job job_ErrQueueClosed)\<rparr>"
    by (auto simp: looping_def)
  with MCheck assms(3) show ?thesis by (intro main_drops) (auto simp: main_step_def main_rank_def)
next
  case (MRows rs)
  show ?thesis
  proof (cases rs)
    case Nil
    with MRows assms(3) show ?thesis by (intro main_drops) (auto simp: main_step_def main_rank_def)
  next
    case (Cons r rs')
    obtain j rel where r: "r = (j, rel)" by (cases r)
    from closing_check [OF assms(1,2), of "s\<lparr>run_main := MSend (uuidWorker (sy_workers sy) rel) j rs'\<rparr>"] MRows obtain x
      where "check_exit s (s\<lparr>run_main := MSend (uuidWorker (sy_workers sy) rel) j rs'\<rparr>)
        = s\<lparr>run_exit := Some x, run_main := MClose 0, run_error := Some (Job job_ErrQueueClosed)\<rparr>"
      by (auto simp: looping_def)
    with MRows Cons r assms(3) show ?thesis by (intro main_drops) (auto simp: main_step_def main_rank_def)
  qed
next
  case (MSend i j rs)
  with send_drops [OF assms(1) _ assms(3)] show ?thesis by simp
next
  case (MClose k)
  with assms(3) show ?thesis by (intro main_drops) (auto simp: main_step_def main_rank_def split: if_splits)
next
  case (MJoin k)
  from join_cases [OF this assms(3)] MJoin show ?thesis by (intro main_drops) (auto simp: main_rank_def)
next
  case MSignal
  with assms(3) show ?thesis by (intro main_drops) (auto simp: main_step_def main_rank_def split: if_splits)
next
  case MLock
  with assms(3) show ?thesis by (intro main_drops) (auto simp: main_step_def main_rank_def split: if_splits)
qed (use assms(3) in \<open>simp_all add: main_step_def\<close>)

lemma query_step_drops:
  assumes "rows_step sy rs s = Some t \<or> fail_step s = Some t"
  shows "stop_bound sy t < stop_bound sy s"
  using assms by (intro main_drops) (auto simp: rows_step_def fail_step_def main_rank_def split: if_splits main_pc.splits)

lemma act_drops:
  assumes "run_ok sy F s" "closing s" "fits sy F" "act sy a s = Some t"
  shows "stop_bound sy t < stop_bound sy s"
proof (cases a)
  case Main
  with assms(4) main_step_drops [OF assms(1,2)] show ?thesis by (simp add: act_def)
next
  case (Rows rs)
  with assms(4) have "rows_step sy rs s = Some t" by (simp add: act_def)
  then show ?thesis by (intro query_step_drops [of _ rs]) simp
next
  case QueryFails
  with assms(4) have "fail_step s = Some t" by (simp add: act_def)
  then show ?thesis by (intro query_step_drops) simp
next
  case (Worker i)
  with assms(4) worker_step_drops show ?thesis by (simp add: act_def)
next
  case (Outcome i out)
  with assms(4) outcome_step_drops show ?thesis by (simp add: act_def)
next
  case (Handover i)
  with assms(4) handover_none [OF assms(3)] show ?thesis by (simp add: act_def)
next
  case (Closer k)
  with assms(4) closer_step_drops [of sy k s t] show ?thesis by (simp add: act_def)
next
  case (Call k)
  with assms(4) closer_step_drops [of sy k s t] show ?thesis by (simp add: act_def)
qed

lemma closing_kept:
  assumes "closing s" "run_main t = run_main s" "\<And>x. run_exit s = Some x \<Longrightarrow> \<exists>y. run_exit t = Some y \<and> x \<le> y"
  shows "closing t"
proof (cases "\<exists>x. run_exit s = Some (Suc x)")
  case True
  with assms(3) obtain x y where "run_exit t = Some y" "Suc x \<le> y" by blast
  then show ?thesis by (cases y) (auto simp: closing_def)
next
  case False
  with assms(1,2) show ?thesis by (simp add: closing_def)
qed

lemma main_closing:
  assumes "run_ok sy F s" "closing s" "main_step sy s = Some t"
  shows "closing t"
proof (cases "run_main s")
  case (MRows rs)
  with assms closing_check [OF assms(1,2)] show ?thesis
    by (cases rs) (auto simp: main_step_def closing_def looping_def check_exit_def)
next
  case (MJoin k)
  from join_cases [OF this assms(3)] show ?thesis by (auto simp: closing_def looping_def)
qed (use assms closing_started [OF assms(1,2)] in
    \<open>auto simp: main_step_def closing_def looping_def check_exit_def split: if_splits\<close>)

lemma act_closing:
  assumes "run_ok sy F s" "closing s" "act sy a s = Some t"
  shows "closing t"
proof (cases a)
  case Main
  with assms main_closing show ?thesis by (simp add: act_def)
next
  case (Rows rs)
  with assms(2,3) show ?thesis by (auto simp: act_def rows_step_def closing_def looping_def split: if_splits)
next
  case QueryFails
  with assms(2,3) show ?thesis by (auto simp: act_def fail_step_def closing_def looping_def split: main_pc.splits)
next
  case (Handover i)
  with assms(2,3) show ?thesis
    by (auto simp: act_def handover_step_def set_worker_def closing_def looping_def split: main_pc.splits if_splits worker_pc.splits)
next
  case (Worker i)
  with assms(3) show ?thesis
    by (intro closing_kept [OF assms(2)])
      (auto simp: act_def worker_step_def set_worker_def split: if_splits worker_pc.splits list.splits option.splits)
next
  case (Outcome i out)
  with assms(3) show ?thesis
    by (intro closing_kept [OF assms(2)]) (auto simp: act_def outcome_step_def set_worker_def split: if_splits worker_pc.splits)
next
  case (Closer k)
  with assms(3) show ?thesis
    by (intro closing_kept [OF assms(2)])
      (auto simp: act_def closer_step_def set_closer_def split: if_splits closer_pc.splits option.splits)
next
  case (Call k)
  with assms(3) show ?thesis
    by (intro closing_kept [OF assms(2)]) (auto simp: act_def call_step_def set_closer_def split: if_splits)
qed

lemma exec_bounded:
  "exec sy as s = Some t \<Longrightarrow> list_all (allowed F) as \<Longrightarrow> run_ok sy F s \<Longrightarrow> closing s \<Longrightarrow> fits sy F
    \<Longrightarrow> run_ok sy F t \<and> length as + stop_bound sy t \<le> stop_bound sy s"
proof (induction as arbitrary: s)
  case (Cons a as)
  from Cons.prems(1) obtain u where u: "act sy a s = Some u" "exec sy as u = Some t" by (auto split: option.splits)
  have "run_ok sy F u" using Cons.prems u(1) by (auto intro: act_keeps)
  moreover have "closing u" using Cons.prems u(1) by (auto intro: act_closing)
  moreover have "stop_bound sy u < stop_bound sy s" using Cons.prems u(1) by (auto intro: act_drops)
  moreover have "list_all (allowed F) as" using Cons.prems(2) by simp
  ultimately show ?case using Cons.IH [OF u(2)] Cons.prems(5) by fastforce
qed simp

section \<open>Stopping\<close>

text \<open>A caller of \<open>Close\<close> waits, or a worker has left a token.\<close>

definition stop_asked :: "system \<Rightarrow> running \<Rightarrow> bool" where
  "stop_asked sy s \<longleftrightarrow> list_ex (\<lambda>k. run_closer s k = CWait) [0..<sy_closers sy] \<or> list_ex (\<lambda>i. signalled (run_worker s i)) [0..<sy_workers sy]"

lemma asked_closing:
  assumes "run_ok sy F s" "stop_asked sy s"
  shows "closing s"
proof -
  from assms(1) have ok: "exit_ok sy s" "workers_ok sy F s" "closers_ok sy s" by (simp_all add: run_ok_def)
  from assms(2) have "tokens sy (run_worker s) (run_closer s) \<noteq> 0"
    by (auto simp: stop_asked_def list_ex_iff tokens_def asked_def)
  with ok(1) show ?thesis
    by (cases "run_exit s"; cases "the (run_exit s)") (auto simp: closing_def exit_ok_def looping_def)
qed

lemma reached_exec:
  "exec sy as s = Some t \<Longrightarrow> list_all (allowed F) as \<Longrightarrow> reached sy F s \<Longrightarrow> reached sy F t"
  by (induction as arbitrary: s) (auto split: option.splits intro: reached.step)

text \<open>C4: once \<open>Close\<close> has been called or a worker has failed, the job queue stops: from then on no run
  is longer than a bound given by the state, whichever way the routines interleave, and a run that
  has not brought everyone back (\<open>Process\<close> and each \<open>Close\<close> returned) can go on without a further
  call. This holds while the workers that may fail and the caller of \<open>Close\<close> are not more than
  \<open>exit\<close> has room for, and no worker ends without an error.\<close>

theorem queue_shuts_down:
  assumes "reached sy F s" "fits sy F" "stop_asked sy s" "exec sy as s = Some t" "list_all (allowed F) as"
  shows "length as + stop_bound sy t \<le> stop_bound sy s \<and> (all_returned sy t \<or> moves_on sy F t)"
proof -
  have ok: "run_ok sy F s" using reached_ok [OF assms(1,2)] .
  from exec_bounded [OF assms(4,5) ok asked_closing [OF ok assms(3)] assms(2)]
  have "run_ok sy F t" "length as + stop_bound sy t \<le> stop_bound sy s" by simp_all
  with progress [OF \<open>run_ok sy F t\<close> assms(2)] show ?thesis by simp
qed

definition two_workers :: system where
  "two_workers = queue_system NewConfig 2 1"

definition until_failure :: "action list" where
  "until_failure = [Main, Main, Main, Rows [(''job'', ''4'')], Main, Main, Worker 0, Outcome 0 (Stop (Some DBFail)), Worker 0,
     Call 0, Closer 0, Closer 0, Closer 0]"

definition until_return :: "action list" where
  "until_return = [Main, Main, Worker 0, Main, Main, Worker 0, Main, Worker 1, Main, Worker 1, Main, Main, Main, Closer 0, Main]"

definition failed_run :: running where
  "failed_run = \<lparr>run_mutex = Some 0, run_exit = Some 2, run_exited = 0, run_main = MRows [], run_error = None,
     run_worker = (\<lambda>i. if i < 2 then WReceive else WNot)(0 := WDrain DBFail), run_jobs = (\<lambda>_. []), run_closer = (\<lambda>_. CIdle)(0 := CWait)\<rparr>"

lemma two_workers_simps: "two_workers = \<lparr>sy_workers = 2, sy_exit = 2, sy_buf = 10, sy_closers = 1\<rparr>"
  by (simp add: two_workers_def queue_system_def NewConfig_def)

lemma crc32_step_numeral:
  "crc32_step (numeral (num.Bit1 n)) = drop_bit 1 (numeral (num.Bit1 n)) XOR 0xEDB88320"
  "crc32_step (numeral (num.Bit0 n)) = drop_bit 1 (numeral (num.Bit0 n))"
  by (simp_all add: crc32_step_def)

lemma crc32_byte: "(crc32_step ^^ 8) c
    = crc32_step (crc32_step (crc32_step (crc32_step (crc32_step (crc32_step (crc32_step (crc32_step c)))))))"
  by (simp add: eval_nat_numeral)

lemma related_4: "uuidWorker 2 ''4'' = 0"
proof -
  have "crc32 ''4'' = 0xF3B61B38" by (simp add: crc32_def crc32_byte crc32_step_numeral)
  then show ?thesis by (simp add: uuidWorker_def)
qed

lemmas step_defs = act_def main_step_def rows_step_def fail_step_def worker_step_def outcome_step_def handover_step_def closer_step_def
  call_step_def check_exit_def jobs_closed_def set_worker_def set_closer_def join_error_def

lemma runs_to_failure: "exec two_workers until_failure initial_run = Some failed_run"
  by (simp add: until_failure_def two_workers_simps step_defs initial_run_def failed_run_def related_4 fun_eq_iff)

lemma failure_reached: "reached two_workers {0} failed_run"
  by (rule reached_exec [OF runs_to_failure _ reached.start]) (simp add: until_failure_def allowed_def)

lemma runs_to_return:
  "\<exists>t. exec two_workers until_return failed_run = Some t \<and> all_returned two_workers t \<and> run_error t = Some DBFail"
  by (simp add: until_return_def two_workers_simps step_defs failed_run_def all_returned_def)

lemma queue_shuts_down_witness:
  "\<exists>t. exec two_workers until_return failed_run = Some t \<and> 15 + stop_bound two_workers t \<le> stop_bound two_workers failed_run
     \<and> all_returned two_workers t \<and> run_error t = Some DBFail"
proof -
  obtain t where t: "exec two_workers until_return failed_run = Some t" "all_returned two_workers t" "run_error t = Some DBFail"
    using runs_to_return by blast
  have "fits two_workers {0}" by (simp add: fits_def two_workers_simps)
  moreover have "stop_asked two_workers failed_run" by (simp add: stop_asked_def two_workers_simps failed_run_def)
  moreover have "list_all (allowed {0}) until_return" by (simp add: until_return_def allowed_def)
  ultimately have "length until_return + stop_bound two_workers t \<le> stop_bound two_workers failed_run"
    using queue_shuts_down [OF failure_reached _ _ t(1)] by simp
  with t show ?thesis by (auto simp: until_return_def)
qed

section \<open>Hanging\<close>

lemma stuckI:
  assumes "main_step sy s = None" "\<And>rs. rows_step sy rs s = None" "fail_step s = None" "\<And>i. worker_step sy i s = None"
    and "\<And>i out. outcome_step sy i out s = None" "\<And>i. handover_step sy i s = None" "\<And>k. closer_step sy k s = None"
  shows "stuck sy s"
  unfolding stuck_def using assms by (auto simp: act_def split: action.split)

definition hangs :: "system \<Rightarrow> action list \<Rightarrow> bool" where
  "hangs sy as \<longleftrightarrow> (case exec sy as initial_run of None \<Rightarrow> False | Some t \<Rightarrow> stuck sy t \<and> \<not> all_returned sy t)"

definition one_worker :: "u64 \<Rightarrow> nat \<Rightarrow> system" where
  "one_worker buf closers = queue_system (NewConfig\<lparr>WorkerBufLen := buf\<rparr>) 1 closers"

definition busy_run :: "action list" where
  "busy_run = [Main, Main, Main, Rows [(''job1'', ''4''), (''job2'', ''5''), (''job3'', ''6'')], Main, Main, Worker 0, Main, Main, Main]"

text \<open>\<open>Close\<close> fills \<open>exit\<close> while \<open>Process\<close> waits to pass a job, and the worker fails.\<close>

definition exit_full :: "action list" where
  "exit_full = busy_run @ [Call 0, Closer 0, Closer 0, Closer 0, Outcome 0 (Stop (Some DBFail))]"

text \<open>A second caller takes the mutex before \<open>Process\<close> does.\<close>

definition closed_twice :: "action list" where
  "closed_twice = [Main, Main, Call 0, Call 1, Closer 0, Closer 0, Closer 0, Main, Main, Worker 0, Worker 0, Main, Main, Main, Main,
     Closer 0, Closer 1, Closer 1, Closer 1]"

definition monitor_closed_twice :: "action list" where
  "monitor_closed_twice = [Main, Main, Call 0, Call 1, Closer 0, Closer 0, Closer 0, Main, Main, Main, Main,
     Closer 0, Closer 1, Closer 1, Closer 1]"

text \<open>A worker whose transaction fails ends without an error, and \<open>Process\<close> waits to pass it a job.\<close>

definition worker_gone :: "action list" where
  "worker_gone = busy_run @ [Outcome 0 (Stop None), Worker 0]"

text \<open>Without a buffer the failing worker looks for a waiting job before \<open>Process\<close> has one.\<close>

definition unbuffered :: "action list" where
  "unbuffered = [Main, Main, Main, Rows [(''job1'', ''4''), (''job2'', ''5'')], Main, Handover 0, Main,
     Outcome 0 (Stop (Some DBFail)), Worker 0, Worker 0, Worker 0]"

lemma one_worker_simps:
  "one_worker buf closers = \<lparr>sy_workers = 1, sy_exit = 1, sy_buf = unat buf, sy_closers = closers\<rparr>"
  by (simp add: one_worker_def queue_system_def NewConfig_def)

lemma only_worker: "uuidWorker 1 r = 0" "uuidWorker (Suc 0) r = 0"
  by (simp_all add: uuidWorker_def)

lemmas hang_defs = hangs_def busy_run_def exit_full_def closed_twice_def monitor_closed_twice_def worker_gone_def unbuffered_def
  one_worker_simps monitor_system_def initial_run_def only_worker

text \<open>C30: beyond these limits the queue and the monitor can hang for good, with \<open>Process\<close> or \<open>Close\<close>
  never returning: when \<open>Close\<close> has filled \<open>exit\<close>, which has room for the workers only, and all the
  workers fail while \<open>Process\<close> waits to pass a job; when a second caller of \<open>Close\<close> gets the mutex
  before \<open>Process\<close> does, for the monitor's \<open>Run\<close> as well; when a worker ends without an error, which
  a failing transaction causes; and when \<open>WorkerBufLen\<close> is 0.\<close>

theorem queue_can_hang:
  "hangs (one_worker 1 1) exit_full \<and> hangs (one_worker 1 2) closed_twice \<and> hangs (monitor_system 2) monitor_closed_twice
     \<and> hangs (one_worker 1 0) worker_gone \<and> hangs (one_worker 0 0) unbuffered"
proof (intro conjI)
  show "hangs (one_worker 1 1) exit_full"
    by (simp add: hang_defs step_defs) (auto intro!: stuckI simp: step_defs all_returned_def split: worker_pc.splits)
  show "hangs (one_worker 1 2) closed_twice"
    by (simp add: hang_defs step_defs) (auto intro!: stuckI simp: step_defs all_returned_def less_2_cases_iff split: worker_pc.splits)
  show "hangs (monitor_system 2) monitor_closed_twice"
    by (simp add: hang_defs step_defs) (auto intro!: stuckI simp: step_defs all_returned_def less_2_cases_iff split: worker_pc.splits)
  show "hangs (one_worker 1 0) worker_gone"
    by (simp add: hang_defs step_defs) (auto intro!: stuckI simp: step_defs all_returned_def split: worker_pc.splits)
  show "hangs (one_worker 0 0) unbuffered"
    by (simp add: hang_defs step_defs) (auto intro!: stuckI simp: step_defs all_returned_def split: worker_pc.splits)
qed

end
