(* ===== verification/Translation.thy ===== *)
theory Translation
  imports Settings
begin

text \<open>
  Address translation, \<open>src/nat\<close>: how an agent behind a router makes its ports reachable. The devices,
  their answers and the clients of the two protocols are parameters, and \<open>'w\<close> is the state of the
  router they change. What is modelled is the choice of a device, the discovery that happens once, the
  mapping of the ports and the routines that keep each of them alive.
\<close>

unbundle bit_operations_syntax

datatype (plugins only: code size) nat_error =
    ErrBadMechanism | ErrTooShortLifetime | ErrLocalAddressNotFound | nat_ErrAddMapping | ErrNoRouterDiscovered | Device string

text \<open>The configuration, in milliseconds; durations are 64-bit numbers of nanoseconds.\<close>

record nat_Config =
  nc_CheckTimeout :: u64
  nc_MapTimeout :: u64
  nc_MapUpdateInterval :: u64
  nc_Mechanism :: string
  nc_SoapRequestTimeout :: u64

definition nat_NewConfig :: nat_Config where
  "nat_NewConfig = \<lparr>nc_CheckTimeout = 1000, nc_MapTimeout = 1200000, nc_MapUpdateInterval = 900000, nc_Mechanism = ''any'',
     nc_SoapRequestTimeout = 3000\<rparr>"

definition millis :: "u64 \<Rightarrow> u64" where
  "millis n = n * 1000000"

definition whole_seconds :: "u64 \<Rightarrow> int" where
  "whole_seconds d = trunc_div (sint d) 1000000000"

record 'w Interface =
  AddMapping :: "string \<Rightarrow> int \<Rightarrow> int \<Rightarrow> string \<Rightarrow> u64 \<Rightarrow> ('w, nat_error, unit) cmd"
  DeleteMapping :: "string \<Rightarrow> int \<Rightarrow> int \<Rightarrow> ('w, nat_error, unit) cmd"

section \<open>The two protocols\<close>

definition ToUpper :: "string \<Rightarrow> string" where
  "ToUpper s = map (\<lambda>c. let n = of_char c :: nat in if 97 \<le> n \<and> n \<le> 122 then char_of (n - 32) else c) s"

definition ToLower :: "string \<Rightarrow> string" where
  "ToLower s = map (\<lambda>c. let n = of_char c :: nat in if 65 \<le> n \<and> n \<le> 90 then char_of (n + 32) else c) s"

text \<open>A network interface: whether it is up, whether it is the loopback, and its addresses, \<open>None\<close> if they cannot
  be had. An address is an IPv4 network or something else.\<close>

type_synonym net_addr = "(u32 \<times> u32) option"

record net_iface =
  ni_up :: bool
  ni_loopback :: bool
  ni_addrs :: "net_addr list option"

definition network_contains :: "u32 \<Rightarrow> u32 \<Rightarrow> u32 \<Rightarrow> bool" where
  "network_contains ip msk other \<longleftrightarrow> ip AND msk = other AND msk"

primrec address_within :: "u32 \<Rightarrow> net_addr list \<Rightarrow> u32 option" where
  "address_within dev [] = None"
| "address_within dev (a # as) = (case a of Some (ip, msk) \<Rightarrow> if network_contains ip msk dev then Some ip else address_within dev as
     | None \<Rightarrow> address_within dev as)"

primrec search_interfaces :: "u32 \<Rightarrow> net_iface list \<Rightarrow> nat_error + u32" where
  "search_interfaces dev [] = Inl ErrLocalAddressNotFound"
| "search_interfaces dev (i # is) = (if \<not> ni_up i \<or> ni_loopback i then search_interfaces dev is
     else case ni_addrs i of None \<Rightarrow> Inl (Device ''addrs'')
       | Some as \<Rightarrow> (case address_within dev as of Some ip \<Rightarrow> Inr ip | None \<Rightarrow> search_interfaces dev is))"

definition internalAddress :: "u32 option \<Rightarrow> net_iface list option \<Rightarrow> nat_error + u32" where
  "internalAddress dev ifaces = (case (dev, ifaces) of (Some d, Some is) \<Rightarrow> search_interfaces d is | _ \<Rightarrow> Inl (Device ''address''))"

record 'w upnpClient =
  AddPortMapping :: "string \<Rightarrow> u16 \<Rightarrow> string \<Rightarrow> u16 \<Rightarrow> u32 \<Rightarrow> bool \<Rightarrow> string \<Rightarrow> u32 \<Rightarrow> ('w, nat_error, unit) cmd"
  DeletePortMapping :: "string \<Rightarrow> u16 \<Rightarrow> string \<Rightarrow> ('w, nat_error, unit) cmd"

definition upnp_delete :: "'w upnpClient \<Rightarrow> string \<Rightarrow> int \<Rightarrow> ('w, nat_error, unit) cmd" where
  "upnp_delete c protocol extPort = DeletePortMapping c [] (word_of_int extPort) (ToUpper protocol)"

text \<open>An error in finding the internal address is taken for a success.\<close>

definition upnp_interface :: "(nat_error + u32) \<Rightarrow> 'w upnpClient \<Rightarrow> 'w Interface" where
  "upnp_interface internal c = \<lparr>AddMapping = (\<lambda>protocol extPort intPort desc lifetime.
       case internal of Inl _ \<Rightarrow> ret ()
       | Inr ip \<Rightarrow> thenC (ignoreC (upnp_delete c (ToUpper protocol) extPort))
           (AddPortMapping c [] (word_of_int extPort) (ToUpper protocol) (word_of_int intPort) ip True desc
             (word_of_int (whole_seconds lifetime)))),
     DeleteMapping = (\<lambda>protocol extPort intPort. upnp_delete c protocol extPort)\<rparr>"

text \<open>A NAT-PMP client maps an internal port to an external one for some seconds.\<close>

definition npmp_interface :: "(string \<Rightarrow> int \<Rightarrow> int \<Rightarrow> int \<Rightarrow> ('w, nat_error, unit) cmd) \<Rightarrow> 'w Interface" where
  "npmp_interface add = \<lparr>AddMapping = (\<lambda>protocol extPort intPort name lifetime.
       thenC (guardC (0 < sint lifetime) ErrTooShortLifetime) (add (ToLower protocol) intPort extPort (whole_seconds lifetime))),
     DeleteMapping = (\<lambda>protocol extPort intPort. add (ToLower protocol) intPort 0 0)\<rparr>"

section \<open>Discovery\<close>

text \<open>Answers in the order in which they arrive: the first device is taken.\<close>

primrec first_found :: "'i option list \<Rightarrow> 'i option" where
  "first_found [] = None"
| "first_found (r # rs) = (case r of Some i \<Rightarrow> Some i | None \<Rightarrow> first_found rs)"

datatype (plugins only: code size) service_type = WANIPConnection_1 | WANIPConnection_2 | WANPPPConnection_1 | OtherService

definition matcher_v1 :: "service_type \<Rightarrow> string option" where
  "matcher_v1 ty = (case ty of WANIPConnection_1 \<Rightarrow> Some ''IGDv1-IP1'' | WANPPPConnection_1 \<Rightarrow> Some ''IGDv1-PPP1'' | _ \<Rightarrow> None)"

definition matcher_v2 :: "service_type \<Rightarrow> string option" where
  "matcher_v2 ty = (case ty of WANIPConnection_1 \<Rightarrow> Some ''IGDv2-IP1'' | WANIPConnection_2 \<Rightarrow> Some ''IGDv2-IP2''
     | WANPPPConnection_1 \<Rightarrow> Some ''IGDv2-PPP1'' | OtherService \<Rightarrow> None)"

text \<open>The devices found, each with its services unless its description is missing. A service has a type and
  a client; its answer about address translation is \<open>None\<close> if it fails.\<close>

definition discover :: "(service_type \<Rightarrow> string option) \<Rightarrow> ('c \<Rightarrow> bool option)
    \<Rightarrow> (service_type \<times> 'c) list option list option \<Rightarrow> (string \<times> 'c) option" where
  "discover matcher status devs = (case devs of None \<Rightarrow> None
     | Some ds \<Rightarrow> first_found (map (\<lambda>(ty, c). case matcher ty of None \<Rightarrow> None
         | Some name \<Rightarrow> if status c = Some True then Some (name, c) else None) (concat (map (case_option [] id) ds))))"

definition discoverUPnP :: "bool \<Rightarrow> ('c \<Rightarrow> bool option) \<Rightarrow> (service_type \<times> 'c) list option list option
    \<Rightarrow> (service_type \<times> 'c) list option list option \<Rightarrow> (string \<times> 'c) option" where
  "discoverUPnP v2_first status devs1 devs2 =
     (let r1 = discover matcher_v1 status devs1; r2 = discover matcher_v2 status devs2
      in first_found (if v2_first then [r2, r1] else [r1, r2]))"

text \<open>Private networks: 10.0.0.0/8, 172.16.0.0/12 and 192.168.0.0/16.\<close>

definition private_block :: "u32 \<Rightarrow> bool" where
  "private_block ip \<longleftrightarrow> ip AND 0xFF000000 = 0x0A000000 \<or> ip AND 0xFFF00000 = 0xAC100000 \<or> ip AND 0xFFFF0000 = 0xC0A80000"

definition gateways_of :: "net_addr list \<Rightarrow> u32 list" where
  "gateways_of as = concat (map (\<lambda>a. case a of Some (ip, msk) \<Rightarrow> if private_block ip then [(ip AND msk) OR 1] else [] | None \<Rightarrow> []) as)"

primrec gateways_from :: "net_iface list \<Rightarrow> u32 list" where
  "gateways_from [] = []"
| "gateways_from (i # is) = (case ni_addrs i of None \<Rightarrow> [] | Some as \<Rightarrow> gateways_of as @ gateways_from is)"

definition potentialGateways :: "net_iface list option \<Rightarrow> u32 list" where
  "potentialGateways ifaces = (case ifaces of None \<Rightarrow> [] | Some is \<Rightarrow> gateways_from is)"

text \<open>Answers of gateways, in the order of their arrival, and the timer of one second.\<close>

datatype (plugins only: code size) 'c arrival = Answer "'c option" | Timer

fun await_gateways :: "nat \<Rightarrow> 'c arrival list \<Rightarrow> 'c option" where
  "await_gateways (Suc n) (Answer (Some c) # rs) = Some c"
| "await_gateways (Suc n) (Answer None # rs) = await_gateways n rs"
| "await_gateways _ _ = None"

definition discoverPMP :: "net_iface list option \<Rightarrow> 'c arrival list \<Rightarrow> 'c option" where
  "discoverPMP ifaces arrivals = await_gateways (length (potentialGateways ifaces)) arrivals"

definition any_interface :: "bool \<Rightarrow> 'w Interface option \<Rightarrow> 'w Interface option \<Rightarrow> 'w Interface option" where
  "any_interface pmp_first upnp pmp = first_found (if pmp_first then [pmp, upnp] else [upnp, pmp])"

text \<open>The discovery runs at the first use, once.\<close>

record 'w discovery =
  dsc_router :: 'w
  dsc_once :: bool
  dsc_found :: "'w Interface option"

definition wait :: "'w Interface option \<Rightarrow> ('w discovery, nat_error, 'w Interface) cmd" where
  "wait doit = thenC (modC (\<lambda>s. if dsc_once s then s else s\<lparr>dsc_once := True, dsc_found := doit\<rparr>))
     (bindC (getC dsc_found) (of_option ErrNoRouterDiscovered))"

definition on_router :: "('w, 'e, 'a) cmd \<Rightarrow> ('w discovery, 'e, 'a) cmd" where
  "on_router m s = (case m (dsc_router s) of (r, w) \<Rightarrow> (r, s\<lparr>dsc_router := w\<rparr>))"

definition startDiscovery :: "'w Interface option \<Rightarrow> 'w discovery Interface" where
  "startDiscovery doit = \<lparr>AddMapping = (\<lambda>protocol extPort intPort name lifetime.
       bindC (wait doit) (\<lambda>found. on_router (AddMapping found protocol extPort intPort name lifetime))),
     DeleteMapping = (\<lambda>protocol extPort intPort. bindC (wait doit) (\<lambda>found. on_router (DeleteMapping found protocol extPort intPort)))\<rparr>"

definition Parse :: "nat_Config \<Rightarrow> bool \<Rightarrow> 'w Interface option \<Rightarrow> 'w Interface option \<Rightarrow> nat_error + 'w discovery Interface" where
  "Parse conf pmp_first upnp pmp = (if nc_Mechanism conf = ''any'' then Inr (startDiscovery (any_interface pmp_first upnp pmp))
     else if nc_Mechanism conf = ''upnp'' then Inr (startDiscovery upnp)
     else if nc_Mechanism conf = ''pmp'' then Inr (startDiscovery pmp)
     else Inl ErrBadMechanism)"

section \<open>Mappings\<close>

definition add_mapping :: "nat_Config \<Rightarrow> 's Interface \<Rightarrow> string \<Rightarrow> int \<Rightarrow> int \<Rightarrow> string \<Rightarrow> ('s, nat_error, unit) cmd" where
  "add_mapping conf m protocol extPort intPort name = AddMapping m protocol extPort intPort name (millis (nc_MapTimeout conf))"

definition Map :: "nat_Config \<Rightarrow> 's Interface \<Rightarrow> string \<Rightarrow> int \<Rightarrow> int \<Rightarrow> string \<Rightarrow> ('s, nat_error, unit) cmd" where
  "Map conf m protocol extPort intPort name = on_err (\<lambda>_. nat_ErrAddMapping) (add_mapping conf m protocol extPort intPort name)"

text \<open>The routine that keeps a mapping: its timer fires, or the context is done.\<close>

datatype (plugins only: code size) keep_event = Refresh | Done

primrec keep_alive :: "nat_Config \<Rightarrow> 's Interface \<Rightarrow> string \<Rightarrow> int \<Rightarrow> int \<Rightarrow> string \<Rightarrow> keep_event list \<Rightarrow> ('s, nat_error, unit) cmd" where
  "keep_alive conf m protocol extPort intPort name [] = ret ()"
| "keep_alive conf m protocol extPort intPort name (e # es) = (case e of
     Refresh \<Rightarrow> thenC (ignoreC (add_mapping conf m protocol extPort intPort name)) (keep_alive conf m protocol extPort intPort name es)
   | Done \<Rightarrow> ignoreC (DeleteMapping m protocol extPort intPort))"

text \<open>The result is the ports that are kept; the checks of the connection that follow are only logged.\<close>

primrec map_ports :: "nat_Config \<Rightarrow> 's Interface \<Rightarrow> nat \<Rightarrow> u16 list \<Rightarrow> ('s, nat_error, u16 list) cmd" where
  "map_ports conf service k [] = ret []"
| "map_ports conf service k (p # ps) = thenC (ignoreC (DeleteMapping service ''tcp'' (uint p) (uint p)))
     (handleC (Map conf service ''tcp'' (uint p) (uint p) (''service-'' @ decimal k)) (\<lambda>_. ret [])
       (\<lambda>_. bindC (map_ports conf service (k + 1) ps) (\<lambda>kept. ret (p # kept))))"

definition Run_nat :: "nat_Config \<Rightarrow> (nat_error + 's Interface) \<Rightarrow> u16 list \<Rightarrow> ('s, nat_error, u16 list) cmd" where
  "Run_nat conf parsed ports = (if nc_Mechanism conf = [] then ret []
     else case parsed of Inl _ \<Rightarrow> ret [] | Inr service \<Rightarrow> map_ports conf service 0 ports)"

section \<open>What is shown\<close>

lemma first_found_iff: "first_found rs = Some i \<Longrightarrow> Some i \<in> set rs"
  by (induction rs) (auto split: option.splits)

lemma first_found_none: "first_found rs = None \<longleftrightarrow> (\<forall>r \<in> set rs. r = None)"
  by (induction rs) (auto split: option.splits)

text \<open>A device that is chosen offers a known service and does translate addresses.\<close>

theorem discovered_translates:
  assumes "discover matcher status devs = Some (name, c)"
  shows "status c = Some True \<and> (\<exists>ty ds services. devs = Some ds \<and> Some services \<in> set ds \<and> (ty, c) \<in> set services \<and> matcher ty = Some name)"
proof -
  from assms obtain ds where ds: "devs = Some ds" by (auto simp: discover_def split: option.splits)
  with assms have "Some (name, c) \<in> set (map (\<lambda>(ty, c). case matcher ty of None \<Rightarrow> None
      | Some name \<Rightarrow> if status c = Some True then Some (name, c) else None) (concat (map (case_option [] id) ds)))"
    by (intro first_found_iff) (simp add: discover_def)
  then obtain ty services where "(ty, c) \<in> set services" "Some services \<in> set ds" "status c = Some True" "matcher ty = Some name"
    by (auto split: option.splits if_splits)
  with ds show ?thesis by blast
qed

text \<open>A gateway is asked only on a private network, and is the first address of it or the next odd one.\<close>

theorem gateways_private:
  assumes "g \<in> set (gateways_of as)"
  shows "\<exists>ip msk. Some (ip, msk) \<in> set as \<and> private_block ip \<and> g = (ip AND msk) OR 1"
  using assms by (auto simp: gateways_of_def split: option.splits if_splits)

lemma wait_run:
  "wait doit s = (let s' = (if dsc_once s then s else s\<lparr>dsc_once := True, dsc_found := doit\<rparr>)
     in (case dsc_found s' of None \<Rightarrow> Inl ErrNoRouterDiscovered | Some i \<Rightarrow> Inr i, s'))"
  by (simp add: wait_def cmd_defs Let_def split: option.split)

text \<open>A discovery that has found nothing is never repeated: every later call fails and leaves the router alone.\<close>

theorem discovery_final:
  assumes "dsc_once s" "dsc_found s = None"
  shows "AddMapping (startDiscovery doit) protocol extPort intPort name lifetime s = (Inl ErrNoRouterDiscovered, s)"
    "DeleteMapping (startDiscovery doit) protocol extPort intPort s = (Inl ErrNoRouterDiscovered, s)"
  using assms by (simp_all add: startDiscovery_def bindC_def wait_run)

theorem nothing_discovered_nothing_mapped:
  assumes "dsc_once s" "dsc_found s = None" "Parse conf pmp_first upnp pmp = Inr service"
  shows "Run_nat conf (Inr service) ports s = (Inr [], s)"
proof -
  from assms(3) obtain doit where service: "service = startDiscovery doit" by (auto simp: Parse_def split: if_splits)
  show ?thesis using assms(1,2)
    by (cases ports) (simp_all add: Run_nat_def service discovery_final Map_def add_mapping_def cmd_defs)
qed

text \<open>The ports that are kept are a beginning of those asked for: \<open>Run\<close> stops at the first it cannot map.\<close>

theorem kept_ports_prefix: "map_ports conf service k ports s = (r, s') \<Longrightarrow> \<exists>kept rest. r = Inr kept \<and> ports = kept @ rest"
proof (induction ports arbitrary: k s r s')
  case (Cons p ps)
  obtain r1 s1 where del: "DeleteMapping service ''tcp'' (uint p) (uint p) s = (r1, s1)" by (cases "DeleteMapping service ''tcp'' (uint p) (uint p) s")
  obtain r2 s2 where add: "Map conf service ''tcp'' (uint p) (uint p) (''service-'' @ decimal k) s1 = (r2, s2)"
    by (cases "Map conf service ''tcp'' (uint p) (uint p) (''service-'' @ decimal k) s1")
  show ?case
  proof (cases r2)
    case (Inl e)
    with Cons.prems del add have "r = Inr []" by (cases r1) (auto simp: cmd_defs)
    then show ?thesis by simp
  next
    case (Inr u)
    obtain r3 s3 where rest: "map_ports conf service (k + 1) ps s2 = (r3, s3)" by (cases "map_ports conf service (k + 1) ps s2")
    from Cons.IH [OF rest] obtain kept others where "r3 = Inr kept" "ps = kept @ others" by blast
    with Inr Cons.prems del add rest have "r = Inr (p # kept)" by (cases r1) (auto simp: cmd_defs)
    with \<open>ps = kept @ others\<close> show ?thesis by simp
  qed
qed (auto simp: ret_def)

text \<open>A router that keeps its mappings, seen through \<open>maps\<close>.\<close>

definition keeps_mappings :: "'s Interface \<Rightarrow> ('s \<Rightarrow> (string \<times> int) set) \<Rightarrow> bool" where
  "keeps_mappings m maps \<longleftrightarrow>
     (\<forall>protocol extPort intPort name lifetime s r s'. AddMapping m protocol extPort intPort name lifetime s = (r, s') \<longrightarrow>
        maps s' = (case r of Inl _ \<Rightarrow> maps s | Inr _ \<Rightarrow> insert (protocol, extPort) (maps s)))
     \<and> (\<forall>protocol extPort intPort s r s'. DeleteMapping m protocol extPort intPort s = (r, s') \<longrightarrow>
        maps s' = (case r of Inl _ \<Rightarrow> maps s | Inr _ \<Rightarrow> maps s - {(protocol, extPort)}))"

text \<open>Until its context is done a routine keeps its port mapped, however often refreshing it fails.\<close>

theorem kept_alive:
  assumes "keeps_mappings m maps" "(protocol, extPort) \<in> maps s" "Done \<notin> set es"
  shows "maps (snd (keep_alive conf m protocol extPort intPort name es s)) = maps s"
  using assms(2,3)
proof (induction es arbitrary: s)
  case (Cons e es)
  then have e: "e = Refresh" by (cases e) auto
  obtain r u where add: "add_mapping conf m protocol extPort intPort name s = (r, u)"
    by (cases "add_mapping conf m protocol extPort intPort name s")
  then have "AddMapping m protocol extPort intPort name (millis (nc_MapTimeout conf)) s = (r, u)" by (simp add: add_mapping_def)
  with assms(1) have "maps u = (case r of Inl _ \<Rightarrow> maps s | Inr _ \<Rightarrow> insert (protocol, extPort) (maps s))"
    unfolding keeps_mappings_def by blast
  with Cons.prems(1) have "maps u = maps s" by (auto split: sum.splits)
  moreover have "keep_alive conf m protocol extPort intPort name (e # es) s = keep_alive conf m protocol extPort intPort name es u"
    using add e by (cases r) (auto simp: cmd_defs)
  ultimately show ?case using Cons.IH [of u] Cons.prems by simp
qed (simp add: ret_def)

end
