(* ===== verification/Spec2Isabelle.thy ===== *)
theory Spec2Isabelle
  imports ClientBilling Sessions BcMonitor Publication Upkeep UiLaws UiLogs ShutdownLaws Translation
begin

text \<open>
  A verification development for dappctrl, the controller of the Privatix network: agents offer
  internet service on the Ethereum blockchain, clients buy it over payment channels, and on each
  side a controller keeps the channels, runs jobs, bills the use and talks to the blockchain.

  \<^bold>\<open>The program\<close>

  Everything goes through a database. The blockchain monitor (\<open>src/bc\<close>) turns the logs of the
  contracts into jobs; the job queue (\<open>src/job\<close>) runs the handler of each job (\<open>src/proc/worker\<close>),
  which changes rows, sends transactions or asks the other side, and may queue further jobs. The
  billing monitors (\<open>src/agent/bill\<close>, \<open>src/client/bill\<close>), the session server (\<open>src/sess\<close>) and the
  user interface (\<open>src/ui\<close>) change the service of a channel through the processor (\<open>src/proc\<close>), which
  queues jobs too. Cheques travel from client to agent outside the chain (\<open>src/pay\<close>), messages
  about offerings and endpoints over Tor (\<open>src/messages\<close>, \<open>src/agent/somcsrv\<close>).

  \<^bold>\<open>The model\<close>

  A Go function that reads and writes state is a command, \<open>('s, 'e, 'a) cmd\<close> of the theory \<open>Prelude\<close>:
  from a state to an error or a result, and the new state in both cases. Errors are the values of
  \<open>go_error\<close>, one constructor per error of each package (\<open>Errors\<close>). Machine integers are words. The
  rows are records with the fields of \<open>src/data/schema.go\<close> (\<open>Types\<close>), the documents of the jobs are kept
  parsed (\<open>Json\<close>, from \<open>src/data/jobs.go\<close>). The state is a \<open>world\<close> (\<open>Database\<close>): the tables with their
  constraints, the open transaction as a working copy, the clock, the identifiers yet to be drawn, and a schedule
  \<open>w_faults\<close> that makes any call of the database fail. So every theorem covers the failure of each call
  unless it assumes a schedule without failures. Components extend the world by what they keep in
  memory (subscriptions of the queue, transactions sent, token, password and keys of the user interface).

  \<^item> \<open>Codec\<close>, \<open>Settings\<close>: encodings, hashes of passwords, channel keys, and settings (\<open>src/data\<close>).
  \<^item> \<open>JobQueue\<close>: \<open>src/job/queue.go\<close> as a sequence of commands: adding with the check for duplicates,
    collecting, dispatching, running, retrying, storing and notifying.
  \<^item> \<open>QueueRun\<close>, \<open>Shutdown\<close>, \<open>ShutdownLaws\<close>: the goroutines of the same file, and of
    \<open>src/client/bill/monitor.go\<close>, as processes that interleave over channels and a mutex; the
    invariant of their tokens; when they stop and when they hang.
  \<^item> \<open>Processor\<close>, \<open>AgentBilling\<close>, \<open>ClientBilling\<close>, \<open>Payment\<close>: the operations on a service, the two billing
    monitors, and the client and server of cheques. Each SQL query is a function of the database.
  \<^item> \<open>JobsMaker\<close>, \<open>BcMonitor\<close>: the jobs a log gives, the ranges of blocks, the rounds of the monitor.
  \<^item> \<open>Messages\<close>, \<open>Publication\<close>: sealing and opening, the offering message, and its way from agent to client.
  \<^item> \<open>WorkerBase\<close>, \<open>WorkerAccount\<close>, \<open>WorkerAgent\<close>, \<open>WorkerClient\<close>, \<open>Ratings\<close>, \<open>Handlers\<close>, \<open>Effects\<close>,
    \<open>WorkerLaws\<close>: all job handlers, the map from job types to them, and what holds of all or single ones.
  \<^item> \<open>Sessions\<close>, \<open>Looper\<close>, \<open>Upkeep\<close>: the session server, the loop that pops offerings up, the repair of
    service statuses at the start and the server of messages.
  \<^item> \<open>UiBase\<close>, \<open>UiAccount\<close>, \<open>UiOffering\<close>, \<open>UiChannel\<close>, \<open>UiObject\<close>, \<open>UiReport\<close>, \<open>UiLogs\<close>, \<open>UiService\<close>, \<open>UiLaws\<close>:
    the calls of the user interface, file by file, then all calls as requests, and their laws.
  \<^item> \<open>Translation\<close>: how an agent's ports are mapped on its router (\<open>src/nat\<close>).
  \<^item> \<open>Samples\<close>: concrete rows and worlds on which theorems are applied.

  \<^bold>\<open>What is shown\<close>

  Interfaces are locales. \<open>effect_order\<close> (\<open>Prelude\<close>) states what every command may do to the state as a
  relation that composes; \<open>db_effect\<close> (\<open>Database\<close>) adds the operations of the database, \<open>tx_effect\<close>
  (\<open>Handlers\<close>) transactions, \<open>worker_effect\<close> and \<open>sending_effect\<close> the interface of the handlers, \<open>ui_effect\<close>
  (\<open>UiService\<close>) that of the user. They are told which part of the database the code must leave alone.
  Interpreted with that part they give that no job writes settings, templates, products, sessions or more
  of an account than its balances, and that no request of the user writes the channels, sessions, endpoints,
  transactions and ratings, on which it acts through jobs only; with the count of transactions, that a handler
  sends at most one; with the equality of the database, that denied and refused calls change nothing.
  \<open>db_table\<close> gives the laws of a table once for all tables, \<open>job_queue\<close> what a client of the queue relies on.

  The other groups of lemmas run one routine: the branches of each operation of the queue (when a job is
  a duplicate, what is collected, how often it is retried), all-or-nothing of the operations that open a
  transaction, the decisions of the billing monitors in a whole round, the checks of a cheque, the blocks
  between two rounds of the blockchain monitor and the logs that were worked on before. The supply of offerings refines an abstract count of
  places (\<open>WorkerLaws\<close>), the ranking with its two maps equals one that iterates a step (\<open>Ratings\<close>), and
  this theory compares the two billing monitors: a client that has paid the set-up and pays as its own
  monitor asks is not suspended by the agent's; one that has not paid the set-up may be.

  \<^bold>\<open>Loops and bounds\<close>

  Loops that run until they are closed (the queue, the monitors, the looper) are modelled by their round and by
  runs of any number of rounds, given as a number or a list; no result depends on a bound on it.
  Loops over rows and lists are structural. The shutdown of the queue is bounded by \<open>stop_bound\<close>,
  which every step lowers once somebody has asked. Sums of units and deposits wrap as the code's do, so
  theorems about amounts assume ranges where the code needs them and say so.

  \<^bold>\<open>Parameters\<close>

  What is not in the repository is an argument: hash functions, signatures, encryption and key
  stores, \<open>bcrypt\<close>, the node and the bound contracts (the field \<open>wk_eth\<close>), the ABI decoder, the JSON Schema validator,
  \<open>encoding/json\<close> on messages, HTTP and Tor (\<open>wk_somc\<close>, \<open>ui_ping\<close>), the lookup of countries, host names
  and addresses, random bytes, the order in which Go visits a map, and the row that \<open>DISTINCT ON\<close> keeps.
  Hypotheses about them are the documented ones, such as that decryption inverts encryption.

  \<^bold>\<open>Not modelled\<close>

  \<^item> \<open>src/data/schema_reform.go\<close>: generated access to the rows; its effect is that of \<open>Database\<close>.
  \<^item> \<open>src/eth/backend.go\<close> and its neighbours: one call of a generated binding each, with a deadline.
  \<^item> \<open>src/main.go\<close>, configuration, migrations: they connect the parts and run scripts.
  \<^item> \<open>src/country\<close>, \<open>src/client/somc\<close>, \<open>src/util\<close>: network protocols and calls of libraries.
  \<^item> \<open>src/report\<close> and the loggers: output only. HTTP and RPC plumbing, tools and embedded files.
  \<^item> Goroutines other than those of \<open>QueueRun\<close>: handlers run one after the other. The queue gives
    all jobs of one object to one worker, but jobs of two objects can touch one row (two channels of
    one offering, say), and their interleavings inside a handler are not covered.
\<close>

section \<open>The two billing monitors together\<close>

lemma sint_of_int_64:
  assumes "- (2 ^ 63) \<le> k" "k < 2 ^ 63"
  shows "sint (word_of_int k :: u64) = k"
  using assms by (simp add: int_word_sint)

lemma int_div_le: "0 \<le> x \<Longrightarrow> 0 < y \<Longrightarrow> x div y \<le> (x :: int)"
  using zdiv_mono2 [of x 1 y] by simp

lemma sdiv64_sint:
  assumes "sint a = x" "sint b = y" "0 \<le> x" "0 < y"
  shows "sint (sdiv64 a b) = x div y"
proof -
  have "x div y \<le> x" using assms(3,4) by (rule int_div_le)
  moreover have "x < 2 ^ 63" using sint_lt [of a] assms(1) by simp
  moreover have "0 \<le> x div y" using assms(3,4) by (simp add: pos_imp_zdiv_nonneg_iff)
  ultimately show ?thesis
    using assms by (simp add: sdiv64_def trunc_div_nonneg sint_of_int_64)
qed

text \<open>C21: a client whose receipt covers the set-up price and whose own monitor finds nothing due is not suspended by the
  agent: as long as both sides see the same use and receipt, the unit price and the interval are positive,
  no number exceeds 62 bits, and the offering allows a lag of at least one interval, the agent's lag check
  does not select the channel. What happens before the set-up price is paid is shown below.\<close>

theorem punctual_client_not_suspended:
  assumes "c \<in> set (db_channels d)" "distinct (map ch_ID (db_channels d))" "channel_offering d c = Some f"
    and "lags_query d = Some lags" "\<not> payment_due c f (word_of_int (units_used d c))"
    and "0 < uint (ofr_UnitPrice f)" "0 < uint (ofr_BillingInterval f)" "1 \<le> uint (ofr_MaxBillingUnitLag f)"
    and "uint (ofr_SetupPrice f) \<le> uint (ch_ReceiptBalance c)" "units_used d c < 2 ^ 62"
    and "uint (ch_ReceiptBalance c) < 2 ^ 62" "uint (ofr_UnitPrice f) < 2 ^ 62" "uint (ofr_BillingInterval f) < 2 ^ 62"
  shows "ch_ID c \<notin> set lags"
proof -
  let ?u = "units_used d c" and ?r = "uint (ch_ReceiptBalance c) - uint (ofr_SetupPrice f)"
  let ?p = "uint (ofr_UnitPrice f)" and ?i = "uint (ofr_BillingInterval f)" and ?l = "uint (ofr_MaxBillingUnitLag f)"
  define n where "n = ?r div ?p"
  have small: "sint x = uint x" if "uint x < 2 ^ 62" for x :: u64
    using sint_of_int_64 [of "uint x"] that uint_ge_0 [of x] by simp
  have r: "0 \<le> ?r" "?r < 2 ^ 62" using assms(9,11) uint_ge_0 [of "ofr_SetupPrice f"] by linarith+
  have n: "0 \<le> n" "n < 2 ^ 62" using r assms(6) int_div_le [OF r(1) assms(6)]
    by (simp_all add: n_def pos_imp_zdiv_nonneg_iff)
  have u: "0 \<le> ?u" by (auto simp: units_used_def intro!: sum_list_nonneg)
  have sr: "sint (ch_ReceiptBalance c - ofr_SetupPrice f) = ?r"
    using sint_of_int_64 [of ?r] r by (simp add: of_int_uint)
  have "sint (sdiv64 (ch_ReceiptBalance c - ofr_SetupPrice f) (ofr_UnitPrice f)) = n"
    using sdiv64_sint [OF sr small r(1) assms(6)] assms(12) by (simp add: n_def)
  then have "sdiv64 (ch_ReceiptBalance c - ofr_SetupPrice f) (ofr_UnitPrice f) = word_of_int n"
    by (metis of_int_sint scast_id)
  then have diff: "sint (word_of_int ?u - sdiv64 (ch_ReceiptBalance c - ofr_SetupPrice f) (ofr_UnitPrice f)) = ?u - n"
    using sint_of_int_64 [of "?u - n"] u n assms(10) by simp
  have "?u - n < ?i"
  proof (rule ccontr)
    assume "\<not> ?u - n < ?i"
    then have "1 \<le> (?u - n) div ?i" using assms(7) by (simp add: pos_imp_zdiv_pos_iff int_one_le_iff_zero_less)
    moreover have "0 \<le> ?u - n" using \<open>\<not> ?u - n < ?i\<close> assms(7) by linarith
    ultimately show False
      using sdiv64_sint [OF diff small _ assms(7)] assms(5,13) by (simp add: payment_due_def)
  qed
  moreover have "?i + n \<le> ?i * (?l + n)"
  proof -
    have "n \<le> ?i * n" using n(1) assms(7) by (simp add: mult_le_cancel_right1)
    moreover have "?i \<le> ?i * ?l" using assms(7,8) by (simp add: mult_le_cancel_left1)
    ultimately show ?thesis by (simp add: distrib_left)
  qed
  moreover have "trunc_div ?r ?p = n" using trunc_div_nonneg [OF r(1) assms(6)] by (simp add: n_def)
  ultimately have "\<not> lag_exceeds d c f" by (simp add: lag_exceeds_def)
  then show ?thesis
    using lag_query_row [OF assms(2,1) assms(4) [unfolded lags_query_def]] assms(3) by auto
qed

text \<open>The sample channel, five units behind at an interval of five, has a payment due; once it has paid, not.\<close>

theorem punctual_client_not_suspended_witness:
  "''c1'' \<notin> set (the (lags_query (sample_db\<lparr>db_channels := [sample_channel\<lparr>ch_ReceiptBalance := 310\<rparr>]\<rparr>)))"
proof -
  let ?c = "sample_channel\<lparr>ch_ReceiptBalance := 310\<rparr>"
  let ?d = "sample_db\<lparr>db_channels := [?c]\<rparr>"
  have d: "channel_offering ?d ?c = Some sample_offering" "units_used ?d ?c = 150" "lags_query ?d = Some []"
    by code_simp+
  have "\<not> payment_due ?c sample_offering 150" by code_simp
  with punctual_client_not_suspended [OF _ _ d(1,3)] d show ?thesis
    by (simp add: sample_offering_def sample_channel_def)
qed

text \<open>Until the client has paid the set-up price the two monitors disagree. Here the set-up costs 10, which is the price
  of five units, and neither a unit is used nor anything paid: the client's monitor asks for no payment
  before an interval of 100 units is reached, but the agent's takes the client to be five intervals behind,
  suspends the service, and then does not resume it.\<close>

definition unpaid_channel :: Channel where
  "unpaid_channel = sample_channel\<lparr>ch_ReceiptBalance := 0\<rparr>"

definition long_interval :: Offering where
  "long_interval = sample_offering\<lparr>ofr_BillingInterval := 100, ofr_MaxBillingUnitLag := 1\<rparr>"

definition unpaid_db :: "svc_status \<Rightarrow> db" where
  "unpaid_db st = sample_db\<lparr>db_channels := [unpaid_channel\<lparr>ch_ServiceStatus := st\<rparr>], db_offerings := [long_interval],
     db_sessions := []\<rparr>"

theorem unpaid_setup_suspended:
  "\<not> payment_due unpaid_channel long_interval 0 \<and> lags_query (unpaid_db ServiceActive) = Some [''c1'']
    \<and> unsuspend_query (unpaid_db ServiceSuspended) = Some []"
  by (intro conjI; code_simp)

end
